(* ===== verification/Prelude.thy ===== *)
theory Prelude
  imports Main "HOL-Library.Word" "HOL-Library.State_Monad"
begin

text \<open>
  What the components share: Go's fixed-width integers, errors as values, string
  formatting, the state monad in which the code that talks to the cluster is written,
  and the collections of simplification and trace rules the component proofs use.
\<close>

named_theorems go_simps "unfolding rules of the effectful operations"
named_theorems emits_intros "introduction rules of the trace logic"
named_theorems only_intros "the calls a program can make, along its structure"
named_theorems meta_simps "what the operations keep of an object's metadata"

section \<open>Integers\<close>

type_synonym int32 = "32 word"
type_synonym int64 = "64 word"

text \<open>A time and a duration are nanoseconds; Go's \<open>time.Minute\<close> and \<open>time.Second\<close>.\<close>

type_synonym time = int
type_synonym duration = int

definition Second :: duration where
  "Second = 1000000000"

definition Minute :: duration where
  "Minute = 60 * Second"

text \<open>Go's conversions between \<open>int32\<close> and the 64-bit \<open>int\<close>.\<close>

definition int32_of_int :: "int64 \<Rightarrow> int32" where
  "int32_of_int x = ucast x"

definition int_of_int32 :: "int32 \<Rightarrow> int64" where
  "int_of_int32 x = scast x"

definition int32_of_len :: "'a list \<Rightarrow> int32" where
  "int32_of_len xs = of_nat (length xs)"

lemma sint_int32_of_len:
  assumes "length xs < 2 ^ 31"
  shows "sint (int32_of_len xs) = int (length xs)"
  using assms by (simp add: int32_of_len_def signed_of_nat signed_take_bit_int_eq_self)

lemma int32_round_trip: "int32_of_int (int_of_int32 x) = x"
  unfolding int32_of_int_def int_of_int32_def
  by (rule bit_word_eqI) (simp add: bit_simps)

section \<open>Strings\<close>

fun string_of_nat :: "nat \<Rightarrow> string" where
  "string_of_nat n = (if n < 10 then [char_of (48 + n)]
     else string_of_nat (n div 10) @ [char_of (48 + n mod 10)])"

declare string_of_nat.simps [simp del]

definition string_of_int :: "int \<Rightarrow> string" where
  "string_of_int i = (if i < 0 then ''-'' @ string_of_nat (nat (- i)) else string_of_nat (nat i))"

section \<open>Errors\<close>

text \<open>
  An error value is what the code observes of it: its text, and whether
  \<open>client.IgnoreNotFound\<close> drops it. Wrapping with \<open>%w\<close> keeps the second,
  formatting with \<open>%s\<close> makes a new error that is not a not-found error.
\<close>

record error =
  errText :: string
  errNotFound :: bool

definition newError :: "string \<Rightarrow> error" where
  "newError t = \<lparr>errText = t, errNotFound = False\<rparr>"

definition errorfW :: "string \<Rightarrow> error \<Rightarrow> error" where
  "errorfW t e = e\<lparr>errText := t @ errText e\<rparr>"

definition errorfS :: "string \<Rightarrow> error \<Rightarrow> error" where
  "errorfS t e = newError (t @ errText e)"

lemma error_sel [simp]:
  "errText (newError t) = t" "\<not> errNotFound (newError t)"
  "errText (errorfW t e) = t @ errText e" "errNotFound (errorfW t e) = errNotFound e"
  "errText (errorfS t e) = t @ errText e" "\<not> errNotFound (errorfS t e)"
  by (simp_all add: newError_def errorfW_def errorfS_def)

text \<open>A Go function that may dereference nil or write into a nil map: it panics or is done.\<close>

datatype 'a outcome = Panic | Done 'a

section \<open>The state monad\<close>

abbreviation return :: "'a \<Rightarrow> ('s, 'a) state" where
  "return \<equiv> State_Monad.return"

lemma run_state_case_sum [simp]:
  "run_state (case x of Inl a \<Rightarrow> f a | Inr b \<Rightarrow> g b) s
     = (case x of Inl a \<Rightarrow> run_state (f a) s | Inr b \<Rightarrow> run_state (g b) s)"
  by (simp split: sum.split)

lemma run_state_case_option [simp]:
  "run_state (case x of None \<Rightarrow> m | Some a \<Rightarrow> f a) s
     = (case x of None \<Rightarrow> run_state m s | Some a \<Rightarrow> run_state (f a) s)"
  by (simp split: option.split)

lemma run_state_case_prod [simp]:
  "run_state (case x of (a, b) \<Rightarrow> f a b) s = (case x of (a, b) \<Rightarrow> run_state (f a b) s)"
  by (simp split: prod.split)

lemma run_state_if [simp]:
  "run_state (if b then m else n) s = (if b then run_state m s else run_state n s)"
  by simp

lemma run_state_Let [simp]: "run_state (let x = a in f x) s = (let x = a in run_state (f x) s)"
  by simp

end
