(* ===== verification/Objects.thy ===== *)
theory Objects
  imports Prelude
begin

text \<open>
  The resources of \<open>operator/api/v1alpha1\<close> (Server, Fleet, GameType, GameAutoscaler) as
  records, over the fields the code reads or writes of the Kubernetes structs they embed
  (ObjectMeta, PodSpec, Container, Pod, Condition). Every other field of a pod spec or a
  container is carried in one opaque field, by name and by its representation in Go syntax
  (which shows a nil slice as such), so that comparing and copying see it. A Go map that may be
  nil is an optional map, a pointer that may be nil is an option. The slices of a pod template,
  which the code compares with \<open>reflect.DeepEqual\<close>, are of type \<open>goslice\<close>, where a nil slice is
  not the empty one, so that \<open>=\<close> on pod specs is \<open>reflect.DeepEqual\<close>. No operation tells the
  other slices' nil from the empty slice; they are lists.
\<close>

section \<open>Slices\<close>

type_synonym 'a goslice = "'a list option"

text \<open>The elements, over which a loop runs, and \<open>append\<close>.\<close>

definition elems :: "'a goslice \<Rightarrow> 'a list" where
  "elems s = (case s of None \<Rightarrow> [] | Some xs \<Rightarrow> xs)"

definition goAppend :: "'a goslice \<Rightarrow> 'a list \<Rightarrow> 'a goslice" where
  "goAppend s xs = (if xs = [] then s else Some (elems s @ xs))"

lemma elems_simps [simp]: "elems None = []" "elems (Some xs) = xs" "elems (goAppend s xs) = elems s @ xs"
  "elems (map_option (map f) s) = map f (elems s)"
  by (auto simp: elems_def goAppend_def split: option.splits)

section \<open>Embedded Kubernetes data\<close>

record OwnerReference =
  ownerKind :: string
  ownerName :: string
  ownerController :: bool

record ObjectMeta =
  Name :: string
  GenerateName :: string
  Namespace :: string
  Labels :: "(string \<rightharpoonup> string) option"
  OwnerReferences :: "OwnerReference list"
  Finalizers :: "string list"
  CreationTimestamp :: time
  DeletionTimestamp :: "time option"
  ResourceVersion :: string

type_synonym NamespacedName = "string \<times> string"

definition emptyMeta :: ObjectMeta where
  "emptyMeta = \<lparr>Name = [], GenerateName = [], Namespace = [], Labels = None,
     OwnerReferences = [], Finalizers = [], CreationTimestamp = 0, DeletionTimestamp = None,
     ResourceVersion = []\<rparr>"

datatype EnvVar = EnvValue string string | EnvFieldRef string string string

record ContainerPort =
  portName :: string
  containerPort :: int32

record Container =
  containerName :: string
  Image :: string
  Ports :: "ContainerPort goslice"
  ImagePullPolicy :: string
  Env :: "EnvVar goslice"
  containerOther :: "(string \<times> string) list"

record PodSpec =
  Containers :: "Container goslice"
  ImagePullSecrets :: "string goslice"
  podOther :: "(string \<times> string) list"

record Condition =
  condType :: string
  condStatus :: bool
  condLastTransitionTime :: time
  condReason :: string
  condMessage :: string

record Pod =
  pod_meta :: ObjectMeta
  pod_spec :: PodSpec
  Phase :: string
  PodIP :: string

definition PodRunning :: string where
  "PodRunning = ''Running''"

section \<open>server\_types.go\<close>

record ServerSpec =
  Pod :: PodSpec
  TimeOut :: "duration option"
  AllowForceDelete :: bool

record ServerStatus =
  ServerConditions :: "Condition list"

record Server =
  server_meta :: ObjectMeta
  server_spec :: ServerSpec
  server_status :: ServerStatus

section \<open>fleet\_types.go\<close>

definition OldestFirst :: string where
  "OldestFirst = ''oldest_first''"

definition NewestFirst :: string where
  "NewestFirst = ''newest_first''"

definition validPriorities :: "string list" where
  "validPriorities = [OldestFirst, NewestFirst]"

record FleetScaling =
  Replicas :: int32
  PrioritizeAllowed :: bool
  AgePriority :: string

record FleetSpec =
  ServerSpec :: ServerSpec
  Scaling :: FleetScaling

record FleetStatus =
  FleetConditions :: "Condition list"
  CurrentReplicas :: int32

record Fleet =
  fleet_meta :: ObjectMeta
  fleet_spec :: FleetSpec
  fleet_status :: FleetStatus

text \<open>\<open>reflect.DeepEqual\<close>: a nil slice and an empty one differ.\<close>

definition AreFleetsPodsEqual :: "FleetSpec \<Rightarrow> FleetSpec \<Rightarrow> bool" where
  "AreFleetsPodsEqual fleet1 fleet2 \<longleftrightarrow> Pod (ServerSpec fleet1) = Pod (ServerSpec fleet2)"

section \<open>gametype\_types.go\<close>

record GameTypeStatus =
  GameTypeConditions :: "Condition list"
  CurrentFleetName :: string
  CurrentFleetReplicas :: int32

record GameType =
  gametype_meta :: ObjectMeta
  FleetSpec :: FleetSpec
  gametype_status :: GameTypeStatus

section \<open>gameautoscaler\_types.go\<close>

definition Webhook :: string where
  "Webhook = ''webhook''"

definition FixedInterval :: string where
  "FixedInterval = ''fixedinterval''"

record Service =
  serviceName :: string
  serviceNamespace :: string
  Port :: int64

record WebhookAutoscalerSpec =
  Url :: "string option"
  Path :: "string option"
  Service :: "Service option"

record AutoscalePolicy =
  policyType :: string
  WebhookAutoscalerSpec :: WebhookAutoscalerSpec

record Sync =
  syncType :: string
  syncTime :: "duration option"

record GameAutoscaler =
  autoscaler_meta :: ObjectMeta
  GameName :: string
  AutoscalePolicy :: AutoscalePolicy
  Sync :: Sync

section \<open>Objects of any kind\<close>

text \<open>The objects that the controllers hand to the API server and to the event recorder.\<close>

datatype object =
    ObjServer Server | ObjFleet Fleet | ObjGameType GameType
  | ObjGameAutoscaler GameAutoscaler | ObjPod Pod

fun objectMeta :: "object \<Rightarrow> ObjectMeta" where
  "objectMeta (ObjServer x) = server_meta x"
| "objectMeta (ObjFleet x) = fleet_meta x"
| "objectMeta (ObjGameType x) = gametype_meta x"
| "objectMeta (ObjGameAutoscaler x) = autoscaler_meta x"
| "objectMeta (ObjPod x) = pod_meta x"

definition namespacedName :: "ObjectMeta \<Rightarrow> NamespacedName" where
  "namespacedName m = (Namespace m, Name m)"

text \<open>
  \<open>DeletionTimestamp != nil || !GetDeletionTimestamp().IsZero()\<close>: \<open>IsZero\<close> of a nil
  time is true, so the second disjunct adds nothing.
\<close>

definition zeroTime :: time where
  "zeroTime = -62135596800 * Second"

fun IsZero :: "time option \<Rightarrow> bool" where
  "IsZero None = True"
| "IsZero (Some t) = (t = zeroTime)"

definition beingDeleted :: "ObjectMeta \<Rightarrow> bool" where
  "beingDeleted m \<longleftrightarrow> DeletionTimestamp m \<noteq> None \<or> \<not> IsZero (DeletionTimestamp m)"

lemma beingDeleted_iff [simp]: "beingDeleted m \<longleftrightarrow> DeletionTimestamp m \<noteq> None"
  by (cases "DeletionTimestamp m") (auto simp: beingDeleted_def)

text \<open>The name of the pod of a server (\<open>server.Name + "-pod"\<close>).\<close>

definition podKey :: "NamespacedName \<Rightarrow> NamespacedName" where
  "podKey k = (fst k, snd k @ ''-pod'')"

definition podNameOf :: "Server \<Rightarrow> NamespacedName" where
  "podNameOf server = podKey (namespacedName (server_meta server))"

text \<open>Writing into a map that may be nil: Go allocates an empty one first.\<close>

definition labelsOrEmpty :: "(string \<rightharpoonup> string) option \<Rightarrow> (string \<rightharpoonup> string)" where
  "labelsOrEmpty l = (case l of None \<Rightarrow> Map.empty | Some m \<Rightarrow> m)"

text \<open>
  \<open>labels := obj.Labels; labels[k] = v\<close> writes into the object's own map when it is not
  nil (a Go map is a reference), and into a fresh map otherwise: the object's labels
  afterwards.
\<close>

definition labelsAfterWrite :: "(string \<rightharpoonup> string) option \<Rightarrow> string \<Rightarrow> string
    \<Rightarrow> (string \<rightharpoonup> string) option" where
  "labelsAfterWrite l k v = (case l of None \<Rightarrow> None | Some m \<Rightarrow> Some (m(k \<mapsto> v)))"

definition labelOf :: "ObjectMeta \<Rightarrow> string \<Rightarrow> string option" where
  "labelOf m k = labelsOrEmpty (Labels m) k"

end
