(* ===== verification/Json.thy ===== *)
theory Json
  imports Prelude "HOL-Library.AList"
begin

text \<open>
  What the programs use of \<open>encoding/json\<close>: JSON values, and decoding a value into a struct.
  A key of an object selects the field of that name, or, failing that, the field whose name
  agrees with it up to ASCII case; \<open>null\<close> leaves a field as it is; a value of the wrong type
  is an error, recorded while the rest is still decoded; a repeated key is decoded again. The
  text form of a value is not modelled: a body is the value its text parses to.
\<close>

datatype json =
    JNull | JBool bool | JInt int | JReal string | JString string
  | JArray "json list" | JObject "(string \<times> json) list"

definition asciiLower :: "char \<Rightarrow> char" where
  "asciiLower c = (if 65 \<le> (of_char c :: nat) \<and> (of_char c :: nat) \<le> 90
     then char_of ((of_char c :: nat) + 32) else c)"

definition keyIs :: "string \<Rightarrow> string \<Rightarrow> bool" where
  "keyIs name k \<longleftrightarrow> k = name \<or> map asciiLower k = map asciiLower name"

definition jsonTypeError :: error where
  "jsonTypeError = newError ''json: cannot unmarshal value into Go value''"

fun decodeBool :: "json \<Rightarrow> bool \<Rightarrow> error + bool" where
  "decodeBool JNull old = Inr old"
| "decodeBool (JBool b) old = Inr b"
| "decodeBool _ old = Inl jsonTypeError"

fun decodeInt :: "json \<Rightarrow> int64 \<Rightarrow> error + int64" where
  "decodeInt JNull old = Inr old"
| "decodeInt (JInt i) old =
     (if - (2 ^ 63) \<le> i \<and> i < 2 ^ 63 then Inr (word_of_int i) else Inl jsonTypeError)"
| "decodeInt _ old = Inl jsonTypeError"

fun decodeString :: "json \<Rightarrow> string \<Rightarrow> error + string" where
  "decodeString JNull old = Inr old"
| "decodeString (JString s) old = Inr s"
| "decodeString _ old = Inl jsonTypeError"

text \<open>A pointer field: \<open>null\<close> makes it nil, a value allocates.\<close>

fun decodePtr :: "(json \<Rightarrow> 'a \<Rightarrow> error + 'a) \<Rightarrow> 'a \<Rightarrow> json \<Rightarrow> 'a option \<Rightarrow> error + 'a option" where
  "decodePtr dec zero JNull old = Inr None"
| "decodePtr dec zero j old =
     (case dec j (case old of None \<Rightarrow> zero | Some x \<Rightarrow> x) of Inl e \<Rightarrow> Inl e | Inr x \<Rightarrow> Inr (Some x))"

fun decodeMembers :: "(string \<Rightarrow> json \<Rightarrow> 's \<Rightarrow> error + 's) \<Rightarrow> (string \<times> json) list \<Rightarrow> 's
    \<Rightarrow> error option \<Rightarrow> error + 's" where
  "decodeMembers step [] st None = Inr st"
| "decodeMembers step [] st (Some e) = Inl e"
| "decodeMembers step ((k, v) # ms) st e =
     (case step k v st of
        Inl e' \<Rightarrow> decodeMembers step ms st (case e of None \<Rightarrow> Some e' | Some e0 \<Rightarrow> Some e0)
      | Inr st' \<Rightarrow> decodeMembers step ms st' e)"

fun decodeStruct :: "(string \<Rightarrow> json \<Rightarrow> 's \<Rightarrow> error + 's) \<Rightarrow> json \<Rightarrow> 's \<Rightarrow> error + 's" where
  "decodeStruct step JNull st = Inr st"
| "decodeStruct step (JObject ms) st = decodeMembers step ms st None"
| "decodeStruct step _ st = Inl jsonTypeError"

fun decodeInt32 :: "json \<Rightarrow> int32 \<Rightarrow> error + int32" where
  "decodeInt32 JNull old = Inr old"
| "decodeInt32 (JInt i) old =
     (if - (2 ^ 31) \<le> i \<and> i < 2 ^ 31 then Inr (word_of_int i) else Inl jsonTypeError)"
| "decodeInt32 _ old = Inl jsonTypeError"

text \<open>A map from strings to strings, as an association list: \<open>null\<close> makes it nil, an object adds to it.\<close>

fun decodeStringMembers :: "(string \<times> json) list \<Rightarrow> (string \<times> string) list \<Rightarrow> error option
    \<Rightarrow> error + (string \<times> string) list" where
  "decodeStringMembers [] m None = Inr m"
| "decodeStringMembers [] m (Some e) = Inl e"
| "decodeStringMembers ((k, v) # ms) m e =
     (case decodeString v [] of
        Inl e' \<Rightarrow> decodeStringMembers ms m (case e of None \<Rightarrow> Some e' | Some e0 \<Rightarrow> Some e0)
      | Inr s \<Rightarrow> decodeStringMembers ms (AList.update k s m) e)"

fun decodeStringMap :: "json \<Rightarrow> (string \<times> string) list option \<Rightarrow> error + (string \<times> string) list option" where
  "decodeStringMap JNull old = Inr None"
| "decodeStringMap (JObject ms) old =
     (case decodeStringMembers ms (case old of None \<Rightarrow> [] | Some m \<Rightarrow> m) None of
        Inl e \<Rightarrow> Inl e | Inr m \<Rightarrow> Inr (Some m))"
| "decodeStringMap _ old = Inl jsonTypeError"

text \<open>The fields of a struct: a key goes to the first field it names, and is dropped if it names none.\<close>

definition structField :: "string \<Rightarrow> (json \<Rightarrow> 'a \<Rightarrow> error + 'a) \<Rightarrow> ('s \<Rightarrow> 'a) \<Rightarrow> (('a \<Rightarrow> 'a) \<Rightarrow> 's \<Rightarrow> 's)
    \<Rightarrow> string \<Rightarrow> json \<Rightarrow> 's \<Rightarrow> (error + 's) option" where
  "structField name dec get put k v s =
     (if keyIs name k
      then Some (case dec v (get s) of Inl e \<Rightarrow> Inl e | Inr x \<Rightarrow> Inr (put (\<lambda>_. x) s)) else None)"

fun structFields :: "(string \<Rightarrow> json \<Rightarrow> 's \<Rightarrow> (error + 's) option) list \<Rightarrow> string \<Rightarrow> json \<Rightarrow> 's \<Rightarrow> error + 's" where
  "structFields [] k v s = Inr s"
| "structFields (f # fs) k v s = (case f k v s of Some r \<Rightarrow> r | None \<Rightarrow> structFields fs k v s)"

text \<open>A struct with one boolean field, as the sidecar and the operator exchange them.\<close>

definition decodeFlag :: "string \<Rightarrow> json \<Rightarrow> error + bool" where
  "decodeFlag name j = decodeStruct (\<lambda>k v b. if keyIs name k then decodeBool v b else Inr b) j False"

definition encodeFlag :: "string \<Rightarrow> bool \<Rightarrow> json" where
  "encodeFlag name b = JObject [(name, JBool b)]"

lemma keyIs_refl [simp]: "keyIs name name"
  by (simp add: keyIs_def)

lemma decodeFlag_encodeFlag [simp]: "decodeFlag name (encodeFlag name b) = Inr b"
  by (simp add: decodeFlag_def encodeFlag_def)

text \<open>A word is in the range that decoding accepts.\<close>

lemma sint_bounds:
  "- 9223372036854775808 \<le> sint (n :: int64)" "sint (n :: int64) < 9223372036854775808"
  "- 2147483648 \<le> sint (i :: int32)" "sint (i :: int32) < 2147483648"
  using sint_greater_eq [of n] sint_less [of n] sint_greater_eq [of i] sint_less [of i] by simp_all

lemma decodeStringMembers_encode:
  "distinct (map fst (m @ ls)) \<Longrightarrow>
     decodeStringMembers (map (\<lambda>(k, v). (k, JString v)) ls) m None = Inr (m @ ls)"
proof (induction ls arbitrary: m)
  case Nil
  then show ?case by simp
next
  case (Cons l ls)
  obtain k v where l: "l = (k, v)" by force
  from Cons.prems l have "AList.update k v m = m @ [(k, v)]"
    by (induction m) auto
  with Cons.IH [of "m @ [(k, v)]"] Cons.prems l show ?case by simp
qed

lemma decodeStringMap_encode:
  "distinct (map fst ls) \<Longrightarrow>
     decodeStringMap (JObject (map (\<lambda>(k, v). (k, JString v)) ls)) None = Inr (Some ls)"
  using decodeStringMembers_encode [of "[]" ls] by simp

text \<open>What evaluates a decoder on an object that an encoder built.\<close>

lemmas key_simps = structField_def keyIs_def asciiLower_def sint_bounds

end
