(* ===== verification/Traces.thy ===== *)
theory Traces
  imports Prelude "HOL-Library.Sublist"
begin

text \<open>
  Programs that call the outside world. A run has a hidden state \<open>'w\<close>, which nothing is assumed
  of, and the trace of the calls made so far, each with the answer it got. The operations are state
  monads over runs, and \<open>emits m Q\<close> says that every run of \<open>m\<close>, from any state, only appends to
  the trace, and that \<open>Q\<close> holds of its result and of what it appended. The rules collected in
  \<open>emits_intros\<close> take a program apart along its structure.
\<close>

section \<open>Runs\<close>

record ('w, 'e) run =
  backend :: 'w
  trace :: "'e list"

definition call :: "('w \<Rightarrow> 'r \<times> 'w) \<Rightarrow> ('r \<Rightarrow> 'e) \<Rightarrow> (('w, 'e) run, 'r) state" where
  "call f e = State (\<lambda>s. case f (backend s) of
     (r, w) \<Rightarrow> (r, s\<lparr>backend := w, trace := trace s @ [e r]\<rparr>))"

definition record_effect :: "'e \<Rightarrow> (('w, 'e) run, unit) state" where
  "record_effect e = State (\<lambda>s. ((), s\<lparr>trace := trace s @ [e]\<rparr>))"

definition silent :: "('w \<Rightarrow> 'r \<times> 'w) \<Rightarrow> (('w, 'e) run, 'r) state" where
  "silent f = State (\<lambda>s. case f (backend s) of (r, w) \<Rightarrow> (r, s\<lparr>backend := w\<rparr>))"

lemma run_state_call [simp]:
  "run_state (call f e) s = (case f (backend s) of
     (r, w) \<Rightarrow> (r, s\<lparr>backend := w, trace := trace s @ [e r]\<rparr>))"
  by (simp add: call_def)

lemma run_state_record_effect [simp]:
  "run_state (record_effect e) s = ((), s\<lparr>trace := trace s @ [e]\<rparr>)"
  by (simp add: record_effect_def)

lemma run_state_silent [simp]:
  "run_state (silent f) s = (case f (backend s) of (r, w) \<Rightarrow> (r, s\<lparr>backend := w\<rparr>))"
  by (simp add: silent_def)

definition ok :: "'e + 'a \<Rightarrow> bool" where
  "ok r \<longleftrightarrow> \<not> isl r"

lemma ok_simps [simp]: "\<not> ok (Inl e)" "ok (Inr x)"
  by (simp_all add: ok_def)

section \<open>The trace logic\<close>

definition emits :: "(('w, 'e) run, 'a) state \<Rightarrow> ('a \<Rightarrow> 'e list \<Rightarrow> bool) \<Rightarrow> bool" where
  "emits m Q \<longleftrightarrow> (\<forall>s. \<exists>es. trace (snd (run_state m s)) = trace s @ es \<and> Q (fst (run_state m s)) es)"

lemma emitsI:
  assumes "\<And>s r s'. run_state m s = (r, s') \<Longrightarrow> \<exists>es. trace s' = trace s @ es \<and> Q r es"
  shows "emits m Q"
  unfolding emits_def
proof
  fix s
  show "\<exists>es. trace (snd (run_state m s)) = trace s @ es \<and> Q (fst (run_state m s)) es"
    using assms [of s "fst (run_state m s)" "snd (run_state m s)"] by simp
qed

lemma emitsD:
  assumes "emits m Q" and "run_state m s = (r, s')"
  obtains es where "trace s' = trace s @ es" and "Q r es"
proof -
  from assms(1) obtain es where "trace (snd (run_state m s)) = trace s @ es"
    and "Q (fst (run_state m s)) es"
    unfolding emits_def by blast
  with assms(2) that show thesis by simp
qed

lemma emits_weaken:
  assumes "emits m Q" and "\<And>r es. Q r es \<Longrightarrow> Q' r es"
  shows "emits m Q'"
  using assms unfolding emits_def by meson

lemma emits_conj:
  assumes "emits m Q" and "emits m R"
  shows "emits m (\<lambda>r es. Q r es \<and> R r es)"
proof (rule emitsI)
  fix s r s'
  assume run: "run_state m s = (r, s')"
  from emitsD [OF assms(1) run] obtain es where 1: "trace s' = trace s @ es" "Q r es" .
  from emitsD [OF assms(2) run] obtain es' where 2: "trace s' = trace s @ es'" "R r es'" .
  from 1 2 show "\<exists>es. trace s' = trace s @ es \<and> Q r es \<and> R r es" by auto
qed

lemma emits_all:
  assumes "\<And>x. emits m (Q x)"
  shows "emits m (\<lambda>r es. \<forall>x. Q x r es)"
proof (rule emitsI)
  fix s r s'
  assume run: "run_state m s = (r, s')"
  from emitsD [OF assms run] obtain es where es: "trace s' = trace s @ es" by metis
  have "Q x r es" for x
    using emitsD [OF assms [of x] run] es by auto
  with es show "\<exists>es. trace s' = trace s @ es \<and> (\<forall>x. Q x r es)" by blast
qed

lemma emits_return [emits_intros]: "Q x [] \<Longrightarrow> emits (return x) Q"
  by (simp add: emits_def)

lemma emits_bind:
  assumes m: "emits m R" and f: "\<And>r es. R r es \<Longrightarrow> emits (f r) (\<lambda>r' es'. Q r' (es @ es'))"
  shows "emits (State_Monad.bind m f) Q"
proof (rule emitsI)
  fix s r s'
  assume run: "run_state (State_Monad.bind m f) s = (r, s')"
  obtain r1 s1 where m1: "run_state m s = (r1, s1)" by force
  with run have f1: "run_state (f r1) s1 = (r, s')" by simp
  from m m1 obtain es1 where 1: "trace s1 = trace s @ es1" "R r1 es1" by (rule emitsD)
  from f [OF 1(2)] f1 obtain es2 where "trace s' = trace s1 @ es2" "Q r (es1 @ es2)"
    by (rule emitsD)
  with 1(1) show "\<exists>es. trace s' = trace s @ es \<and> Q r es" by auto
qed

lemma emits_call_iff: "emits (call f e) Q \<longleftrightarrow> (\<forall>w. Q (fst (f w)) [e (fst (f w))])"
proof
  assume *: "emits (call f e) Q"
  show "\<forall>w. Q (fst (f w)) [e (fst (f w))]"
  proof
    fix w
    have "run_state (call f e) \<lparr>backend = w, trace = []\<rparr>
      = (fst (f w), \<lparr>backend = snd (f w), trace = [e (fst (f w))]\<rparr>)"
      by (simp add: case_prod_beta)
    from emitsD [OF * this] show "Q (fst (f w)) [e (fst (f w))]" by auto
  qed
next
  assume "\<forall>w. Q (fst (f w)) [e (fst (f w))]"
  then show "emits (call f e) Q"
    by (auto intro!: emitsI split: prod.splits) (metis fst_conv)
qed

lemma emits_call [emits_intros]: "(\<And>r. Q r [e r]) \<Longrightarrow> emits (call f e) Q"
  by (simp add: emits_call_iff)

lemma emits_record_effect [emits_intros]: "Q () [e] \<Longrightarrow> emits (record_effect e) Q"
  by (auto intro!: emitsI)

lemma emits_silent [emits_intros]: "(\<And>r. Q r []) \<Longrightarrow> emits (silent f) Q"
  by (auto intro!: emitsI split: prod.splits)

lemma emits_bind_call [emits_intros]:
  "(\<And>r. emits (g r) (\<lambda>r' es. Q r' (e r # es))) \<Longrightarrow> emits (State_Monad.bind (call f e) g) Q"
  by (rule emits_bind [OF emits_call [where Q = "\<lambda>r es. es = [e r]"]]) auto

lemma emits_bind_record [emits_intros]:
  "emits (g ()) (\<lambda>r' es. Q r' (e # es)) \<Longrightarrow> emits (State_Monad.bind (record_effect e) g) Q"
  by (rule emits_bind [OF emits_record_effect [where Q = "\<lambda>r es. es = [e]"]]) auto

lemma emits_bind_silent [emits_intros]:
  "(\<And>r. emits (g r) Q) \<Longrightarrow> emits (State_Monad.bind (silent f) g) Q"
  by (rule emits_bind [OF emits_silent [where Q = "\<lambda>r es. es = []"]]) auto

lemma emits_bind_return [emits_intros]:
  "emits (g x) Q \<Longrightarrow> emits (State_Monad.bind (return x) g) Q"
  by simp

lemma emits_bind_assoc [emits_intros]:
  "emits (State_Monad.bind m (\<lambda>x. State_Monad.bind (f x) g)) Q
     \<Longrightarrow> emits (State_Monad.bind (State_Monad.bind m f) g) Q"
  by simp

lemma emits_bind_if [emits_intros]:
  assumes "b \<Longrightarrow> emits (State_Monad.bind m g) Q" and "\<not> b \<Longrightarrow> emits (State_Monad.bind n g) Q"
  shows "emits (State_Monad.bind (if b then m else n) g) Q"
  using assms by simp

lemma emits_bind_case_sum [emits_intros]:
  assumes "\<And>a. x = Inl a \<Longrightarrow> emits (State_Monad.bind (f a) h) Q"
    and "\<And>b. x = Inr b \<Longrightarrow> emits (State_Monad.bind (g b) h) Q"
  shows "emits (State_Monad.bind (case x of Inl a \<Rightarrow> f a | Inr b \<Rightarrow> g b) h) Q"
  using assms by (cases x) auto

lemma emits_bind_case_option [emits_intros]:
  assumes "x = None \<Longrightarrow> emits (State_Monad.bind m h) Q"
    and "\<And>a. x = Some a \<Longrightarrow> emits (State_Monad.bind (f a) h) Q"
  shows "emits (State_Monad.bind (case x of None \<Rightarrow> m | Some a \<Rightarrow> f a) h) Q"
  using assms by (cases x) auto

lemma emits_bind_Let [emits_intros]:
  assumes "\<And>y. y = a \<Longrightarrow> emits (State_Monad.bind (f y) h) Q"
  shows "emits (State_Monad.bind (let x = a in f x) h) Q"
  using assms by simp

lemma emits_case_sum [emits_intros]:
  assumes "\<And>a. x = Inl a \<Longrightarrow> emits (f a) Q" and "\<And>b. x = Inr b \<Longrightarrow> emits (g b) Q"
  shows "emits (case x of Inl a \<Rightarrow> f a | Inr b \<Rightarrow> g b) Q"
  using assms by (cases x) auto

lemma emits_case_option [emits_intros]:
  assumes "x = None \<Longrightarrow> emits m Q" and "\<And>a. x = Some a \<Longrightarrow> emits (f a) Q"
  shows "emits (case x of None \<Rightarrow> m | Some a \<Rightarrow> f a) Q"
  using assms by (cases x) auto

lemma emits_case_prod [emits_intros]:
  assumes "\<And>a b. x = (a, b) \<Longrightarrow> emits (f a b) Q"
  shows "emits (case x of (a, b) \<Rightarrow> f a b) Q"
  using assms by (cases x) auto

lemma emits_if [emits_intros]:
  assumes "b \<Longrightarrow> emits m Q" and "\<not> b \<Longrightarrow> emits n Q"
  shows "emits (if b then m else n) Q"
  using assms by simp

lemma emits_Let [emits_intros]:
  assumes "\<And>y. y = a \<Longrightarrow> emits (f y) Q"
  shows "emits (let x = a in f x) Q"
  using assms by simp

lemma ok_map_sum [simp]: "ok (map_sum f g r) = ok r"
  by (cases r) simp_all

lemma map_sum_id_eq [simp]:
  "map_sum id g r = Inl e \<longleftrightarrow> r = Inl e" "Inl e = map_sum id g r \<longleftrightarrow> r = Inl e"
  "map_sum id g r = Inr y \<longleftrightarrow> (\<exists>x. r = Inr x \<and> y = g x)"
  "Inr y = map_sum id g r \<longleftrightarrow> (\<exists>x. r = Inr x \<and> y = g x)"
  by (cases r; auto)+

text \<open>A run only adds to the trace.\<close>

lemma trace_grows:
  assumes "emits m Q" and "e \<in> set (trace s)"
  shows "e \<in> set (trace (snd (run_state m s)))"
proof -
  from assms(1) obtain es where "trace (snd (run_state m s)) = trace s @ es" unfolding emits_def by blast
  with assms(2) show ?thesis by simp
qed

lemma bind_grows:
  assumes "e \<in> set (trace (snd (run_state m s)))" and "\<And>x. emits (f x) (\<lambda>_ _. True)"
  shows "e \<in> set (trace (snd (run_state (State_Monad.bind m f) s)))"
  using trace_grows [OF assms(2,1)] by (simp add: run_state_bind prod.case_eq_if)

text \<open>Every effect of a trace stands in a relation to what came before it.\<close>

definition each_after :: "('e list \<Rightarrow> 'e \<Rightarrow> bool) \<Rightarrow> 'e list \<Rightarrow> bool" where
  "each_after R es \<longleftrightarrow> (\<forall>pre e post. es = pre @ e # post \<longrightarrow> R pre e)"

lemma each_after_Nil [simp]: "each_after R []"
  by (simp add: each_after_def)

lemma each_after_Cons [simp]:
  "each_after R (e # es) \<longleftrightarrow> R [] e \<and> each_after (\<lambda>pre. R (e # pre)) es"
  unfolding each_after_def by (auto simp: Cons_eq_append_conv)

lemma each_after_append [simp]:
  "each_after R (es @ fs) \<longleftrightarrow> each_after R es \<and> each_after (\<lambda>pre. R (es @ pre)) fs"
  by (induction es arbitrary: R) simp_all

lemma each_after_all: "list_all (\<lambda>e. \<forall>pre. R pre e) es \<Longrightarrow> each_after R es"
  by (auto simp: each_after_def)

lemma each_after_mono:
  "each_after R es \<Longrightarrow> (\<And>pre e. R pre e \<Longrightarrow> S pre e) \<Longrightarrow> each_after S es"
  by (simp add: each_after_def)

lemma each_after_prefix: "each_after R es \<Longrightarrow> prefix part es \<Longrightarrow> each_after R part"
  by (auto elim: prefixE)

lemma list_all_weaken: "list_all p es \<Longrightarrow> (\<And>e. p e \<Longrightarrow> q e) \<Longrightarrow> list_all q es"
  by (auto simp: list_all_iff)

text \<open>Effects in order: \<open>subseq [e, f] es\<close> says that \<open>e\<close> comes before \<open>f\<close> in \<open>es\<close>.\<close>

lemma subseq_snoc_in:
  "e \<in> set es \<Longrightarrow> subseq [e, f] (es @ f # fs)"
  using list_emb_append_mono [of "(=)" "[e]" es "[f]" "f # fs"] by (simp add: subseq_singleton_left)

lemma subseq_in: "subseq es fs \<Longrightarrow> e \<in> set es \<Longrightarrow> e \<in> set fs"
  using subseq_order.order_trans [of "[e]" es fs] by (simp add: subseq_singleton_left)

lemma subseq_pad: "subseq xs ys \<Longrightarrow> subseq xs (zs @ ys)"
  by (rule list_emb_append2)

lemma subseq_Cons_in: "e = d \<Longrightarrow> f \<in> set es \<Longrightarrow> subseq [e, f] (d # es)"
  by (simp add: subseq_singleton_left)

section \<open>Runs from the start\<close>

definition newWorld :: "'w \<Rightarrow> ('w, 'e) run" where
  "newWorld w = \<lparr>backend = w, trace = []\<rparr>"

text \<open>What a run from a given state answers, and the calls it makes.\<close>

definition answer :: "(('w, 'e) run, 'a) state \<Rightarrow> 'w \<Rightarrow> 'a" where
  "answer m w = fst (run_state m (newWorld w))"

definition calls :: "(('w, 'e) run, 'a) state \<Rightarrow> 'w \<Rightarrow> 'e list" where
  "calls m w = trace (snd (run_state m (newWorld w)))"

text \<open>The state it leaves behind.\<close>

definition worldAfter :: "(('w, 'e) run, 'a) state \<Rightarrow> 'w \<Rightarrow> 'w" where
  "worldAfter m w = backend (snd (run_state m (newWorld w)))"

lemma emits_calls:
  assumes "emits m Q"
  shows "Q (answer m w) (calls m w)"
proof -
  from assms obtain es where "calls m w = trace (newWorld w) @ es" "Q (answer m w) es"
    unfolding emits_def answer_def calls_def by blast
  then show ?thesis by (simp add: newWorld_def)
qed

section \<open>The calls a program can make\<close>

definition only :: "('e \<Rightarrow> bool) \<Rightarrow> (('w, 'e) run, 'a) state \<Rightarrow> bool" where
  "only p m \<longleftrightarrow> emits m (\<lambda>_. list_all p)"

lemma only_return [only_intros]: "only p (return x)"
  unfolding only_def by (intro emits_intros) simp

lemma only_call [only_intros]: "(\<And>r. p (e r)) \<Longrightarrow> only p (call f e)"
  unfolding only_def by (intro emits_intros) simp

lemma only_record_effect [only_intros]: "p e \<Longrightarrow> only p (record_effect e)"
  unfolding only_def by (intro emits_intros) simp

lemma only_silent [only_intros]: "only p (silent f)"
  unfolding only_def by (intro emits_intros) simp

lemma only_bind [only_intros]: "only p m \<Longrightarrow> (\<And>r. only p (f r)) \<Longrightarrow> only p (State_Monad.bind m f)"
  unfolding only_def by (erule emits_bind, rule emits_weaken) auto

lemma only_if [only_intros]: "(b \<Longrightarrow> only p m) \<Longrightarrow> (\<not> b \<Longrightarrow> only p n) \<Longrightarrow> only p (if b then m else n)"
  by simp

lemma only_case_sum [only_intros]:
  "(\<And>a. only p (f a)) \<Longrightarrow> (\<And>b. only p (g b)) \<Longrightarrow> only p (case x of Inl a \<Rightarrow> f a | Inr b \<Rightarrow> g b)"
  by (cases x) simp_all

lemma only_case_option [only_intros]:
  "only p m \<Longrightarrow> (\<And>a. only p (f a)) \<Longrightarrow> only p (case x of None \<Rightarrow> m | Some a \<Rightarrow> f a)"
  by (cases x) simp_all

lemma only_case_prod [only_intros]: "(\<And>a b. only p (f a b)) \<Longrightarrow> only p (case x of (a, b) \<Rightarrow> f a b)"
  by (cases x) simp

lemma only_case_outcome [only_intros]:
  "only p m \<Longrightarrow> (\<And>a. only p (f a)) \<Longrightarrow> only p (case x of Panic \<Rightarrow> m | Done a \<Rightarrow> f a)"
  by (cases x) simp_all

lemma only_case_list [only_intros]:
  "only p m \<Longrightarrow> (\<And>a xs. only p (f a xs)) \<Longrightarrow> only p (case x of [] \<Rightarrow> m | a # xs \<Rightarrow> f a xs)"
  by (cases x) simp_all

lemma only_Let [only_intros]: "(\<And>x. only p (f x)) \<Longrightarrow> only p (let x = a in f x)"
  by simp

lemma only_emits: "emits m (\<lambda>r es. Q r es) \<Longrightarrow> (\<And>r es. Q r es \<Longrightarrow> list_all p es) \<Longrightarrow> only p m"
  unfolding only_def by (erule emits_weaken)

lemma only_calls: "only p m \<Longrightarrow> list_all p (calls m w)"
  unfolding only_def by (rule emits_calls)

end
