(* ===== verification/Platform.thy ===== *)
theory Platform
  imports Objects Json Traces
begin

text \<open>
  What the code runs against and this repository does not contain, as one parameter: the
  controller-runtime client (\<open>Get\<close>, \<open>List\<close>, \<open>Create\<close>, \<open>Update\<close>,
  \<open>Status().Update\<close>, \<open>Delete\<close>, each for the kinds the code uses it on), the network
  under \<open>net/http\<close>, the clock, the process environment, and the pure helpers of
  \<open>controllerutil\<close>, \<open>meta\<close> and \<open>metav1\<close>. Every effectful field is a function of a
  hidden state \<open>'w\<close> that nothing is assumed of: between two calls the cluster may change in
  any way, reads may be stale, writes may fail. What a property needs of a field beyond
  that is a named hypothesis (such as \<open>finalizer_laws\<close>).

  A world is a run over this state with the effects below as its trace. The trace is what the
  safety properties are about: which write was made, after which answers.
\<close>

section \<open>HTTP\<close>

record HttpRequest =
  reqMethod :: string
  reqUrl :: string
  reqBody :: "json option"

text \<open>
  A response: its status, and its body as reading it yields it, an error of the connection
  or the text with the JSON value \<open>encoding/json\<close> parses from it (or the syntax error).
\<close>

record HttpResponse =
  StatusCode :: nat
  Status :: string
  respBody :: "error + (string \<times> (error + json))"

definition StatusOK :: nat where "StatusOK = 200"
definition StatusBadRequest :: nat where "StatusBadRequest = 400"
definition StatusInternalServerError :: nat where "StatusInternalServerError = 500"

section \<open>The platform\<close>

type_synonym ('w, 'a) op = "'w \<Rightarrow> (error + 'a) \<times> 'w"

record 'w platform =
  getServer :: "NamespacedName \<Rightarrow> ('w, Server) op"
  getFleet :: "NamespacedName \<Rightarrow> ('w, Fleet) op"
  getGameType :: "NamespacedName \<Rightarrow> ('w, GameType) op"
  getGameAutoscaler :: "NamespacedName \<Rightarrow> ('w, GameAutoscaler) op"
  getPod :: "NamespacedName \<Rightarrow> ('w, Pod) op"
  listServer :: "string option \<Rightarrow> (string \<times> string) list \<Rightarrow> ('w, Server list) op"
  listFleet :: "string option \<Rightarrow> (string \<times> string) list \<Rightarrow> ('w, Fleet list) op"
  createServer :: "Server \<Rightarrow> ('w, Server) op"
  createFleet :: "Fleet \<Rightarrow> ('w, Fleet) op"
  createPod :: "Pod \<Rightarrow> ('w, Pod) op"
  updateServer :: "Server \<Rightarrow> ('w, Server) op"
  updateFleet :: "Fleet \<Rightarrow> ('w, Fleet) op"
  updateGameType :: "GameType \<Rightarrow> ('w, GameType) op"
  updatePod :: "Pod \<Rightarrow> ('w, Pod) op"
  statusUpdateServer :: "Server \<Rightarrow> ('w, Server) op"
  statusUpdateFleet :: "Fleet \<Rightarrow> ('w, Fleet) op"
  statusUpdateGameType :: "GameType \<Rightarrow> ('w, GameType) op"
  deleteServer :: "Server \<Rightarrow> ('w, unit) op"
  deleteFleet :: "Fleet \<Rightarrow> ('w, unit) op"
  deletePod :: "Pod \<Rightarrow> ('w, unit) op"
  httpDo :: "HttpRequest \<Rightarrow> ('w, HttpResponse) op"
  timeNow :: "'w \<Rightarrow> time \<times> 'w"
  getenv :: "string \<Rightarrow> string"
  containsFinalizer :: "string list \<Rightarrow> string \<Rightarrow> bool"
  addFinalizer :: "string list \<Rightarrow> string \<Rightarrow> string list"
  removeFinalizer :: "string list \<Rightarrow> string \<Rightarrow> string list"
  setStatusCondition :: "Condition list \<Rightarrow> Condition \<Rightarrow> Condition list"
  newControllerRef :: "ObjectMeta \<Rightarrow> string \<times> string \<times> string \<Rightarrow> OwnerReference"
  setControllerReference :: "ObjectMeta \<Rightarrow> ObjectMeta \<Rightarrow> error + ObjectMeta"

text \<open>
  The documented behaviour of \<open>controllerutil\<close>: \<open>ContainsFinalizer\<close> checks that the
  finalizer is present, \<open>AddFinalizer\<close> adds it if not present, \<open>RemoveFinalizer\<close> removes
  it; other finalizers are left alone.
\<close>

definition finalizer_laws :: "'w platform \<Rightarrow> bool" where
  "finalizer_laws P \<longleftrightarrow>
     (\<forall>fs f. containsFinalizer P fs f \<longleftrightarrow> f \<in> set fs) \<and>
     (\<forall>fs f. set (addFinalizer P fs f) = insert f (set fs)) \<and>
     (\<forall>fs f. set (removeFinalizer P fs f) = set fs - {f})"

lemma finalizer_lawsD:
  assumes "finalizer_laws P"
  shows "containsFinalizer P fs f \<longleftrightarrow> f \<in> set fs"
    and "set (addFinalizer P fs f) = insert f (set fs)"
    and "set (removeFinalizer P fs f) = set fs - {f}"
  using assms by (simp_all add: finalizer_laws_def)

section \<open>Worlds and traces\<close>

datatype effect =
    Got string NamespacedName "error + object"
  | Listed string "string option" "(string \<times> string) list" "error + object list"
  | Create object bool
  | Update object bool
  | StatusUpdate object "error + object"
  | Delete object bool
  | Http HttpRequest "error + HttpResponse"
  | Asked Server Pod "error + bool"
  | Consulted Server "error + bool"
  | Event object string string string

text \<open>
  \<open>Asked\<close> and \<open>Consulted\<close> are no calls of their own: they note, in the trace, the answer that
  a call of the interface \<open>utils.Deletion\<close> or \<open>utils.FleetDeletionChecker\<close> has just returned.
\<close>

type_synonym 'w world = "('w, effect) run"

section \<open>The client calls\<close>

definition GetServer :: "'w platform \<Rightarrow> NamespacedName \<Rightarrow> ('w world, error + Server) state" where
  [go_simps]: "GetServer P k = call (getServer P k) (\<lambda>r. Got ''Server'' k (map_sum id ObjServer r))"

definition GetFleet :: "'w platform \<Rightarrow> NamespacedName \<Rightarrow> ('w world, error + Fleet) state" where
  [go_simps]: "GetFleet P k = call (getFleet P k) (\<lambda>r. Got ''Fleet'' k (map_sum id ObjFleet r))"

definition GetGameType :: "'w platform \<Rightarrow> NamespacedName \<Rightarrow> ('w world, error + GameType) state" where
  [go_simps]: "GetGameType P k =
     call (getGameType P k) (\<lambda>r. Got ''GameType'' k (map_sum id ObjGameType r))"

definition GetGameAutoscaler ::
    "'w platform \<Rightarrow> NamespacedName \<Rightarrow> ('w world, error + GameAutoscaler) state" where
  [go_simps]: "GetGameAutoscaler P k =
     call (getGameAutoscaler P k) (\<lambda>r. Got ''GameAutoscaler'' k (map_sum id ObjGameAutoscaler r))"

definition GetPod :: "'w platform \<Rightarrow> NamespacedName \<Rightarrow> ('w world, error + Pod) state" where
  [go_simps]: "GetPod P k = call (getPod P k) (\<lambda>r. Got ''Pod'' k (map_sum id ObjPod r))"

definition ListServer :: "'w platform \<Rightarrow> string option \<Rightarrow> (string \<times> string) list
    \<Rightarrow> ('w world, error + Server list) state" where
  [go_simps]: "ListServer P ns sel =
     call (listServer P ns sel) (\<lambda>r. Listed ''Server'' ns sel (map_sum id (map ObjServer) r))"

definition ListFleet :: "'w platform \<Rightarrow> string option \<Rightarrow> (string \<times> string) list
    \<Rightarrow> ('w world, error + Fleet list) state" where
  [go_simps]: "ListFleet P ns sel =
     call (listFleet P ns sel) (\<lambda>r. Listed ''Fleet'' ns sel (map_sum id (map ObjFleet) r))"

definition CreateServer :: "'w platform \<Rightarrow> Server \<Rightarrow> ('w world, error + Server) state" where
  [go_simps]: "CreateServer P x = call (createServer P x) (\<lambda>r. Create (ObjServer x) (ok r))"

definition CreateFleet :: "'w platform \<Rightarrow> Fleet \<Rightarrow> ('w world, error + Fleet) state" where
  [go_simps]: "CreateFleet P x = call (createFleet P x) (\<lambda>r. Create (ObjFleet x) (ok r))"

definition CreatePod :: "'w platform \<Rightarrow> Pod \<Rightarrow> ('w world, error + Pod) state" where
  [go_simps]: "CreatePod P x = call (createPod P x) (\<lambda>r. Create (ObjPod x) (ok r))"

definition UpdateServer :: "'w platform \<Rightarrow> Server \<Rightarrow> ('w world, error + Server) state" where
  [go_simps]: "UpdateServer P x = call (updateServer P x) (\<lambda>r. Update (ObjServer x) (ok r))"

definition UpdateFleet :: "'w platform \<Rightarrow> Fleet \<Rightarrow> ('w world, error + Fleet) state" where
  [go_simps]: "UpdateFleet P x = call (updateFleet P x) (\<lambda>r. Update (ObjFleet x) (ok r))"

definition UpdateGameType :: "'w platform \<Rightarrow> GameType \<Rightarrow> ('w world, error + GameType) state" where
  [go_simps]: "UpdateGameType P x =
     call (updateGameType P x) (\<lambda>r. Update (ObjGameType x) (ok r))"

definition UpdatePod :: "'w platform \<Rightarrow> Pod \<Rightarrow> ('w world, error + Pod) state" where
  [go_simps]: "UpdatePod P x = call (updatePod P x) (\<lambda>r. Update (ObjPod x) (ok r))"

definition StatusUpdateServer ::
    "'w platform \<Rightarrow> Server \<Rightarrow> ('w world, error + Server) state" where
  [go_simps]: "StatusUpdateServer P x =
     call (statusUpdateServer P x) (\<lambda>r. StatusUpdate (ObjServer x) (map_sum id ObjServer r))"

definition StatusUpdateFleet :: "'w platform \<Rightarrow> Fleet \<Rightarrow> ('w world, error + Fleet) state" where
  [go_simps]: "StatusUpdateFleet P x =
     call (statusUpdateFleet P x) (\<lambda>r. StatusUpdate (ObjFleet x) (map_sum id ObjFleet r))"

definition StatusUpdateGameType ::
    "'w platform \<Rightarrow> GameType \<Rightarrow> ('w world, error + GameType) state" where
  [go_simps]: "StatusUpdateGameType P x =
     call (statusUpdateGameType P x) (\<lambda>r. StatusUpdate (ObjGameType x) (map_sum id ObjGameType r))"

definition DeleteServer :: "'w platform \<Rightarrow> Server \<Rightarrow> ('w world, error + unit) state" where
  [go_simps]: "DeleteServer P x = call (deleteServer P x) (\<lambda>r. Delete (ObjServer x) (ok r))"

definition DeleteFleet :: "'w platform \<Rightarrow> Fleet \<Rightarrow> ('w world, error + unit) state" where
  [go_simps]: "DeleteFleet P x = call (deleteFleet P x) (\<lambda>r. Delete (ObjFleet x) (ok r))"

definition DeletePod :: "'w platform \<Rightarrow> Pod \<Rightarrow> ('w world, error + unit) state" where
  [go_simps]: "DeletePod P x = call (deletePod P x) (\<lambda>r. Delete (ObjPod x) (ok r))"

definition HttpDo :: "'w platform \<Rightarrow> HttpRequest \<Rightarrow> ('w world, error + HttpResponse) state" where
  [go_simps]: "HttpDo P q = call (httpDo P q) (Http q)"

definition Now :: "'w platform \<Rightarrow> ('w world, time) state" where
  [go_simps]: "Now P = silent (timeNow P)"

definition EventTypeNormal :: string where "EventTypeNormal = ''Normal''"
definition EventTypeWarning :: string where "EventTypeWarning = ''Warning''"

text \<open>The reconcilers' \<open>emitEvent\<close> and \<open>emitEventf\<close> hand the formatted message to the recorder.\<close>

definition emitEvent :: "object \<Rightarrow> string \<Rightarrow> string \<Rightarrow> string \<Rightarrow> ('w world, unit) state" where
  [go_simps]: "emitEvent obj eventtype reason message =
     record_effect (Event obj eventtype reason message)"

section \<open>Results of a reconciliation\<close>

record Result =
  Requeue :: bool
  RequeueAfter :: duration

definition emptyResult :: Result where
  "emptyResult = \<lparr>Requeue = False, RequeueAfter = 0\<rparr>"

definition requeueResult :: Result where
  "requeueResult = \<lparr>Requeue = True, RequeueAfter = 0\<rparr>"

type_synonym reconciled = "Result \<times> error option"

text \<open>Reads of the cluster and events change nothing there; these effects are the writes.\<close>

fun is_write :: "effect \<Rightarrow> bool" where
  "is_write (Create _ _) = True"
| "is_write (Update _ _) = True"
| "is_write (StatusUpdate _ _) = True"
| "is_write (Delete _ _) = True"
| "is_write _ = False"

definition writes :: "effect list \<Rightarrow> effect list" where
  "writes es = filter is_write es"

lemma writes_simps [simp]:
  "writes [] = []"
  "writes (e # es) = (if is_write e then e # writes es else writes es)"
  "writes (es @ fs) = writes es @ writes fs"
  by (simp_all add: writes_def)

text \<open>Calls to the API server that answered without an error.\<close>

fun succeeded :: "effect \<Rightarrow> bool" where
  "succeeded (Got _ _ r) = ok r"
| "succeeded (Listed _ _ _ r) = ok r"
| "succeeded (Create _ b) = b"
| "succeeded (Update _ b) = b"
| "succeeded (StatusUpdate _ r) = ok r"
| "succeeded (Delete _ b) = b"
| "succeeded _ = True"

end
