(* ===== verification/Events.thy ===== *)
theory Events
  imports Platform
begin

text \<open>The event reasons of \<open>operator/internal/utils/events.go\<close>.\<close>

definition ReasonServerInitialized :: string where
  "ReasonServerInitialized = ''ServerInitialized''"
definition ReasonServerDeletionAllowed :: string where
  "ReasonServerDeletionAllowed = ''ServerDeletionAllowed''"
definition ReasonServerDeletionNotAllowed :: string where
  "ReasonServerDeletionNotAllowed = ''ServerDeletionNotAllowed''"
definition ReasonServerPodDeleted :: string where
  "ReasonServerPodDeleted = ''ServerPodDeleted''"
definition ReasonServerPodCreationFailed :: string where
  "ReasonServerPodCreationFailed = ''ServerPodCreationFailed''"
definition ReasonServerUpdateFAiled :: string where
  "ReasonServerUpdateFAiled = ''ServerUpdateFailed''"

definition ReasonFleetInitialized :: string where
  "ReasonFleetInitialized = ''FleetInitialized''"
definition ReasonFleetUpdateFailed :: string where
  "ReasonFleetUpdateFailed = ''FleetUpdateFailed''"
definition ReasonFleetServersRemoved :: string where
  "ReasonFleetServersRemoved = ''FleetServersRemoved''"
definition ReasonFleetScaleServers :: string where
  "ReasonFleetScaleServers = ''FleetScaleServers''"

definition ReasonGametypeInitialized :: string where
  "ReasonGametypeInitialized = ''GametypeInitialized''"
definition ReasonGameTypeDeleting :: string where
  "ReasonGameTypeDeleting = ''GameTypeDeleting''"
definition ReasonGametypeServersDeleted :: string where
  "ReasonGametypeServersDeleted = ''GametypeServersDeleted''"
definition ReasonGametypeSpecUpdated :: string where
  "ReasonGametypeSpecUpdated = ''GametypeSpecUpdated''"
definition ReasonGametypeReplicasUpdated :: string where
  "ReasonGametypeReplicasUpdated = ''GametypeReplicasUpdated''"

definition ReasonGameAutoscalerInvalidServer :: string where
  "ReasonGameAutoscalerInvalidServer = ''GameAutoscalerInvalidServer''"
definition ReasonGameAutoscalerInvalidAutoscalePolicy :: string where
  "ReasonGameAutoscalerInvalidAutoscalePolicy = ''GameautoscalerInvalidAutoscalePolicy''"
definition ReasonGameAutoscalerInvalidSyncType :: string where
  "ReasonGameAutoscalerInvalidSyncType = ''GameautoscalerInvalidSyncType''"
definition ReasonGameautoscalerWebhook :: string where
  "ReasonGameautoscalerWebhook = ''GameautoscalerWebhook''"
definition ReasonGameautoscalerScale :: string where
  "ReasonGameautoscalerScale = ''GameautoscalerScale''"

end
