(* ===== verification/Builders.thy ===== *)
theory Builders
  imports Events
begin

text \<open>
  The objects the controllers create for one another: the pod of a server
  (\<open>utils/pod.go\<close>), a server of a fleet (\<open>utils/server.go\<close>) and a fleet of a game
  type (\<open>utils/gametype.go\<close>). Each builder copies the parent's label map by reference
  and writes its own key into it, so it returns the parent as the write leaves it beside
  the child. Slices are values here (\<open>goslice\<close>): the objects come from the client as deep copies, and an
  \<open>append\<close> to a slice of a deep copy allocates (\<open>append_to_copy\<close> in \<open>GoHeap\<close>), so that what
  \<open>getPodSpec\<close> does to the containers never reaches the server. The locale \<open>owned_child\<close> is the contract the list calls of the controllers
  rely on; the three builders are interpretations of it.
\<close>

section \<open>groupversion\_info.go\<close>

definition GroupVersion_WithKind :: "string \<Rightarrow> string \<times> string \<times> string" where
  "GroupVersion_WithKind kind = (''network.unfamousthomas.me'', ''v1alpha1'', kind)"

section \<open>pod.go\<close>

definition addContainer :: "PodSpec \<Rightarrow> Container \<Rightarrow> PodSpec" where
  "addContainer spec container = spec\<lparr>Containers := goAppend (Containers spec) [container]\<rparr>"

definition defaultSidecarImage :: string where
  "defaultSidecarImage = ''ghcr.io/unfamousthomas/sidecar:latest''"

definition sidecarContainer :: "string \<Rightarrow> Container" where
  "sidecarContainer sidecarImage = \<lparr>containerName = ''loputoo-sidecar'', Image = sidecarImage,
     Ports = Some [\<lparr>portName = ''http'', containerPort = 8080\<rparr>],
     ImagePullPolicy = ''IfNotPresent'', Env = None, containerOther = []\<rparr>"

text \<open>The body of the loop over the containers: the variables every container gets.\<close>

definition withServerEnv :: "Server \<Rightarrow> Container \<Rightarrow> Container" where
  "withServerEnv server container =
     container\<lparr>Env := goAppend (Env container)
       ([EnvValue ''CONTAINER_IMAGE'' (Image container)]
       @ [EnvValue ''SERVER_NAME'' (Name (server_meta server))]
       @ (case labelOf (server_meta server) ''fleet'' of
            None \<Rightarrow> [] | Some fleet \<Rightarrow> [EnvValue ''FLEET_NAME'' fleet])
       @ (case labelOf (server_meta server) ''type'' of
            None \<Rightarrow> [] | Some fleet \<Rightarrow> [EnvValue ''GAME_NAME'' fleet])
       @ [EnvFieldRef ''POD_IP'' ''status.podIP'' '''']
       @ [EnvFieldRef ''NODE_NAME'' ''spec.nodeName'' ''v1''])\<rparr>"

definition getPodSpec :: "'w platform \<Rightarrow> Server \<Rightarrow> PodSpec \<times> bool" where
  "getPodSpec P server =
     (let spec = server_spec server;
          envImage = getenv P ''SIDECAR_IMAGE'';
          defaultImage = (envImage = '''');
          sidecarImage = (if defaultImage then defaultSidecarImage else envImage);
          pod = addContainer (Pod spec) (sidecarContainer sidecarImage);
          pod = pod\<lparr>Containers := map_option (map (withServerEnv server)) (Containers pod)\<rparr>;
          pod = pod\<lparr>ImagePullSecrets := goAppend (ImagePullSecrets pod) [getenv P ''IMAGE_PULL_SECRET_NAME'']\<rparr>
      in (pod, defaultImage))"

definition GetNewPod :: "'w platform \<Rightarrow> Server \<Rightarrow> string \<Rightarrow> Pod \<times> bool \<times> Server" where
  "GetNewPod P server namespace =
     (let m = server_meta server;
          labels = labelsOrEmpty (Labels m);
          (spec, defaultImage) = getPodSpec P server;
          pod = \<lparr>pod_meta = emptyMeta\<lparr>Name := Name m @ ''-pod'', Namespace := namespace,
                   Labels := Some (labels(''server'' \<mapsto> Name m)),
                   OwnerReferences := [newControllerRef P m (GroupVersion_WithKind ''Server'')]\<rparr>,
                 pod_spec = spec, Phase = '''', PodIP = ''''\<rparr>
      in (pod, defaultImage,
          server\<lparr>server_meta := m\<lparr>Labels := labelsAfterWrite (Labels m) ''server'' (Name m)\<rparr>\<rparr>))"

section \<open>server.go\<close>

definition CreateServerForFleet :: "'w platform \<Rightarrow> Fleet \<Rightarrow> string \<Rightarrow> Server \<times> Fleet" where
  "CreateServerForFleet P fleet namespace =
     (let m = fleet_meta fleet;
          labels = labelsOrEmpty (Labels m);
          fleet' = fleet\<lparr>fleet_meta := m\<lparr>Labels := labelsAfterWrite (Labels m) ''fleet'' (Name m)\<rparr>\<rparr>
      in (\<lparr>server_meta = emptyMeta\<lparr>GenerateName := Name m @ ''-'', Namespace := namespace,
             Labels := Some (labels(''fleet'' \<mapsto> Name m)),
             OwnerReferences := [newControllerRef P (fleet_meta fleet')
               (GroupVersion_WithKind ''Fleet'')]\<rparr>,
           server_spec = ServerSpec (fleet_spec fleet),
           server_status = \<lparr>ServerConditions = []\<rparr>\<rparr>, fleet'))"

section \<open>gametype.go\<close>

definition GetFleetObjectForType :: "'w platform \<Rightarrow> GameType \<Rightarrow> Fleet \<times> GameType" where
  "GetFleetObjectForType P gametype =
     (let m = gametype_meta gametype;
          labels = labelsOrEmpty (Labels m);
          gametype' = gametype\<lparr>gametype_meta :=
            m\<lparr>Labels := labelsAfterWrite (Labels m) ''type'' (Name m)\<rparr>\<rparr>
      in (\<lparr>fleet_meta = emptyMeta\<lparr>GenerateName := Name m @ ''-'', Namespace := Namespace m,
             Labels := Some (labels(''type'' \<mapsto> Name m)),
             OwnerReferences := [newControllerRef P (gametype_meta gametype')
               (GroupVersion_WithKind ''GameType'')]\<rparr>,
           fleet_spec = FleetSpec gametype,
           fleet_status = \<lparr>FleetConditions = [], CurrentReplicas = 0\<rparr>\<rparr>, gametype'))"

section \<open>The contract of a builder\<close>

text \<open>The label selector of a list call (\<open>client.MatchingLabels\<close>).\<close>

definition matchingLabels :: "(string \<times> string) list \<Rightarrow> ObjectMeta \<Rightarrow> bool" where
  "matchingLabels sel m \<longleftrightarrow> (\<forall>(k, v) \<in> set sel. labelOf m k = Some v)"

locale owned_child =
  fixes parent_meta :: "'p \<Rightarrow> ObjectMeta"
    and child_meta :: "'p \<Rightarrow> ObjectMeta"
    and key :: string
  assumes child_label: "labelOf (child_meta p) key = Some (Name (parent_meta p))"
    and child_inherits: "k \<noteq> key \<Longrightarrow> labelOf (child_meta p) k = labelOf (parent_meta p) k"
    and child_fresh: "Finalizers (child_meta p) = []" "DeletionTimestamp (child_meta p) = None"
begin

lemma child_selected: "matchingLabels [(key, Name (parent_meta p))] (child_meta p)"
  by (simp add: matchingLabels_def child_label)

lemma child_selected_iff:
  "matchingLabels [(key, n)] (child_meta p) \<longleftrightarrow> n = Name (parent_meta p)"
  by (auto simp: matchingLabels_def child_label)

lemma siblings_apart:
  "Name (parent_meta p) \<noteq> Name (parent_meta q) \<Longrightarrow>
     \<not> matchingLabels [(key, Name (parent_meta q))] (child_meta p)"
  by (simp add: child_selected_iff)

lemma inherited_selected:
  "key \<notin> fst ` set sel \<Longrightarrow> matchingLabels sel (child_meta p) \<longleftrightarrow> matchingLabels sel (parent_meta p)"
proof -
  assume "key \<notin> fst ` set sel"
  then have "k \<noteq> key" if "(k, v) \<in> set sel" for k v
    using that by force
  then show ?thesis
    by (auto simp: matchingLabels_def child_inherits)
qed

end

lemmas builder_defs = GetNewPod_def CreateServerForFleet_def GetFleetObjectForType_def
  getPodSpec_def labelOf_def labelsOrEmpty_def labelsAfterWrite_def emptyMeta_def Let_def

interpretation pod_of_server: owned_child server_meta
    "\<lambda>server. pod_meta (fst (GetNewPod P server namespace))" "''server''"
  by unfold_locales (simp_all add: builder_defs)

interpretation server_of_fleet: owned_child fleet_meta
    "\<lambda>fleet. server_meta (fst (CreateServerForFleet P fleet namespace))" "''fleet''"
  by unfold_locales (simp_all add: builder_defs)

interpretation fleet_of_gametype: owned_child gametype_meta
    "\<lambda>gametype. fleet_meta (fst (GetFleetObjectForType P gametype))" "''type''"
  by unfold_locales (simp_all add: builder_defs)

section \<open>What the builders give\<close>

text \<open>The in-place label write never changes what a label selector sees under another key.\<close>

lemma GetNewPod_server_frame [meta_simps]:
  assumes "GetNewPod P server namespace = (pod, dflt, server')"
  shows "server_spec server' = server_spec server"
    and "server_status server' = server_status server"
    and "Name (server_meta server') = Name (server_meta server)"
    and "Namespace (server_meta server') = Namespace (server_meta server)"
    and "Finalizers (server_meta server') = Finalizers (server_meta server)"
    and "DeletionTimestamp (server_meta server') = DeletionTimestamp (server_meta server)"
  using assms by (auto simp: builder_defs)

lemma GetNewPod_spec:
  assumes "GetNewPod P server namespace = (pod, dflt, server')"
  shows "pod_spec pod = fst (getPodSpec P server)"
  using assms by (auto simp: GetNewPod_def Let_def split: prod.splits)

lemma GetNewPod_name:
  assumes "GetNewPod P server (Namespace (server_meta server)) = (pod, dflt, server')"
  shows "namespacedName (pod_meta pod) = podNameOf server"
  using assms by (auto simp: builder_defs namespacedName_def podNameOf_def podKey_def)

lemma CreateServerForFleet_frame [meta_simps]:
  assumes "CreateServerForFleet P fleet namespace = (server, fleet')"
  shows "fleet_spec fleet' = fleet_spec fleet"
    and "fleet_status fleet' = fleet_status fleet"
    and "Name (fleet_meta fleet') = Name (fleet_meta fleet)"
    and "Namespace (fleet_meta fleet') = Namespace (fleet_meta fleet)"
    and "Finalizers (fleet_meta fleet') = Finalizers (fleet_meta fleet)"
    and "DeletionTimestamp (fleet_meta fleet') = DeletionTimestamp (fleet_meta fleet)"
  using assms by (auto simp: builder_defs)

lemma GetFleetObjectForType_frame [meta_simps]:
  assumes "GetFleetObjectForType P gametype = (fleet, gametype')"
  shows "FleetSpec gametype' = FleetSpec gametype"
    and "gametype_status gametype' = gametype_status gametype"
    and "Name (gametype_meta gametype') = Name (gametype_meta gametype)"
    and "Namespace (gametype_meta gametype') = Namespace (gametype_meta gametype)"
    and "Finalizers (gametype_meta gametype') = Finalizers (gametype_meta gametype)"
    and "DeletionTimestamp (gametype_meta gametype') = DeletionTimestamp (gametype_meta gametype)"
  using assms by (auto simp: builder_defs)

end
