(* ===== verification/SidecarClient.thy ===== *)
theory SidecarClient
  imports Builders
begin

text \<open>
  The operator's side of the sidecar protocol: \<open>utils/sidecar_requests.go\<close>,
  \<open>utils/server_communication.go\<close> and the checker of \<open>utils/fleet_deletion.go\<close>. The
  interfaces \<open>utils.Deletion\<close> and \<open>utils.FleetDeletionChecker\<close>, through which the
  controllers use them, are locales: a check never writes to the cluster.
\<close>

section \<open>sidecar\_requests.go\<close>

definition buildPodBaseAddress :: "Pod \<Rightarrow> string" where
  "buildPodBaseAddress pod = ''http://'' @ PodIP pod @ '':8080/''"

definition IsDeleteAllowed :: "'w platform \<Rightarrow> Pod \<Rightarrow> ('w world, error + bool) state" where
  "IsDeleteAllowed P pod = do {
     resp \<leftarrow> HttpDo P \<lparr>reqMethod = ''GET'', reqUrl = buildPodBaseAddress pod @ ''allow_delete'',
       reqBody = None\<rparr>;
     return (case resp of
       Inl err \<Rightarrow> Inl err
     | Inr resp \<Rightarrow>
         if StatusCode resp \<noteq> StatusOK then Inl (newError (''GET request returned: '' @ Status resp))
         else (case respBody resp of
             Inl err \<Rightarrow> Inl err
           | Inr (_, Inl err) \<Rightarrow> Inl err
           | Inr (_, Inr j) \<Rightarrow> decodeFlag ''allowed'' j))
   }"

definition RequestShutdown :: "'w platform \<Rightarrow> Pod \<Rightarrow> ('w world, error + unit) state" where
  "RequestShutdown P pod = do {
     resp \<leftarrow> HttpDo P \<lparr>reqMethod = ''POST'', reqUrl = buildPodBaseAddress pod @ ''shutdown'',
       reqBody = Some (encodeFlag ''shutdown'' True)\<rparr>;
     return (case resp of
       Inl err \<Rightarrow> Inl err
     | Inr resp \<Rightarrow>
         if StatusCode resp \<noteq> StatusOK then Inl (newError (''POST request returned: '' @ Status resp))
         else Inr ())
   }"

section \<open>server\_communication.go\<close>

text \<open>
  \<open>server.GetDeletionTimestamp().Time\<close> dereferences a nil pointer when the server is not being
  deleted: the outcome is \<open>Panic\<close>.
\<close>

definition askSidecar :: "'w platform \<Rightarrow> Pod \<Rightarrow> ('w world, error + bool) state" where
  "askSidecar P pod = do {
     err \<leftarrow> RequestShutdown P pod;
     case err of
       Inl err \<Rightarrow> return (Inl err)
     | Inr _ \<Rightarrow> IsDeleteAllowed P pod
   }"

definition IsDeletionAllowed ::
    "'w platform \<Rightarrow> Server \<Rightarrow> Pod \<Rightarrow> ('w world, (error + bool) outcome) state" where
  "IsDeletionAllowed P server pod =
     (if Phase pod \<noteq> PodRunning then return (Done (Inr True))
      else if AllowForceDelete (server_spec server) then return (Done (Inr True))
      else (case TimeOut (server_spec server) of
          None \<Rightarrow> do { allowed \<leftarrow> askSidecar P pod; return (Done allowed) }
        | Some timeout \<Rightarrow>
            (case DeletionTimestamp (server_meta server) of
               None \<Rightarrow> return Panic
             | Some deletion \<Rightarrow> do {
                 now \<leftarrow> Now P;
                 if deletion + timeout < now then return (Done (Inr True))
                 else do { allowed \<leftarrow> askSidecar P pod; return (Done allowed) }
               })))"

text \<open>
  What the reconciler gets from the interface. It asks only for servers that are being deleted
  (\<open>ServerController.asked_only_when_deleting\<close>), for which there is no panic
  (\<open>deletion_check_returns\<close> below); the value in its place is never seen.
\<close>

definition nilDereference :: error where
  "nilDereference = newError ''runtime error: invalid memory address or nil pointer dereference''"

definition ProdDeletionChecker :: "'w platform \<Rightarrow> Server \<Rightarrow> Pod \<Rightarrow> ('w world, error + bool) state" where
  "ProdDeletionChecker P server pod = do {
     allowed \<leftarrow> IsDeletionAllowed P server pod;
     return (case allowed of Panic \<Rightarrow> Inl nilDereference | Done allowed \<Rightarrow> allowed)
   }"

section \<open>The checker of fleet\_deletion.go\<close>

definition isDeleteAllowed :: "'w platform \<Rightarrow> Server \<Rightarrow> ('w world, error + bool) state" where
  "isDeleteAllowed P server = do {
     got \<leftarrow> GetPod P (podNameOf server);
     case got of
       Inl err \<Rightarrow> return (Inl err)
     | Inr pod \<Rightarrow> do {
         allowed \<leftarrow> IsDeleteAllowed P pod;
         return (case allowed of Inl err \<Rightarrow> Inr False | Inr b \<Rightarrow> Inr b)
       }
   }"

section \<open>The interfaces\<close>

fun is_http :: "effect \<Rightarrow> bool" where
  "is_http (Http _ _) = True"
| "is_http _ = False"

lemma is_http_not_write: "is_http e \<Longrightarrow> \<not> is_write e"
  by (cases e) simp_all

locale deletion_check =
  fixes check :: "Server \<Rightarrow> Pod \<Rightarrow> ('w world, error + bool) state"
  assumes check_http: "emits (check server pod) (\<lambda>r es. list_all is_http es)"
begin

lemma check_writes_nothing: "emits (check server pod) (\<lambda>r es. writes es = [])"
  by (rule emits_weaken [OF check_http]) (auto simp: writes_def filter_empty_conv list_all_iff is_http_not_write)

end

fun is_probe :: "effect \<Rightarrow> bool" where
  "is_probe (Http _ _) = True"
| "is_probe (Got _ _ _) = True"
| "is_probe _ = False"

locale fleet_deletion_check =
  fixes check :: "Server \<Rightarrow> ('w world, error + bool) state"
  assumes check_probes: "emits (check server) (\<lambda>r es. list_all is_probe es)"

lemmas request_defs = IsDeleteAllowed_def RequestShutdown_def askSidecar_def
  IsDeletionAllowed_def ProdDeletionChecker_def isDeleteAllowed_def

lemma deletion_check_returns:
  "beingDeleted (server_meta server) \<Longrightarrow> emits (IsDeletionAllowed P server pod) (\<lambda>r es. r \<noteq> Panic)"
  unfolding IsDeletionAllowed_def askSidecar_def RequestShutdown_def IsDeleteAllowed_def go_simps
  by (intro emits_intros) auto

interpretation prod_deletion: deletion_check "ProdDeletionChecker P"
  by unfold_locales (auto simp: request_defs go_simps intro!: emits_intros)

interpretation prod_fleet_deletion: fleet_deletion_check "isDeleteAllowed P"
  by unfold_locales (auto simp: request_defs go_simps intro!: emits_intros)

end
