(* ===== verification/HttpServer.thy ===== *)
theory HttpServer
  imports Json
begin

text \<open>
  What the three HTTP services (sidecar, service, example webhook) use of \<open>net/http\<close> on
  the serving side. A \<open>ResponseWriter\<close> sends its status once: the first
  \<open>WriteHeader\<close>, or the first \<open>Write\<close>, which sends 200, decides it and later calls are
  ignored; a handler that sends nothing answers 200. A write fails when the connection is
  broken. The methods and paths of the routes are matched as \<open>ServeMux\<close> does for
  patterns without wildcards on a clean path: \<open>GET\<close> also serves \<open>HEAD\<close>, a known
  path with another method is 405, an unknown path 404.
\<close>

record ResponseWriter =
  sentStatus :: "nat option"
  contentType :: "string option"
  sentBody :: "json list"
  broken :: bool

definition newWriter :: "bool \<Rightarrow> ResponseWriter" where
  "newWriter b = \<lparr>sentStatus = None, contentType = None, sentBody = [], broken = b\<rparr>"

definition setContentType :: "string \<Rightarrow> ResponseWriter \<Rightarrow> ResponseWriter" where
  "setContentType t w = (if sentStatus w = None then w\<lparr>contentType := Some t\<rparr> else w)"

definition WriteHeader :: "nat \<Rightarrow> ResponseWriter \<Rightarrow> ResponseWriter" where
  "WriteHeader c w = (if sentStatus w = None then w\<lparr>sentStatus := Some c\<rparr> else w)"

definition Write :: "json \<Rightarrow> ResponseWriter \<Rightarrow> bool \<times> ResponseWriter" where
  "Write j w = (let w = WriteHeader 200 w in
     if broken w then (False, w) else (True, w\<lparr>sentBody := sentBody w @ [j]\<rparr>))"

definition finalStatus :: "ResponseWriter \<Rightarrow> nat" where
  "finalStatus w = (case sentStatus w of None \<Rightarrow> 200 | Some c \<Rightarrow> c)"

text \<open>A request as a handler sees it: its body as \<open>Decode\<close> finds it.\<close>

record Request =
  Method :: string
  URLPath :: string
  Body :: "error + json"

definition methodServes :: "string \<Rightarrow> string \<Rightarrow> bool" where
  "methodServes pattern m \<longleftrightarrow> m = pattern \<or> pattern = ''GET'' \<and> m = ''HEAD''"

lemma writer_simps [simp]:
  "sentStatus (WriteHeader c w) = (case sentStatus w of None \<Rightarrow> Some c | Some d \<Rightarrow> Some d)"
  "sentBody (WriteHeader c w) = sentBody w"
  "broken (WriteHeader c w) = broken w"
  "contentType (WriteHeader c w) = contentType w"
  "sentStatus (setContentType t w) = sentStatus w"
  "sentBody (setContentType t w) = sentBody w"
  "broken (setContentType t w) = broken w"
  "sentStatus (newWriter b) = None" "sentBody (newWriter b) = []" "broken (newWriter b) = b"
  by (auto simp: WriteHeader_def setContentType_def newWriter_def split: option.splits)

lemma Write_simps [simp]:
  "fst (Write j w) \<longleftrightarrow> \<not> broken w"
  "sentStatus (snd (Write j w)) = (case sentStatus w of None \<Rightarrow> Some 200 | Some d \<Rightarrow> Some d)"
  "sentBody (snd (Write j w)) = (if broken w then sentBody w else sentBody w @ [j])"
  "broken (snd (Write j w)) = broken w"
  by (auto simp: Write_def Let_def)

text \<open>The status a response ends with is the first one sent, whatever is called later.\<close>

lemma WriteHeader_after_Write:
  "finalStatus (WriteHeader c (snd (Write j w))) = finalStatus (snd (Write j w))"
  by (simp add: finalStatus_def split: option.splits)

end
