(* ===== verification/Sidecar.thy ===== *)
theory Sidecar
  imports HttpServer
begin

text \<open>
  The sidecar (\<open>sidecar/internal\<close>): two flags, read and written over HTTP, through which the
  game server tells the operator that it may be deleted and the operator tells the game server
  that a shutdown is wanted. Both endpoints have the same contract, the locale
  \<open>flag_endpoint\<close>, which the two pairs of handlers interpret; the routes compose them into
  one step function, and a session is a run of it over the requests the sidecar serves.
\<close>

section \<open>app.go\<close>

record App =
  DeleteAllowed :: bool
  ShutdownRequested :: bool

text \<open>The state \<open>main\<close> starts with.\<close>

definition initialApp :: App where
  "initialApp = \<lparr>DeleteAllowed = False, ShutdownRequested = False\<rparr>"

section \<open>deletion.go and shutdown.go\<close>

text \<open>
  Encoding a boolean struct cannot fail, so \<open>Encode\<close> fails only when the write does; the
  status is sent by then and the handler's own \<open>WriteHeader\<close> comes too late.
\<close>

definition IsDeleteAllowedHandler :: "App \<Rightarrow> ResponseWriter \<Rightarrow> ResponseWriter" where
  "IsDeleteAllowedHandler a w =
     (case Write (encodeFlag ''allowed'' (DeleteAllowed a)) (setContentType ''application/json'' w) of
        (True, w) \<Rightarrow> w
      | (False, w) \<Rightarrow> WriteHeader 400 w)"

definition SetDeleteAllowed :: "App \<Rightarrow> Request \<Rightarrow> ResponseWriter \<Rightarrow> App \<times> ResponseWriter" where
  "SetDeleteAllowed a r w =
     (case (case Body r of Inl e \<Rightarrow> Inl e | Inr j \<Rightarrow> decodeFlag ''allowed'' j) of
        Inl err \<Rightarrow> (a, WriteHeader 400 w)
      | Inr allowed \<Rightarrow>
          let a = a\<lparr>DeleteAllowed := allowed\<rparr> in
          (case Write (encodeFlag ''allowed'' allowed) (setContentType ''application/json'' w) of
             (True, w) \<Rightarrow> (a, w)
           | (False, w) \<Rightarrow> (a, WriteHeader 500 w)))"

definition IsShutdownRequested :: "App \<Rightarrow> ResponseWriter \<Rightarrow> ResponseWriter" where
  "IsShutdownRequested a w =
     (case Write (encodeFlag ''shutdown'' (ShutdownRequested a)) (setContentType ''application/json'' w) of
        (True, w) \<Rightarrow> w
      | (False, w) \<Rightarrow> WriteHeader 400 w)"

definition SetShutdownRequested :: "App \<Rightarrow> Request \<Rightarrow> ResponseWriter \<Rightarrow> App \<times> ResponseWriter" where
  "SetShutdownRequested a r w =
     (case (case Body r of Inl e \<Rightarrow> Inl e | Inr j \<Rightarrow> decodeFlag ''shutdown'' j) of
        Inl err \<Rightarrow> (a, WriteHeader 400 w)
      | Inr shutdown \<Rightarrow>
          let a = a\<lparr>ShutdownRequested := shutdown\<rparr> in
          (case Write (encodeFlag ''shutdown'' shutdown) (setContentType ''application/json'' w) of
             (True, w) \<Rightarrow> (a, w)
           | (False, w) \<Rightarrow> (a, WriteHeader 500 w)))"

section \<open>health.go\<close>

definition Health :: "ResponseWriter \<Rightarrow> ResponseWriter" where
  "Health w = WriteHeader 200 w"

section \<open>routes.go\<close>

definition SidecarServe :: "App \<Rightarrow> Request \<Rightarrow> ResponseWriter \<Rightarrow> App \<times> ResponseWriter" where
  "SidecarServe a r w =
     (if URLPath r = ''/allow_delete'' then
        if methodServes ''GET'' (Method r) then (a, IsDeleteAllowedHandler a w)
        else if methodServes ''POST'' (Method r) then SetDeleteAllowed a r w
        else (a, WriteHeader 405 w)
      else if URLPath r = ''/shutdown'' then
        if methodServes ''GET'' (Method r) then (a, IsShutdownRequested a w)
        else if methodServes ''POST'' (Method r) then SetShutdownRequested a r w
        else (a, WriteHeader 405 w)
      else if URLPath r = ''/health'' then (a, Health w)
      else (a, WriteHeader 404 w))"

text \<open>The requests the sidecar serves, one after the other.\<close>

fun sidecarSession :: "App \<Rightarrow> Request list \<Rightarrow> App" where
  "sidecarSession a [] = a"
| "sidecarSession a (r # rs) = sidecarSession (fst (SidecarServe a r (newWriter False))) rs"

section \<open>The contract of an endpoint\<close>

locale flag_endpoint =
  fixes flag :: "App \<Rightarrow> bool"
    and other :: "App \<Rightarrow> bool"
    and field :: string
    and readH :: "App \<Rightarrow> ResponseWriter \<Rightarrow> ResponseWriter"
    and writeH :: "App \<Rightarrow> Request \<Rightarrow> ResponseWriter \<Rightarrow> App \<times> ResponseWriter"
  assumes read_reports:
      "readH a (newWriter False)
         = snd (Write (encodeFlag field (flag a)) (setContentType ''application/json'' (newWriter False)))"
    and write_stores:
      "Body r = Inr j \<Longrightarrow> decodeFlag field j = Inr b \<Longrightarrow> flag (fst (writeH a r w)) = b"
    and write_rejects_body: "Body r = Inl e \<Longrightarrow> writeH a r w = (a, WriteHeader 400 w)"
    and write_rejects_value:
      "Body r = Inr j \<Longrightarrow> decodeFlag field j = Inl e \<Longrightarrow> writeH a r w = (a, WriteHeader 400 w)"
    and write_frames: "other (fst (writeH a r w)) = other a"
begin

lemma write_then_read:
  assumes "Body r = Inr (encodeFlag field b)"
  shows "sentBody (readH (fst (writeH a r w)) (newWriter False)) = [encodeFlag field b]"
  using assms by (simp add: read_reports write_stores)

lemma rejected_write_is_400:
  "Body r = Inl e \<Longrightarrow> finalStatus (snd (writeH a r (newWriter c))) = 400"
  by (simp add: write_rejects_body finalStatus_def)

end

lemmas sidecar_defs = IsDeleteAllowedHandler_def SetDeleteAllowed_def IsShutdownRequested_def
  SetShutdownRequested_def Health_def SidecarServe_def methodServes_def

interpretation allow_delete: flag_endpoint DeleteAllowed ShutdownRequested "''allowed''"
    IsDeleteAllowedHandler SetDeleteAllowed
  by unfold_locales
    (auto simp: sidecar_defs Let_def prod.case_eq_if bool.case_eq_if split: sum.splits)

interpretation shutdown: flag_endpoint ShutdownRequested DeleteAllowed "''shutdown''"
    IsShutdownRequested SetShutdownRequested
  by unfold_locales
    (auto simp: sidecar_defs Let_def prod.case_eq_if bool.case_eq_if split: sum.splits)

section \<open>Sessions\<close>

lemma sidecarSession_append: "sidecarSession a (rs @ qs) = sidecarSession (sidecarSession a rs) qs"
  by (induction rs arbitrary: a) simp_all

text \<open>The value a request stores under a path, if it is a write that is accepted.\<close>

definition postedFlag :: "string \<Rightarrow> string \<Rightarrow> Request \<Rightarrow> bool option" where
  "postedFlag p field r =
     (if URLPath r = p \<and> Method r = ''POST'' then
        (case Body r of Inl e \<Rightarrow> None | Inr j \<Rightarrow>
          (case decodeFlag field j of Inl e \<Rightarrow> None | Inr b \<Rightarrow> Some b))
      else None)"

fun lastPosted :: "string \<Rightarrow> string \<Rightarrow> bool \<Rightarrow> Request list \<Rightarrow> bool" where
  "lastPosted p field b [] = b"
| "lastPosted p field b (r # rs) =
     lastPosted p field (case postedFlag p field r of None \<Rightarrow> b | Some c \<Rightarrow> c) rs"

context flag_endpoint
begin

lemma write_posted:
  assumes "URLPath r = p" and "Method r = ''POST''"
  shows "flag (fst (writeH a r w)) = (case postedFlag p field r of None \<Rightarrow> flag a | Some c \<Rightarrow> c)"
proof (cases "postedFlag p field r")
  case None
  with assms have "writeH a r w = (a, WriteHeader 400 w)"
    by (auto simp: postedFlag_def intro: write_rejects_body write_rejects_value split: sum.splits)
  with None show ?thesis by simp
next
  case (Some c)
  with assms obtain j where "Body r = Inr j" "decodeFlag field j = Inr c"
    by (auto simp: postedFlag_def split: sum.splits)
  with Some show ?thesis by (simp add: write_stores)
qed

end

lemma serve_DeleteAllowed:
  "DeleteAllowed (fst (SidecarServe a r w))
     = (case postedFlag ''/allow_delete'' ''allowed'' r of None \<Rightarrow> DeleteAllowed a | Some c \<Rightarrow> c)"
proof (cases "URLPath r = ''/allow_delete'' \<and> Method r = ''POST''")
  case True
  then have "fst (SidecarServe a r w) = fst (SetDeleteAllowed a r w)"
    by (simp add: SidecarServe_def methodServes_def)
  with True allow_delete.write_posted [of r "''/allow_delete''" a w] show ?thesis by simp
next
  case False
  with shutdown.write_frames [of a r w] show ?thesis
    by (auto simp: SidecarServe_def methodServes_def postedFlag_def)
qed

lemma serve_ShutdownRequested:
  "ShutdownRequested (fst (SidecarServe a r w))
     = (case postedFlag ''/shutdown'' ''shutdown'' r of None \<Rightarrow> ShutdownRequested a | Some c \<Rightarrow> c)"
proof (cases "URLPath r = ''/shutdown'' \<and> Method r = ''POST''")
  case True
  then have "fst (SidecarServe a r w) = fst (SetShutdownRequested a r w)"
    by (simp add: SidecarServe_def methodServes_def)
  with True shutdown.write_posted [of r "''/shutdown''" a w] show ?thesis by simp
next
  case False
  with allow_delete.write_frames [of a r w] show ?thesis
    by (auto simp: SidecarServe_def methodServes_def postedFlag_def)
qed

text \<open>
  C20: Whatever requests the sidecar serves, and in whatever order, each of its two flags holds
  the value of the last accepted POST to its own path (or its initial value): reads, rejected
  bodies and traffic on the other path never change it.
\<close>

theorem sidecar_last_write_wins:
  "sidecarSession a rs =
     \<lparr>DeleteAllowed = lastPosted ''/allow_delete'' ''allowed'' (DeleteAllowed a) rs,
      ShutdownRequested = lastPosted ''/shutdown'' ''shutdown'' (ShutdownRequested a) rs\<rparr>"
proof (induction rs arbitrary: a)
  case Nil
  then show ?case by simp
next
  case (Cons r rs)
  then show ?case by (simp add: serve_DeleteAllowed serve_ShutdownRequested)
qed

end
