(* ===== verification/MemCluster.thy ===== *)
theory MemCluster
  imports SidecarClient Sidecar
begin

text \<open>
  A cluster in memory, as one instance of the platform parameter: it shows that the hypotheses
  the properties make of the platform can hold together, and it is where the witnesses run. It
  follows the documented behaviour of the API server as far as the controllers can see it: an
  object is identified by kind, namespace and name; a create with \<open>generateName\<close> draws a
  fresh suffix and stamps the creation time; a delete removes an object without finalizers and
  otherwise stamps the deletion time; an update of an object that is being deleted and has no
  finalizer left removes it; a status update changes the status only; a list filters by
  namespace and labels. An HTTP request to the address of a pod is served by the sidecar model, and one to another address has a fixed answer.
  No property is about this cluster alone.
\<close>

record cluster =
  mem_servers :: "Server list"
  mem_fleets :: "Fleet list"
  mem_gametypes :: "GameType list"
  mem_autoscalers :: "GameAutoscaler list"
  mem_pods :: "Pod list"
  mem_sidecars :: "(string \<times> App) list"
  mem_web :: "(string \<times> HttpResponse) list"
  clock :: time
  nextName :: nat

definition emptyCluster :: cluster where
  "emptyCluster = \<lparr>mem_servers = [], mem_fleets = [], mem_gametypes = [], mem_autoscalers = [], mem_pods = [],
     mem_sidecars = [], mem_web = [], clock = 1000, nextName = 0\<rparr>"

definition notFoundError :: error where
  "notFoundError = \<lparr>errText = ''not found'', errNotFound = True\<rparr>"

section \<open>One kind of object\<close>

definition memFind :: "('a \<Rightarrow> ObjectMeta) \<Rightarrow> 'a list \<Rightarrow> NamespacedName \<Rightarrow> error + 'a" where
  "memFind meta xs k =
     (case find (\<lambda>x. namespacedName (meta x) = k) xs of None \<Rightarrow> Inl notFoundError | Some x \<Rightarrow> Inr x)"

definition memSelect :: "('a \<Rightarrow> ObjectMeta) \<Rightarrow> string option \<Rightarrow> (string \<times> string) list \<Rightarrow> 'a list \<Rightarrow> 'a list" where
  "memSelect meta ns sel xs = filter (\<lambda>x. (case ns of None \<Rightarrow> True | Some n \<Rightarrow> Namespace (meta x) = n)
     \<and> matchingLabels sel (meta x)) xs"

definition memStamp :: "cluster \<Rightarrow> ObjectMeta \<Rightarrow> ObjectMeta" where
  "memStamp c m = m\<lparr>Name := (if Name m = [] then GenerateName m @ string_of_nat (nextName c) else Name m),
     CreationTimestamp := clock c\<rparr>"

definition memReplace :: "('a \<Rightarrow> ObjectMeta) \<Rightarrow> 'a \<Rightarrow> 'a list \<Rightarrow> 'a list" where
  "memReplace meta x xs =
     (if DeletionTimestamp (meta x) \<noteq> None \<and> Finalizers (meta x) = []
      then filter (\<lambda>y. namespacedName (meta y) \<noteq> namespacedName (meta x)) xs
      else map (\<lambda>y. if namespacedName (meta y) = namespacedName (meta x) then x else y) xs)"

definition memDelete :: "('a \<Rightarrow> ObjectMeta) \<Rightarrow> ((ObjectMeta \<Rightarrow> ObjectMeta) \<Rightarrow> 'a \<Rightarrow> 'a) \<Rightarrow> time \<Rightarrow> 'a
    \<Rightarrow> 'a list \<Rightarrow> error + 'a list" where
  "memDelete meta upd now x xs =
     (case memFind meta xs (namespacedName (meta x)) of
        Inl e \<Rightarrow> Inl e
      | Inr y \<Rightarrow>
          Inr (if Finalizers (meta y) = []
               then filter (\<lambda>z. namespacedName (meta z) \<noteq> namespacedName (meta x)) xs
               else map (\<lambda>z. if namespacedName (meta z) = namespacedName (meta x)
                   then upd (\<lambda>m. m\<lparr>DeletionTimestamp :=
                     (case DeletionTimestamp m of None \<Rightarrow> Some now | Some t \<Rightarrow> Some t)\<rparr>) z
                   else z) xs))"

section \<open>The operations\<close>

definition memRead :: "(cluster \<Rightarrow> error + 'a) \<Rightarrow> (cluster, 'a) op" where
  "memRead f c = (f c, c)"

definition memCreateWith :: "('a \<Rightarrow> ObjectMeta) \<Rightarrow> ((ObjectMeta \<Rightarrow> ObjectMeta) \<Rightarrow> 'a \<Rightarrow> 'a)
    \<Rightarrow> (cluster \<Rightarrow> 'a list) \<Rightarrow> (('a list \<Rightarrow> 'a list) \<Rightarrow> cluster \<Rightarrow> cluster) \<Rightarrow> 'a \<Rightarrow> (cluster, 'a) op" where
  "memCreateWith meta upd sel put x c =
     (let x = upd (memStamp c) x in
      if ok (memFind meta (sel c) (namespacedName (meta x)))
      then (Inl (newError ''already exists''), c)
      else (Inr x, put (\<lambda>xs. xs @ [x]) (c\<lparr>nextName := Suc (nextName c)\<rparr>)))"

definition memUpdateWith :: "('a \<Rightarrow> ObjectMeta) \<Rightarrow> (cluster \<Rightarrow> 'a list)
    \<Rightarrow> (('a list \<Rightarrow> 'a list) \<Rightarrow> cluster \<Rightarrow> cluster) \<Rightarrow> 'a \<Rightarrow> (cluster, 'a) op" where
  "memUpdateWith meta sel put x c =
     (case memFind meta (sel c) (namespacedName (meta x)) of
        Inl e \<Rightarrow> (Inl e, c)
      | Inr _ \<Rightarrow> (Inr x, put (memReplace meta x) c))"

definition memStatusWith :: "('a \<Rightarrow> ObjectMeta) \<Rightarrow> ('a \<Rightarrow> 'a \<Rightarrow> 'a) \<Rightarrow> (cluster \<Rightarrow> 'a list)
    \<Rightarrow> (('a list \<Rightarrow> 'a list) \<Rightarrow> cluster \<Rightarrow> cluster) \<Rightarrow> 'a \<Rightarrow> (cluster, 'a) op" where
  "memStatusWith meta copyStatus sel put x c =
     (case memFind meta (sel c) (namespacedName (meta x)) of
        Inl e \<Rightarrow> (Inl e, c)
      | Inr y \<Rightarrow> (Inr (copyStatus x y), put (memReplace meta (copyStatus x y)) c))"

definition memDeleteWith :: "('a \<Rightarrow> ObjectMeta) \<Rightarrow> ((ObjectMeta \<Rightarrow> ObjectMeta) \<Rightarrow> 'a \<Rightarrow> 'a)
    \<Rightarrow> (cluster \<Rightarrow> 'a list) \<Rightarrow> (('a list \<Rightarrow> 'a list) \<Rightarrow> cluster \<Rightarrow> cluster) \<Rightarrow> 'a \<Rightarrow> (cluster, unit) op" where
  "memDeleteWith meta upd sel put x c =
     (case memDelete meta upd (clock c) x (sel c) of
        Inl e \<Rightarrow> (Inl e, c)
      | Inr xs \<Rightarrow> (Inr (), put (\<lambda>_. xs) c))"

definition sidecarUrl :: "string \<Rightarrow> string" where
  "sidecarUrl ip = ''http://'' @ ip @ '':8080''"

fun memHttp :: "(string \<times> App) list \<Rightarrow> HttpRequest \<Rightarrow> (error + HttpResponse) \<times> (string \<times> App) list" where
  "memHttp [] q = (Inl (newError ''connection refused''), [])"
| "memHttp ((ip, a) # as) q =
     (let n = length (sidecarUrl ip) in
      if take n (reqUrl q) = sidecarUrl ip then
        (case SidecarServe a \<lparr>Method = reqMethod q, URLPath = drop n (reqUrl q),
             Body = (case reqBody q of None \<Rightarrow> Inl (newError ''EOF'') | Some j \<Rightarrow> Inr j)\<rparr> (newWriter False) of
           (a', w) \<Rightarrow>
             (Inr \<lparr>StatusCode = finalStatus w, Status = string_of_nat (finalStatus w),
                 respBody = Inr ([], case sentBody w of [] \<Rightarrow> Inl (newError ''EOF'') | j # _ \<Rightarrow> Inr j)\<rparr>,
              (ip, a') # as))
      else (case memHttp as q of (r, as') \<Rightarrow> (r, (ip, a) # as')))"

text \<open>The reference instances of the pure helpers.\<close>

definition refAddFinalizer :: "string list \<Rightarrow> string \<Rightarrow> string list" where
  "refAddFinalizer fs f = (if f \<in> set fs then fs else fs @ [f])"

definition refSetStatusCondition :: "Condition list \<Rightarrow> Condition \<Rightarrow> Condition list" where
  "refSetStatusCondition cs c =
     (if condType c \<in> condType ` set cs
      then map (\<lambda>d. if condType d = condType c then c else d) cs else cs @ [c])"

definition memPlatform :: "cluster platform" where
  "memPlatform = \<lparr>
     getServer = (\<lambda>k. memRead (\<lambda>c. memFind server_meta (mem_servers c) k)),
     getFleet = (\<lambda>k. memRead (\<lambda>c. memFind fleet_meta (mem_fleets c) k)),
     getGameType = (\<lambda>k. memRead (\<lambda>c. memFind gametype_meta (mem_gametypes c) k)),
     getGameAutoscaler = (\<lambda>k. memRead (\<lambda>c. memFind autoscaler_meta (mem_autoscalers c) k)),
     getPod = (\<lambda>k. memRead (\<lambda>c. memFind pod_meta (mem_pods c) k)),
     listServer = (\<lambda>ns sel. memRead (\<lambda>c. Inr (memSelect server_meta ns sel (mem_servers c)))),
     listFleet = (\<lambda>ns sel. memRead (\<lambda>c. Inr (memSelect fleet_meta ns sel (mem_fleets c)))),
     createServer = memCreateWith server_meta server_meta_update mem_servers mem_servers_update,
     createFleet = memCreateWith fleet_meta fleet_meta_update mem_fleets mem_fleets_update,
     createPod = memCreateWith pod_meta pod_meta_update mem_pods mem_pods_update,
     updateServer = memUpdateWith server_meta mem_servers mem_servers_update,
     updateFleet = memUpdateWith fleet_meta mem_fleets mem_fleets_update,
     updateGameType = memUpdateWith gametype_meta mem_gametypes mem_gametypes_update,
     updatePod = memUpdateWith pod_meta mem_pods mem_pods_update,
     statusUpdateServer = memStatusWith server_meta (\<lambda>x y. y\<lparr>server_status := server_status x\<rparr>)
       mem_servers mem_servers_update,
     statusUpdateFleet = memStatusWith fleet_meta (\<lambda>x y. y\<lparr>fleet_status := fleet_status x\<rparr>)
       mem_fleets mem_fleets_update,
     statusUpdateGameType = memStatusWith gametype_meta (\<lambda>x y. y\<lparr>gametype_status := gametype_status x\<rparr>)
       mem_gametypes mem_gametypes_update,
     deleteServer = memDeleteWith server_meta server_meta_update mem_servers mem_servers_update,
     deleteFleet = memDeleteWith fleet_meta fleet_meta_update mem_fleets mem_fleets_update,
     deletePod = memDeleteWith pod_meta pod_meta_update mem_pods mem_pods_update,
     httpDo = (\<lambda>q c. case map_of (mem_web c) (reqUrl q) of
         Some r \<Rightarrow> (Inr r, c)
       | None \<Rightarrow> (case memHttp (mem_sidecars c) q of (r, as) \<Rightarrow> (r, c\<lparr>mem_sidecars := as\<rparr>))),
     timeNow = (\<lambda>c. (clock c, c)),
     getenv = (\<lambda>_. []),
     containsFinalizer = (\<lambda>fs f. f \<in> set fs),
     addFinalizer = refAddFinalizer,
     removeFinalizer = (\<lambda>fs f. removeAll f fs),
     setStatusCondition = refSetStatusCondition,
     newControllerRef = (\<lambda>m (group, version, kind).
       \<lparr>ownerKind = kind, ownerName = Name m, ownerController = True\<rparr>),
     setControllerReference = (\<lambda>owner m. Inr m)\<rparr>"

lemmas mem_defs = memPlatform_def memRead_def memFind_def memSelect_def memCreateWith_def
  memUpdateWith_def memStatusWith_def memDeleteWith_def memStamp_def memReplace_def memDelete_def
  refAddFinalizer_def refSetStatusCondition_def notFoundError_def sidecarUrl_def

lemma mem_finalizer_laws: "finalizer_laws memPlatform"
  by (auto simp: finalizer_laws_def memPlatform_def refAddFinalizer_def)

section \<open>Example objects\<close>

definition exampleContainer :: Container where
  "exampleContainer = \<lparr>containerName = ''game'', Image = ''nginx:latest'', Ports = None,
     ImagePullPolicy = '''', Env = None, containerOther = []\<rparr>"

definition exampleSpec :: ServerSpec where
  "exampleSpec = \<lparr>Pod = \<lparr>Containers = Some [exampleContainer], ImagePullSecrets = None, podOther = []\<rparr>,
     TimeOut = Some (5 * Minute), AllowForceDelete = False\<rparr>"

definition exampleServer :: "string \<Rightarrow> Server" where
  "exampleServer n = \<lparr>server_meta = emptyMeta\<lparr>Name := n, Namespace := ''default''\<rparr>,
     server_spec = exampleSpec, server_status = \<lparr>ServerConditions = []\<rparr>\<rparr>"

definition examplePod :: "string \<Rightarrow> Pod" where
  "examplePod n = \<lparr>pod_meta = emptyMeta\<lparr>Name := n @ ''-pod'', Namespace := ''default''\<rparr>,
     pod_spec = Pod exampleSpec, Phase = ''Running'', PodIP = ''10.0.0.1''\<rparr>"

lemmas example_defs = exampleContainer_def exampleSpec_def exampleServer_def examplePod_def
  emptyCluster_def newWorld_def emptyMeta_def

end
