(* ===== verification/ServerController.thy ===== *)
theory ServerController
  imports MemCluster
begin

text \<open>
  \<open>operator/internal/controller/server_controller.go\<close>: a server owns one pod. The reconciler
  puts a finalizer on the server and on the pod, and takes them off again only after the
  deletion check (\<open>utils.Deletion\<close>) has allowed it and the pod is deleted. A Go method that
  changes the server it is given returns it changed.
\<close>

section \<open>The reconciler\<close>

definition SERVER_FINALIZER :: string where
  "SERVER_FINALIZER = ''servers.unfamousthomas.me/finalizer''"

record 'w ServerReconciler =
  ErrorOnNotAllowed :: bool
  DeletionAllowed :: "Server \<Rightarrow> Pod \<Rightarrow> ('w world, error + bool) state"

definition mapServerFinalizers :: "(string list \<Rightarrow> string list) \<Rightarrow> Server \<Rightarrow> Server" where
  "mapServerFinalizers f server =
     server\<lparr>server_meta := (server_meta server)\<lparr>Finalizers := f (Finalizers (server_meta server))\<rparr>\<rparr>"

definition mapPodFinalizers :: "(string list \<Rightarrow> string list) \<Rightarrow> Pod \<Rightarrow> Pod" where
  "mapPodFinalizers f pod =
     pod\<lparr>pod_meta := (pod_meta pod)\<lparr>Finalizers := f (Finalizers (pod_meta pod))\<rparr>\<rparr>"

definition serverHasFinalizer :: "'w platform \<Rightarrow> Server \<Rightarrow> bool" where
  "serverHasFinalizer P server = containsFinalizer P (Finalizers (server_meta server)) SERVER_FINALIZER"

definition podHasFinalizer :: "'w platform \<Rightarrow> Pod \<Rightarrow> bool" where
  "podHasFinalizer P pod = containsFinalizer P (Finalizers (pod_meta pod)) SERVER_FINALIZER"

definition setServerCondition ::
    "'w platform \<Rightarrow> string \<Rightarrow> bool \<Rightarrow> time \<Rightarrow> string \<Rightarrow> string \<Rightarrow> Server \<Rightarrow> Server" where
  "setServerCondition P typ status now reason message server =
     server\<lparr>server_status := (server_status server)\<lparr>ServerConditions :=
       setStatusCondition P (ServerConditions (server_status server))
         \<lparr>condType = typ, condStatus = status, condLastTransitionTime = now,
          condReason = reason, condMessage = message\<rparr>\<rparr>\<rparr>"

subsection \<open>ensurePodExists\<close>

definition createPodFor :: "'w platform \<Rightarrow> Server \<Rightarrow> ('w world, Server \<times> (error + bool)) state" where
  "createPodFor P server = (case GetNewPod P server (Namespace (server_meta server)) of
     (newPod, defaultImg, server) \<Rightarrow> do {
       (if defaultImg
        then emitEvent (ObjServer server) EventTypeNormal ReasonServerInitialized
               ''Setting up sidecar with default image''
        else return ());
       case setControllerReference P (server_meta server) (pod_meta newPod) of
         Inl err \<Rightarrow> do {
           emitEvent (ObjServer server) EventTypeWarning ReasonServerInitialized
             (''failed to set pod owner reference: '' @ errText err);
           return (server, Inl (errorfW ''failed to set controller reference on Pod: '' err))
         }
       | Inr m \<Rightarrow> do {
           created \<leftarrow> CreatePod P (newPod\<lparr>pod_meta := m\<rparr>);
           case created of
             Inl err \<Rightarrow> do {
               now \<leftarrow> Now P;
               let server = setServerCondition P ''PodFailed'' False now ''PodCreationFailed''
                 ''Failed to create the Pod'' server;
               emitEvent (ObjServer server) EventTypeWarning ReasonServerPodCreationFailed
                 (''Pod creation errored: '' @ errText err);
               return (server, Inl err)
             }
           | Inr _ \<Rightarrow> do {
               now \<leftarrow> Now P;
               let server = setServerCondition P ''PodCreated'' True now ''PodCreatedSuccessfully''
                 ''Pod has been successfully created'' server;
               emitEvent (ObjServer server) EventTypeNormal ReasonServerInitialized
                 ''Pod created successfully'';
               return (server, Inr False)
             }
         }
     })"

definition ensurePodExists :: "'w platform \<Rightarrow> Server \<Rightarrow> ('w world, Server \<times> (error + bool)) state" where
  "ensurePodExists P server = do {
     got \<leftarrow> GetPod P (podNameOf server);
     case got of
       Inl err \<Rightarrow>
         if \<not> errNotFound err
         then return (server, Inl (errorfW ''failed to get Pod resource: '' err))
         else createPodFor P server
     | Inr pod \<Rightarrow> return (server, Inr True)
   }"

subsection \<open>handleDeletion\<close>

definition releasePod :: "'w platform \<Rightarrow> Server \<Rightarrow> Pod \<Rightarrow> ('w world, error + Pod) state" where
  "releasePod P server pod =
     (if podHasFinalizer P pod then do {
        let pod = mapPodFinalizers (\<lambda>fs. removeFinalizer P fs SERVER_FINALIZER) pod;
        emitEvent (ObjServer server) EventTypeNormal ReasonServerDeletionAllowed ''Pod finalizer removed'';
        emitEvent (ObjPod pod) EventTypeNormal ReasonServerDeletionAllowed ''Pod finalizer removed'';
        updated \<leftarrow> UpdatePod P pod;
        case updated of
          Inl err \<Rightarrow> return (Inl err)
        | Inr _ \<Rightarrow> GetPod P (podNameOf server)
      } else return (Inr pod))"

definition deletePodOf :: "'w platform \<Rightarrow> Server \<Rightarrow> Pod \<Rightarrow> ('w world, Server \<times> (error + unit)) state" where
  "deletePodOf P server pod = do {
     released \<leftarrow> releasePod P server pod;
     case released of
       Inl err \<Rightarrow> return (server, Inl err)
     | Inr pod \<Rightarrow> do {
         deleted \<leftarrow> DeletePod P pod;
         case deleted of
           Inl err \<Rightarrow> return (server, Inl err)
         | Inr _ \<Rightarrow> do {
             now \<leftarrow> Now P;
             let server = setServerCondition P ''Finalizing'' True now ''PodDeleted''
               ''Pod successfully deleted during finalization'' server;
             emitEvent (ObjServer server) EventTypeNormal ReasonServerPodDeleted
               ''Pod successfully deleted during finalization'';
             return (server, Inr ())
           }
       }
   }"

definition notAllowedError :: error where
  "notAllowedError = newError ''server deletion not allowed''"

definition ServerHandleDeletion ::
    "'w platform \<Rightarrow> 'w ServerReconciler \<Rightarrow> Server \<Rightarrow> ('w world, Server \<times> (error + unit)) state" where
  "ServerHandleDeletion P r server = do {
     got \<leftarrow> GetPod P (podNameOf server);
     case got of
       Inl err \<Rightarrow> return (server, Inl err)
     | Inr pod \<Rightarrow> do {
         answer \<leftarrow> DeletionAllowed r server pod;
         record_effect (Asked server pod answer);
         case answer of
           Inl err \<Rightarrow> do {
             emitEvent (ObjPod pod) EventTypeWarning ReasonServerDeletionNotAllowed
               ''Deletion request did not succeed'';
             emitEvent (ObjServer server) EventTypeWarning ReasonServerDeletionNotAllowed
               ''Deletion request did not succeed'';
             return (server, Inl (errorfS ''failed to check for deletion for server: '' err))
           }
         | Inr allowed \<Rightarrow>
             if \<not> allowed then do {
               emitEvent (ObjPod pod) EventTypeNormal ReasonServerDeletionAllowed
                 ''Server did not respond with allowed'';
               emitEvent (ObjServer server) EventTypeNormal ReasonServerDeletionAllowed
                 ''Server did not respond with allowed'';
               return (server, Inl notAllowedError)
             } else deletePodOf P server pod
       }
   }"

subsection \<open>ensurePodFinalizer\<close>

definition ensurePodFinalizer :: "'w platform \<Rightarrow> Server \<Rightarrow> ('w world, error + bool) state" where
  "ensurePodFinalizer P server = do {
     got \<leftarrow> GetPod P (podNameOf server);
     case got of
       Inl err \<Rightarrow> return (Inl err)
     | Inr pod \<Rightarrow>
         if podHasFinalizer P pod then return (Inr False)
         else do {
           let pod = mapPodFinalizers (\<lambda>fs. addFinalizer P fs SERVER_FINALIZER) pod;
           emitEvent (ObjServer server) EventTypeNormal ReasonServerInitialized ''Pod finalizer added'';
           emitEvent (ObjPod pod) EventTypeNormal ReasonServerInitialized ''Pod finalizer added'';
           updated \<leftarrow> UpdatePod P pod;
           return (case updated of
             Inl err \<Rightarrow> Inl (errorfS ''failed to add finalizer to pod: '' err)
           | Inr _ \<Rightarrow> Inr True)
         }
   }"

subsection \<open>Reconcile\<close>

definition serverInitialize :: "'w platform \<Rightarrow> Server \<Rightarrow> ('w world, reconciled) state" where
  "serverInitialize P server = do {
     let server = mapServerFinalizers (\<lambda>fs. addFinalizer P fs SERVER_FINALIZER) server;
     updated \<leftarrow> UpdateServer P server;
     case updated of
       Inl err \<Rightarrow> do {
         emitEvent (ObjServer server) EventTypeWarning ReasonServerUpdateFAiled
           (''failed to update server: '' @ errText err);
         return (emptyResult, Some (errorfS ''failed to update server for finalizer: '' err))
       }
     | Inr server \<Rightarrow> do {
         emitEvent (ObjServer server) EventTypeNormal ReasonServerInitialized ''Finalizer added'';
         return (emptyResult, None)
       }
   }"

definition serverFinalize ::
    "'w platform \<Rightarrow> 'w ServerReconciler \<Rightarrow> Server \<Rightarrow> ('w world, reconciled) state" where
  "serverFinalize P r server = do {
     (server, handled) \<leftarrow> ServerHandleDeletion P r server;
     case handled of
       Inl err \<Rightarrow>
         if errText err = ''server deletion not allowed'' \<and> \<not> ErrorOnNotAllowed r
         then return (requeueResult, None)
         else return (requeueResult, Some (errorfS ''failed to handle server deletion: '' err))
     | Inr _ \<Rightarrow> do {
         let server = mapServerFinalizers (\<lambda>fs. removeFinalizer P fs SERVER_FINALIZER) server;
         updated \<leftarrow> UpdateServer P server;
         case updated of
           Inl err \<Rightarrow> do {
             emitEvent (ObjServer server) EventTypeWarning ReasonServerDeletionAllowed
               ''Failed to update server object'';
             return (requeueResult, Some (errorfW ''failed to remove finalizer: '' err))
           }
         | Inr server \<Rightarrow> do {
             emitEvent (ObjServer server) EventTypeNormal ReasonServerDeletionAllowed ''Finalizer removed'';
             return (requeueResult, None)
           }
       }
   }"

definition serverMaintain :: "'w platform \<Rightarrow> Server \<Rightarrow> ('w world, reconciled) state" where
  "serverMaintain P server = do {
     (server, podExists) \<leftarrow> ensurePodExists P server;
     case podExists of
       Inl err \<Rightarrow> do {
         updated \<leftarrow> UpdateServer P server;
         return (case updated of
           Inl err' \<Rightarrow> (emptyResult, Some (errorfW ''failed to update server: '' err'))
         | Inr _ \<Rightarrow> (emptyResult, Some (errorfW ''failed to ensure Pod exists for Server: '' err)))
       }
     | Inr exists \<Rightarrow>
         if \<not> exists then return (requeueResult, None)
         else do {
           update \<leftarrow> ensurePodFinalizer P server;
           case update of
             Inl err \<Rightarrow> return (emptyResult, Some err)
           | Inr update \<Rightarrow>
               if update then return (emptyResult, None)
               else do {
                 updated \<leftarrow> StatusUpdateServer P server;
                 return (case updated of
                   Inl err \<Rightarrow> (emptyResult, Some (errorfW ''failed to update Server resource: '' err))
                 | Inr _ \<Rightarrow> (emptyResult, None))
               }
         }
   }"

definition ServerReconcile ::
    "'w platform \<Rightarrow> 'w ServerReconciler \<Rightarrow> NamespacedName \<Rightarrow> ('w world, reconciled) state" where
  "ServerReconcile P r req = do {
     got \<leftarrow> GetServer P req;
     case got of
       Inl err \<Rightarrow>
         if \<not> errNotFound err
         then return (emptyResult, Some (errorfW ''failed to get Server: '' err))
         else return (emptyResult, None)
     | Inr server \<Rightarrow>
         if DeletionTimestamp (server_meta server) = None \<and> \<not> serverHasFinalizer P server
         then serverInitialize P server
         else if beingDeleted (server_meta server) then serverFinalize P r server
         else serverMaintain P server
   }"

text \<open>The reconciler \<open>cmd/main.go\<close> starts.\<close>

definition prodServerReconciler :: "'w platform \<Rightarrow> 'w ServerReconciler" where
  "prodServerReconciler P = \<lparr>ErrorOnNotAllowed = False, DeletionAllowed = ProdDeletionChecker P\<rparr>"

section \<open>What a release is\<close>

abbreviation gotPod :: "NamespacedName \<Rightarrow> Pod \<Rightarrow> effect" where
  "gotPod k pod \<equiv> Got ''Pod'' (podKey k) (Inr (ObjPod pod))"

abbreviation serverKey :: "Server \<Rightarrow> NamespacedName" where
  "serverKey server \<equiv> namespacedName (server_meta server)"

text \<open>
  The deletion of the server \<open>k\<close> was permitted: its pod was read, the check was asked about
  that pod and answered yes, and then a pod read under that name was deleted.
\<close>

definition permitted :: "NamespacedName \<Rightarrow> effect list \<Rightarrow> bool" where
  "permitted k es \<longleftrightarrow> (\<exists>server pod pod'. serverKey server = k \<and>
     subseq [gotPod k pod, Asked server pod (Inr True), Delete (ObjPod pod') True] es \<and>
     subseq [gotPod k pod', Delete (ObjPod pod') True] es)"

text \<open>An update of a server keeps its finalizer on it, or comes after that.\<close>

fun serverReleaseOk :: "effect list \<Rightarrow> effect \<Rightarrow> bool" where
  "serverReleaseOk pre (Update (ObjServer server) _) \<longleftrightarrow>
     SERVER_FINALIZER \<in> set (Finalizers (server_meta server)) \<or> permitted (serverKey server) pre"
| "serverReleaseOk pre _ \<longleftrightarrow> True"

fun sparesServer :: "effect \<Rightarrow> bool" where
  "sparesServer (Update (ObjServer _) _) = False"
| "sparesServer _ = True"

text \<open>The calls the deletion of a server and the upkeep of its pod can make.\<close>

fun deletionEffect :: "effect \<Rightarrow> bool" where
  "deletionEffect (Got kind _ _) = (kind = ''Pod'')"
| "deletionEffect (Update (ObjPod _) _) = True"
| "deletionEffect (Delete (ObjPod _) _) = True"
| "deletionEffect (Http _ _) = True"
| "deletionEffect (Asked _ _ _) = True"
| "deletionEffect (Event _ _ _ _) = True"
| "deletionEffect _ = False"

fun isAsked :: "effect \<Rightarrow> bool" where
  "isAsked (Asked _ _ _) = True"
| "isAsked _ = False"

fun createsPod :: "effect \<Rightarrow> bool" where
  "createsPod (Create (ObjPod _) _) = True"
| "createsPod _ = False"

lemma deletionEffect_class:
  "deletionEffect e \<Longrightarrow> sparesServer e" "deletionEffect e \<Longrightarrow> \<not> createsPod e"
  by (cases e rule: deletionEffect.cases; simp)+

lemma is_http_class:
  assumes "is_http e"
  shows "deletionEffect e" "succeeded e" "\<not> isAsked e" "\<not> is_write e"
  using assms by (cases e; simp)+

lemma http_calls:
  assumes "list_all is_http es"
  shows "list_all deletionEffect es" "list_all succeeded es" "list_all (\<lambda>e. \<not> isAsked e) es"
    "writes es = []" "Asked sv pod a \<notin> set es" "Got n k x \<notin> set es"
  using assms by (auto simp: list_all_iff writes_def filter_empty_conv is_http_class)

lemma deletion_calls:
  assumes "list_all deletionEffect es"
  shows "list_all sparesServer es" "Create (ObjPod pod) b \<notin> set es"
  using assms by (auto simp: list_all_iff dest: deletionEffect_class)

lemma not_asked: "list_all (\<lambda>e. \<not> isAsked e) es \<Longrightarrow> Asked sv pod a \<notin> set es"
  by (auto simp: list_all_iff)

lemma not_created: "list_all (\<lambda>e. \<not> createsPod e) es \<Longrightarrow> Create (ObjPod pod) b \<notin> set es"
  by (auto simp: list_all_iff)

lemma failed_read: "Got n k (Inl err) \<in> set es \<Longrightarrow> \<not> list_all succeeded es"
  by (force simp: list_all_iff)

lemma each_release_spared [simp]:
  "list_all sparesServer es \<Longrightarrow> each_after (\<lambda>pre. serverReleaseOk (f pre)) es"
proof (rule each_after_all)
  have "serverReleaseOk pre e" if "sparesServer e" for pre e
    using that by (cases "(pre, e)" rule: serverReleaseOk.cases) simp_all
  then show "list_all sparesServer es \<Longrightarrow> list_all (\<lambda>e. \<forall>pre. serverReleaseOk (f pre) e) es"
    by (simp add: list_all_iff)
qed

lemma server_frames [simp]:
  "server_meta (setServerCondition P t b n rs msg server) = server_meta server"
  "server_spec (setServerCondition P t b n rs msg server) = server_spec server"
  "Finalizers (server_meta (mapServerFinalizers f server)) = f (Finalizers (server_meta server))"
  "serverKey (mapServerFinalizers f server) = serverKey server"
  "DeletionTimestamp (server_meta (mapServerFinalizers f server)) = DeletionTimestamp (server_meta server)"
  "server_spec (mapServerFinalizers f server) = server_spec server"
  by (simp_all add: setServerCondition_def mapServerFinalizers_def namespacedName_def)

lemma permitted_pad: "permitted k es \<Longrightarrow> permitted k (zs @ es)"
  unfolding permitted_def by (blast intro: subseq_pad)

lemma permittedI:
  assumes "Delete (ObjPod pod') True \<in> set es'"
    and "pod' = pod \<or> subseq [gotPod k pod', Delete (ObjPod pod') True] es'"
    and "serverKey server = k"
  shows "permitted k (gotPod k pod # es @ Asked server pod (Inr True) # es')"
proof -
  let ?all = "gotPod k pod # es @ Asked server pod (Inr True) # es'"
  have "subseq [Asked server pod (Inr True), Delete (ObjPod pod') True]
      (es @ Asked server pod (Inr True) # es')"
    using assms(1) by (intro subseq_pad) (simp add: subseq_singleton_left)
  then have asked: "subseq [gotPod k pod, Asked server pod (Inr True), Delete (ObjPod pod') True] ?all"
    by simp
  have "subseq [gotPod k pod', Delete (ObjPod pod') True] ?all"
    using assms(2)
  proof
    assume "pod' = pod"
    with assms(1) show ?thesis by (simp add: subseq_singleton_left)
  next
    assume "subseq [gotPod k pod', Delete (ObjPod pod') True] es'"
    then show ?thesis by (metis append_Cons subseq_pad list_emb_Cons)
  qed
  with asked assms(3) show ?thesis
    unfolding permitted_def by blast
qed

section \<open>The traces of the parts\<close>

subsection \<open>Deletion\<close>

lemma releasePod_trace:
  "emits (releasePod P server pod) (\<lambda>res es. list_all deletionEffect es \<and>
     (\<forall>pod'. res = Inr pod' \<longrightarrow> pod' = pod \<or> gotPod (serverKey server) pod' \<in> set es))"
  unfolding releasePod_def go_simps podNameOf_def
  by (intro emits_intros) auto

lemma releasePod_outcome:
  "emits (releasePod P server pod) (\<lambda>res es. list_all (\<lambda>e. \<not> isAsked e) es \<and>
     (ok res \<longleftrightarrow> list_all succeeded es) \<and>
     (\<forall>n k err. Got n k (Inl err) \<in> set es \<longrightarrow> res = Inl err))"
  unfolding releasePod_def go_simps
  by (intro emits_intros) auto

lemma deletePodOf_trace:
  "emits (deletePodOf P server pod) (\<lambda>(server', res) es. list_all deletionEffect es \<and>
     server_meta server' = server_meta server \<and>
     (ok res \<longrightarrow> (\<exists>pod'. Delete (ObjPod pod') True \<in> set es \<and>
        (pod' = pod \<or> subseq [gotPod (serverKey server) pod', Delete (ObjPod pod') True] es))))"
  unfolding deletePodOf_def go_simps
  by (rule emits_bind [OF releasePod_trace], intro emits_intros) (auto intro: subseq_snoc_in)

lemma deletePodOf_outcome:
  "emits (deletePodOf P server pod) (\<lambda>(server', res) es. list_all (\<lambda>e. \<not> isAsked e) es \<and>
     (ok res \<longleftrightarrow> list_all succeeded es) \<and>
     (\<forall>n k err. Got n k (Inl err) \<in> set es \<longrightarrow> res = Inl err))"
  unfolding deletePodOf_def go_simps
  by (rule emits_bind [OF releasePod_outcome], intro emits_intros) auto

context deletion_check
begin

lemma handleDeletion_trace:
  assumes "DeletionAllowed r = check"
  shows "emits (ServerHandleDeletion P r server) (\<lambda>(server', res) es. list_all deletionEffect es \<and>
     server_meta server' = server_meta server \<and> (ok res \<longrightarrow> permitted (serverKey server) es))"
  unfolding ServerHandleDeletion_def go_simps assms podNameOf_def
  apply (intro emits_intros)
   apply simp
  apply (rule emits_bind [OF check_http])
  apply (intro emits_intros; (rule emits_weaken [OF deletePodOf_trace])?)
    apply (auto simp: http_calls permittedI)
  done

lemma handleDeletion_outcome:
  assumes "DeletionAllowed r = check"
  shows "emits (ServerHandleDeletion P r server) (\<lambda>(server', res) es.
     (ok res \<longleftrightarrow> list_all succeeded es \<and> (\<exists>pod. Asked server pod (Inr True) \<in> set es)) \<and>
     (\<forall>sv pod a. Asked sv pod a \<in> set es \<longrightarrow> sv = server \<and> (a \<noteq> Inr True \<longrightarrow> writes es = [] \<and>
        (\<exists>err. res = Inl err \<and> (errText err = ''server deletion not allowed'' \<longleftrightarrow> a = Inr False)))) \<and>
     (\<forall>n k err. Got n k (Inl err) \<in> set es \<longrightarrow> res = Inl err))"
  unfolding ServerHandleDeletion_def go_simps assms
  apply (intro emits_intros)
   apply simp
  apply (rule emits_bind [OF check_http])
  apply (intro emits_intros; (rule emits_weaken [OF deletePodOf_outcome])?)
    apply (auto simp: http_calls not_asked notAllowedError_def dest: failed_read)
  done

lemma handleDeletion_summary:
  assumes "DeletionAllowed r = check"
  shows "emits (ServerHandleDeletion P r server) (\<lambda>(server', res) es.
     server_meta server' = server_meta server \<and> list_all deletionEffect es \<and>
     (ok res \<longleftrightarrow> list_all succeeded es \<and> (\<exists>pod. Asked server pod (Inr True) \<in> set es)) \<and>
     (\<forall>sv pod a. Asked sv pod a \<in> set es \<longrightarrow> sv = server) \<and>
     (\<forall>n k err. Got n k (Inl err) \<in> set es \<longrightarrow> res = Inl err))"
  by (rule emits_weaken [OF emits_conj [OF handleDeletion_trace [OF assms] handleDeletion_outcome [OF assms]]])
    (auto split: prod.splits)

lemma serverFinalize_guarded:
  assumes "DeletionAllowed r = check"
  shows "emits (serverFinalize P r server) (\<lambda>res. each_after (\<lambda>pre. serverReleaseOk (zs @ pre)))"
  unfolding serverFinalize_def go_simps
  by (rule emits_bind [OF handleDeletion_trace [OF assms]], intro emits_intros)
    (auto simp: permitted_pad deletion_calls)

lemma serverFinalize_refused:
  assumes "DeletionAllowed r = check"
  shows "emits (serverFinalize P r server) (\<lambda>res es. \<forall>sv pod a. Asked sv pod a \<in> set es \<longrightarrow>
     sv = server \<and> (a \<noteq> Inr True \<longrightarrow> writes es = [] \<and> Requeue (fst res) \<and>
       (snd res = None \<longleftrightarrow> a = Inr False \<and> \<not> ErrorOnNotAllowed r)))"
  unfolding serverFinalize_def go_simps
  by (rule emits_bind [OF handleDeletion_outcome [OF assms]])
    (intro emits_intros; simp add: requeueResult_def; blast?)

lemma serverFinalize_completes:
  assumes "DeletionAllowed r = check" "finalizer_laws P"
  shows "emits (serverFinalize P r server) (\<lambda>res es. \<forall>sv pod.
     list_all succeeded es \<and> Asked sv pod (Inr True) \<in> set es \<longrightarrow> res = (requeueResult, None) \<and>
     (\<exists>server'. Update (ObjServer server') True \<in> set es \<and> serverKey server' = serverKey sv \<and>
        SERVER_FINALIZER \<notin> set (Finalizers (server_meta server'))))"
  unfolding serverFinalize_def go_simps
  apply (rule emits_bind [OF handleDeletion_summary [OF assms(1)]])
  apply (intro emits_intros)
     apply (simp_all add: finalizer_lawsD [OF assms(2)])
    apply blast
   apply blast
  apply (fastforce simp: finalizer_lawsD [OF assms(2)])
  done

lemma serverFinalize_blocked:
  assumes "DeletionAllowed r = check"
  shows "emits (serverFinalize P r server) (\<lambda>res es. \<forall>k err. Got ''Pod'' k (Inl err) \<in> set es \<longrightarrow>
     list_all sparesServer es \<and> (snd res = None \<longrightarrow> errText err = ''server deletion not allowed''))"
  unfolding serverFinalize_def go_simps
  by (rule emits_bind [OF handleDeletion_summary [OF assms(1)]], intro emits_intros)
    (auto simp: deletion_calls dest: failed_read)

lemma serverFinalize_creates_no_pod:
  assumes "DeletionAllowed r = check"
  shows "emits (serverFinalize P r server) (\<lambda>res es. list_all (\<lambda>e. \<not> createsPod e) es)"
  unfolding serverFinalize_def go_simps
  by (rule emits_bind [OF handleDeletion_trace [OF assms(1)]], intro emits_intros)
    (auto simp: list_all_iff dest: deletionEffect_class)

end

subsection \<open>Upkeep\<close>

lemma serverInitialize_guarded:
  assumes "finalizer_laws P"
  shows "emits (serverInitialize P server) (\<lambda>res. each_after (\<lambda>pre. serverReleaseOk (zs @ pre)))"
  unfolding serverInitialize_def go_simps
  by (intro emits_intros) (simp_all add: finalizer_lawsD [OF assms])

lemma serverInitialize_calls:
  "emits (serverInitialize P server) (\<lambda>res es. list_all (\<lambda>e. \<not> isAsked e \<and> \<not> createsPod e) es)"
  unfolding serverInitialize_def go_simps
  by (intro emits_intros) simp_all

lemma createPodFor_trace:
  "emits (createPodFor P server) (\<lambda>(server', res) es.
     list_all sparesServer es \<and> list_all (\<lambda>e. \<not> isAsked e) es \<and>
     Finalizers (server_meta server') = Finalizers (server_meta server) \<and> res \<noteq> Inr True \<and>
     (\<forall>pod b. Create (ObjPod pod) b \<in> set es \<longrightarrow>
        pod_spec pod = fst (getPodSpec P server) \<and> (b \<longrightarrow> res = Inr False)))"
  unfolding createPodFor_def go_simps
  by (intro emits_intros) (auto simp: GetNewPod_server_frame GetNewPod_spec)

lemma ensurePodExists_trace:
  "emits (ensurePodExists P server) (\<lambda>(server', res) es.
     list_all sparesServer es \<and> list_all (\<lambda>e. \<not> isAsked e) es \<and>
     Finalizers (server_meta server') = Finalizers (server_meta server) \<and>
     (\<forall>pod b. Create (ObjPod pod) b \<in> set es \<longrightarrow>
        (\<exists>err. errNotFound err \<and> Got ''Pod'' (podNameOf server) (Inl err) \<in> set es) \<and>
        pod_spec pod = fst (getPodSpec P server) \<and> (b \<longrightarrow> res = Inr False) \<and> res \<noteq> Inr True))"
  unfolding ensurePodExists_def go_simps
  by (intro emits_intros; (rule emits_weaken [OF createPodFor_trace])?) auto

lemma ensurePodFinalizer_trace:
  "emits (ensurePodFinalizer P server) (\<lambda>res es. list_all sparesServer es \<and>
     list_all (\<lambda>e. \<not> isAsked e) es \<and> list_all (\<lambda>e. \<not> createsPod e) es)"
  unfolding ensurePodFinalizer_def go_simps
  by (intro emits_intros) simp_all

lemma serverMaintain_guarded:
  assumes "SERVER_FINALIZER \<in> set (Finalizers (server_meta server))"
  shows "emits (serverMaintain P server) (\<lambda>res. each_after (\<lambda>pre. serverReleaseOk (zs @ pre)))"
  unfolding serverMaintain_def go_simps
  apply (rule emits_bind [OF ensurePodExists_trace])
  apply (intro emits_intros; (rule emits_bind [OF ensurePodFinalizer_trace], intro emits_intros)?)
  using assms
       apply auto
  done

lemma serverMaintain_calls:
  "emits (serverMaintain P server) (\<lambda>res es. list_all (\<lambda>e. \<not> isAsked e) es \<and>
     (\<forall>pod b. Create (ObjPod pod) b \<in> set es \<longrightarrow>
        (\<exists>err. errNotFound err \<and> Got ''Pod'' (podNameOf server) (Inl err) \<in> set es) \<and>
        pod_spec pod = fst (getPodSpec P server) \<and> (b \<longrightarrow> res = (requeueResult, None))))"
  unfolding serverMaintain_def go_simps
  apply (rule emits_bind [OF ensurePodExists_trace])
  apply (intro emits_intros; (rule emits_bind [OF ensurePodFinalizer_trace], intro emits_intros)?)
       apply (auto simp: not_created)
  done

section \<open>Properties of a reconciliation\<close>

lemma prod_check [simp]: "deletion_check (DeletionAllowed (prodServerReconciler P))"
  by (simp add: prodServerReconciler_def prod_deletion.deletion_check_axioms)

lemma serverReconcile_finalizer:
  assumes "finalizer_laws P" and "deletion_check (DeletionAllowed r)"
  shows "emits (ServerReconcile P r req) (\<lambda>res. each_after serverReleaseOk)"
  unfolding ServerReconcile_def go_simps
  apply (intro emits_intros; simp)
    apply (rule serverInitialize_guarded [OF assms(1), of _ "[_]", simplified])
   apply (rule deletion_check.serverFinalize_guarded [OF assms(2) refl, of _ _ "[_]", simplified])
  apply (rule serverMaintain_guarded [of _ _ "[_]", simplified])
  apply (auto simp: serverHasFinalizer_def finalizer_lawsD [OF assms(1)])
  done

text \<open>Example clusters: a server being deleted, with its pod and its sidecar, and a protected server with no pod.\<close>

definition deletingServer :: Server where
  "deletingServer = (exampleServer ''a'')\<lparr>server_meta := (server_meta (exampleServer ''a''))
     \<lparr>DeletionTimestamp := Some 100, Finalizers := [SERVER_FINALIZER]\<rparr>\<rparr>"

definition deletingCluster :: "bool \<Rightarrow> cluster" where
  "deletingCluster allow = emptyCluster\<lparr>mem_servers := [deletingServer],
     mem_pods := [mapPodFinalizers (\<lambda>_. [SERVER_FINALIZER]) (examplePod ''a'')],
     mem_sidecars := [(''10.0.0.1'', \<lparr>DeleteAllowed = allow, ShutdownRequested = False\<rparr>)]\<rparr>"

definition podlessCluster :: cluster where
  "podlessCluster = emptyCluster\<lparr>mem_servers :=
     [mapServerFinalizers (\<lambda>_. [SERVER_FINALIZER]) (exampleServer ''a'')]\<rparr>"

definition exampleReconcile :: "(cluster world, reconciled) state" where
  "exampleReconcile =
     ServerReconcile memPlatform (prodServerReconciler memPlatform) (''default'', ''a'')"

fun isAnswer :: "bool \<Rightarrow> effect \<Rightarrow> bool" where
  "isAnswer b (Asked _ _ (Inr a)) = (a = b)"
| "isAnswer b _ = False"

fun isServerRelease :: "effect \<Rightarrow> bool" where
  "isServerRelease (Update (ObjServer server) _) = (SERVER_FINALIZER \<notin> set (Finalizers (server_meta server)))"
| "isServerRelease _ = False"

lemma isAnswerE:
  assumes "list_ex (isAnswer b) es"
  obtains server pod where "Asked server pod (Inr b) \<in> set es"
proof -
  from assms obtain e where "e \<in> set es" "isAnswer b e" by (auto simp: list_ex_iff)
  with that show thesis by (cases "(b, e)" rule: isAnswer.cases) auto
qed

text \<open>
  C2: Whatever the cluster, the network and the clock do, a reconciliation writes a server without
  the operator's finalizer only after it has read the server's pod, asked the deletion check about
  that pod, been answered yes, and deleted the pod.
\<close>

theorem server_released_only_when_permitted:
  assumes "finalizer_laws P"
  shows "emits (ServerReconcile P (prodServerReconciler P) req) (\<lambda>res. each_after serverReleaseOk)"
  using assms prod_check by (rule serverReconcile_finalizer)

theorem server_released_only_when_permitted_witness:
  "each_after serverReleaseOk (calls exampleReconcile (deletingCluster True)) \<and>
   list_ex isServerRelease (calls exampleReconcile (deletingCluster True))"
proof
  show "each_after serverReleaseOk (calls exampleReconcile (deletingCluster True))"
    unfolding exampleReconcile_def
    by (rule emits_calls [OF server_released_only_when_permitted [OF mem_finalizer_laws]])
  show "list_ex isServerRelease (calls exampleReconcile (deletingCluster True))"
    by code_simp
qed

text \<open>
  The deletion check is asked only about the server that was read, and only when it is being
  deleted; the nil dereference of its deletion timestamp cannot happen.
\<close>

lemma asked_only_when_deleting:
  "emits (ServerReconcile P (prodServerReconciler P) req) (\<lambda>res es. \<forall>server pod a.
     Asked server pod a \<in> set es \<longrightarrow> beingDeleted (server_meta server) \<and>
       Got ''Server'' req (Inr (ObjServer server)) \<in> set es)"
  unfolding ServerReconcile_def go_simps
  apply (intro emits_intros; simp)
    apply (rule emits_weaken [OF serverInitialize_calls], fastforce simp: list_all_iff)
   apply (rule emits_weaken [OF deletion_check.serverFinalize_refused [OF prod_check refl]], fastforce)
  apply (rule emits_weaken [OF serverMaintain_calls], fastforce simp: not_asked)
  done

lemma refused_writes_nothing:
  "emits (ServerReconcile P (prodServerReconciler P) req) (\<lambda>res es. \<forall>server pod a.
     Asked server pod a \<in> set es \<and> a \<noteq> Inr True \<longrightarrow>
       writes es = [] \<and> Requeue (fst res) \<and> (snd res = None \<longleftrightarrow> a = Inr False))"
  unfolding ServerReconcile_def go_simps
  apply (intro emits_intros; simp)
    apply (rule emits_weaken [OF serverInitialize_calls], fastforce simp: list_all_iff)
   apply (rule emits_weaken [OF deletion_check.serverFinalize_refused [OF prod_check refl]])
   apply (simp add: prodServerReconciler_def, blast)
  apply (rule emits_weaken [OF serverMaintain_calls], fastforce simp: not_asked)
  done

lemma missing_pod_blocks:
  "emits (ServerReconcile P (prodServerReconciler P) req) (\<lambda>res es. \<forall>server calls k err.
     es = Got ''Server'' req (Inr (ObjServer server)) # calls \<and> beingDeleted (server_meta server) \<and>
     Got ''Pod'' k (Inl err) \<in> set calls \<and> errText err \<noteq> ''server deletion not allowed'' \<longrightarrow>
       list_all sparesServer es \<and> snd res \<noteq> None)"
  unfolding ServerReconcile_def go_simps
  apply (intro emits_intros; simp)
    apply (rule emits_weaken [OF serverInitialize_calls], fastforce)
   apply (rule emits_weaken [OF deletion_check.serverFinalize_blocked [OF prod_check refl]], fastforce)
  apply (rule emits_weaken [OF serverMaintain_calls], fastforce)
  done

text \<open>
  C12: When the deletion check says no or fails, the reconciliation writes nothing at all: the
  finalizers, the pod and the server stay as they are. It asks to be run again, without an error
  when the answer was a plain no and with one when the check failed. And when the pod of a server that is
  being deleted cannot be read, in particular when it no longer exists, the reconciliation fails and
  leaves the finalizer of the server in place: a server whose pod is gone is never released.
\<close>

theorem refused_deletion_writes_nothing:
  "emits (ServerReconcile P (prodServerReconciler P) req) (\<lambda>res es.
     (\<forall>server pod a. Asked server pod a \<in> set es \<and> a \<noteq> Inr True \<longrightarrow>
        writes es = [] \<and> Requeue (fst res) \<and> (snd res = None \<longleftrightarrow> a = Inr False)) \<and>
     (\<forall>server calls k err. es = Got ''Server'' req (Inr (ObjServer server)) # calls \<and>
        beingDeleted (server_meta server) \<and> Got ''Pod'' k (Inl err) \<in> set calls \<and>
        errText err \<noteq> ''server deletion not allowed'' \<longrightarrow> list_all sparesServer es \<and> snd res \<noteq> None))"
  by (rule emits_conj [OF refused_writes_nothing missing_pod_blocks])

theorem refused_deletion_writes_nothing_witness:
  "writes (calls exampleReconcile (deletingCluster False)) = [] \<and>
   snd (answer exampleReconcile (deletingCluster False)) = None \<and>
   snd (answer exampleReconcile (emptyCluster\<lparr>mem_servers := [deletingServer]\<rparr>)) \<noteq> None"
proof -
  note refused = emits_calls [OF refused_deletion_writes_nothing, of memPlatform "(''default'', ''a'')",
    folded exampleReconcile_def]
  have "list_ex (isAnswer False) (calls exampleReconcile (deletingCluster False))"
    by code_simp
  then obtain server pod where
      "Asked server pod (Inr False) \<in> set (calls exampleReconcile (deletingCluster False))"
    by (rule isAnswerE)
  with refused [of "deletingCluster False"] have
      "writes (calls exampleReconcile (deletingCluster False)) = []"
      "snd (answer exampleReconcile (deletingCluster False)) = None" by blast+
  moreover let ?c = "emptyCluster\<lparr>mem_servers := [deletingServer]\<rparr>"
  have "calls exampleReconcile ?c = [Got ''Server'' (''default'', ''a'') (Inr (ObjServer deletingServer)),
      Got ''Pod'' (''default'', ''a-pod'') (Inl notFoundError)]"
    by (simp add: calls_def exampleReconcile_def ServerReconcile_def serverFinalize_def
      ServerHandleDeletion_def go_simps mem_defs example_defs deletingServer_def serverHasFinalizer_def
      podNameOf_def podKey_def namespacedName_def)
  moreover have "beingDeleted (server_meta deletingServer)"
    by (simp add: deletingServer_def)
  ultimately show ?thesis
    using refused [of ?c] by (force simp: notFoundError_def)
qed

lemma permitted_completes:
  assumes "finalizer_laws P"
  shows "emits (ServerReconcile P (prodServerReconciler P) req) (\<lambda>res es. \<forall>server pod.
     list_all succeeded es \<and> Asked server pod (Inr True) \<in> set es \<longrightarrow> res = (requeueResult, None) \<and>
       (\<exists>server'. Update (ObjServer server') True \<in> set es \<and> serverKey server' = serverKey server \<and>
          SERVER_FINALIZER \<notin> set (Finalizers (server_meta server'))))"
  unfolding ServerReconcile_def go_simps
  apply (intro emits_intros; simp)
    apply (rule emits_weaken [OF serverInitialize_calls], fastforce simp: list_all_iff)
   apply (rule emits_weaken [OF deletion_check.serverFinalize_completes [OF prod_check refl assms]], fastforce)
  apply (rule emits_weaken [OF serverMaintain_calls], fastforce simp: not_asked)
  done

text \<open>
  C13: When the deletion check says yes and every call to the API server succeeds, one
  reconciliation takes the deletion to its end: it writes the server without the finalizer and
  returns no error.
\<close>

theorem permitted_deletion_completes:
  assumes "finalizer_laws P"
  shows "emits (ServerReconcile P (prodServerReconciler P) req) (\<lambda>res es. \<forall>server pod.
     list_all succeeded es \<and> Asked server pod (Inr True) \<in> set es \<longrightarrow> res = (requeueResult, None) \<and>
       (\<exists>server'. Update (ObjServer server') True \<in> set es \<and> serverKey server' = serverKey server \<and>
          SERVER_FINALIZER \<notin> set (Finalizers (server_meta server'))))"
  using assms by (rule permitted_completes)

theorem permitted_deletion_completes_witness:
  "answer exampleReconcile (deletingCluster True) = (requeueResult, None)"
proof -
  have "list_ex (isAnswer True) (calls exampleReconcile (deletingCluster True))"
    by code_simp
  then obtain server pod where
      "Asked server pod (Inr True) \<in> set (calls exampleReconcile (deletingCluster True))"
    by (rule isAnswerE)
  moreover have "list_all succeeded (calls exampleReconcile (deletingCluster True))"
    by code_simp
  ultimately show ?thesis
    using emits_calls [OF permitted_deletion_completes [OF mem_finalizer_laws],
      of "(''default'', ''a'')" "deletingCluster True"]
    unfolding exampleReconcile_def by blast
qed

text \<open>
  C23: A reconciliation creates a pod only for a server that is not being deleted and already
  carries the finalizer, and only after the pod was found missing; the pod runs the spec computed
  from that server, and after creating it the reconciliation asks to be run again.
\<close>

theorem pod_created_only_when_protected:
  assumes "finalizer_laws P"
  shows "emits (ServerReconcile P (prodServerReconciler P) req) (\<lambda>res es. \<forall>pod b.
     Create (ObjPod pod) b \<in> set es \<longrightarrow> (\<exists>server err.
       Got ''Server'' req (Inr (ObjServer server)) \<in> set es \<and>
       \<not> beingDeleted (server_meta server) \<and> SERVER_FINALIZER \<in> set (Finalizers (server_meta server)) \<and>
       Got ''Pod'' (podNameOf server) (Inl err) \<in> set es \<and> errNotFound err \<and>
       pod_spec pod = fst (getPodSpec P server) \<and> (b \<longrightarrow> res = (requeueResult, None))))"
  unfolding ServerReconcile_def go_simps
  apply (intro emits_intros; simp)
    apply (rule emits_weaken [OF serverInitialize_calls], fastforce simp: list_all_iff)
   apply (rule emits_weaken [OF deletion_check.serverFinalize_creates_no_pod [OF prod_check refl]], fastforce simp: not_created)
  apply (rule emits_weaken [OF serverMaintain_calls])
  apply (simp add: serverHasFinalizer_def finalizer_lawsD [OF assms])
  apply blast
  done

theorem pod_created_only_when_protected_witness:
  "answer exampleReconcile podlessCluster = (requeueResult, None)"
proof -
  have "list_ex (\<lambda>e. createsPod e \<and> succeeded e) (calls exampleReconcile podlessCluster)"
    by code_simp
  then obtain pod where "Create (ObjPod pod) True \<in> set (calls exampleReconcile podlessCluster)"
    by (auto simp: list_ex_iff elim!: createsPod.elims)
  with emits_calls [OF pod_created_only_when_protected [OF mem_finalizer_laws],
      of "(''default'', ''a'')" podlessCluster]
  show ?thesis unfolding exampleReconcile_def by blast
qed

end
