(* ===== verification/FleetDeletion.thy ===== *)
theory FleetDeletion
  imports MemCluster
begin

text \<open>
  Which server a fleet gives up when it shrinks (\<open>operator/internal/utils/fleet_deletion.go\<close>).
  Both searches are one pass over the list that keeps the best server so far and the best
  server the checker allows. The locale \<open>age_scan\<close> states what such a pass computes; the
  searches for the oldest and for the newest server are interpretations of it, and what they
  return is the first server of extreme age among the allowed ones, or among all when none is.
\<close>

section \<open>The two searches\<close>

definition created :: "Server \<Rightarrow> time" where
  "created server = CreationTimestamp (server_meta server)"

definition isOlder :: "Server \<Rightarrow> Server option \<Rightarrow> bool" where
  "isOlder server oldest = (case oldest of None \<Rightarrow> True | Some best \<Rightarrow> created server < created best)"

definition isNewer :: "Server \<Rightarrow> Server option \<Rightarrow> bool" where
  "isNewer server newest = (case newest of None \<Rightarrow> True | Some best \<Rightarrow> created server > created best)"

type_synonym 'w checker = "Server \<Rightarrow> ('w world, error + bool) state"
type_synonym 'w ageLoop = "'w checker \<Rightarrow> bool \<Rightarrow> Server list \<Rightarrow> Server option \<Rightarrow> Server option
    \<Rightarrow> ('w world, error + Server option \<times> Server option) state"

text \<open>The loops: the best server so far, and the best allowed one.\<close>

primrec oldestLoop :: "'w checker \<Rightarrow> bool \<Rightarrow> Server list \<Rightarrow> Server option \<Rightarrow> Server option
    \<Rightarrow> ('w world, error + Server option \<times> Server option) state" where
  "oldestLoop check deleteFirst [] oldest oldestAllowed = return (Inr (oldest, oldestAllowed))"
| "oldestLoop check deleteFirst (server # servers) oldest oldestAllowed =
     (let oldest = (if isOlder server oldest then Some server else oldest) in
      if deleteFirst then do {
        allowed \<leftarrow> check server;
        record_effect (Consulted server allowed);
        case allowed of
          Inl err \<Rightarrow> return (Inl err)
        | Inr allowed \<Rightarrow> oldestLoop check deleteFirst servers oldest
            (if allowed \<and> isOlder server oldestAllowed then Some server else oldestAllowed)
      } else oldestLoop check deleteFirst servers oldest oldestAllowed)"

primrec newestLoop :: "'w checker \<Rightarrow> bool \<Rightarrow> Server list \<Rightarrow> Server option \<Rightarrow> Server option
    \<Rightarrow> ('w world, error + Server option \<times> Server option) state" where
  "newestLoop check deleteFirst [] newest newestAllowed = return (Inr (newest, newestAllowed))"
| "newestLoop check deleteFirst (server # servers) newest newestAllowed =
     (let newest = (if isNewer server newest then Some server else newest) in
      if deleteFirst then do {
        allowed \<leftarrow> check server;
        record_effect (Consulted server allowed);
        case allowed of
          Inl err \<Rightarrow> return (Inl err)
        | Inr allowed \<Rightarrow> newestLoop check deleteFirst servers newest
            (if allowed \<and> isNewer server newestAllowed then Some server else newestAllowed)
      } else newestLoop check deleteFirst servers newest newestAllowed)"

definition noServersError :: error where
  "noServersError = newError ''no servers found''"

definition getOldestServer :: "Server list \<Rightarrow> bool \<Rightarrow> 'w checker \<Rightarrow> ('w world, error + Server) state" where
  "getOldestServer servers deleteFirst check = do {
     scanned \<leftarrow> oldestLoop check deleteFirst servers None None;
     return (case scanned of
       Inl err \<Rightarrow> Inl err
     | Inr (None, _) \<Rightarrow> Inl noServersError
     | Inr (Some oldestServer, Some oldestAllowedServer) \<Rightarrow> Inr oldestAllowedServer
     | Inr (Some oldestServer, None) \<Rightarrow> Inr oldestServer)
   }"

definition getNewestServer :: "Server list \<Rightarrow> bool \<Rightarrow> 'w checker \<Rightarrow> ('w world, error + Server) state" where
  "getNewestServer servers deleteFirst check = do {
     scanned \<leftarrow> newestLoop check deleteFirst servers None None;
     return (case scanned of
       Inl err \<Rightarrow> Inl err
     | Inr (None, _) \<Rightarrow> Inl noServersError
     | Inr (Some newestServer, Some newestAllowedServer) \<Rightarrow> Inr newestAllowedServer
     | Inr (Some newestServer, None) \<Rightarrow> Inr newestServer)
   }"

definition FindDeleteServer :: "Fleet \<Rightarrow> Server list \<Rightarrow> 'w checker \<Rightarrow> ('w world, error + Server) state" where
  "FindDeleteServer fleet servers check =
     (let strategy = AgePriority (Scaling (fleet_spec fleet));
          deleteFirst = PrioritizeAllowed (Scaling (fleet_spec fleet)) in
      if strategy = OldestFirst then getOldestServer servers deleteFirst check
      else if strategy = NewestFirst then getNewestServer servers deleteFirst check
      else return (Inl (newError (''invalid scaling strategy: '' @ strategy))))"

section \<open>What a pass computes\<close>

text \<open>The first element of the list than which none is better.\<close>

definition pick :: "('a \<Rightarrow> int) \<Rightarrow> 'a list \<Rightarrow> 'a option" where
  "pick age servers = find (\<lambda>s. \<forall>y\<in>set servers. age s \<le> age y) servers"

definition better :: "('a \<Rightarrow> int) \<Rightarrow> 'a option \<Rightarrow> 'a \<Rightarrow> 'a option" where
  "better age best s = (case best of None \<Rightarrow> Some s | Some b \<Rightarrow> if age s < age b then Some s else best)"

lemma pick_Nil [simp]: "pick age [] = None"
  by (simp add: pick_def)

lemma pick_Some:
  "pick age xs = Some s \<Longrightarrow> s \<in> set xs \<and> (\<forall>y\<in>set xs. age s \<le> age y)"
  by (auto simp: pick_def find_Some_iff)

lemma pick_None [simp]: "pick age xs = None \<longleftrightarrow> xs = []"
proof
  assume *: "pick age xs = None"
  show "xs = []"
  proof (rule ccontr)
    assume "xs \<noteq> []"
    with obtains_MIN [of "set xs" age] obtain m where "m \<in> set xs" "age m = Min (age ` set xs)"
      by (metis List.finite_set set_empty)
    with * show False by (auto simp: pick_def find_None_iff)
  qed
qed simp

lemma find_append: "find p (xs @ ys) = (case find p xs of None \<Rightarrow> find p ys | Some x \<Rightarrow> Some x)"
  by (induction xs) simp_all

lemma pick_snoc: "pick age (xs @ [s]) = better age (pick age xs) s"
proof (cases "pick age xs")
  case None
  then have "xs = []" by simp
  then show ?thesis by (simp add: better_def pick_def)
next
  case (Some b)
  then have b: "b \<in> set xs" "\<forall>y\<in>set xs. age b \<le> age y" by (auto dest: pick_Some)
  show ?thesis
  proof (cases "age s < age b")
    case True
    with b have "find (\<lambda>x. \<forall>y\<in>set (xs @ [s]). age x \<le> age y) xs = None"
      by (fastforce simp: find_None_iff)
    with Some True b show ?thesis
      by (fastforce simp: better_def pick_def find_append)
  next
    case False
    with b have "(\<forall>y\<in>set (xs @ [s]). age x \<le> age y) \<longleftrightarrow> (\<forall>y\<in>set xs. age x \<le> age y)"
      if "x \<in> set xs" for x
      using that by fastforce
    then have "find (\<lambda>x. \<forall>y\<in>set (xs @ [s]). age x \<le> age y) xs = pick age xs"
      unfolding pick_def by (intro find_cong) auto
    with Some False show ?thesis
      by (simp add: better_def pick_def find_append)
  qed
qed

lemma pick_fold: "foldl (better age) None xs = pick age xs"
  by (induction xs rule: rev_induct) (simp_all add: pick_snoc)

text \<open>The answers of the checker in a trace, in order, and the servers it allowed.\<close>

fun verdict :: "effect \<Rightarrow> (Server \<times> bool) list" where
  "verdict (Consulted s (Inr b)) = [(s, b)]"
| "verdict _ = []"

definition verdicts :: "effect list \<Rightarrow> (Server \<times> bool) list" where
  "verdicts es = concat (map verdict es)"

definition granted :: "effect list \<Rightarrow> Server list" where
  "granted es = map fst (filter snd (verdicts es))"

definition checkFailed :: "effect list \<Rightarrow> bool" where
  "checkFailed es \<longleftrightarrow> (\<exists>s e. Consulted s (Inl e) \<in> set es)"

lemma verdicts_simps [simp]:
  "verdicts [] = []" "verdicts (e # es) = verdict e @ verdicts es"
  "verdicts (es @ fs) = verdicts es @ verdicts fs"
  by (simp_all add: verdicts_def)

lemma granted_simps [simp]:
  "granted [] = []" "granted (e # es) = map fst (filter snd (verdict e)) @ granted es"
  "granted (es @ fs) = granted es @ granted fs"
  by (simp_all add: granted_def)

lemma probes_silent:
  assumes "list_all is_probe es"
  shows "verdicts es = []" "granted es = []" "writes es = []" "Consulted s a \<notin> set es"
proof -
  have "verdict e = [] \<and> \<not> is_write e" if "is_probe e" for e using that by (cases e) simp_all
  with assms show "verdicts es = []" "granted es = []" "writes es = []"
    by (auto simp: verdicts_def granted_def writes_def list_all_iff filter_empty_conv)
  show "Consulted s a \<notin> set es" using assms by (auto simp: list_all_iff)
qed

text \<open>All that a search does is consult the checker.\<close>

definition is_inquiry :: "effect \<Rightarrow> bool" where
  "is_inquiry e \<longleftrightarrow> is_probe e \<or> (\<exists>s a. e = Consulted s a)"

lemma inquiry_simps [simp]:
  "is_probe e \<Longrightarrow> is_inquiry e" "is_inquiry (Consulted s a)"
  by (simp_all add: is_inquiry_def)

lemma inquiries_write_nothing: "list_all is_inquiry es \<Longrightarrow> writes es = []"
proof -
  have "\<not> is_write e" if "is_inquiry e" for e
    using that by (cases e) (simp_all add: is_inquiry_def)
  then show "list_all is_inquiry es \<Longrightarrow> writes es = []"
    by (auto simp: writes_def list_all_iff filter_empty_conv)
qed

lemma probes_inquire: "list_all is_probe es \<Longrightarrow> list_all is_inquiry es"
  by (simp add: list_all_iff)

text \<open>The server the search has to return, given the answers in the trace.\<close>

definition victim :: "(Server \<Rightarrow> int) \<Rightarrow> Server list \<Rightarrow> effect list \<Rightarrow> Server option" where
  "victim age servers es = pick age (if granted es = [] then servers else granted es)"

definition searched :: "(Server \<Rightarrow> int) \<Rightarrow> Server list \<Rightarrow> bool \<Rightarrow> error + Server \<Rightarrow> effect list \<Rightarrow> bool" where
  "searched age servers deleteFirst res es \<longleftrightarrow> list_all is_inquiry es \<and>
     (case res of
        Inl err \<Rightarrow> (\<exists>s. Consulted s (Inl err) \<in> set es) \<or> servers = [] \<and> err = noServersError
      | Inr server \<Rightarrow> \<not> checkFailed es \<and> victim age servers es = Some server \<and>
          map fst (verdicts es) = (if deleteFirst then servers else []))"

section \<open>The contract of a pass\<close>

locale age_scan =
  fixes age :: "Server \<Rightarrow> int"
    and loop :: "'w ageLoop"
    and search :: "Server list \<Rightarrow> bool \<Rightarrow> 'w checker \<Rightarrow> ('w world, error + Server) state"
  assumes loop_Nil: "loop check deleteFirst [] best allowed = return (Inr (best, allowed))"
    and loop_Cons: "loop check deleteFirst (server # servers) best allowed =
      (let best = better age best server in
       if deleteFirst then do {
         answer \<leftarrow> check server;
         record_effect (Consulted server answer);
         case answer of
           Inl err \<Rightarrow> return (Inl err)
         | Inr b \<Rightarrow> loop check deleteFirst servers best (if b then better age allowed server else allowed)
       } else loop check deleteFirst servers best allowed)"
    and search_loop: "search servers deleteFirst check = do {
      scanned \<leftarrow> loop check deleteFirst servers None None;
      return (case scanned of
        Inl err \<Rightarrow> Inl err
      | Inr (None, _) \<Rightarrow> Inl noServersError
      | Inr (Some best, Some allowed) \<Rightarrow> Inr allowed
      | Inr (Some best, None) \<Rightarrow> Inr best) }"
begin

lemma loop_trace:
  assumes "fleet_deletion_check check"
  shows "emits (loop check deleteFirst servers best allowed) (\<lambda>res es. list_all is_inquiry es \<and>
     (case res of
        Inl err \<Rightarrow> (\<exists>s. Consulted s (Inl err) \<in> set es)
      | Inr (b, a) \<Rightarrow> \<not> checkFailed es \<and> b = foldl (better age) best servers \<and>
          a = foldl (better age) allowed (granted es) \<and>
          map fst (verdicts es) = (if deleteFirst then servers else [])))"
proof (induction servers arbitrary: best allowed)
  case Nil
  show ?case unfolding loop_Nil by (intro emits_intros) (simp add: checkFailed_def)
next
  case (Cons server servers)
  note probe = fleet_deletion_check.check_probes [OF assms]
  show ?case
    unfolding loop_Cons Let_def
    apply (rule emits_if)
     apply (rule emits_bind [OF probe])
     apply (intro emits_intros)
      apply (simp add: probes_silent probes_inquire)
     apply (rule emits_weaken [OF Cons])
     apply (auto simp: probes_silent probes_inquire checkFailed_def split: sum.splits prod.splits) [1]
    apply (rule emits_weaken [OF Cons])
    apply (auto split: sum.splits prod.splits)
    done
qed

lemma search_trace:
  assumes "fleet_deletion_check check"
  shows "emits (search servers deleteFirst check) (searched age servers deleteFirst)"
  unfolding search_loop
  apply (rule emits_bind [OF loop_trace [OF assms]])
  apply (intro emits_intros)
  apply (auto simp: searched_def victim_def pick_fold split: sum.splits prod.splits option.splits)
  done

end

lemma isOlder_better:
  "(if isOlder s b then Some s else b) = better created b s"
  "(if g \<and> isOlder s b then Some s else b) = (if g then better created b s else b)"
  by (simp_all add: isOlder_def better_def split: option.splits)

lemma isNewer_better:
  "(if isNewer s b then Some s else b) = better (\<lambda>s. - created s) b s"
  "(if g \<and> isNewer s b then Some s else b) = (if g then better (\<lambda>s. - created s) b s else b)"
  by (simp_all add: isNewer_def better_def split: option.splits)

interpretation oldest_scan: age_scan created oldestLoop getOldestServer
  by unfold_locales (simp_all only: oldestLoop.simps getOldestServer_def isOlder_better Let_def)

interpretation newest_scan: age_scan "\<lambda>s. - created s" newestLoop getNewestServer
  by unfold_locales (simp_all only: newestLoop.simps getNewestServer_def isNewer_better Let_def)

section \<open>Properties\<close>

definition ageOf :: "Fleet \<Rightarrow> Server \<Rightarrow> int" where
  "ageOf fleet s = (if AgePriority (Scaling (fleet_spec fleet)) = OldestFirst then created s else - created s)"

lemma FindDeleteServer_trace:
  assumes "fleet_deletion_check check"
  shows "emits (FindDeleteServer fleet servers check) (\<lambda>res es.
     if AgePriority (Scaling (fleet_spec fleet)) \<in> set validPriorities
     then searched (ageOf fleet) servers (PrioritizeAllowed (Scaling (fleet_spec fleet))) res es
     else es = [] \<and> res = Inl (newError (''invalid scaling strategy: '' @ AgePriority (Scaling (fleet_spec fleet)))))"
  unfolding FindDeleteServer_def Let_def
  apply (intro emits_intros)
    apply (rule emits_weaken [OF oldest_scan.search_trace [OF assms]])
    apply (simp add: validPriorities_def ageOf_def [abs_def])
   apply (rule emits_weaken [OF newest_scan.search_trace [OF assms]])
   apply (simp add: validPriorities_def ageOf_def [abs_def])
  apply (simp add: validPriorities_def)
  done

lemma prod_fleet_check [simp]: "fleet_deletion_check (isDeleteAllowed P)"
  by (rule prod_fleet_deletion.fleet_deletion_check_axioms)

lemma searched_ok:
  assumes "searched age servers deleteFirst res es"
  shows "ok res \<longleftrightarrow> servers \<noteq> [] \<and> \<not> checkFailed es"
proof (cases res)
  case (Inl err)
  with assms show ?thesis by (auto simp: searched_def checkFailed_def)
next
  case (Inr s)
  with assms have "map fst (verdicts es) = (if deleteFirst then servers else [])"
    and "victim age servers es = Some s" and "\<not> checkFailed es"
    by (simp_all add: searched_def)
  then have "servers \<noteq> []"
    by (auto simp: victim_def granted_def split: if_splits)
  with Inr \<open>\<not> checkFailed es\<close> show ?thesis by simp
qed

text \<open>
  C5: The search for the server to give up succeeds exactly when the age priority is a known one,
  there is a server, and no consultation of the checker failed; it writes nothing. It returns the
  first server of extreme age (the oldest or the newest, as the priority says) among those the
  checker allowed, or among all servers when it allowed none; with \<open>PrioritizeAllowed\<close> every
  server was consulted, in order, and without it none.
\<close>

theorem scale_down_victim:
  "emits (FindDeleteServer fleet servers (isDeleteAllowed P)) (\<lambda>res es. writes es = [] \<and>
     (ok res \<longleftrightarrow> AgePriority (Scaling (fleet_spec fleet)) \<in> set validPriorities \<and> servers \<noteq> [] \<and>
        \<not> checkFailed es) \<and>
     (\<forall>s. res = Inr s \<longrightarrow> victim (ageOf fleet) servers es = Some s \<and>
        map fst (verdicts es) = (if PrioritizeAllowed (Scaling (fleet_spec fleet)) then servers else [])))"
  by (rule emits_weaken [OF FindDeleteServer_trace [OF prod_fleet_check]])
    (auto simp: searched_ok split: if_splits, auto simp: searched_def inquiries_write_nothing)

definition exampleScaling :: FleetScaling where
  "exampleScaling = \<lparr>Replicas = 1, PrioritizeAllowed = True, AgePriority = OldestFirst\<rparr>"

definition exampleFleet :: Fleet where
  "exampleFleet = \<lparr>fleet_meta = emptyMeta\<lparr>Name := ''f'', Namespace := ''default''\<rparr>,
     fleet_spec = \<lparr>ServerSpec = exampleSpec, Scaling = exampleScaling\<rparr>,
     fleet_status = \<lparr>FleetConditions = [], CurrentReplicas = 0\<rparr>\<rparr>"

definition agedServer :: "string \<Rightarrow> time \<Rightarrow> Server" where
  "agedServer n t = (exampleServer n)\<lparr>server_meta := (server_meta (exampleServer n))
     \<lparr>CreationTimestamp := t, Labels := Some [''fleet'' \<mapsto> ''f'']\<rparr>\<rparr>"

text \<open>Three servers; the sidecars of the second and the third allow the deletion.\<close>

definition agedCluster :: cluster where
  "agedCluster = emptyCluster\<lparr>
     mem_servers := [agedServer ''a'' 1, agedServer ''b'' 3, agedServer ''c'' 2],
     mem_pods := [examplePod ''a'', (examplePod ''b'')\<lparr>PodIP := ''10.0.0.2''\<rparr>,
       (examplePod ''c'')\<lparr>PodIP := ''10.0.0.3''\<rparr>],
     mem_sidecars := [(''10.0.0.1'', initialApp), (''10.0.0.2'', initialApp\<lparr>DeleteAllowed := True\<rparr>),
       (''10.0.0.3'', initialApp\<lparr>DeleteAllowed := True\<rparr>)]\<rparr>"

definition exampleSearch :: "(cluster world, error + Server) state" where
  "exampleSearch = FindDeleteServer exampleFleet (mem_servers agedCluster) (isDeleteAllowed memPlatform)"

theorem scale_down_victim_witness:
  "\<exists>s. answer exampleSearch agedCluster = Inr s \<and> Name (server_meta s) = ''c'' \<and>
     victim (ageOf exampleFleet) (mem_servers agedCluster) (calls exampleSearch agedCluster) = Some s"
proof -
  have "(case answer exampleSearch agedCluster of Inr s \<Rightarrow> Name (server_meta s) = ''c'' | Inl e \<Rightarrow> False)"
    by code_simp
  then obtain s where s: "answer exampleSearch agedCluster = Inr s" "Name (server_meta s) = ''c''"
    by (auto split: sum.splits)
  with emits_calls [OF scale_down_victim, of exampleFleet "mem_servers agedCluster" memPlatform agedCluster]
  show ?thesis unfolding exampleSearch_def by auto
qed

end
