(* ===== verification/FleetController.thy ===== *)
theory FleetController
  imports FleetDeletion
begin

text \<open>
  \<open>operator/internal/controller/fleet_controller.go\<close>: a fleet keeps a number of servers. The
  reconciler lists the servers that carry the fleet's label, creates what is missing, gives up
  one server when there are too many, and, when the fleet is deleted, deletes its servers and
  takes its finalizer off once a listing is empty. A Go method that changes the fleet it is
  given returns it changed. The replica counts are 32-bit integers and compared signed.
\<close>

section \<open>The reconciler\<close>

definition FLEET_FINALIZER :: string where
  "FLEET_FINALIZER = ''fleets.unfamousthomas.me/finalizer''"

record 'w FleetReconciler =
  DeletionChecker :: "'w checker"

definition mapFleetFinalizers :: "(string list \<Rightarrow> string list) \<Rightarrow> Fleet \<Rightarrow> Fleet" where
  "mapFleetFinalizers f fleet =
     fleet\<lparr>fleet_meta := (fleet_meta fleet)\<lparr>Finalizers := f (Finalizers (fleet_meta fleet))\<rparr>\<rparr>"

definition setCurrentReplicas :: "int32 \<Rightarrow> Fleet \<Rightarrow> Fleet" where
  "setCurrentReplicas n fleet = fleet\<lparr>fleet_status := (fleet_status fleet)\<lparr>CurrentReplicas := n\<rparr>\<rparr>"

abbreviation desired :: "Fleet \<Rightarrow> int32" where
  "desired fleet \<equiv> Replicas (Scaling (fleet_spec fleet))"

abbreviation current :: "Fleet \<Rightarrow> int32" where
  "current fleet \<equiv> CurrentReplicas (fleet_status fleet)"

subsection \<open>getServers\<close>

definition getServers :: "'w platform \<Rightarrow> Fleet \<Rightarrow> ('w world, error + Server list) state" where
  "getServers P fleet =
     ListServer P (Some (Namespace (fleet_meta fleet))) [(''fleet'', Name (fleet_meta fleet))]"

subsection \<open>scaleServerCount\<close>

text \<open>The loop \<open>for range serversNeeded\<close>.\<close>

primrec createServers ::
    "'w platform \<Rightarrow> string \<Rightarrow> nat \<Rightarrow> Fleet \<Rightarrow> ('w world, Fleet \<times> (error + unit)) state" where
  "createServers P namespace 0 fleet = return (fleet, Inr ())"
| "createServers P namespace (Suc n) fleet =
     (case CreateServerForFleet P fleet namespace of (server, fleet) \<Rightarrow> do {
        made \<leftarrow> CreateServer P server;
        case made of
          Inl err \<Rightarrow> do {
            emitEvent (ObjFleet fleet) EventTypeWarning ReasonFleetScaleServers
              (''Failed to create a server: '' @ errText err);
            return (fleet, Inl err)
          }
        | Inr _ \<Rightarrow> createServers P namespace n fleet
      })"

definition scaleUp :: "'w platform \<Rightarrow> string \<Rightarrow> Fleet \<Rightarrow> ('w world, Fleet \<times> (error + unit)) state" where
  "scaleUp P namespace fleet = do {
     let serversNeeded = desired fleet - current fleet;
     (fleet, made) \<leftarrow> createServers P namespace (nat (sint serversNeeded)) fleet;
     case made of
       Inl err \<Rightarrow> return (fleet, Inl err)
     | Inr _ \<Rightarrow> do {
         emitEvent (ObjFleet fleet) EventTypeNormal ReasonFleetScaleServers
           (''Scaled servers up to '' @ string_of_int (sint (desired fleet)));
         return (fleet, Inr ())
       }
   }"

definition scaleDown :: "'w platform \<Rightarrow> 'w FleetReconciler \<Rightarrow> Fleet \<Rightarrow> ('w world, error + unit) state" where
  "scaleDown P r fleet = do {
     listed \<leftarrow> getServers P fleet;
     case listed of
       Inl err \<Rightarrow> return (Inl err)
     | Inr servers \<Rightarrow> do {
         found \<leftarrow> FindDeleteServer fleet servers (DeletionChecker r);
         case found of
           Inl err \<Rightarrow> return (Inl err)
         | Inr server \<Rightarrow> do {
             deleted \<leftarrow> DeleteServer P server;
             case deleted of
               Inl err \<Rightarrow> do {
                 emitEvent (ObjFleet fleet) EventTypeWarning ReasonFleetScaleServers
                   (''Failed to delete a server: '' @ errText err);
                 return (Inl err)
               }
             | Inr _ \<Rightarrow> do {
                 emitEvent (ObjFleet fleet) EventTypeNormal ReasonFleetScaleServers
                   (''Scaled servers down to '' @ string_of_int (sint (desired fleet)));
                 return (Inr ())
               }
           }
       }
   }"

definition scaleServerCount :: "'w platform \<Rightarrow> 'w FleetReconciler \<Rightarrow> Fleet \<Rightarrow> string
    \<Rightarrow> ('w world, Fleet \<times> (error + unit)) state" where
  "scaleServerCount P r fleet namespace = do {
     (fleet, up) \<leftarrow> (if current fleet <s desired fleet then scaleUp P namespace fleet
                      else return (fleet, Inr ()));
     case up of
       Inl err \<Rightarrow> return (fleet, Inl err)
     | Inr _ \<Rightarrow>
         if desired fleet <s current fleet then do {
           down \<leftarrow> scaleDown P r fleet;
           return (fleet, down)
         } else return (fleet, Inr ())
   }"

subsection \<open>handleDeletion\<close>

primrec deleteServers :: "'w platform \<Rightarrow> Server list \<Rightarrow> ('w world, error + unit) state" where
  "deleteServers P [] = return (Inr ())"
| "deleteServers P (server # servers) = do {
     deleted \<leftarrow> DeleteServer P server;
     case deleted of
       Inl err \<Rightarrow> return (Inl err)
     | Inr _ \<Rightarrow> deleteServers P servers
   }"

definition releaseFleet :: "'w platform \<Rightarrow> Fleet \<Rightarrow> ('w world, error + unit) state" where
  "releaseFleet P fleet = do {
     let fleet = mapFleetFinalizers (\<lambda>fs. removeFinalizer P fs FLEET_FINALIZER) fleet;
     updated \<leftarrow> UpdateFleet P fleet;
     case updated of
       Inl err \<Rightarrow> do {
         emitEvent (ObjFleet fleet) EventTypeWarning ReasonFleetUpdateFailed
           (''Failed to remvoe finalizer: '' @ errText err);
         return (Inl err)
       }
     | Inr fleet \<Rightarrow> do {
         emitEvent (ObjFleet fleet) EventTypeNormal ReasonFleetServersRemoved ''Fleet finalizers removed'';
         return (Inr ())
       }
   }"

definition FleetHandleDeletion :: "'w platform \<Rightarrow> Fleet \<Rightarrow> ('w world, error + unit) state" where
  "FleetHandleDeletion P fleet = do {
     listed \<leftarrow> getServers P fleet;
     case listed of
       Inl err \<Rightarrow> return (Inl err)
     | Inr servers \<Rightarrow> do {
         deleted \<leftarrow> deleteServers P servers;
         case deleted of
           Inl err \<Rightarrow> return (Inl err)
         | Inr _ \<Rightarrow> do {
             listed \<leftarrow> getServers P fleet;
             case listed of
               Inl err \<Rightarrow> return (Inl err)
             | Inr servers \<Rightarrow> if servers = [] then releaseFleet P fleet else return (Inr ())
           }
       }
   }"

subsection \<open>Reconcile\<close>

definition fleetInitialize :: "'w platform \<Rightarrow> Fleet \<Rightarrow> ('w world, reconciled) state" where
  "fleetInitialize P fleet = do {
     let fleet = mapFleetFinalizers (\<lambda>fs. addFinalizer P fs FLEET_FINALIZER) fleet;
     updated \<leftarrow> UpdateFleet P fleet;
     case updated of
       Inl err \<Rightarrow> do {
         emitEvent (ObjFleet fleet) EventTypeWarning ReasonFleetUpdateFailed
           (''Fleet finalizer update failed: '' @ errText err);
         return (requeueResult, Some (errorfW ''failed to add finalizer to fleet: '' err))
       }
     | Inr fleet \<Rightarrow> do {
         emitEvent (ObjFleet fleet) EventTypeNormal ReasonFleetInitialized ''Fleet finalizers added'';
         return (requeueResult, None)
       }
   }"

definition fleetStatus :: "'w platform \<Rightarrow> Fleet \<Rightarrow> ('w world, reconciled) state" where
  "fleetStatus P fleet = do {
     updated \<leftarrow> StatusUpdateFleet P fleet;
     return (case updated of
       Inl err \<Rightarrow> (requeueResult, Some (errorfW ''failed to update Fleet status resource: '' err))
     | Inr _ \<Rightarrow> (requeueResult, None))
   }"

definition fleetScale ::
    "'w platform \<Rightarrow> 'w FleetReconciler \<Rightarrow> string \<Rightarrow> Fleet \<Rightarrow> ('w world, reconciled) state" where
  "fleetScale P r namespace fleet = do {
     listed \<leftarrow> getServers P fleet;
     case listed of
       Inl err \<Rightarrow> return (requeueResult, Some err)
     | Inr servers \<Rightarrow> do {
         let fleet = setCurrentReplicas (int32_of_len servers) fleet;
         if desired fleet \<noteq> current fleet then do {
           (fleet, scaled) \<leftarrow> scaleServerCount P r fleet namespace;
           case scaled of
             Inl err \<Rightarrow> return (emptyResult, Some err)
           | Inr _ \<Rightarrow> do {
               listed \<leftarrow> getServers P fleet;
               case listed of
                 Inl err \<Rightarrow> return (requeueResult, Some err)
               | Inr servers \<Rightarrow> fleetStatus P (setCurrentReplicas (int32_of_len servers) fleet)
             }
         } else fleetStatus P fleet
       }
   }"

definition FleetReconcile ::
    "'w platform \<Rightarrow> 'w FleetReconciler \<Rightarrow> NamespacedName \<Rightarrow> ('w world, reconciled) state" where
  "FleetReconcile P r req = do {
     got \<leftarrow> GetFleet P req;
     case got of
       Inl err \<Rightarrow> return (emptyResult, Some err)
     | Inr fleet \<Rightarrow>
         if beingDeleted (fleet_meta fleet) then do {
           handled \<leftarrow> FleetHandleDeletion P fleet;
           return (case handled of
             Inl err \<Rightarrow> (requeueResult, Some (errorfW ''failed to handle fleet deletion: '' err))
           | Inr _ \<Rightarrow> (requeueResult, None))
         }
         else if DeletionTimestamp (fleet_meta fleet) = None
           \<and> \<not> containsFinalizer P (Finalizers (fleet_meta fleet)) FLEET_FINALIZER
         then fleetInitialize P fleet
         else fleetScale P r (fst req) fleet
   }"

text \<open>The reconciler \<open>cmd/main.go\<close> starts.\<close>

definition prodFleetReconciler :: "'w platform \<Rightarrow> 'w FleetReconciler" where
  "prodFleetReconciler P = \<lparr>DeletionChecker = isDeleteAllowed P\<rparr>"

section \<open>What a run creates and deletes\<close>

fun creation :: "effect \<Rightarrow> Server list" where
  "creation (Create (ObjServer s) _) = [s]"
| "creation _ = []"

fun deletion :: "effect \<Rightarrow> Server list" where
  "deletion (Delete (ObjServer s) _) = [s]"
| "deletion _ = []"

definition creations :: "effect list \<Rightarrow> Server list" where
  "creations es = concat (map creation es)"

definition deletions :: "effect list \<Rightarrow> Server list" where
  "deletions es = concat (map deletion es)"

lemma creations_simps [simp]:
  "creations [] = []" "creations (e # es) = creation e @ creations es"
  "creations (es @ fs) = creations es @ creations fs"
  by (simp_all add: creations_def)

lemma deletions_simps [simp]:
  "deletions [] = []" "deletions (e # es) = deletion e @ deletions es"
  "deletions (es @ fs) = deletions es @ deletions fs"
  by (simp_all add: deletions_def)

lemma no_writes:
  assumes "writes es = []"
  shows "creations es = []" "deletions es = []"
proof -
  have "creation e = [] \<and> deletion e = []" if "\<not> is_write e" for e
    using that by (cases e rule: is_write.cases) simp_all
  with assms show "creations es = []" "deletions es = []"
    by (auto simp: creations_def deletions_def writes_def filter_empty_conv)
qed

abbreviation serversOf :: "Fleet \<Rightarrow> error + Server list \<Rightarrow> effect" where
  "serversOf fleet r \<equiv> Listed ''Server'' (Some (Namespace (fleet_meta fleet)))
     [(''fleet'', Name (fleet_meta fleet))] (map_sum id (map ObjServer) r)"

text \<open>Effects that do not write a fleet.\<close>

fun sparesFleet :: "effect \<Rightarrow> bool" where
  "sparesFleet (Update (ObjFleet _) _) = False"
| "sparesFleet (StatusUpdate _ _) = False"
| "sparesFleet _ = True"

definition sameFleet :: "Fleet \<Rightarrow> Fleet \<Rightarrow> bool" where
  "sameFleet fleet fleet' \<longleftrightarrow> fleet_spec fleet' = fleet_spec fleet \<and> fleet_status fleet' = fleet_status fleet \<and>
     Name (fleet_meta fleet') = Name (fleet_meta fleet) \<and>
     Namespace (fleet_meta fleet') = Namespace (fleet_meta fleet) \<and>
     Finalizers (fleet_meta fleet') = Finalizers (fleet_meta fleet)"

text \<open>A server as the fleet makes it.\<close>

definition madeFor :: "Fleet \<Rightarrow> string \<Rightarrow> Server \<Rightarrow> bool" where
  "madeFor fleet namespace server \<longleftrightarrow>
     matchingLabels [(''fleet'', Name (fleet_meta fleet))] (server_meta server) \<and>
     Namespace (server_meta server) = namespace \<and> server_spec server = ServerSpec (fleet_spec fleet) \<and>
     Finalizers (server_meta server) = [] \<and> DeletionTimestamp (server_meta server) = None"

lemma sameFleet_refl [simp]: "sameFleet fleet fleet"
  by (simp add: sameFleet_def)

lemma sameFleet_trans: "sameFleet a b \<Longrightarrow> sameFleet b c \<Longrightarrow> sameFleet a c"
  by (simp add: sameFleet_def)

lemma sameFleet_madeFor: "sameFleet fleet fleet' \<Longrightarrow> madeFor fleet' = madeFor fleet"
  by (simp add: sameFleet_def madeFor_def fun_eq_iff)

lemma CreateServerForFleet_made:
  assumes "CreateServerForFleet P fleet namespace = (server, fleet')"
  shows "sameFleet fleet fleet'" "madeFor fleet namespace server"
proof -
  from assms show "sameFleet fleet fleet'"
    by (simp add: sameFleet_def CreateServerForFleet_frame)
  from assms have server: "server = fst (CreateServerForFleet P fleet namespace)" by simp
  then show "madeFor fleet namespace server"
    using server_of_fleet.child_selected [of fleet P namespace] server_of_fleet.child_fresh [of P fleet namespace]
    by (simp add: madeFor_def) (simp add: builder_defs)
qed

lemma CreateServerForFleet_step:
  assumes "CreateServerForFleet P fleet namespace = (server, fleet')"
  shows "(sameFleet fleet' fleet'' \<longrightarrow> sameFleet fleet fleet'') \<and> madeFor fleet' = madeFor fleet"
  using CreateServerForFleet_made(1) [OF assms] sameFleet_trans sameFleet_madeFor by blast

section \<open>The traces of the parts\<close>

lemma createServers_trace:
  "emits (createServers P namespace n fleet) (\<lambda>(fleet', res) es. sameFleet fleet fleet' \<and>
     list_all sparesFleet es \<and> deletions es = [] \<and> verdicts es = [] \<and>
     length (creations es) \<le> n \<and> (ok res \<longrightarrow> length (creations es) = n) \<and>
     list_all (madeFor fleet namespace) (creations es))"
proof (induction n arbitrary: fleet)
  case 0
  show ?case by (simp, intro emits_intros) simp
next
  case (Suc n)
  show ?case
    unfolding createServers.simps go_simps
    apply (intro emits_intros)
     apply (simp add: CreateServerForFleet_made)
    apply (rule emits_weaken [OF Suc])
    apply (auto simp: CreateServerForFleet_made dest: CreateServerForFleet_step split: prod.splits)
    done
qed

lemma scaleUp_trace:
  "emits (scaleUp P namespace fleet) (\<lambda>(fleet', res) es. sameFleet fleet fleet' \<and>
     list_all sparesFleet es \<and> deletions es = [] \<and> verdicts es = [] \<and>
     length (creations es) \<le> nat (sint (desired fleet - current fleet)) \<and>
     (ok res \<longrightarrow> length (creations es) = nat (sint (desired fleet - current fleet))) \<and>
     list_all (madeFor fleet namespace) (creations es))"
  unfolding scaleUp_def go_simps
  apply (intro emits_intros)
  apply (rule emits_bind [OF createServers_trace])
  apply (intro emits_intros)
   apply auto
  done

lemma inquiry_spares:
  assumes "list_all is_inquiry es"
  shows "list_all sparesFleet es" "creations es = []" "deletions es = []"
proof -
  have "sparesFleet e" if "is_inquiry e" for e using that by (cases e) (simp_all add: is_inquiry_def)
  with assms show "list_all sparesFleet es" by (simp add: list_all_iff)
  from assms show "creations es = []" "deletions es = []"
    by (simp_all add: inquiries_write_nothing no_writes)
qed

lemma search_calls:
  assumes "fleet_deletion_check check"
  shows "emits (FindDeleteServer fleet servers check) (\<lambda>res es. list_all is_inquiry es \<and>
     (\<forall>s. res = Inr s \<longrightarrow> victim (ageOf fleet) servers es = Some s))"
  by (rule emits_weaken [OF FindDeleteServer_trace [OF assms]])
    (auto simp: searched_def split: if_splits)

lemma victim_pad [simp]:
  "victim age servers (es @ fs) = victim age servers es" if "verdicts fs = []"
  using that by (simp add: victim_def granted_def)

lemma victim_pad_Cons [simp]:
  "victim age servers (e # es) = victim age servers es" if "verdict e = []"
  using that by (simp add: victim_def granted_def)

definition givenUp :: "Fleet \<Rightarrow> effect list \<Rightarrow> bool" where
  "givenUp fleet es \<longleftrightarrow> (\<forall>s\<in>set (deletions es).
     \<exists>ys. serversOf fleet (Inr ys) \<in> set es \<and> victim (ageOf fleet) ys es = Some s)"

lemma scaleDown_trace:
  assumes "fleet_deletion_check (DeletionChecker r)"
  shows "emits (scaleDown P r fleet) (\<lambda>res es. list_all sparesFleet es \<and> creations es = [] \<and>
     length (deletions es) \<le> 1 \<and> (ok res \<longrightarrow> length (deletions es) = 1) \<and> givenUp fleet es)"
  unfolding scaleDown_def getServers_def go_simps
  apply (intro emits_intros)
   apply (simp add: givenUp_def)
  apply (rule emits_bind [OF search_calls [OF assms]])
  apply (intro emits_intros)
    apply (auto simp: inquiry_spares givenUp_def)
  done

lemma scaleServerCount_trace:
  assumes "fleet_deletion_check (DeletionChecker r)"
  shows "emits (scaleServerCount P r fleet namespace) (\<lambda>(fleet', res) es.
     sameFleet fleet fleet' \<and> list_all sparesFleet es \<and> givenUp fleet es \<and>
     list_all (madeFor fleet namespace) (creations es) \<and>
     length (creations es) \<le> (if current fleet <s desired fleet then nat (sint (desired fleet - current fleet)) else 0) \<and>
     length (deletions es) \<le> (if desired fleet <s current fleet then 1 else 0) \<and>
     (ok res \<longrightarrow>
       length (creations es) = (if current fleet <s desired fleet then nat (sint (desired fleet - current fleet)) else 0) \<and>
       length (deletions es) = (if desired fleet <s current fleet then 1 else 0)))"
  unfolding scaleServerCount_def
  apply (intro emits_intros)
   apply (rule emits_bind [OF scaleUp_trace])
   apply (intro emits_intros)
     apply (simp add: givenUp_def)
    apply (rule emits_bind [OF scaleDown_trace [OF assms]])
    apply (intro emits_intros)
    apply (auto simp: sameFleet_def word_sless_alt) [1]
   apply (auto simp: sameFleet_def givenUp_def) [1]
    apply simp
   apply clarsimp
   apply (rule emits_bind [OF scaleDown_trace [OF assms]])
   apply (intro emits_intros)
   apply (auto simp: givenUp_def)
  done

lemma deleteServers_trace:
  "emits (deleteServers P servers) (\<lambda>res es. list_all sparesFleet es \<and> creations es = [] \<and>
     (\<forall>n ns sel r. Listed n ns sel r \<notin> set es) \<and>
     prefix (deletions es) servers \<and> (ok res \<longrightarrow> deletions es = servers))"
proof (induction servers)
  case Nil
  show ?case by (simp, intro emits_intros) simp
next
  case (Cons server servers)
  show ?case
    unfolding deleteServers.simps go_simps
    apply (intro emits_intros)
     apply simp
    apply (rule emits_weaken [OF Cons])
    apply auto
    done
qed

lemma needed_int32:
  assumes "length xs < 2 ^ 31"
  shows "int32_of_len xs <s d \<longleftrightarrow> int (length xs) < sint d"
    "d <s int32_of_len xs \<longleftrightarrow> sint d < int (length xs)"
    "int (length xs) < sint d \<Longrightarrow> sint (d - int32_of_len xs) = sint d - int (length xs)"
proof -
  note n = sint_int32_of_len [OF assms]
  show "int32_of_len xs <s d \<longleftrightarrow> int (length xs) < sint d"
    "d <s int32_of_len xs \<longleftrightarrow> sint d < int (length xs)"
    by (simp_all add: word_sless_alt n)
  assume "int (length xs) < sint d"
  moreover have "sint d < 2 ^ 31" using sint_lt [of d] by simp
  ultimately show "sint (d - int32_of_len xs) = sint d - int (length xs)"
    by (simp add: sint_word_ariths n signed_take_bit_int_eq_self)
qed


text \<open>A fleet is written without its finalizer only when the call before listed its servers and found none.\<close>

fun fleetReleaseOk :: "effect list \<Rightarrow> effect \<Rightarrow> bool" where
  "fleetReleaseOk pre (Update (ObjFleet fleet) _) \<longleftrightarrow>
     FLEET_FINALIZER \<in> set (Finalizers (fleet_meta fleet)) \<or>
     pre \<noteq> [] \<and> last pre = serversOf fleet (Inr [])"
| "fleetReleaseOk pre _ \<longleftrightarrow> True"

text \<open>The status that is written is the number of servers the call before listed.\<close>

fun fleetStatusOk :: "effect list \<Rightarrow> effect \<Rightarrow> bool" where
  "fleetStatusOk pre (StatusUpdate (ObjFleet fleet) _) \<longleftrightarrow>
     (\<exists>servers. pre \<noteq> [] \<and> last pre = serversOf fleet (Inr servers) \<and> current fleet = int32_of_len servers)"
| "fleetStatusOk pre _ \<longleftrightarrow> True"

lemma each_fleet_spared [simp]:
  assumes "list_all sparesFleet es"
  shows "each_after (\<lambda>pre. fleetReleaseOk (f pre)) es" "each_after (\<lambda>pre. fleetStatusOk (f pre)) es"
proof -
  have "fleetReleaseOk pre e \<and> fleetStatusOk pre e" if "sparesFleet e" for pre e
    using that by (cases e rule: sparesFleet.cases) simp_all
  with assms have "list_all (\<lambda>e. \<forall>pre. fleetReleaseOk (f pre) e) es"
    "list_all (\<lambda>e. \<forall>pre. fleetStatusOk (f pre) e) es"
    by (auto simp: list_all_iff)
  then show "each_after (\<lambda>pre. fleetReleaseOk (f pre)) es" "each_after (\<lambda>pre. fleetStatusOk (f pre)) es"
    by (simp_all add: each_after_all)
qed

lemma map_ObjServer_eq [simp]: "map ObjServer xs = map ObjServer ys \<longleftrightarrow> xs = ys"
  by (rule inj_map_eq_map) (simp add: inj_def)

lemma fleet_frames [simp]:
  "fleet_meta (setCurrentReplicas n fleet) = fleet_meta fleet"
  "fleet_spec (setCurrentReplicas n fleet) = fleet_spec fleet"
  "current (setCurrentReplicas n fleet) = n"
  "Finalizers (fleet_meta (mapFleetFinalizers f fleet)) = f (Finalizers (fleet_meta fleet))"
  "Name (fleet_meta (mapFleetFinalizers f fleet)) = Name (fleet_meta fleet)"
  "Namespace (fleet_meta (mapFleetFinalizers f fleet)) = Namespace (fleet_meta fleet)"
  "ageOf (setCurrentReplicas n fleet) = ageOf fleet"
  "madeFor (setCurrentReplicas n fleet) = madeFor fleet"
  by (simp_all add: setCurrentReplicas_def mapFleetFinalizers_def ageOf_def madeFor_def fun_eq_iff)

lemma givenUp_setCurrentReplicas [simp]:
  "givenUp (setCurrentReplicas n fleet) = givenUp fleet"
  by (simp add: givenUp_def fun_eq_iff)

definition shortage :: "Fleet \<Rightarrow> Server list \<Rightarrow> int" where
  "shortage fleet servers = sint (desired fleet) - int (length servers)"

text \<open>What a run that listed \<open>xs\<close> first may create and delete, and what it must when it succeeds.\<close>

definition scaledBy :: "Fleet \<Rightarrow> string \<Rightarrow> Server list \<Rightarrow> bool \<Rightarrow> effect list \<Rightarrow> bool" where
  "scaledBy fleet namespace xs success es \<longleftrightarrow> givenUp fleet es \<and>
     list_all (madeFor fleet namespace) (creations es) \<and>
     int (length (creations es)) \<le> max 0 (shortage fleet xs) \<and>
     length (deletions es) \<le> (if shortage fleet xs < 0 then 1 else 0) \<and>
     (success \<longrightarrow> int (length (creations es)) = max 0 (shortage fleet xs) \<and>
        length (deletions es) = (if shortage fleet xs < 0 then 1 else 0))"

lemma scaleServerCount_listed:
  assumes "fleet_deletion_check (DeletionChecker r)"
  shows "emits (scaleServerCount P r (setCurrentReplicas (int32_of_len xs) fleet) namespace)
     (\<lambda>(fleet', res) es. Name (fleet_meta fleet') = Name (fleet_meta fleet) \<and>
       Namespace (fleet_meta fleet') = Namespace (fleet_meta fleet) \<and> list_all sparesFleet es \<and>
       (length xs < 2 ^ 31 \<longrightarrow> scaledBy fleet namespace xs (ok res) es))"
proof (cases "length xs < 2 ^ 31")
  case True
  show ?thesis
    apply (rule emits_weaken [OF scaleServerCount_trace [OF assms]])
    apply (cases "int (length xs) < sint (desired fleet)"; cases "sint (desired fleet) < int (length xs)")
    apply (auto simp: scaledBy_def shortage_def sameFleet_def needed_int32 [OF True])
    done
next
  case False
  then show ?thesis
    by (intro emits_weaken [OF scaleServerCount_trace [OF assms]]) (auto simp: sameFleet_def)
qed

lemma scaledBy_pad:
  assumes "creations fs = []" "deletions fs = []" "verdicts fs = []"
  shows "scaledBy fleet namespace xs b es \<Longrightarrow> scaledBy fleet namespace xs b (es @ fs)"
  using assms by (auto simp: scaledBy_def givenUp_def)

lemma scaledBy_pad_Cons:
  assumes "creation e = []" "deletion e = []" "verdict e = []"
  shows "scaledBy fleet namespace xs b es \<Longrightarrow> scaledBy fleet namespace xs b (e # es)"
  using assms by (auto simp: scaledBy_def givenUp_def)

lemma scaledBy_weaken: "scaledBy fleet namespace xs b es \<Longrightarrow> scaledBy fleet namespace xs False es"
  by (simp add: scaledBy_def)

lemma scaledBy_still:
  assumes "creations es = []" "deletions es = []" "desired fleet = int32_of_len xs" "length xs < 2 ^ 31"
  shows "scaledBy fleet namespace xs b es"
  using assms by (simp add: scaledBy_def givenUp_def shortage_def sint_int32_of_len)

lemma scaledBy_failed:
  assumes "creations es = []" "deletions es = []"
  shows "scaledBy fleet namespace xs False es"
  using assms by (simp add: scaledBy_def givenUp_def)

lemma fleetScale_scaled:
  assumes "fleet_deletion_check (DeletionChecker r)"
  shows "emits (fleetScale P r namespace fleet) (\<lambda>res es. \<forall>xs rest.
     es = serversOf fleet (Inr xs) # rest \<and> length xs < 2 ^ 31 \<longrightarrow>
       scaledBy fleet namespace xs (snd res = None) es)"
  unfolding fleetScale_def fleetStatus_def getServers_def go_simps
  apply (intro emits_intros)
    apply simp
   apply hypsubst
   apply (rule emits_bind [OF scaleServerCount_listed [OF assms]])
    apply (intro emits_intros)
     apply (auto simp: scaledBy_weaken intro!: scaledBy_pad_Cons scaledBy_pad split: sum.splits) [3]
  apply (auto intro!: scaledBy_still split: sum.splits)
  done

lemma fleetScale_calls:
  assumes "fleet_deletion_check (DeletionChecker r)"
  shows "emits (fleetScale P r namespace fleet) (\<lambda>res es. 
     each_after (\<lambda>pre. fleetReleaseOk (zs @ pre)) es \<and> each_after (\<lambda>pre. fleetStatusOk (zs @ pre)) es)"
  unfolding fleetScale_def fleetStatus_def getServers_def go_simps
  apply (intro emits_intros)
    apply simp
   apply hypsubst
   apply (rule emits_bind [OF scaleServerCount_listed [OF assms]])
    apply (intro emits_intros)
     apply (auto)
  done

lemma releaseFleet_trace:
  assumes "finalizer_laws P" and "pre \<noteq> []" and "last pre = serversOf fleet (Inr [])"
  shows "emits (releaseFleet P fleet) (\<lambda>res es. creations es = [] \<and> deletions es = [] \<and>
     each_after (\<lambda>pre'. fleetReleaseOk (pre @ pre')) es \<and> each_after (\<lambda>pre'. fleetStatusOk (pre @ pre')) es \<and>
     (ok res \<longrightarrow> (\<exists>f. Update (ObjFleet f) True \<in> set es \<and> FLEET_FINALIZER \<notin> set (Finalizers (fleet_meta f)))))"
  unfolding releaseFleet_def go_simps
  apply (intro emits_intros)
  using assms apply (auto simp: finalizer_lawsD)
  done

lemma FleetHandleDeletion_trace:
  assumes "finalizer_laws P"
  shows "emits (FleetHandleDeletion P fleet) (\<lambda>res es. creations es = [] \<and>
     each_after (\<lambda>pre'. fleetReleaseOk (zs @ pre')) es \<and> each_after (\<lambda>pre'. fleetStatusOk (zs @ pre')) es \<and>
     (\<forall>xs rest. es = serversOf fleet (Inr xs) # rest \<longrightarrow>
        prefix (deletions es) xs \<and> (ok res \<longrightarrow> deletions es = xs \<and>
          (serversOf fleet (Inr []) \<in> set rest \<longrightarrow>
             (\<exists>f. Update (ObjFleet f) True \<in> set rest \<and> FLEET_FINALIZER \<notin> set (Finalizers (fleet_meta f)))))))"
  unfolding FleetHandleDeletion_def getServers_def go_simps
  apply (intro emits_intros)
   apply simp
  apply (rule emits_bind [OF deleteServers_trace])
  apply (intro emits_intros)
     apply simp
    apply simp
   apply (rule emits_weaken [OF releaseFleet_trace [OF assms,
      where pre = "zs @ serversOf fleet (Inr xs) # es @ [serversOf fleet (Inr [])]" for xs es]])
     apply simp
    apply simp
   apply auto
  done

lemma FleetHandleDeletion_appends: "emits (FleetHandleDeletion P fleet) (\<lambda>_ _. True)"
  unfolding FleetHandleDeletion_def releaseFleet_def getServers_def go_simps
  by (intro emits_intros emits_bind [OF deleteServers_trace] TrueI)

section \<open>Example runs\<close>

text \<open>The fleet and the servers at the start of a trace, read back from it.\<close>

fun serversIn :: "object list \<Rightarrow> Server list option" where
  "serversIn [] = Some []"
| "serversIn (ObjServer s # xs) = map_option ((#) s) (serversIn xs)"
| "serversIn _ = None"

fun startOf :: "effect list \<Rightarrow> (NamespacedName \<times> Fleet \<times> Server list) option" where
  "startOf (Got k n (Inr (ObjFleet f)) # Listed k' ns sel (Inr xs) # rest) =
     (if k = ''Fleet'' \<and> k' = ''Server'' \<and> ns = Some (Namespace (fleet_meta f)) \<and>
        sel = [(''fleet'', Name (fleet_meta f))]
      then map_option (\<lambda>ys. (n, f, ys)) (serversIn xs) else None)"
| "startOf _ = None"

lemma serversIn_Some: "serversIn xs = Some ys \<longleftrightarrow> xs = map ObjServer ys"
proof (induction xs arbitrary: ys)
  case (Cons x xs)
  then show ?case by (cases x) (auto simp: Cons_eq_map_conv)
qed auto

lemma startOf_Some:
  "startOf es = Some (n, f, ys) \<Longrightarrow>
     \<exists>rest. es = Got ''Fleet'' n (Inr (ObjFleet f)) # serversOf f (Inr ys) # rest"
  by (induction es rule: startOf.induct) (auto simp: serversIn_Some split: if_splits)

definition protectedFleet :: Fleet where
  "protectedFleet = mapFleetFinalizers (\<lambda>_. [FLEET_FINALIZER]) exampleFleet"

definition deletedFleet :: Fleet where
  "deletedFleet = protectedFleet\<lparr>fleet_meta := (fleet_meta protectedFleet)\<lparr>DeletionTimestamp := Some 5\<rparr>\<rparr>"

definition exampleFleetReconcile :: "(cluster world, reconciled) state" where
  "exampleFleetReconcile =
     FleetReconcile memPlatform (prodFleetReconciler memPlatform) (''default'', ''f'')"

definition fleetCluster :: "Fleet \<Rightarrow> Server list \<Rightarrow> cluster" where
  "fleetCluster fleet xs = agedCluster\<lparr>mem_fleets := [fleet], mem_servers := xs\<rparr>"

fun isFleetRelease :: "effect \<Rightarrow> bool" where
  "isFleetRelease (Update (ObjFleet f) _) = (FLEET_FINALIZER \<notin> set (Finalizers (fleet_meta f)))"
| "isFleetRelease _ = False"

fun isFleetStatus :: "effect \<Rightarrow> bool" where
  "isFleetStatus (StatusUpdate (ObjFleet f) _) = True"
| "isFleetStatus _ = False"

section \<open>Properties\<close>

lemma prod_fleet_reconciler [simp]: "fleet_deletion_check (DeletionChecker (prodFleetReconciler P))"
  by (simp add: prodFleetReconciler_def)

lemma FleetReconcile_writes:
  assumes "finalizer_laws P"
  shows "emits (FleetReconcile P (prodFleetReconciler P) req)
     (\<lambda>res es. each_after fleetReleaseOk es \<and> each_after fleetStatusOk es)"
  unfolding FleetReconcile_def fleetInitialize_def go_simps
  apply (intro emits_intros; simp add: finalizer_lawsD [OF assms])
     apply (rule emits_bind [OF FleetHandleDeletion_trace [OF assms,
       where zs = "[Got ''Fleet'' req (Inr (ObjFleet fleet))]" and fleet = fleet for fleet, simplified]])
     apply (intro emits_intros, simp)
  apply (rule fleetScale_calls [OF prod_fleet_reconciler, where zs = "[_]", simplified])
  done

text \<open>
  C14: A fleet reconciliation writes the fleet without its finalizer only when the call just before
  listed the fleet's servers and found none.
\<close>

theorem fleet_released_only_when_empty:
  assumes "finalizer_laws P"
  shows "emits (FleetReconcile P (prodFleetReconciler P) req) (\<lambda>res. each_after fleetReleaseOk)"
  by (rule emits_weaken [OF FleetReconcile_writes [OF assms]]) simp

theorem fleet_released_only_when_empty_witness:
  "each_after fleetReleaseOk (calls exampleFleetReconcile (fleetCluster deletedFleet [])) \<and>
   list_ex isFleetRelease (calls exampleFleetReconcile (fleetCluster deletedFleet []))"
proof
  show "each_after fleetReleaseOk (calls exampleFleetReconcile (fleetCluster deletedFleet []))"
    unfolding exampleFleetReconcile_def
    by (rule emits_calls [OF fleet_released_only_when_empty [OF mem_finalizer_laws]])
  show "list_ex isFleetRelease (calls exampleFleetReconcile (fleetCluster deletedFleet []))"
    by code_simp
qed

text \<open>
  C24: The replica count a fleet reconciliation writes into the status is the number of servers the
  call just before listed for the fleet, as a 32-bit integer.
\<close>

theorem fleet_status_is_last_listing:
  assumes "finalizer_laws P"
  shows "emits (FleetReconcile P (prodFleetReconciler P) req) (\<lambda>res. each_after fleetStatusOk)"
  by (rule emits_weaken [OF FleetReconcile_writes [OF assms]]) simp

theorem fleet_status_is_last_listing_witness:
  "each_after fleetStatusOk (calls exampleFleetReconcile (fleetCluster protectedFleet [])) \<and>
   list_ex isFleetStatus (calls exampleFleetReconcile (fleetCluster protectedFleet []))"
proof
  show "each_after fleetStatusOk (calls exampleFleetReconcile (fleetCluster protectedFleet []))"
    unfolding exampleFleetReconcile_def
    by (rule emits_calls [OF fleet_status_is_last_listing [OF mem_finalizer_laws]])
  show "list_ex isFleetStatus (calls exampleFleetReconcile (fleetCluster protectedFleet []))"
    by code_simp
qed

lemma FleetReconcile_scaled:
  "emits (FleetReconcile P (prodFleetReconciler P) req) (\<lambda>res es. \<forall>fleet xs rest.
     es = Got ''Fleet'' req (Inr (ObjFleet fleet)) # serversOf fleet (Inr xs) # rest \<and>
     \<not> beingDeleted (fleet_meta fleet) \<and> length xs < 2 ^ 31 \<longrightarrow>
       scaledBy fleet (fst req) xs (snd res = None) es)"
  unfolding FleetReconcile_def fleetInitialize_def go_simps
  apply (intro emits_intros; simp)
   apply (rule emits_bind [OF FleetHandleDeletion_appends], intro emits_intros, fastforce)
  apply (rule emits_weaken [OF fleetScale_scaled [OF prod_fleet_reconciler]])
  apply (simp add: scaledBy_pad_Cons)
  done

text \<open>
  C3: A reconciliation of a fleet that is not being deleted, and whose first listing shows
  \<open>xs\<close>, creates at most the servers that are missing and deletes at most one, and only when there
  are too many; when it returns no error it creates exactly the missing ones and deletes exactly
  one if there are too many. Every server it creates carries the fleet's label and spec, and a
  server it deletes is the one the search chooses among a listing of the fleet.
\<close>

theorem fleet_scales_to_spec:
  "emits (FleetReconcile P (prodFleetReconciler P) req) (\<lambda>res es. \<forall>fleet xs rest.
     es = Got ''Fleet'' req (Inr (ObjFleet fleet)) # serversOf fleet (Inr xs) # rest \<and>
     \<not> beingDeleted (fleet_meta fleet) \<and> length xs < 2 ^ 31 \<longrightarrow>
       scaledBy fleet (fst req) xs (snd res = None) es)"
  by (rule FleetReconcile_scaled)

theorem fleet_scales_to_spec_witness:
  "\<exists>fleet xs. length xs = 3 \<and> desired fleet = 1 \<and>
     scaledBy fleet ''default'' xs True (calls exampleFleetReconcile (fleetCluster protectedFleet (mem_servers agedCluster)))"
proof -
  let ?c = "fleetCluster protectedFleet (mem_servers agedCluster)"
  have "case startOf (calls exampleFleetReconcile ?c) of None \<Rightarrow> False
      | Some (n, f, xs) \<Rightarrow> n = (''default'', ''f'') \<and> \<not> beingDeleted (fleet_meta f) \<and> length xs = 3 \<and> desired f = 1"
    by code_simp
  then obtain f xs rest where start: "calls exampleFleetReconcile ?c =
      Got ''Fleet'' (''default'', ''f'') (Inr (ObjFleet f)) # serversOf f (Inr xs) # rest"
      "\<not> beingDeleted (fleet_meta f)" "length xs = 3" "desired f = 1"
    by (auto split: option.splits dest!: startOf_Some)
  moreover have "snd (answer exampleFleetReconcile ?c) = None"
    by code_simp
  ultimately have "scaledBy f ''default'' xs True (calls exampleFleetReconcile ?c)"
    using emits_calls [OF fleet_scales_to_spec, of memPlatform "(''default'', ''f'')" ?c]
    unfolding exampleFleetReconcile_def by fastforce
  with start show ?thesis by blast
qed

text \<open>
  C21: A reconciliation of a fleet that is being deleted creates nothing, deletes servers of its
  first listing only, in order, and, when it returns no error, all of them; if the listing it
  makes afterwards is empty it then writes the fleet without the finalizer.
\<close>

theorem deleted_fleet_drains:
  assumes "finalizer_laws P"
  shows "emits (FleetReconcile P (prodFleetReconciler P) req) (\<lambda>res es. \<forall>fleet xs rest.
     es = Got ''Fleet'' req (Inr (ObjFleet fleet)) # serversOf fleet (Inr xs) # rest \<and>
     beingDeleted (fleet_meta fleet) \<longrightarrow>
       creations es = [] \<and> prefix (deletions es) xs \<and> (snd res = None \<longrightarrow> deletions es = xs \<and>
         (serversOf fleet (Inr []) \<in> set rest \<longrightarrow> (\<exists>f. Update (ObjFleet f) True \<in> set rest \<and>
            FLEET_FINALIZER \<notin> set (Finalizers (fleet_meta f))))))"
  unfolding FleetReconcile_def fleetInitialize_def go_simps
  apply (intro emits_intros; simp)
     apply (rule emits_bind [OF FleetHandleDeletion_trace [OF assms]])
     apply (intro emits_intros)
     apply (auto split: sum.splits) [1]
  apply (rule emits_weaken [OF fleetScale_scaled [OF prod_fleet_reconciler]], simp)
  done

theorem deleted_fleet_drains_witness:
  "\<exists>xs. length xs = 3 \<and>
     deletions (calls exampleFleetReconcile (fleetCluster deletedFleet (mem_servers agedCluster))) = xs"
proof -
  let ?c = "fleetCluster deletedFleet (mem_servers agedCluster)"
  have "case startOf (calls exampleFleetReconcile ?c) of None \<Rightarrow> False
      | Some (n, f, xs) \<Rightarrow> n = (''default'', ''f'') \<and> beingDeleted (fleet_meta f) \<and> length xs = 3"
    by code_simp
  then obtain f xs rest where start: "calls exampleFleetReconcile ?c =
      Got ''Fleet'' (''default'', ''f'') (Inr (ObjFleet f)) # serversOf f (Inr xs) # rest"
      "beingDeleted (fleet_meta f)" "length xs = 3"
    by (auto split: option.splits dest!: startOf_Some)
  moreover have "snd (answer exampleFleetReconcile ?c) = None"
    by code_simp
  ultimately show ?thesis
    using emits_calls [OF deleted_fleet_drains [OF mem_finalizer_laws], of "(''default'', ''f'')" ?c]
    unfolding exampleFleetReconcile_def by blast
qed

end
