(* ===== verification/GameTypeController.thy ===== *)
theory GameTypeController
  imports FleetController
begin

text \<open>
  \<open>operator/internal/controller/gametype_controller.go\<close>: a game type owns one fleet, and two
  while it moves from one pod template to the next. The reconciler names the youngest fleet in the
  status, creates a fleet when there is none or when the template changed, hands the replica count
  down, and deletes the oldest fleet when there is more than one. A Go method that changes the game
  type it is given returns it changed; a successful write replaces the object by the API server's
  answer.
\<close>

section \<open>The reconciler\<close>

definition TypeFinalizer :: string where
  "TypeFinalizer = ''gametype.unfamousthomas.me/finalizer''"

definition mapGameTypeFinalizers :: "(string list \<Rightarrow> string list) \<Rightarrow> GameType \<Rightarrow> GameType" where
  "mapGameTypeFinalizers f gametype = gametype\<lparr>gametype_meta :=
     (gametype_meta gametype)\<lparr>Finalizers := f (Finalizers (gametype_meta gametype))\<rparr>\<rparr>"

definition gametypeHasFinalizer :: "'w platform \<Rightarrow> GameType \<Rightarrow> bool" where
  "gametypeHasFinalizer P gametype =
     containsFinalizer P (Finalizers (gametype_meta gametype)) TypeFinalizer"

definition setCurrentFleetName :: "string \<Rightarrow> GameType \<Rightarrow> GameType" where
  "setCurrentFleetName n gametype =
     gametype\<lparr>gametype_status := (gametype_status gametype)\<lparr>CurrentFleetName := n\<rparr>\<rparr>"

definition setCurrentFleetReplicas :: "int32 \<Rightarrow> GameType \<Rightarrow> GameType" where
  "setCurrentFleetReplicas n gametype =
     gametype\<lparr>gametype_status := (gametype_status gametype)\<lparr>CurrentFleetReplicas := n\<rparr>\<rparr>"

definition setReplicas :: "int32 \<Rightarrow> Fleet \<Rightarrow> Fleet" where
  "setReplicas n fleet = fleet\<lparr>fleet_spec :=
     (fleet_spec fleet)\<lparr>Scaling := (Scaling (fleet_spec fleet))\<lparr>Replicas := n\<rparr>\<rparr>\<rparr>"

abbreviation wanted :: "GameType \<Rightarrow> int32" where
  "wanted gametype \<equiv> Replicas (Scaling (FleetSpec gametype))"

subsection \<open>GetFleetsForType\<close>

definition GetFleetsForType :: "'w platform \<Rightarrow> GameType \<Rightarrow> ('w world, error + Fleet list) state" where
  "GetFleetsForType P gametype = ListFleet P None [(''type'', Name (gametype_meta gametype))]"

subsection \<open>handleGametypeStatus\<close>

definition fleetCreated :: "Fleet \<Rightarrow> time" where
  "fleetCreated fleet = CreationTimestamp (fleet_meta fleet)"

fun youngestLoop :: "Fleet list \<Rightarrow> Fleet option \<Rightarrow> Fleet option" where
  "youngestLoop [] youngest = youngest"
| "youngestLoop (fleet # fleets) None = youngestLoop fleets (Some fleet)"
| "youngestLoop (fleet # fleets) (Some youngest) =
     youngestLoop fleets (if fleetCreated fleet > fleetCreated youngest then Some fleet else Some youngest)"

definition handleGametypeStatus ::
    "'w platform \<Rightarrow> GameType \<Rightarrow> ('w world, GameType \<times> (error + unit)) state" where
  "handleGametypeStatus P gametype = do {
     listed \<leftarrow> GetFleetsForType P gametype;
     case listed of
       Inl err \<Rightarrow> return (gametype, Inl err)
     | Inr fleets \<Rightarrow>
         (case youngestLoop fleets None of
            None \<Rightarrow> return (gametype, Inr ())
          | Some youngestFleet \<Rightarrow> do {
              let gametype = setCurrentFleetName (Name (fleet_meta youngestFleet)) gametype;
              updated \<leftarrow> StatusUpdateFleet P youngestFleet;
              return (gametype, case updated of Inl err \<Rightarrow> Inl err | Inr _ \<Rightarrow> Inr ())
            })
   }"

subsection \<open>updateReplicaCount\<close>

definition updateReplicaCount ::
    "'w platform \<Rightarrow> GameType \<Rightarrow> ('w world, GameType \<times> (error + unit)) state" where
  "updateReplicaCount P gametype =
     (if CurrentFleetName (gametype_status gametype) = '''' then return (gametype, Inr ())
      else do {
        got \<leftarrow> GetFleet P (Namespace (gametype_meta gametype), CurrentFleetName (gametype_status gametype));
        case got of
          Inl err \<Rightarrow> return (gametype, Inl (errorfS ''failed to get fleet to update: '' err))
        | Inr fleet \<Rightarrow> do {
            let gametype = setCurrentFleetReplicas (desired fleet) gametype;
            updated \<leftarrow> StatusUpdateGameType P gametype;
            return (case updated of
              Inl err \<Rightarrow> (gametype, Inl err)
            | Inr gametype \<Rightarrow> (gametype, Inr ()))
          }
      })"

subsection \<open>handleCreation\<close>

definition handleCreation ::
    "'w platform \<Rightarrow> GameType \<Rightarrow> ('w world, GameType \<times> reconciled) state" where
  "handleCreation P gametype = (case GetFleetObjectForType P gametype of
     (fleet, gametype) \<Rightarrow> do {
       made \<leftarrow> CreateFleet P fleet;
       case made of
         Inl err \<Rightarrow> do {
           emitEvent (ObjGameType gametype) EventTypeWarning ReasonGametypeReplicasUpdated
             (''Failed to create new fleet '' @ errText err);
           return (gametype, (emptyResult, Some err))
         }
       | Inr _ \<Rightarrow> return (gametype, (emptyResult, None))
     })"

subsection \<open>handleUpdating\<close>

fun oldestFleetLoop :: "Fleet list \<Rightarrow> Fleet option \<Rightarrow> Fleet option" where
  "oldestFleetLoop [] oldest = oldest"
| "oldestFleetLoop (fleet # fleets) None = oldestFleetLoop fleets (Some fleet)"
| "oldestFleetLoop (fleet # fleets) (Some oldest) =
     oldestFleetLoop fleets (if fleetCreated fleet < fleetCreated oldest then Some fleet else Some oldest)"

text \<open>The three cases of \<open>handleUpdating\<close>, by the number of fleets; the flag is \<open>done\<close>.\<close>

definition noFleet :: "'w platform \<Rightarrow> GameType \<Rightarrow> ('w world, reconciled \<times> bool) state" where
  "noFleet P gametype = do {
     (gametype, (_, err)) \<leftarrow> handleCreation P gametype;
     case err of
       Some err \<Rightarrow> return ((requeueResult, Some err), True)
     | None \<Rightarrow> do {
         emitEvent (ObjGameType gametype) EventTypeNormal ReasonGametypeInitialized ''Created initial fleet'';
         return ((requeueResult, None), True)
       }
   }"

definition handReplicasDown ::
    "'w platform \<Rightarrow> GameType \<Rightarrow> Fleet \<Rightarrow> ('w world, reconciled \<times> bool) state" where
  "handReplicasDown P gametype fleet = do {
     let gametype = setCurrentFleetReplicas (wanted gametype) gametype;
     let fleet = setReplicas (wanted gametype) fleet;
     updated \<leftarrow> UpdateFleet P fleet;
     case updated of
       Inl err \<Rightarrow> return ((requeueResult, Some err), True)
     | Inr fleet \<Rightarrow> do {
         updated \<leftarrow> StatusUpdateGameType P gametype;
         case updated of
           Inl err \<Rightarrow> return ((requeueResult, Some err), True)
         | Inr gametype \<Rightarrow> do {
             emitEvent (ObjGameType gametype) EventTypeNormal ReasonGametypeReplicasUpdated
               (''Scaling gametype to '' @ string_of_int (sint (desired fleet)));
             return ((emptyResult, None), False)
           }
       }
   }"

definition oneFleet :: "'w platform \<Rightarrow> GameType \<Rightarrow> Fleet \<Rightarrow> ('w world, reconciled \<times> bool) state" where
  "oneFleet P gametype fleet = do {
     let gametype = setCurrentFleetName (Name (fleet_meta fleet)) gametype;
     updated \<leftarrow> StatusUpdateGameType P gametype;
     case updated of
       Inl err \<Rightarrow> return ((requeueResult, Some err), True)
     | Inr gametype \<Rightarrow>
         if \<not> AreFleetsPodsEqual (fleet_spec fleet) (FleetSpec gametype) then do {
           emitEvent (ObjGameType gametype) EventTypeNormal ReasonGametypeSpecUpdated ''Creating new fleet'';
           (gametype, res) \<leftarrow> handleCreation P gametype;
           return (res, True)
         }
         else if wanted gametype \<noteq> CurrentFleetReplicas (gametype_status gametype)
         then handReplicasDown P gametype fleet
         else return ((emptyResult, None), False)
   }"

definition extraFleets ::
    "'w platform \<Rightarrow> GameType \<Rightarrow> Fleet list \<Rightarrow> ('w world, reconciled \<times> bool) state" where
  "extraFleets P gametype fleets =
     (case oldestFleetLoop fleets None of
        None \<Rightarrow> return ((emptyResult, None), False)
      | Some oldestFleet \<Rightarrow>
          if DeletionTimestamp (fleet_meta oldestFleet) = None then do {
            emitEvent (ObjGameType gametype) EventTypeNormal ReasonGametypeSpecUpdated ''Deleting extra fleet'';
            deleted \<leftarrow> DeleteFleet P oldestFleet;
            return (case deleted of
              Inl err \<Rightarrow> ((emptyResult, Some err), True)
            | Inr _ \<Rightarrow> ((emptyResult, None), False))
          } else return ((emptyResult, None), False))"

definition handleUpdating :: "'w platform \<Rightarrow> GameType \<Rightarrow> ('w world, reconciled \<times> bool) state" where
  "handleUpdating P gametype = do {
     listed \<leftarrow> GetFleetsForType P gametype;
     case listed of
       Inl err \<Rightarrow> return ((emptyResult, Some err), True)
     | Inr fleets \<Rightarrow>
         (case fleets of
            [] \<Rightarrow> noFleet P gametype
          | [fleet] \<Rightarrow> oneFleet P gametype fleet
          | _ \<Rightarrow> extraFleets P gametype fleets)
   }"

subsection \<open>handleDeletion\<close>

primrec deleteFleets :: "'w platform \<Rightarrow> GameType \<Rightarrow> Fleet list \<Rightarrow> ('w world, error + unit) state" where
  "deleteFleets P gametype [] = return (Inr ())"
| "deleteFleets P gametype (fleet # fleets) = do {
     emitEvent (ObjGameType gametype) EventTypeNormal ReasonGameTypeDeleting
       (''Deleting fleet '' @ Name (fleet_meta fleet));
     deleted \<leftarrow> DeleteFleet P fleet;
     case deleted of
       Inl err \<Rightarrow> do {
         emitEvent (ObjGameType gametype) EventTypeWarning ReasonGametypeServersDeleted
           (''Failed to delete fleet '' @ Name (fleet_meta fleet));
         return (Inl err)
       }
     | Inr _ \<Rightarrow> deleteFleets P gametype fleets
   }"

definition releaseGameType :: "'w platform \<Rightarrow> GameType \<Rightarrow> ('w world, GameType \<times> (error + unit)) state" where
  "releaseGameType P gametype = do {
     let gametype = mapGameTypeFinalizers (\<lambda>fs. removeFinalizer P fs TypeFinalizer) gametype;
     updated \<leftarrow> UpdateGameType P gametype;
     case updated of
       Inl err \<Rightarrow> return (gametype, Inl err)
     | Inr gametype \<Rightarrow> do {
         emitEvent (ObjGameType gametype) EventTypeNormal ReasonGametypeServersDeleted ''Removed finalizer'';
         return (gametype, Inr ())
       }
   }"

definition GameTypeHandleDeletion ::
    "'w platform \<Rightarrow> GameType \<Rightarrow> ('w world, GameType \<times> (error + unit)) state" where
  "GameTypeHandleDeletion P gametype =
     (if gametypeHasFinalizer P gametype then do {
        listed \<leftarrow> GetFleetsForType P gametype;
        case listed of
          Inl err \<Rightarrow> return (gametype, Inl err)
        | Inr fleets \<Rightarrow> do {
            deleted \<leftarrow> deleteFleets P gametype fleets;
            case deleted of
              Inl err \<Rightarrow> return (gametype, Inl err)
            | Inr _ \<Rightarrow> do {
                listed \<leftarrow> GetFleetsForType P gametype;
                case listed of
                  Inl err \<Rightarrow> return (gametype, Inl err)
                | Inr fleets \<Rightarrow>
                    if fleets = [] then releaseGameType P gametype else return (gametype, Inr ())
              }
          }
      } else return (gametype, Inr ()))"

subsection \<open>Reconcile\<close>

definition gametypeInitialize :: "'w platform \<Rightarrow> GameType \<Rightarrow> ('w world, reconciled) state" where
  "gametypeInitialize P gametype = do {
     let gametype = mapGameTypeFinalizers (\<lambda>fs. addFinalizer P fs TypeFinalizer) gametype;
     updated \<leftarrow> UpdateGameType P gametype;
     case updated of
       Inl err \<Rightarrow> do {
         emitEvent (ObjGameType gametype) EventTypeWarning ReasonGametypeInitialized
           (''failed to add finalizers: '' @ errText err);
         return (requeueResult, Some err)
       }
     | Inr gametype \<Rightarrow> do {
         emitEvent (ObjGameType gametype) EventTypeNormal ReasonGametypeInitialized
           ''Added finalizers to game'';
         return (requeueResult, None)
       }
   }"

definition gametypeFinalize :: "'w platform \<Rightarrow> GameType \<Rightarrow> ('w world, reconciled) state" where
  "gametypeFinalize P gametype = do {
     (gametype, handled) \<leftarrow> GameTypeHandleDeletion P gametype;
     case handled of
       Inl err \<Rightarrow> do {
         emitEvent (ObjGameType gametype) EventTypeWarning ReasonGametypeInitialized
           (''failed to remove finalizers: '' @ errText err);
         return (requeueResult, Some err)
       }
     | Inr _ \<Rightarrow> return (requeueResult, None)
   }"

definition gametypeMaintain :: "'w platform \<Rightarrow> GameType \<Rightarrow> ('w world, reconciled) state" where
  "gametypeMaintain P gametype = do {
     (gametype, named) \<leftarrow> handleGametypeStatus P gametype;
     case named of
       Inl err \<Rightarrow> return (emptyResult, Some err)
     | Inr _ \<Rightarrow> do {
         (gametype, counted) \<leftarrow> updateReplicaCount P gametype;
         case counted of
           Inl err \<Rightarrow> return (requeueResult, Some err)
         | Inr _ \<Rightarrow> do {
             (result, finished) \<leftarrow> handleUpdating P gametype;
             return (if finished then result else (requeueResult, None))
           }
       }
   }"

definition GameTypeReconcile ::
    "'w platform \<Rightarrow> NamespacedName \<Rightarrow> ('w world, reconciled) state" where
  "GameTypeReconcile P req = do {
     got \<leftarrow> GetGameType P req;
     case got of
       Inl err \<Rightarrow> return (emptyResult, Some err)
     | Inr gametype \<Rightarrow>
         if DeletionTimestamp (gametype_meta gametype) = None \<and> \<not> gametypeHasFinalizer P gametype
         then gametypeInitialize P gametype
         else if beingDeleted (gametype_meta gametype) then gametypeFinalize P gametype
         else gametypeMaintain P gametype
   }"

section \<open>The youngest and the oldest fleet\<close>

lemma youngestLoop_pick: "youngestLoop fleets y = foldl (better (\<lambda>f. - fleetCreated f)) y fleets"
  by (induction fleets y rule: youngestLoop.induct) (simp_all add: better_def)

lemma oldestFleetLoop_pick: "oldestFleetLoop fleets y = foldl (better fleetCreated) y fleets"
  by (induction fleets y rule: oldestFleetLoop.induct) (simp_all add: better_def)

lemma youngestLoop_None [simp]: "youngestLoop fleets None = pick (\<lambda>f. - fleetCreated f) fleets"
  by (simp add: youngestLoop_pick pick_fold)

lemma oldestFleetLoop_None [simp]: "oldestFleetLoop fleets None = pick fleetCreated fleets"
  by (simp add: oldestFleetLoop_pick pick_fold)

lemma pick_constant:
  assumes "xs \<noteq> []" and "\<And>y. y \<in> set xs \<Longrightarrow> age y = c"
  shows "pick age xs = Some (hd xs)"
  using assms by (cases xs) (simp_all add: pick_def)

definition exampleFleetAt :: "time \<Rightarrow> Fleet" where
  "exampleFleetAt t = exampleFleet\<lparr>fleet_meta := (fleet_meta exampleFleet)\<lparr>CreationTimestamp := t\<rparr>\<rparr>"

text \<open>
  C36: The fleet that is deleted as the oldest is the fleet that the status names as the youngest
  exactly when all fleets of the listing have the same creation time; creation times have a
  resolution of one second.
\<close>

theorem oldest_is_youngest_iff:
  assumes "fleets \<noteq> []"
  shows "oldestFleetLoop fleets None = youngestLoop fleets None \<longleftrightarrow>
     (\<forall>f\<in>set fleets. \<forall>g\<in>set fleets. fleetCreated f = fleetCreated g)"
proof
  assume same: "oldestFleetLoop fleets None = youngestLoop fleets None"
  from assms obtain o' where o: "pick fleetCreated fleets = Some o'"
    by (cases "pick fleetCreated fleets") simp_all
  with same have y: "pick (\<lambda>f. - fleetCreated f) fleets = Some o'" by simp
  have "fleetCreated f = fleetCreated o'" if "f \<in> set fleets" for f
    using pick_Some [OF o] pick_Some [OF y] that by (force intro: order_antisym)
  then show "\<forall>f\<in>set fleets. \<forall>g\<in>set fleets. fleetCreated f = fleetCreated g"
    by metis
next
  assume *: "\<forall>f\<in>set fleets. \<forall>g\<in>set fleets. fleetCreated f = fleetCreated g"
  have "fleetCreated f = fleetCreated (hd fleets)" if "f \<in> set fleets" for f
    using * that assms hd_in_set by blast
  then show "oldestFleetLoop fleets None = youngestLoop fleets None"
    using pick_constant [OF assms, of fleetCreated "fleetCreated (hd fleets)"]
      pick_constant [OF assms, of "\<lambda>f. - fleetCreated f" "- fleetCreated (hd fleets)"]
    by simp
qed

theorem oldest_is_youngest_iff_witness:
  "[exampleFleetAt 1, exampleFleetAt 2] \<noteq> [] \<and>
   oldestFleetLoop [exampleFleetAt 1, exampleFleetAt 2] None \<noteq>
     youngestLoop [exampleFleetAt 1, exampleFleetAt 2] None"
  using oldest_is_youngest_iff [of "[exampleFleetAt 1, exampleFleetAt 2]"]
  by (simp add: exampleFleetAt_def fleetCreated_def)

section \<open>What a run does to the fleets\<close>

fun fleetsIn :: "object list \<Rightarrow> Fleet list option" where
  "fleetsIn [] = Some []"
| "fleetsIn (ObjFleet f # xs) = map_option ((#) f) (fleetsIn xs)"
| "fleetsIn _ = None"

lemma fleetsIn_map [simp]: "fleetsIn (map ObjFleet xs) = Some xs"
  by (induction xs) simp_all

fun noteListing :: "Fleet list option \<Rightarrow> effect \<Rightarrow> Fleet list option" where
  "noteListing acc (Listed _ _ _ (Inr xs)) = (case fleetsIn xs of None \<Rightarrow> acc | Some fs \<Rightarrow> Some fs)"
| "noteListing acc _ = acc"

text \<open>The fleets that the last listing in a trace showed.\<close>

definition lastFleets :: "effect list \<Rightarrow> Fleet list option" where
  "lastFleets es = foldl noteListing None es"

lemma lastFleets_append [simp]: "lastFleets (es @ fs) = foldl noteListing (lastFleets es) fs"
  by (simp add: lastFleets_def)

text \<open>
  The writes a rollout may make: a fleet is created when there is none or when the only one has
  another pod template; it is deleted when there are several, it is the first oldest of them and
  not being deleted already; it is updated when it is the only one, and only in its replica count.
\<close>

fun rolloutOk :: "effect list \<Rightarrow> effect \<Rightarrow> bool" where
  "rolloutOk pre (Create (ObjFleet f) _) \<longleftrightarrow> lastFleets pre = Some [] \<or>
     (\<exists>x. lastFleets pre = Some [x] \<and> \<not> AreFleetsPodsEqual (fleet_spec x) (fleet_spec f))"
| "rolloutOk pre (Delete (ObjFleet f) _) \<longleftrightarrow> (\<exists>xs. lastFleets pre = Some xs \<and> 1 < length xs \<and>
     pick fleetCreated xs = Some f \<and> DeletionTimestamp (fleet_meta f) = None)"
| "rolloutOk pre (Update (ObjFleet f) _) \<longleftrightarrow> (\<exists>x n. lastFleets pre = Some [x] \<and> f = setReplicas n x)"
| "rolloutOk pre (Create _ _) \<longleftrightarrow> False"
| "rolloutOk pre (Delete _ _) \<longleftrightarrow> False"
| "rolloutOk pre (Update _ _) \<longleftrightarrow> False"
| "rolloutOk pre _ \<longleftrightarrow> True"

fun isRollout :: "effect \<Rightarrow> bool" where
  "isRollout (Create _ _) = True"
| "isRollout (Delete _ _) = True"
| "isRollout (Update _ _) = True"
| "isRollout _ = False"

lemma handleCreation_rollout:
  assumes "lastFleets pre = Some [] \<or>
     (\<exists>x. lastFleets pre = Some [x] \<and> \<not> AreFleetsPodsEqual (fleet_spec x) (FleetSpec gametype))"
  shows "emits (handleCreation P gametype) (\<lambda>_ es.
     each_after (\<lambda>pre'. rolloutOk (pre @ pre')) es \<and> length (filter isRollout es) \<le> 1)"
proof -
  have "fleet_spec f = FleetSpec gametype" if "GetFleetObjectForType P gametype = (f, g)" for f g
    using that by (auto simp: builder_defs)
  with assms show ?thesis
    unfolding handleCreation_def go_simps
    by (intro emits_intros) auto
qed

lemma handReplicasDown_rollout:
  assumes "lastFleets pre = Some [fleet]"
  shows "emits (handReplicasDown P gametype fleet) (\<lambda>res es.
     each_after (\<lambda>pre'. rolloutOk (pre @ pre')) es \<and> length (filter isRollout es) \<le> 1)"
  unfolding handReplicasDown_def go_simps
  using assms by (intro emits_intros) auto

lemma emits_bind_ignore:
  "emits m (\<lambda>_. Q) \<Longrightarrow> emits (State_Monad.bind m (\<lambda>(g, r). return (f g r))) (\<lambda>_. Q)"
  by (rule emits_bind, assumption) (auto intro: emits_return)

lemma oneFleet_rollout:
  assumes "lastFleets pre = Some [fleet]"
  shows "emits (oneFleet P gametype fleet) (\<lambda>res es.
     each_after (\<lambda>pre'. rolloutOk (pre @ pre')) es \<and> length (filter isRollout es) \<le> 1)"
  unfolding oneFleet_def go_simps
  apply (intro emits_intros; simp)
   apply (rule emits_bind_ignore)
   apply (rule handleCreation_rollout [where pre = "pre @ [a, b]" for a b, simplified])
   apply (simp add: assms)
  apply (rule handReplicasDown_rollout [where pre = "pre @ [a]" for a, simplified])
  apply (simp add: assms)
  done

lemma noFleet_rollout:
  assumes "lastFleets pre = Some []"
  shows "emits (noFleet P gametype) (\<lambda>res es.
     each_after (\<lambda>pre'. rolloutOk (pre @ pre')) es \<and> length (filter isRollout es) \<le> 1)"
  unfolding noFleet_def go_simps
  apply (rule emits_bind [OF handleCreation_rollout [where pre = pre]])
   apply (simp add: assms)
  apply (intro emits_intros)
   apply auto
  done

lemma extraFleets_rollout:
  assumes "lastFleets pre = Some fleets" and "1 < length fleets"
  shows "emits (extraFleets P gametype fleets) (\<lambda>res es.
     each_after (\<lambda>pre'. rolloutOk (pre @ pre')) es \<and> length (filter isRollout es) \<le> 1)"
  unfolding extraFleets_def go_simps
  using assms by (intro emits_intros) auto

lemma handleUpdating_rollout:
  "emits (handleUpdating P gametype) (\<lambda>res es.
     each_after (\<lambda>pre'. rolloutOk (pre @ pre')) es \<and> length (filter isRollout es) \<le> 1)"
  unfolding handleUpdating_def GetFleetsForType_def go_simps
  apply (intro emits_intros)
   apply simp
  subgoal for r fleets
    apply (cases fleets rule: remdups_adj.cases; simp)
      apply (rule noFleet_rollout [where pre = "pre @ [a]" for a, simplified]; simp)
     apply (rule oneFleet_rollout [where pre = "pre @ [a]" for a, simplified]; simp)
    apply (rule extraFleets_rollout [where pre = "pre @ [a]" for a, simplified]; simp)
    done
  done

lemma each_rollout_still [simp]:
  "list_all (\<lambda>e. \<not> isRollout e) es \<Longrightarrow> each_after (\<lambda>pre. rolloutOk (f pre)) es"
proof (rule each_after_all)
  have "rolloutOk pre e" if "\<not> isRollout e" for pre e
    using that by (cases e rule: isRollout.cases) simp_all
  then show "list_all (\<lambda>e. \<not> isRollout e) es \<Longrightarrow> list_all (\<lambda>e. \<forall>pre. rolloutOk (f pre) e) es"
    by (simp add: list_all_iff)
qed

lemma filter_rollout_still [simp]: "list_all (\<lambda>e. \<not> isRollout e) es \<Longrightarrow> filter isRollout es = []"
  by (simp add: filter_empty_conv list_all_iff)

lemma handleGametypeStatus_calls:
  "emits (handleGametypeStatus P gametype) (\<lambda>res es. list_all (\<lambda>e. \<not> isRollout e) es)"
  unfolding handleGametypeStatus_def GetFleetsForType_def go_simps
  by (intro emits_intros) simp_all

lemma updateReplicaCount_calls:
  "emits (updateReplicaCount P gametype) (\<lambda>res es. list_all (\<lambda>e. \<not> isRollout e) es)"
  unfolding updateReplicaCount_def go_simps
  by (intro emits_intros) simp_all

lemma gametypeMaintain_rollout:
  "emits (gametypeMaintain P gametype) (\<lambda>res es.
     each_after (\<lambda>pre'. rolloutOk (pre @ pre')) es \<and> length (filter isRollout es) \<le> 1)"
  unfolding gametypeMaintain_def
  apply (rule emits_bind [OF handleGametypeStatus_calls])
  apply (intro emits_intros; simp)
  apply (rule emits_bind [OF updateReplicaCount_calls])
  apply (intro emits_intros; simp)
  apply (rule emits_bind_ignore)
  apply (rule handleUpdating_rollout [where pre = "pre @ a @ b" for a b, simplified])
  done

section \<open>Deletion\<close>

abbreviation fleetsOf :: "GameType \<Rightarrow> error + Fleet list \<Rightarrow> effect" where
  "fleetsOf gametype r \<equiv> Listed ''Fleet'' None [(''type'', Name (gametype_meta gametype))]
     (map_sum id (map ObjFleet) r)"

text \<open>A game type is written without its finalizer only when the call before listed its fleets and found none.\<close>

fun gametypeReleaseOk :: "effect list \<Rightarrow> effect \<Rightarrow> bool" where
  "gametypeReleaseOk pre (Update (ObjGameType gametype) _) \<longleftrightarrow>
     TypeFinalizer \<in> set (Finalizers (gametype_meta gametype)) \<or>
     pre \<noteq> [] \<and> last pre = fleetsOf gametype (Inr [])"
| "gametypeReleaseOk pre _ \<longleftrightarrow> True"

fun goneFleet :: "effect \<Rightarrow> Fleet list" where
  "goneFleet (Delete (ObjFleet f) _) = [f]"
| "goneFleet _ = []"

definition goneFleets :: "effect list \<Rightarrow> Fleet list" where
  "goneFleets es = concat (map goneFleet es)"

lemma goneFleets_simps [simp]:
  "goneFleets [] = []" "goneFleets (e # es) = goneFleet e @ goneFleets es"
  "goneFleets (es @ fs) = goneFleets es @ goneFleets fs"
  by (simp_all add: goneFleets_def)

fun isCreate :: "effect \<Rightarrow> bool" where
  "isCreate (Create _ _) = True"
| "isCreate _ = False"

fun sparesGameType :: "effect \<Rightarrow> bool" where
  "sparesGameType (Update (ObjGameType _) _) = False"
| "sparesGameType (Listed _ _ _ _) = False"
| "sparesGameType (Create _ _) = False"
| "sparesGameType _ = True"

lemma each_gametype_spared:
  assumes "list_all sparesGameType es"
  shows "each_after (\<lambda>pre. gametypeReleaseOk (f pre)) es" "list_all (\<lambda>e. \<not> isCreate e) es"
    "Listed n ns sel r \<notin> set es"
proof -
  have *: "gametypeReleaseOk pre e \<and> \<not> isCreate e" if "sparesGameType e" for pre e
    using that by (cases e rule: sparesGameType.cases) simp_all
  with assms show "each_after (\<lambda>pre. gametypeReleaseOk (f pre)) es"
    by (intro each_after_all) (simp add: list_all_iff)
  from assms * show "list_all (\<lambda>e. \<not> isCreate e) es" "Listed n ns sel r \<notin> set es"
    by (auto simp: list_all_iff)
qed

lemma gametype_frames [simp]:
  "Finalizers (gametype_meta (mapGameTypeFinalizers f gametype)) = f (Finalizers (gametype_meta gametype))"
  "Name (gametype_meta (mapGameTypeFinalizers f gametype)) = Name (gametype_meta gametype)"
  "gametype_meta (setCurrentFleetName n gametype) = gametype_meta gametype"
  "CurrentFleetName (gametype_status (setCurrentFleetName n gametype)) = n"
  "CurrentFleetName (gametype_status (setCurrentFleetReplicas k gametype)) = CurrentFleetName (gametype_status gametype)"
  "CurrentFleetReplicas (gametype_status (setCurrentFleetReplicas k gametype)) = k"
  by (simp_all add: mapGameTypeFinalizers_def setCurrentFleetName_def setCurrentFleetReplicas_def)

lemma map_ObjFleet_eq [simp]: "map ObjFleet xs = map ObjFleet ys \<longleftrightarrow> xs = ys"
  by (rule inj_map_eq_map) (simp add: inj_def)

lemma deleteFleets_trace:
  "emits (deleteFleets P gametype fleets) (\<lambda>res es. list_all sparesGameType es \<and>
     prefix (goneFleets es) fleets \<and> (ok res \<longrightarrow> goneFleets es = fleets))"
proof (induction fleets)
  case Nil
  show ?case by (simp, intro emits_intros) simp
next
  case (Cons fleet fleets)
  show ?case
    unfolding deleteFleets.simps go_simps
    apply (intro emits_intros)
     apply simp
    apply (rule emits_weaken [OF Cons])
    apply auto
    done
qed

lemma releaseGameType_trace:
  assumes "finalizer_laws P" and "pre \<noteq> []" and "last pre = fleetsOf gametype (Inr [])"
  shows "emits (releaseGameType P gametype) (\<lambda>(g, res) es. goneFleets es = [] \<and> list_all (\<lambda>e. \<not> isCreate e) es \<and>
     each_after (\<lambda>pre'. gametypeReleaseOk (pre @ pre')) es \<and>
     (ok res \<longrightarrow> (\<exists>g. Update (ObjGameType g) True \<in> set es \<and> TypeFinalizer \<notin> set (Finalizers (gametype_meta g)))))"
  unfolding releaseGameType_def go_simps
  apply (intro emits_intros)
  using assms apply (auto simp: finalizer_lawsD)
  done

lemma GameTypeHandleDeletion_trace:
  assumes "finalizer_laws P"
  shows "emits (GameTypeHandleDeletion P gametype) (\<lambda>(g, res) es. list_all (\<lambda>e. \<not> isCreate e) es \<and>
     each_after (\<lambda>pre'. gametypeReleaseOk (zs @ pre')) es \<and>
     (\<forall>xs rest. es = fleetsOf gametype (Inr xs) # rest \<longrightarrow>
        prefix (goneFleets es) xs \<and> (ok res \<longrightarrow> goneFleets es = xs \<and>
          (fleetsOf gametype (Inr []) \<in> set rest \<longrightarrow>
             (\<exists>g. Update (ObjGameType g) True \<in> set rest \<and> TypeFinalizer \<notin> set (Finalizers (gametype_meta g)))))))"
  unfolding GameTypeHandleDeletion_def GetFleetsForType_def go_simps
  apply (intro emits_intros)
    apply simp
   apply (rule emits_bind [OF deleteFleets_trace])
   apply (intro emits_intros)
      apply (simp add: each_gametype_spared)
     apply (simp add: each_gametype_spared)
    apply (rule emits_weaken [OF releaseGameType_trace [OF assms,
       where pre = "zs @ fleetsOf gametype (Inr xs) # es @ [fleetsOf gametype (Inr [])]" for xs es]])
      apply simp
     apply simp
    apply (auto simp: each_gametype_spared)
  done

lemma rollout_keeps_gametype: "rolloutOk pre e \<Longrightarrow> gametypeReleaseOk pre' e"
  by (cases "(pre, e)" rule: rolloutOk.cases) simp_all

lemma gametypeFinalize_trace:
  assumes "finalizer_laws P"
  shows "emits (gametypeFinalize P gametype) (\<lambda>res es. list_all (\<lambda>e. \<not> isCreate e) es \<and>
     each_after (\<lambda>pre'. gametypeReleaseOk (zs @ pre')) es \<and>
     (\<forall>xs rest. es = fleetsOf gametype (Inr xs) # rest \<longrightarrow>
        prefix (goneFleets es) xs \<and> (snd res = None \<longrightarrow> goneFleets es = xs \<and>
          (fleetsOf gametype (Inr []) \<in> set rest \<longrightarrow>
             (\<exists>g. Update (ObjGameType g) True \<in> set rest \<and> TypeFinalizer \<notin> set (Finalizers (gametype_meta g)))))))"
  unfolding gametypeFinalize_def go_simps
  apply (rule emits_bind [OF GameTypeHandleDeletion_trace [OF assms]])
  apply (intro emits_intros)
   apply (auto simp: append_eq_Cons_conv)
  done

section \<open>The status\<close>

text \<open>
  The first status that is written for a game type names the fleet \<open>y\<close>, and carries the replica
  count of the fleet read under that name.
\<close>

fun firstStatusOk :: "string \<Rightarrow> Fleet \<Rightarrow> effect list \<Rightarrow> effect \<Rightarrow> bool" where
  "firstStatusOk ns y pre (StatusUpdate (ObjGameType g) _) \<longleftrightarrow>
     (\<exists>h c. StatusUpdate (ObjGameType h) c \<in> set pre) \<or>
     CurrentFleetName (gametype_status g) = Name (fleet_meta y) \<and>
     (\<exists>f. Got ''Fleet'' (ns, Name (fleet_meta y)) (Inr (ObjFleet f)) \<in> set pre \<and>
        CurrentFleetReplicas (gametype_status g) = desired f)"
| "firstStatusOk ns y pre _ \<longleftrightarrow> True"

lemma later_status: "StatusUpdate (ObjGameType h) c \<in> set pre \<Longrightarrow> firstStatusOk ns y pre e"
  by (cases "(ns, y, pre, e)" rule: firstStatusOk.cases) auto

lemma later_statuses:
  "StatusUpdate (ObjGameType h) c \<in> set zs \<Longrightarrow> each_after (\<lambda>pre. firstStatusOk ns y (zs @ pre)) es"
  by (auto simp: each_after_def intro: later_status)

lemma no_status:
  "list_all (\<lambda>e. \<forall>g b. e \<noteq> StatusUpdate (ObjGameType g) b) es \<Longrightarrow> each_after (\<lambda>pre. firstStatusOk ns y (f pre)) es"
proof (rule each_after_all)
  have "firstStatusOk ns y pre e" if "\<forall>g b. e \<noteq> StatusUpdate (ObjGameType g) b" for pre e
    using that by (cases "(ns, y, pre, e)" rule: firstStatusOk.cases) auto
  then show "list_all (\<lambda>e. \<forall>g b. e \<noteq> StatusUpdate (ObjGameType g) b) es \<Longrightarrow>
      list_all (\<lambda>e. \<forall>pre. firstStatusOk ns y (f pre) e) es"
    by (simp add: list_all_iff)
qed

lemma handleGametypeStatus_trace:
  "emits (handleGametypeStatus P gametype) (\<lambda>(g, res) es. gametype_meta g = gametype_meta gametype \<and> es \<noteq> [] \<and>
     list_all (\<lambda>e. \<forall>g b. e \<noteq> StatusUpdate (ObjGameType g) b) es \<and>
     (\<forall>fleets y. hd es = fleetsOf gametype (Inr fleets) \<and> pick (\<lambda>f. - fleetCreated f) fleets = Some y \<longrightarrow>
        CurrentFleetName (gametype_status g) = Name (fleet_meta y)))"
  unfolding handleGametypeStatus_def GetFleetsForType_def go_simps
  by (intro emits_intros) auto

lemma updateReplicaCount_trace:
  assumes "Name (fleet_meta y) \<noteq> []"
  shows "emits (updateReplicaCount P gametype) (\<lambda>(g, res) es.
     CurrentFleetName (gametype_status gametype) = Name (fleet_meta y) \<longrightarrow>
       (\<forall>zs. each_after (\<lambda>pre. firstStatusOk (Namespace (gametype_meta gametype)) y (zs @ pre)) es) \<and>
       (ok res \<longrightarrow> (\<exists>h c. StatusUpdate (ObjGameType h) c \<in> set es)))"
  unfolding updateReplicaCount_def go_simps
  using assms by (intro emits_intros) auto

lemma handleUpdating_appends: "emits (handleUpdating P gametype) (\<lambda>_ _. True)"
  by (rule emits_weaken [OF handleUpdating_rollout]) simp

lemma gametypeFinalize_appends: "emits (gametypeFinalize P gametype) (\<lambda>_ _. True)"
  unfolding gametypeFinalize_def GameTypeHandleDeletion_def releaseGameType_def GetFleetsForType_def go_simps
  by (intro emits_intros emits_bind [OF deleteFleets_trace] TrueI)

lemma firstStatus_at:
  assumes "\<forall>zs. each_after (\<lambda>pre. firstStatusOk ns y (zs @ pre)) es"
  shows "each_after (\<lambda>pre. firstStatusOk ns y (e # zs @ pre)) es"
  using assms [THEN spec, of "e # zs"] by simp

lemma laterStatus_at:
  assumes "StatusUpdate (ObjGameType h) c \<in> set zs'"
  shows "each_after (\<lambda>pre. firstStatusOk ns y (e # zs @ zs' @ pre)) es"
  using later_statuses [of h c "e # zs @ zs'" ns y es] assms by simp

lemma gametypeMaintain_status:
  assumes y: "Name (fleet_meta y) \<noteq> []"
  shows "emits (gametypeMaintain P gametype) (\<lambda>res es. \<forall>fleets.
     hd es = fleetsOf gametype (Inr fleets) \<and> pick (\<lambda>f. - fleetCreated f) fleets = Some y \<longrightarrow>
       each_after (\<lambda>pre. firstStatusOk (Namespace (gametype_meta gametype)) y (e # pre)) es)"
  unfolding gametypeMaintain_def
  apply (rule emits_bind [OF handleGametypeStatus_trace])
  apply (intro emits_intros)
   apply (clarsimp simp: no_status)
  apply (rule emits_bind [OF updateReplicaCount_trace [OF y]])
  apply (intro emits_intros)
   apply (clarsimp simp: no_status firstStatus_at)
  apply (rule emits_bind [OF handleUpdating_appends])
  apply (intro emits_intros)
  apply (clarsimp simp: no_status)
  apply (force intro: firstStatus_at laterStatus_at)
  done

lemma GameTypeReconcile_appends: "emits (GameTypeReconcile P req) (\<lambda>_ _. True)"
  unfolding GameTypeReconcile_def gametypeInitialize_def go_simps
  by (intro emits_intros gametypeFinalize_appends emits_weaken [OF gametypeMaintain_rollout] TrueI)

section \<open>Example runs\<close>

fun gametypeStart :: "effect list \<Rightarrow> (NamespacedName \<times> GameType \<times> Fleet list) option" where
  "gametypeStart (Got k n (Inr (ObjGameType g)) # Listed k' ns sel (Inr xs) # rest) =
     (if k = ''GameType'' \<and> k' = ''Fleet'' \<and> ns = None \<and> sel = [(''type'', Name (gametype_meta g))]
      then map_option (\<lambda>ys. (n, g, ys)) (fleetsIn xs) else None)"
| "gametypeStart _ = None"

lemma fleetsIn_Some: "fleetsIn xs = Some ys \<longleftrightarrow> xs = map ObjFleet ys"
proof (induction xs arbitrary: ys)
  case (Cons x xs)
  then show ?case by (cases x) (auto simp: Cons_eq_map_conv)
qed auto

lemma gametypeStart_Some:
  "gametypeStart es = Some (n, g, ys) \<Longrightarrow>
     \<exists>rest. es = Got ''GameType'' n (Inr (ObjGameType g)) # fleetsOf g (Inr ys) # rest"
  by (induction es rule: gametypeStart.induct) (auto simp: fleetsIn_Some split: if_splits)

lemma gametypeStart_run:
  assumes "case gametypeStart es of None \<Rightarrow> False | Some (n, g, xs) \<Rightarrow> Q n g xs"
  obtains n g xs rest where "es = Got ''GameType'' n (Inr (ObjGameType g)) # fleetsOf g (Inr xs) # rest" and "Q n g xs"
  using assms by (auto split: option.splits dest!: gametypeStart_Some)

definition exampleGameType :: "time option \<Rightarrow> GameType" where
  "exampleGameType deleted = \<lparr>gametype_meta = emptyMeta\<lparr>Name := ''g'', Namespace := ''default'',
       Finalizers := [TypeFinalizer], DeletionTimestamp := deleted\<rparr>,
     FleetSpec = fleet_spec exampleFleet,
     gametype_status = \<lparr>GameTypeConditions = [], CurrentFleetName = [], CurrentFleetReplicas = 0\<rparr>\<rparr>"

definition typedFleet :: "string \<Rightarrow> string \<Rightarrow> time \<Rightarrow> Fleet" where
  "typedFleet ns n t = exampleFleet\<lparr>fleet_meta := (fleet_meta exampleFleet)\<lparr>Name := n, Namespace := ns,
     CreationTimestamp := t, Labels := Some [''type'' \<mapsto> ''g'']\<rparr>\<rparr>"

definition gametypeCluster :: "time option \<Rightarrow> Fleet list \<Rightarrow> cluster" where
  "gametypeCluster deleted xs =
     emptyCluster\<lparr>mem_gametypes := [exampleGameType deleted], mem_fleets := xs\<rparr>"

definition twoFleets :: "Fleet list" where
  "twoFleets = [typedFleet ''default'' ''new'' 7, typedFleet ''default'' ''old'' 3]"

definition exampleGameTypeReconcile :: "(cluster world, reconciled) state" where
  "exampleGameTypeReconcile = GameTypeReconcile memPlatform (''default'', ''g'')"

fun isGameTypeRelease :: "effect \<Rightarrow> bool" where
  "isGameTypeRelease (Update (ObjGameType g) _) = (TypeFinalizer \<notin> set (Finalizers (gametype_meta g)))"
| "isGameTypeRelease _ = False"

section \<open>Properties\<close>

text \<open>
  C15: A reconciliation writes a game type without its finalizer only when the call just before
  listed the fleets of the game type and found none.
\<close>

theorem gametype_released_only_when_empty:
  assumes "finalizer_laws P"
  shows "emits (GameTypeReconcile P req) (\<lambda>res. each_after gametypeReleaseOk)"
  unfolding GameTypeReconcile_def gametypeInitialize_def go_simps
  apply (intro emits_intros; simp add: finalizer_lawsD [OF assms])
   apply (rule emits_weaken [OF gametypeFinalize_trace [OF assms, where zs = "[a]" for a, simplified]], blast)
  apply (rule emits_weaken [OF gametypeMaintain_rollout [where pre = "[]", simplified]])
  apply (blast intro: each_after_mono rollout_keeps_gametype)
  done

theorem gametype_released_only_when_empty_witness:
  "each_after gametypeReleaseOk (calls exampleGameTypeReconcile (gametypeCluster (Some 9) [])) \<and>
   list_ex isGameTypeRelease (calls exampleGameTypeReconcile (gametypeCluster (Some 9) []))"
proof
  show "each_after gametypeReleaseOk (calls exampleGameTypeReconcile (gametypeCluster (Some 9) []))"
    unfolding exampleGameTypeReconcile_def
    by (rule emits_calls [OF gametype_released_only_when_empty [OF mem_finalizer_laws]])
  show "list_ex isGameTypeRelease (calls exampleGameTypeReconcile (gametypeCluster (Some 9) []))"
    by code_simp
qed

text \<open>
  C4: While a game type is not being deleted, a reconciliation makes at most one change to its
  fleets, and only a permitted one: it creates a fleet when the last listing showed none, or only
  one with another pod template; it deletes the first oldest fleet of a listing of several, unless
  that one is being deleted already; it changes an only fleet in its replica count alone.
\<close>

theorem rollout_one_step_at_a_time:
  "emits (GameTypeReconcile P req) (\<lambda>res es. \<forall>gametype rest.
     es = Got ''GameType'' req (Inr (ObjGameType gametype)) # rest \<and>
     gametypeHasFinalizer P gametype \<and> \<not> beingDeleted (gametype_meta gametype) \<longrightarrow>
       each_after rolloutOk es \<and> length (filter isRollout es) \<le> 1)"
  unfolding GameTypeReconcile_def gametypeInitialize_def go_simps
  apply (intro emits_intros; simp)
   apply (rule emits_weaken [OF gametypeFinalize_appends], force)
  apply (rule emits_weaken [OF gametypeMaintain_rollout [where pre = "[a]" for a, simplified]])
  apply simp
  done

theorem rollout_one_step_at_a_time_witness:
  "each_after rolloutOk (calls exampleGameTypeReconcile (gametypeCluster None twoFleets)) \<and>
   map (\<lambda>f. Name (fleet_meta f)) (goneFleets (calls exampleGameTypeReconcile (gametypeCluster None twoFleets))) = [''old'']"
proof
  let ?c = "gametypeCluster None twoFleets"
  have "case gametypeStart (calls exampleGameTypeReconcile ?c) of None \<Rightarrow> False
      | Some (n, g, xs) \<Rightarrow> n = (''default'', ''g'') \<and> gametypeHasFinalizer memPlatform g \<and> \<not> beingDeleted (gametype_meta g)"
    by code_simp
  then obtain g xs rest where start: "calls exampleGameTypeReconcile ?c =
      Got ''GameType'' (''default'', ''g'') (Inr (ObjGameType g)) # fleetsOf g (Inr xs) # rest"
      "gametypeHasFinalizer memPlatform g" "\<not> beingDeleted (gametype_meta g)"
    by (auto split: option.splits dest!: gametypeStart_Some)
  with emits_calls [OF rollout_one_step_at_a_time, of memPlatform "(''default'', ''g'')" ?c]
  show "each_after rolloutOk (calls exampleGameTypeReconcile ?c)"
    unfolding exampleGameTypeReconcile_def by blast
  show "map (\<lambda>f. Name (fleet_meta f)) (goneFleets (calls exampleGameTypeReconcile ?c)) = [''old'']"
    by code_simp
qed

text \<open>
  C22: A reconciliation of a game type that is being deleted creates nothing, deletes fleets of its
  first listing only, in order, and, when it returns no error, all of them; if the listing it makes
  afterwards is empty it then writes the game type without the finalizer.
\<close>

theorem deleted_gametype_drains:
  assumes "finalizer_laws P"
  shows "emits (GameTypeReconcile P req) (\<lambda>res es. \<forall>gametype xs rest.
     es = Got ''GameType'' req (Inr (ObjGameType gametype)) # fleetsOf gametype (Inr xs) # rest \<and>
     beingDeleted (gametype_meta gametype) \<longrightarrow>
       list_all (\<lambda>e. \<not> isCreate e) es \<and> prefix (goneFleets es) xs \<and>
       (snd res = None \<longrightarrow> goneFleets es = xs \<and>
         (fleetsOf gametype (Inr []) \<in> set rest \<longrightarrow> (\<exists>g. Update (ObjGameType g) True \<in> set rest \<and>
            TypeFinalizer \<notin> set (Finalizers (gametype_meta g))))))"
  unfolding GameTypeReconcile_def gametypeInitialize_def go_simps
  apply (intro emits_intros; simp)
   apply (rule emits_weaken [OF gametypeFinalize_trace [OF assms]], force)
  apply (rule emits_weaken [OF gametypeMaintain_rollout], simp)
  done

theorem deleted_gametype_drains_witness:
  "\<exists>xs. length xs = 2 \<and> goneFleets (calls exampleGameTypeReconcile (gametypeCluster (Some 9) twoFleets)) = xs"
proof -
  let ?c = "gametypeCluster (Some 9) twoFleets"
  have "case gametypeStart (calls exampleGameTypeReconcile ?c) of None \<Rightarrow> False
      | Some (n, g, xs) \<Rightarrow> n = (''default'', ''g'') \<and> beingDeleted (gametype_meta g) \<and> length xs = 2"
    by code_simp
  then obtain g xs rest where start: "calls exampleGameTypeReconcile ?c =
      Got ''GameType'' (''default'', ''g'') (Inr (ObjGameType g)) # fleetsOf g (Inr xs) # rest"
      "beingDeleted (gametype_meta g)" "length xs = 2"
    by (auto split: option.splits dest!: gametypeStart_Some)
  moreover have "snd (answer exampleGameTypeReconcile ?c) = None"
    by code_simp
  ultimately show ?thesis
    using emits_calls [OF deleted_gametype_drains [OF mem_finalizer_laws], of "(''default'', ''g'')" ?c]
    unfolding exampleGameTypeReconcile_def by blast
qed

lemma youngest_first:
  assumes "\<forall>f\<in>set before. fleetCreated f < fleetCreated y" and "\<forall>f\<in>set after. fleetCreated f \<le> fleetCreated y"
  shows "pick (\<lambda>f. - fleetCreated f) (before @ y # after) = Some y"
proof -
  have "find (\<lambda>f. \<forall>g\<in>set (before @ y # after). - fleetCreated f \<le> - fleetCreated g) before = None"
    using assms(1) by (force simp: find_None_iff)
  moreover have "\<forall>g\<in>set (before @ y # after). - fleetCreated y \<le> - fleetCreated g"
    using assms by (auto simp: less_imp_le)
  ultimately show ?thesis by (simp add: pick_def find_append)
qed

lemma status_names_picked:
  "emits (GameTypeReconcile P req) (\<lambda>res es. \<forall>gametype fleets rest y.
     es = Got ''GameType'' req (Inr (ObjGameType gametype)) # fleetsOf gametype (Inr fleets) # rest \<and>
     \<not> beingDeleted (gametype_meta gametype) \<and>
     pick (\<lambda>f. - fleetCreated f) fleets = Some y \<and> Name (fleet_meta y) \<noteq> [] \<longrightarrow>
       each_after (firstStatusOk (Namespace (gametype_meta gametype)) y) es)"
proof (intro emits_all)
  fix gametype fleets rest y
  show "emits (GameTypeReconcile P req) (\<lambda>res es.
     es = Got ''GameType'' req (Inr (ObjGameType gametype)) # fleetsOf gametype (Inr fleets) # rest \<and>
     \<not> beingDeleted (gametype_meta gametype) \<and>
     pick (\<lambda>f. - fleetCreated f) fleets = Some y \<and> Name (fleet_meta y) \<noteq> [] \<longrightarrow>
       each_after (firstStatusOk (Namespace (gametype_meta gametype)) y) es)"
  proof (cases "Name (fleet_meta y) = []")
    case False
    show ?thesis
      unfolding GameTypeReconcile_def gametypeInitialize_def go_simps
      apply (intro emits_intros; simp)
       apply (rule emits_weaken [OF gametypeFinalize_appends], force)
      apply (rule emits_weaken [OF gametypeMaintain_status [OF False]])
      apply force
      done
  qed (simp add: emits_weaken [OF GameTypeReconcile_appends])
qed

text \<open>
  C25: The first status a reconciliation writes for a game type with fleets names the youngest fleet
  of its first listing, the first one in the listing among several of the latest creation time, and the
  replica count in it is that of the fleet read under this name in the namespace of the game type.
\<close>

theorem status_names_youngest_fleet:
  "emits (GameTypeReconcile P req) (\<lambda>res es. \<forall>gametype before y after rest.
     es = Got ''GameType'' req (Inr (ObjGameType gametype)) # fleetsOf gametype (Inr (before @ y # after)) # rest \<and>
     \<not> beingDeleted (gametype_meta gametype) \<and> Name (fleet_meta y) \<noteq> [] \<and>
     (\<forall>f\<in>set before. fleetCreated f < fleetCreated y) \<and> (\<forall>f\<in>set after. fleetCreated f \<le> fleetCreated y) \<longrightarrow>
       each_after (firstStatusOk (Namespace (gametype_meta gametype)) y) es)"
  by (rule emits_weaken [OF status_names_picked]) (use youngest_first in blast)

theorem status_names_youngest_fleet_witness:
  "\<exists>y. Name (fleet_meta y) = ''new'' \<and>
     each_after (firstStatusOk ''default'' y) (calls exampleGameTypeReconcile (gametypeCluster None twoFleets))"
proof -
  let ?c = "gametypeCluster None twoFleets"
  have "case gametypeStart (calls exampleGameTypeReconcile ?c) of None \<Rightarrow> False
      | Some (n, g, xs) \<Rightarrow> n = (''default'', ''g'') \<and> \<not> beingDeleted (gametype_meta g) \<and>
         Namespace (gametype_meta g) = ''default'' \<and>
         map (\<lambda>f. (Name (fleet_meta f), fleetCreated f)) xs = [(''new'', 7), (''old'', 3)]"
    by code_simp
  then obtain g xs rest where run: "calls exampleGameTypeReconcile ?c =
      Got ''GameType'' (''default'', ''g'') (Inr (ObjGameType g)) # fleetsOf g (Inr xs) # rest"
      "\<not> beingDeleted (gametype_meta g)" "Namespace (gametype_meta g) = ''default''"
      "map (\<lambda>f. (Name (fleet_meta f), fleetCreated f)) xs = [(''new'', 7), (''old'', 3)]"
    by (elim gametypeStart_run conjE; hypsubst) (rule that; assumption)
  then obtain y f where "xs = [] @ y # [f]" and y: "Name (fleet_meta y) = ''new''" "fleetCreated f \<le> fleetCreated y"
    by (auto simp: map_eq_Cons_conv)
  note start = run(1) [unfolded this(1)] run(2,3) y
  with emits_calls [OF status_names_youngest_fleet, of memPlatform "(''default'', ''g'')" ?c]
  have "each_after (firstStatusOk ''default'' y) (calls exampleGameTypeReconcile ?c)"
    unfolding exampleGameTypeReconcile_def by fastforce
  with start(4) show ?thesis by blast
qed

text \<open>
  The fleets among \<open>F\<close> that the documented list call shows: with no namespace given, those of all
  namespaces with the labels.
\<close>

definition shown :: "string option \<Rightarrow> (string \<times> string) list \<Rightarrow> Fleet set \<Rightarrow> Fleet set" where
  "shown ns sel F = {f \<in> F. (case ns of None \<Rightarrow> True | Some n \<Rightarrow> Namespace (fleet_meta f) = n) \<and>
     matchingLabels sel (fleet_meta f)}"

lemma goneFleets_in: "f \<in> set (goneFleets es) \<Longrightarrow> \<exists>b. Delete (ObjFleet f) b \<in> set es"
proof (induction es)
  case (Cons e es)
  then show ?case by (cases e rule: goneFleet.cases) auto
qed simp

lemma handleDeletion_deletes:
  assumes "gametypeHasFinalizer P gametype"
  shows "emits (GameTypeHandleDeletion P gametype) (\<lambda>(g, res) es. \<exists>r rest. es = fleetsOf gametype r # rest \<and>
     (\<forall>xs. r = Inr xs \<and> ok res \<longrightarrow> (\<forall>f\<in>set xs. \<exists>b. Delete (ObjFleet f) b \<in> set rest)))"
  unfolding GameTypeHandleDeletion_def GetFleetsForType_def releaseGameType_def go_simps
  using assms
  apply (intro emits_intros; simp)
  apply (rule emits_bind [OF deleteFleets_trace])
  apply (intro emits_intros)
      apply (auto dest!: goneFleets_in)
  done

lemma gametypeFinalize_deletes:
  assumes "gametypeHasFinalizer P gametype"
  shows "emits (gametypeFinalize P gametype) (\<lambda>res es. \<exists>r rest. es = fleetsOf gametype r # rest \<and>
     (\<forall>xs. r = Inr xs \<and> snd res = None \<longrightarrow> (\<forall>f\<in>set xs. \<exists>b. Delete (ObjFleet f) b \<in> set rest)))"
  unfolding gametypeFinalize_def go_simps
  by (rule emits_bind [OF handleDeletion_deletes [OF assms]], intro emits_intros) auto

text \<open>
  C37: Deleting a game type deletes the fleets of every game type of its name, in whatever namespace: when the
  first listing shows what the cluster has for the listing that the code asks for, and no error is
  reported, each fleet of the cluster with the type label that the fleets of some game type \<open>h\<close> of that name are made
  with has been asked to be deleted.
\<close>

theorem gametype_deletion_crosses_namespaces:
  "emits (GameTypeReconcile P req) (\<lambda>res es. \<forall>gametype ns sel xs rest F f h.
     es = Got ''GameType'' req (Inr (ObjGameType gametype)) # Listed ''Fleet'' ns sel (Inr (map ObjFleet xs)) # rest \<and>
     set xs = shown ns sel F \<and> beingDeleted (gametype_meta gametype) \<and> gametypeHasFinalizer P gametype \<and>
     snd res = None \<and> f \<in> F \<and> Name (gametype_meta h) = Name (gametype_meta gametype) \<and>
     labelOf (fleet_meta f) ''type'' = labelOf (fleet_meta (fst (GetFleetObjectForType P h))) ''type'' \<longrightarrow>
       (\<exists>b. Delete (ObjFleet f) b \<in> set rest))"
proof -
  have seen: "f \<in> shown None [(''type'', Name (gametype_meta g))] F"
    if "f \<in> F" "Name (gametype_meta h) = Name (gametype_meta g)"
      "labelOf (fleet_meta f) ''type'' = labelOf (fleet_meta (fst (GetFleetObjectForType P h))) ''type''" for f F h and g :: GameType
    using that fleet_of_gametype.child_label [of P h] by (simp add: shown_def matchingLabels_def)
  show ?thesis
    unfolding GameTypeReconcile_def gametypeInitialize_def go_simps
    apply (intro emits_intros; simp)
     apply (case_tac "gametypeHasFinalizer P gametype"; simp)
      apply (rule emits_weaken [OF gametypeFinalize_deletes], assumption)
      apply (clarsimp, metis seen)
     apply (rule emits_weaken [OF gametypeFinalize_appends], force)
    apply (rule emits_weaken [OF gametypeMaintain_rollout], simp)
    done
qed

theorem gametype_deletion_crosses_namespaces_witness:
  "\<exists>f b. Namespace (fleet_meta f) = ''other'' \<and>
     Delete (ObjFleet f) b \<in> set (calls exampleGameTypeReconcile
       (gametypeCluster (Some 9) [typedFleet ''other'' ''foreign'' 1]))"
proof -
  let ?c = "gametypeCluster (Some 9) [typedFleet ''other'' ''foreign'' 1]"
  have "case gametypeStart (calls exampleGameTypeReconcile ?c) of None \<Rightarrow> False
      | Some (n, g, xs) \<Rightarrow> n = (''default'', ''g'') \<and> beingDeleted (gametype_meta g) \<and>
         gametypeHasFinalizer memPlatform g \<and> Name (gametype_meta g) = ''g'' \<and>
         map (\<lambda>f. (Namespace (fleet_meta f), labelOf (fleet_meta f) ''type'')) xs = [(''other'', Some ''g'')]"
    by code_simp
  then obtain g xs rest where run: "calls exampleGameTypeReconcile ?c =
      Got ''GameType'' (''default'', ''g'') (Inr (ObjGameType g)) # fleetsOf g (Inr xs) # rest"
      "beingDeleted (gametype_meta g)" "gametypeHasFinalizer memPlatform g" "Name (gametype_meta g) = ''g''"
      "map (\<lambda>f. (Namespace (fleet_meta f), labelOf (fleet_meta f) ''type'')) xs = [(''other'', Some ''g'')]"
    by (elim gametypeStart_run conjE; hypsubst) (rule that; assumption)
  then obtain f where "xs = [f]" and f: "Namespace (fleet_meta f) = ''other''" "labelOf (fleet_meta f) ''type'' = Some ''g''"
    by (auto simp: map_eq_Cons_conv)
  note start = run(1) [unfolded this(1)] run(2,3) f(1) run(4) f(2)
  let ?h = "(exampleGameType None)\<lparr>gametype_meta := emptyMeta\<lparr>Name := ''g'', Namespace := ''other''\<rparr>\<rparr>"
  have "labelOf (fleet_meta f) ''type'' = labelOf (fleet_meta (fst (GetFleetObjectForType memPlatform ?h))) ''type''"
    using fleet_of_gametype.child_label [of memPlatform ?h] start(6) by simp
  moreover have "set [f] = shown None [(''type'', Name (gametype_meta g))] {f}"
    using start(5,6) by (auto simp: shown_def matchingLabels_def)
  moreover have "snd (answer exampleGameTypeReconcile ?c) = None" by code_simp
  moreover have "Name (gametype_meta ?h) = Name (gametype_meta g)" using start(5) by simp
  moreover note emits_calls [OF gametype_deletion_crosses_namespaces, of memPlatform "(''default'', ''g'')" ?c,
    folded exampleGameTypeReconcile_def, rule_format, of g None "[(''type'', Name (gametype_meta g))]" "[f]" rest "{f}" f ?h]
  ultimately obtain b where "Delete (ObjFleet f) b \<in> set rest"
    using start(1-3) by auto
  with start(1,4) show ?thesis by auto
qed

end
