(* ===== verification/Webhooks.thy ===== *)
theory Webhooks
  imports Builders
begin

text \<open>
  The admission webhooks of \<open>operator/api/v1alpha1\<close>: for each kind, \<open>Default\<close>, which fills in
  the timeout, and the three validations. A validation returns its warnings or an error. The
  locale \<open>timeout_default\<close> is the contract of the three defaulters that do something.
\<close>

section \<open>server\_webhook.go\<close>

definition defaultTimeout :: duration where
  "defaultTimeout = Minute * 40"

text \<open>\<open>reflect.DeepEqual\<close>: a nil slice and an empty one differ.\<close>

definition arePodSpecsEqual :: "PodSpec \<Rightarrow> PodSpec \<Rightarrow> bool" where
  "arePodSpecsEqual a b \<longleftrightarrow> a = b"

text \<open>What \<open>%T\<close> prints of an object.\<close>

fun typeName :: "object \<Rightarrow> string" where
  "typeName (ObjServer _) = ''*v1alpha1.Server''"
| "typeName (ObjFleet _) = ''*v1alpha1.Fleet''"
| "typeName (ObjGameType _) = ''*v1alpha1.GameType''"
| "typeName (ObjGameAutoscaler _) = ''*v1alpha1.GameAutoscaler''"
| "typeName (ObjPod _) = ''*v1.Pod''"

type_synonym admission = "error + string list"

definition ServerDefault :: "Server \<Rightarrow> Server" where
  "ServerDefault r =
     (if TimeOut (server_spec r) = None
      then r\<lparr>server_spec := (server_spec r)\<lparr>TimeOut := Some defaultTimeout\<rparr>\<rparr>
      else r)"

definition imageError :: error where
  "imageError = newError ''image is required for every container''"

text \<open>The loop over the containers that stops at the first one without an image.\<close>

fun checkImages :: "Container list \<Rightarrow> error option" where
  "checkImages [] = None"
| "checkImages (c # cs) = (if Image c = '''' then Some imageError else checkImages cs)"

definition ServerValidateCreate :: "Server \<Rightarrow> admission" where
  "ServerValidateCreate r =
     (if length (elems (Containers (Pod (server_spec r)))) < 1 then Inl (newError ''at least 1 container required'')
      else (case checkImages (elems (Containers (Pod (server_spec r)))) of
          Some err \<Rightarrow> Inl err
        | None \<Rightarrow> Inr []))"

definition ServerValidateUpdate :: "Server \<Rightarrow> object \<Rightarrow> admission" where
  "ServerValidateUpdate r old =
     (case old of
        ObjServer oldServer \<Rightarrow>
          if \<not> arePodSpecsEqual (Pod (server_spec oldServer)) (Pod (server_spec r))
          then Inl (newError ''updating a servers pod spec is not allowed, please remake the server'')
          else Inr []
      | _ \<Rightarrow> Inl (newError (''expected old object to be *Server, got '' @ typeName old)))"

definition ServerValidateDelete :: "Server \<Rightarrow> admission" where
  "ServerValidateDelete r = Inr []"

section \<open>fleet\_webhook.go\<close>

definition FleetDefault :: "Fleet \<Rightarrow> Fleet" where
  "FleetDefault r =
     (if TimeOut (ServerSpec (fleet_spec r)) = None
      then r\<lparr>fleet_spec := (fleet_spec r)\<lparr>ServerSpec :=
        (ServerSpec (fleet_spec r))\<lparr>TimeOut := Some defaultTimeout\<rparr>\<rparr>\<rparr>
      else r)"

definition validatePriorities :: "Fleet \<Rightarrow> error option" where
  "validatePriorities r =
     (let priority = AgePriority (Scaling (fleet_spec r)) in
      if priority = '''' then Some (newError ''AgePriority is required'')
      else if priority \<notin> set validPriorities then Some (newError (''unknown priority '' @ priority))
      else None)"

definition FleetValidateCreate :: "Fleet \<Rightarrow> admission" where
  "FleetValidateCreate r =
     (case validatePriorities r of
        Some err \<Rightarrow> Inl err
      | None \<Rightarrow>
          (case checkImages (elems (Containers (Pod (ServerSpec (fleet_spec r))))) of
             Some err \<Rightarrow> Inl err
           | None \<Rightarrow>
               if TimeOut (ServerSpec (fleet_spec r)) = None
               then Inl (newError ''timeout is required for every server'')
               else Inr []))"

text \<open>
  \<open>oldFleet.Spec.ServerSpec.TimeOut != r.Spec.ServerSpec.TimeOut\<close> compares two pointers. Whether
  two pointers that are not nil are the same one is the argument \<open>shared\<close>; the API server
  decodes the two objects apart, so there it is \<open>False\<close>.
\<close>

fun ptrDiffers :: "bool \<Rightarrow> 'a option \<Rightarrow> 'a option \<Rightarrow> bool" where
  "ptrDiffers shared None None = False"
| "ptrDiffers shared (Some _) (Some _) = (\<not> shared)"
| "ptrDiffers shared _ _ = True"

definition FleetValidateUpdate :: "bool \<Rightarrow> Fleet \<Rightarrow> object \<Rightarrow> admission" where
  "FleetValidateUpdate shared r old =
     (case validatePriorities r of
        Some err \<Rightarrow> Inl err
      | None \<Rightarrow>
          (case old of
             ObjFleet oldFleet \<Rightarrow>
               let oldSpec = ServerSpec (fleet_spec oldFleet); spec = ServerSpec (fleet_spec r);
                   warnings = (if ptrDiffers shared (TimeOut oldSpec) (TimeOut spec)
                     then [''New timeout will not affect previously created servers''] else []);
                   warnings = warnings @ (if AllowForceDelete oldSpec \<noteq> AllowForceDelete spec
                     then [''New allowForceDelete will not affect previously created servers''] else [])
               in if \<not> arePodSpecsEqual (Pod oldSpec) (Pod spec)
                  then Inl (newError ''pod template cannot be updated'')
                  else Inr warnings
           | _ \<Rightarrow> Inl (newError (''expected old object to be *Fleet, got '' @ typeName old))))"

definition FleetValidateDelete :: "Fleet \<Rightarrow> admission" where
  "FleetValidateDelete r = Inr []"

section \<open>gametype\_webhook.go\<close>

definition GameTypeDefault :: "GameType \<Rightarrow> GameType" where
  "GameTypeDefault r =
     (if TimeOut (ServerSpec (FleetSpec r)) = None
      then r\<lparr>FleetSpec := (FleetSpec r)\<lparr>ServerSpec :=
        (ServerSpec (FleetSpec r))\<lparr>TimeOut := Some defaultTimeout\<rparr>\<rparr>\<rparr>
      else r)"

definition GameTypeValidateCreate :: "GameType \<Rightarrow> admission" where
  "GameTypeValidateCreate r =
     (case checkImages (elems (Containers (Pod (ServerSpec (FleetSpec r))))) of
        Some err \<Rightarrow> Inl err
      | None \<Rightarrow>
          if length (elems (Containers (Pod (ServerSpec (FleetSpec r))))) = 0
          then Inl (newError ''at least one container is required'')
          else Inr [])"

definition GameTypeValidateUpdate :: "GameType \<Rightarrow> object \<Rightarrow> admission" where
  "GameTypeValidateUpdate r old = Inr []"

definition GameTypeValidateDelete :: "GameType \<Rightarrow> admission" where
  "GameTypeValidateDelete r = Inr []"

section \<open>gameautoscaler\_webhook.go\<close>

definition GameAutoscalerDefault :: "GameAutoscaler \<Rightarrow> GameAutoscaler" where
  "GameAutoscalerDefault r = r"

definition emptySync :: Sync where
  "emptySync = \<lparr>syncType = [], syncTime = None\<rparr>"

definition emptyPolicy :: AutoscalePolicy where
  "emptyPolicy = \<lparr>policyType = [], WebhookAutoscalerSpec = \<lparr>Url = None, Path = None, Service = None\<rparr>\<rparr>"

text \<open>\<open>Duration.Milliseconds\<close> rounds towards zero.\<close>

definition Milliseconds :: "duration \<Rightarrow> int" where
  "Milliseconds d = sgn d * (\<bar>d\<bar> div 1000000)"

text \<open>A comparison with a zero struct compares every field, a pointer with nil.\<close>

definition GameAutoscalerValidateCreate :: "GameAutoscaler \<Rightarrow> admission" where
  "GameAutoscalerValidateCreate r =
     (if GameName r = '''' then Inl (newError ''GameAutoscaler must specify GameName'')
      else if Sync r = emptySync then Inl (newError ''cannot create GameAutoscaler without Sync'')
      else if AutoscalePolicy r = emptyPolicy
      then Inl (newError ''cannot create GameAutoscaler without AutoscalePolicy'')
      else if policyType (AutoscalePolicy r) = Webhook
        \<and> Service (WebhookAutoscalerSpec (AutoscalePolicy r)) = None
        \<and> Url (WebhookAutoscalerSpec (AutoscalePolicy r)) = None
      then Inl (newError ''cannot create GameAutoscaler without url or service specified'')
      else if (case syncTime (Sync r) of None \<Rightarrow> True | Some t \<Rightarrow> Milliseconds t \<le> 0)
      then Inl (newError ''cannot create GameAutoscaler without proper time'')
      else Inr [])"

definition GameAutoscalerValidateUpdate :: "GameAutoscaler \<Rightarrow> object \<Rightarrow> admission" where
  "GameAutoscalerValidateUpdate r old = GameAutoscalerValidateCreate r"

definition GameAutoscalerValidateDelete :: "GameAutoscaler \<Rightarrow> admission" where
  "GameAutoscalerValidateDelete r = Inr []"

section \<open>The contract of the defaulters\<close>

locale timeout_default =
  fixes spec_of :: "'a \<Rightarrow> ServerSpec"
    and dflt :: "'a \<Rightarrow> 'a"
  assumes keeps_set: "TimeOut (spec_of r) \<noteq> None \<Longrightarrow> dflt r = r"
    and fills_nil: "TimeOut (spec_of r) = None \<Longrightarrow>
      spec_of (dflt r) = (spec_of r)\<lparr>TimeOut := Some defaultTimeout\<rparr>"
begin

lemma dflt_spec:
  "spec_of (dflt r) = (spec_of r)\<lparr>TimeOut :=
     Some (case TimeOut (spec_of r) of None \<Rightarrow> defaultTimeout | Some t \<Rightarrow> t)\<rparr>"
  by (cases "TimeOut (spec_of r)") (auto simp: fills_nil keeps_set)

lemma dflt_has_timeout: "TimeOut (spec_of (dflt r)) \<noteq> None"
  by (simp add: dflt_spec)

lemma dflt_idem: "dflt (dflt r) = dflt r"
  by (rule keeps_set) (rule dflt_has_timeout)

lemma dflt_pod: "Pod (spec_of (dflt r)) = Pod (spec_of r)"
  by (simp add: dflt_spec)

end

interpretation server_default: timeout_default server_spec ServerDefault
  by unfold_locales (auto simp: ServerDefault_def)

interpretation fleet_default: timeout_default "\<lambda>r. ServerSpec (fleet_spec r)" FleetDefault
  by unfold_locales (auto simp: FleetDefault_def)

interpretation gametype_default: timeout_default "\<lambda>r. ServerSpec (FleetSpec r)" GameTypeDefault
  by unfold_locales (auto simp: GameTypeDefault_def)

section \<open>Properties\<close>

lemma checkImages_None: "checkImages cs = None \<longleftrightarrow> (\<forall>c\<in>set cs. Image c \<noteq> [])"
  by (induction cs) auto

lemma validatePriorities_None:
  "validatePriorities r = None \<longleftrightarrow> AgePriority (Scaling (fleet_spec r)) \<in> set validPriorities"
  by (auto simp: validatePriorities_def Let_def validPriorities_def OldestFirst_def NewestFirst_def)

lemma Milliseconds_le_0: "Milliseconds t \<le> 0 \<longleftrightarrow> t < 1000000"
  by (auto simp: Milliseconds_def sgn_if zero_less_mult_iff pos_imp_zdiv_pos_iff not_le)

lemma ServerValidateCreate_ok: "ok (ServerValidateCreate s) \<longleftrightarrow>
    elems (Containers (Pod (server_spec s))) \<noteq> [] \<and> (\<forall>c\<in>set (elems (Containers (Pod (server_spec s)))). Image c \<noteq> [])"
  by (auto simp: ServerValidateCreate_def checkImages_None [symmetric] Suc_le_eq split: option.splits)

lemma FleetValidateCreate_ok: "ok (FleetValidateCreate f) \<longleftrightarrow>
    AgePriority (Scaling (fleet_spec f)) \<in> set validPriorities \<and>
    (\<forall>c\<in>set (elems (Containers (Pod (ServerSpec (fleet_spec f))))). Image c \<noteq> []) \<and>
    TimeOut (ServerSpec (fleet_spec f)) \<noteq> None"
  by (auto simp: FleetValidateCreate_def checkImages_None [symmetric]
    validatePriorities_None [symmetric] split: option.splits)

lemma GameTypeValidateCreate_ok: "ok (GameTypeValidateCreate g) \<longleftrightarrow>
    elems (Containers (Pod (ServerSpec (FleetSpec g)))) \<noteq> [] \<and>
    (\<forall>c\<in>set (elems (Containers (Pod (ServerSpec (FleetSpec g))))). Image c \<noteq> [])"
  by (auto simp: GameTypeValidateCreate_def checkImages_None [symmetric] split: option.splits)

lemma GameAutoscalerValidateCreate_ok: "ok (GameAutoscalerValidateCreate a) \<longleftrightarrow>
    GameName a \<noteq> [] \<and> AutoscalePolicy a \<noteq> emptyPolicy \<and>
    (policyType (AutoscalePolicy a) = Webhook \<longrightarrow>
       Service (WebhookAutoscalerSpec (AutoscalePolicy a)) \<noteq> None \<or>
       Url (WebhookAutoscalerSpec (AutoscalePolicy a)) \<noteq> None) \<and>
    (\<exists>t\<ge>1000000. syncTime (Sync a) = Some t)"
  by (auto simp: GameAutoscalerValidateCreate_def Milliseconds_le_0 emptySync_def not_less split: option.splits)


definition webhookAutoscaler :: "string \<Rightarrow> duration option \<Rightarrow> GameAutoscaler" where
  "webhookAutoscaler p t = \<lparr>autoscaler_meta = emptyMeta\<lparr>Name := ''s'', Namespace := ''default''\<rparr>,
     GameName = ''g'',
     AutoscalePolicy = \<lparr>policyType = p, WebhookAutoscalerSpec =
       \<lparr>Url = Some ''http://scaler'', Path = Some ''scale'', Service = None\<rparr>\<rparr>,
     Sync = \<lparr>syncType = FixedInterval, syncTime = t\<rparr>\<rparr>"


definition timeoutWarning :: string where
  "timeoutWarning = ''New timeout will not affect previously created servers''"

definition forceWarning :: string where
  "forceWarning = ''New allowForceDelete will not affect previously created servers''"

lemma ptrDiffers_apart: "ptrDiffers False p q \<longleftrightarrow> p \<noteq> None \<or> q \<noteq> None"
  by (cases p; cases q) simp_all

lemma update_warnings:
  assumes "FleetValidateUpdate False f (ObjFleet f') = Inr warnings"
  shows "warnings =
      (if TimeOut (ServerSpec (fleet_spec f)) \<noteq> None \<or> TimeOut (ServerSpec (fleet_spec f')) \<noteq> None
       then [timeoutWarning] else []) @
      (if AllowForceDelete (ServerSpec (fleet_spec f)) \<noteq> AllowForceDelete (ServerSpec (fleet_spec f'))
       then [forceWarning] else [])"
proof -
  from assms [unfolded FleetValidateUpdate_def Let_def object.case arePodSpecsEqual_def
      timeoutWarning_def [symmetric] forceWarning_def [symmetric]]
  show ?thesis by (cases "validatePriorities f") (simp_all add: ptrDiffers_apart disj_commute eq_commute split: if_split_asm)
qed

lemma warnings_apart [simp]: "timeoutWarning \<noteq> forceWarning" "forceWarning \<noteq> timeoutWarning"
  by (simp_all add: timeoutWarning_def forceWarning_def)

text \<open>
  C27: An update is admitted exactly when it leaves the pod template alone, down to the difference
  between a nil slice and an empty one, for a fleet if also its age priority is a known one. The
  warnings of an admitted update of a fleet: of a new force flag exactly when the flag changed; of a
  new timeout whenever the old or the new fleet has a timeout, changed or not, since the two objects
  are decoded apart and the code compares the pointers.
\<close>

theorem pod_template_immutable:
  "(ok (ServerValidateUpdate s (ObjServer s')) \<longleftrightarrow> Pod (server_spec s) = Pod (server_spec s')) \<and>
   (ok (FleetValidateUpdate shared f (ObjFleet f')) \<longleftrightarrow>
      AgePriority (Scaling (fleet_spec f)) \<in> set validPriorities \<and>
      Pod (ServerSpec (fleet_spec f)) = Pod (ServerSpec (fleet_spec f'))) \<and>
   (\<forall>warnings. FleetValidateUpdate False f (ObjFleet f') = Inr warnings \<longrightarrow>
      (timeoutWarning \<in> set warnings \<longleftrightarrow>
         TimeOut (ServerSpec (fleet_spec f)) \<noteq> None \<or> TimeOut (ServerSpec (fleet_spec f')) \<noteq> None) \<and>
      (forceWarning \<in> set warnings \<longleftrightarrow>
         AllowForceDelete (ServerSpec (fleet_spec f)) \<noteq> AllowForceDelete (ServerSpec (fleet_spec f'))))"
proof (intro conjI allI impI)
  show "ok (ServerValidateUpdate s (ObjServer s')) \<longleftrightarrow> Pod (server_spec s) = Pod (server_spec s')"
    by (auto simp: ServerValidateUpdate_def arePodSpecsEqual_def Let_def)
  show "ok (FleetValidateUpdate shared f (ObjFleet f')) \<longleftrightarrow>
      AgePriority (Scaling (fleet_spec f)) \<in> set validPriorities \<and>
      Pod (ServerSpec (fleet_spec f)) = Pod (ServerSpec (fleet_spec f'))"
    by (auto simp: FleetValidateUpdate_def arePodSpecsEqual_def Let_def
      validatePriorities_None [symmetric] split: option.splits)
next
  fix warnings
  assume "FleetValidateUpdate False f (ObjFleet f') = Inr warnings"
  note w = update_warnings [OF this]
  show "timeoutWarning \<in> set warnings \<longleftrightarrow>
      TimeOut (ServerSpec (fleet_spec f)) \<noteq> None \<or> TimeOut (ServerSpec (fleet_spec f')) \<noteq> None"
    by (simp add: w)
  show "forceWarning \<in> set warnings \<longleftrightarrow>
      AllowForceDelete (ServerSpec (fleet_spec f)) \<noteq> AllowForceDelete (ServerSpec (fleet_spec f'))"
    by (simp add: w)
qed

definition webhookFleet :: Fleet where
  "webhookFleet = \<lparr>fleet_meta = emptyMeta,
     fleet_spec = \<lparr>ServerSpec = \<lparr>Pod = \<lparr>Containers = None, ImagePullSecrets = None, podOther = []\<rparr>,
         TimeOut = Some Minute, AllowForceDelete = False\<rparr>,
       Scaling = \<lparr>Replicas = 1, PrioritizeAllowed = False, AgePriority = OldestFirst\<rparr>\<rparr>,
     fleet_status = \<lparr>FleetConditions = [], CurrentReplicas = 0\<rparr>\<rparr>"

text \<open>The example: neither the timeout nor the flag changes. An explicit empty list is a change.\<close>

definition emptyListFleet :: Fleet where
  "emptyListFleet = webhookFleet\<lparr>fleet_spec := (fleet_spec webhookFleet)\<lparr>ServerSpec :=
     (ServerSpec (fleet_spec webhookFleet))\<lparr>Pod := (Pod (ServerSpec (fleet_spec webhookFleet)))
       \<lparr>ImagePullSecrets := Some []\<rparr>\<rparr>\<rparr>\<rparr>"

theorem pod_template_immutable_witness:
  "(\<exists>warnings. FleetValidateUpdate False webhookFleet (ObjFleet webhookFleet) = Inr warnings \<and>
      timeoutWarning \<in> set warnings \<and> forceWarning \<notin> set warnings) \<and>
   \<not> ok (FleetValidateUpdate False webhookFleet (ObjFleet emptyListFleet))"
proof
  have t: "TimeOut (ServerSpec (fleet_spec webhookFleet)) = Some Minute"
    and p: "AgePriority (Scaling (fleet_spec webhookFleet)) \<in> set validPriorities"
    by (simp_all add: webhookFleet_def validPriorities_def)
  note update = pod_template_immutable [where f = webhookFleet and shared = False]
  from update [where f' = webhookFleet] p have "ok (FleetValidateUpdate False webhookFleet (ObjFleet webhookFleet))" by blast
  then obtain warnings where "FleetValidateUpdate False webhookFleet (ObjFleet webhookFleet) = Inr warnings"
    by (cases "FleetValidateUpdate False webhookFleet (ObjFleet webhookFleet)") auto
  with update [where f' = webhookFleet] t show "\<exists>warnings. FleetValidateUpdate False webhookFleet (ObjFleet webhookFleet)
      = Inr warnings \<and> timeoutWarning \<in> set warnings \<and> forceWarning \<notin> set warnings" by blast
  have "Pod (ServerSpec (fleet_spec webhookFleet)) \<noteq> Pod (ServerSpec (fleet_spec emptyListFleet))"
    by (simp add: emptyListFleet_def webhookFleet_def)
  with update [where f' = emptyListFleet]
  show "\<not> ok (FleetValidateUpdate False webhookFleet (ObjFleet emptyListFleet))" by blast
qed

text \<open>
  C28: The servers of a fleet get its spec: its timeout when it has one, the 40 minutes of the
  defaulter otherwise, and its pod template and force flag as they are; and the servers of the fleet that is
  made for a game type get all three from the game type in the same way, whether the fleet is
  defaulted once more or not.
\<close>

theorem defaults_reach_the_servers:
  "(let made = server_spec (fst (CreateServerForFleet P (FleetDefault fleet) namespace));
        spec = ServerSpec (fleet_spec fleet)
    in TimeOut made = Some (case TimeOut spec of None \<Rightarrow> 40 * Minute | Some t \<Rightarrow> t) \<and>
       Pod made = Pod spec \<and> AllowForceDelete made = AllowForceDelete spec) \<and>
   (let forType = fst (GetFleetObjectForType P (GameTypeDefault gametype));
        spec = ServerSpec (FleetSpec gametype)
    in \<forall>f \<in> {forType, FleetDefault forType}.
         let made = server_spec (fst (CreateServerForFleet P f namespace))
         in TimeOut made = Some (case TimeOut spec of None \<Rightarrow> 40 * Minute | Some t \<Rightarrow> t) \<and>
            Pod made = Pod spec \<and> AllowForceDelete made = AllowForceDelete spec)"
proof -
  have made: "server_spec (fst (CreateServerForFleet P f namespace)) = ServerSpec (fleet_spec f)" for f
    by (simp add: CreateServerForFleet_def Let_def)
  have forType: "fleet_spec (fst (GetFleetObjectForType P g)) = FleetSpec g" for g
    by (simp add: GetFleetObjectForType_def Let_def)
  have "defaultTimeout = 40 * Minute" by (simp add: defaultTimeout_def)
  then show ?thesis
    by (simp add: Let_def made forType fleet_default.dflt_spec gametype_default.dflt_spec split: option.split)
qed

text \<open>A game type without a timeout.\<close>

definition untimedGameType :: GameType where
  "untimedGameType = \<lparr>gametype_meta = emptyMeta, FleetSpec = (fleet_spec webhookFleet)\<lparr>ServerSpec :=
       (ServerSpec (fleet_spec webhookFleet))\<lparr>TimeOut := None\<rparr>\<rparr>,
     gametype_status = \<lparr>GameTypeConditions = [], CurrentFleetName = [], CurrentFleetReplicas = 0\<rparr>\<rparr>"

theorem defaults_reach_the_servers_witness:
  "\<forall>P namespace. TimeOut (server_spec (fst (CreateServerForFleet P
     (FleetDefault (fst (GetFleetObjectForType P (GameTypeDefault untimedGameType)))) namespace))) = Some (40 * Minute)"
proof (intro allI)
  fix P :: "'a platform" and namespace
  have "TimeOut (ServerSpec (FleetSpec untimedGameType)) = None" by (simp add: untimedGameType_def)
  with conjunct2 [OF defaults_reach_the_servers [where P = P and gametype = untimedGameType and namespace = namespace]]
  show "TimeOut (server_spec (fst (CreateServerForFleet P
     (FleetDefault (fst (GetFleetObjectForType P (GameTypeDefault untimedGameType)))) namespace))) = Some (40 * Minute)"
    by (simp add: Let_def)
qed

end
