(* ===== verification/Autoscaler.thy ===== *)
theory Autoscaler
  imports Webhooks MemCluster
begin

text \<open>
  \<open>operator/internal/utils/autoscale_communication.go\<close> and
  \<open>operator/internal/controller/gameautoscaler_controller.go\<close>: at a fixed interval the
  autoscaler asks a webhook how many replicas a game type should have, and writes the answer into
  the game type. The code dereferences two pointers that may be nil (the service of the webhook,
  the interval); such a run is the outcome \<open>Panic\<close>. A URL that does not parse is one of the
  errors of \<open>HttpDo\<close>. The interface \<open>utils.Webhook\<close> is the locale \<open>scale_webhook\<close>.
\<close>

section \<open>autoscale\_communication.go\<close>

record AutoscaleRequest =
  requestGameName :: string
  requestCurrentReplicas :: int64

record AutoscaleResponse =
  Scale :: bool
  DesiredReplicas :: int64

definition encodeRequest :: "AutoscaleRequest \<Rightarrow> json" where
  "encodeRequest r = JObject [(''game_name'', JString (requestGameName r)),
     (''current_replicas'', JInt (sint (requestCurrentReplicas r)))]"

definition decodeResponse :: "json \<Rightarrow> error + AutoscaleResponse" where
  "decodeResponse j = decodeStruct (\<lambda>k v r.
       if keyIs ''scale'' k
       then (case decodeBool v (Scale r) of Inl e \<Rightarrow> Inl e | Inr b \<Rightarrow> Inr (r\<lparr>Scale := b\<rparr>))
       else if keyIs ''desired_replicas'' k
       then (case decodeInt v (DesiredReplicas r) of Inl e \<Rightarrow> Inl e | Inr n \<Rightarrow> Inr (r\<lparr>DesiredReplicas := n\<rparr>))
       else Inr r) j \<lparr>Scale = False, DesiredReplicas = 0\<rparr>"

definition serviceUrl :: "Service \<Rightarrow> string" where
  "serviceUrl service = ''http://'' @ serviceName service @ ''.'' @ serviceNamespace service
     @ ''.svc.cluster.local:'' @ string_of_int (sint (Port service))"

text \<open>The last part of the function, from the answer on.\<close>

definition readResponse :: "error + HttpResponse \<Rightarrow> error + AutoscaleResponse" where
  "readResponse got = (case got of
       Inl err \<Rightarrow> Inl err
     | Inr resp \<Rightarrow>
         (case respBody resp of
            Inl err \<Rightarrow> Inl err
          | Inr (bodyBytes, parsed) \<Rightarrow>
              if StatusCode resp \<noteq> StatusOK
              then Inl (newError (''invalid request response: '' @ string_of_nat (StatusCode resp)
                @ ''. Raw response: '' @ bodyBytes))
              else (case (case parsed of Inl err \<Rightarrow> Inl err | Inr j \<Rightarrow> decodeResponse j) of
                  Inl err \<Rightarrow> Inl (err\<lparr>errText := ''failed to decode response: '' @ errText err
                    @ ''\<newline>Raw response: '' @ bodyBytes @ ''\<newline>''\<rparr>)
                | Inr response \<Rightarrow> Inr response)))"

definition SendScaleWebhookRequest :: "'w platform \<Rightarrow> GameAutoscaler \<Rightarrow> GameType
    \<Rightarrow> ('w world, (error + AutoscaleResponse) outcome) state" where
  "SendScaleWebhookRequest P autoscaler gametype =
     (let autoscalerSpec = WebhookAutoscalerSpec (AutoscalePolicy autoscaler) in
      case (case Url autoscalerSpec of
              Some url \<Rightarrow> Some url
            | None \<Rightarrow> map_option serviceUrl (Service autoscalerSpec)) of
        None \<Rightarrow> return Panic
      | Some url \<Rightarrow>
          (case Path autoscalerSpec of
             None \<Rightarrow> return (Done (Inl (newError ''missing path'')))
           | Some path \<Rightarrow> do {
               let url = url @ ''/'' @ path;
               let request = \<lparr>requestGameName = GameName autoscaler,
                 requestCurrentReplicas = int_of_int32 (Replicas (Scaling (FleetSpec gametype)))\<rparr>;
               answer \<leftarrow> HttpDo P \<lparr>reqMethod = ''POST'', reqUrl = url,
                 reqBody = Some (encodeRequest request)\<rparr>;
               return (Done (readResponse answer))
             }))"

section \<open>gameautoscaler\_controller.go\<close>

record 'w GameAutoscalerReconciler =
  SendScale :: "GameAutoscaler \<Rightarrow> GameType \<Rightarrow> ('w world, (error + AutoscaleResponse) outcome) state"

definition setGameReplicas :: "int32 \<Rightarrow> GameType \<Rightarrow> GameType" where
  "setGameReplicas n gametype = gametype\<lparr>FleetSpec :=
     (FleetSpec gametype)\<lparr>Scaling := (Scaling (FleetSpec gametype))\<lparr>Replicas := n\<rparr>\<rparr>\<rparr>"

definition requeueAfter :: "duration \<Rightarrow> Result" where
  "requeueAfter d = \<lparr>Requeue = False, RequeueAfter = d\<rparr>"

text \<open>\<open>ctrl.Result{RequeueAfter: autoscaler.Spec.Sync.Time.Duration}\<close> with no error.\<close>

definition afterInterval :: "GameAutoscaler \<Rightarrow> reconciled outcome" where
  "afterInterval autoscaler = (case syncTime (Sync autoscaler) of
     None \<Rightarrow> Panic | Some d \<Rightarrow> Done (requeueAfter d, None))"

definition scaleGameType :: "'w platform \<Rightarrow> GameAutoscaler \<Rightarrow> GameType \<Rightarrow> AutoscaleResponse
    \<Rightarrow> ('w world, reconciled outcome) state" where
  "scaleGameType P autoscaler gametype result = do {
     let gametype = setGameReplicas (int32_of_int (DesiredReplicas result)) gametype;
     updated \<leftarrow> UpdateGameType P gametype;
     case updated of
       Inl err \<Rightarrow> do {
         emitEvent (ObjGameAutoscaler autoscaler) EventTypeWarning ReasonGameautoscalerScale
           ''failed to update the gametype'';
         return (Done (emptyResult, Some (errorfW ''failed to update gametype with new replica count: '' err)))
       }
     | Inr _ \<Rightarrow> do {
         emitEvent (ObjGameAutoscaler autoscaler) EventTypeNormal ReasonGameautoscalerScale
           (''Scaling game to '' @ string_of_int (sint (DesiredReplicas result)));
         return (afterInterval autoscaler)
       }
   }"

definition askWebhook :: "'w platform \<Rightarrow> 'w GameAutoscalerReconciler \<Rightarrow> GameAutoscaler \<Rightarrow> GameType
    \<Rightarrow> ('w world, reconciled outcome) state" where
  "askWebhook P r autoscaler gametype = do {
     sent \<leftarrow> SendScale r autoscaler gametype;
     case sent of
       Panic \<Rightarrow> return Panic
     | Done (Inl err) \<Rightarrow> do {
         emitEvent (ObjGameAutoscaler autoscaler) EventTypeWarning ReasonGameautoscalerWebhook
           (''failed to send the webhook request: '' @ errText err);
         return (Done (requeueAfter Minute, Some (errorfW ''failed to send scale webhook request: '' err)))
       }
     | Done (Inr result) \<Rightarrow>
         if syncType (Sync autoscaler) \<noteq> FixedInterval then do {
           emitEvent (ObjGameAutoscaler autoscaler) EventTypeWarning ReasonGameAutoscalerInvalidSyncType
             (syncType (Sync autoscaler) @ '' is not a valid sync type'');
           return (Done (emptyResult, Some (newError (syncType (Sync autoscaler)
             @ '' is not a valid sync type, currently only fixed interval is supported''))))
         }
         else if \<not> Scale result then return (afterInterval autoscaler)
         else scaleGameType P autoscaler gametype result
   }"

definition GameAutoscalerReconcile :: "'w platform \<Rightarrow> 'w GameAutoscalerReconciler \<Rightarrow> NamespacedName
    \<Rightarrow> ('w world, reconciled outcome) state" where
  "GameAutoscalerReconcile P r req = do {
     got \<leftarrow> GetGameAutoscaler P req;
     case got of
       Inl err \<Rightarrow> return (Done (requeueResult, Some err))
     | Inr autoscaler \<Rightarrow> do {
         got \<leftarrow> GetGameType P (Namespace (autoscaler_meta autoscaler), GameName autoscaler);
         case got of
           Inl err \<Rightarrow> do {
             emitEvent (ObjGameAutoscaler autoscaler) EventTypeWarning ReasonGameAutoscalerInvalidServer
               ''Failed to find the gametype'';
             return (Done (requeueResult, Some err))
           }
         | Inr gametype \<Rightarrow>
             if policyType (AutoscalePolicy autoscaler) \<noteq> Webhook then do {
               emitEvent (ObjGameAutoscaler autoscaler) EventTypeWarning
                 ReasonGameAutoscalerInvalidAutoscalePolicy ''invalid game autoscaler policy type'';
               return (Done (emptyResult, Some (newError (policyType (AutoscalePolicy autoscaler)
                 @ '' is not a valid policy type''))))
             }
             else askWebhook P r autoscaler gametype
       }
   }"

text \<open>The reconciler \<open>cmd/main.go\<close> starts.\<close>

definition prodGameAutoscalerReconciler :: "'w platform \<Rightarrow> 'w GameAutoscalerReconciler" where
  "prodGameAutoscalerReconciler P = \<lparr>SendScale = SendScaleWebhookRequest P\<rparr>"

section \<open>The interface\<close>

definition targeted :: "GameAutoscaler \<Rightarrow> bool" where
  "targeted a \<longleftrightarrow> Url (WebhookAutoscalerSpec (AutoscalePolicy a)) \<noteq> None \<or>
     Service (WebhookAutoscalerSpec (AutoscalePolicy a)) \<noteq> None"

abbreviation gotAutoscaler :: "NamespacedName \<Rightarrow> GameAutoscaler \<Rightarrow> effect" where
  "gotAutoscaler req a \<equiv> Got ''GameAutoscaler'' req (Inr (ObjGameAutoscaler a))"

abbreviation gotGame :: "GameAutoscaler \<Rightarrow> GameType \<Rightarrow> effect" where
  "gotGame a g \<equiv> Got ''GameType'' (Namespace (autoscaler_meta a), GameName a) (Inr (ObjGameType g))"

locale scale_webhook =
  fixes send :: "GameAutoscaler \<Rightarrow> GameType \<Rightarrow> ('w world, (error + AutoscaleResponse) outcome) state"
  assumes send_http: "emits (send a g) (\<lambda>r es. list_all is_http es)"
    and send_total: "targeted a \<Longrightarrow> emits (send a g) (\<lambda>r es. r \<noteq> Panic)"
begin

lemma send_returns: "emits (send a g) (\<lambda>r es. list_all is_http es \<and> (targeted a \<longrightarrow> r \<noteq> Panic))"
proof (cases "targeted a")
  case True
  from emits_conj [OF send_http [of a g] send_total [OF True, of g]] True show ?thesis by simp
next
  case False
  with send_http [of a g] show ?thesis by simp
qed

lemma askWebhook_outcome:
  assumes "SendScale r = send"
  shows "emits (askWebhook P r a g) (\<lambda>res es. (\<forall>n k x. Got n k x \<notin> set es) \<and>
     (targeted a \<and> syncTime (Sync a) \<noteq> None \<longrightarrow> res \<noteq> Panic) \<and>
     (\<forall>x. res = Done (x, None) \<longrightarrow> (\<exists>d. syncTime (Sync a) = Some d \<and> x = requeueAfter d)))"
  unfolding askWebhook_def scaleGameType_def assms go_simps
  apply (rule emits_bind [OF send_returns])
  subgoal for sent es
    apply (cases sent; simp)
     apply (intro emits_intros)
     apply (auto simp: list_all_iff) [1]
    apply (intro emits_intros)
        apply (auto simp: afterInterval_def list_all_iff split: option.splits)
    done
  done

lemma reconcile_outcome:
  assumes "SendScale r = send"
  shows "emits (GameAutoscalerReconcile P r req) (\<lambda>res es.
     (\<forall>a. gotAutoscaler req a \<in> set es \<and> ok (GameAutoscalerValidateCreate a) \<longrightarrow> res \<noteq> Panic) \<and>
     (\<forall>x. res = Done (x, None) \<longrightarrow> (\<exists>a d. gotAutoscaler req a \<in> set es \<and>
        syncTime (Sync a) = Some d \<and> x = requeueAfter d)))"
  unfolding GameAutoscalerReconcile_def go_simps
  apply (intro emits_intros; simp)
  apply (rule emits_weaken [OF askWebhook_outcome [OF assms]])
  apply (fastforce simp: GameAutoscalerValidateCreate_ok targeted_def)
  done

end

interpretation prod_webhook: scale_webhook "SendScaleWebhookRequest P"
proof
  fix a g
  show "emits (SendScaleWebhookRequest P a g) (\<lambda>r es. list_all is_http es)"
    unfolding SendScaleWebhookRequest_def go_simps by (intro emits_intros) simp_all
  assume "targeted a"
  then show "emits (SendScaleWebhookRequest P a g) (\<lambda>r es. r \<noteq> Panic)"
    unfolding SendScaleWebhookRequest_def go_simps Let_def
    by (intro emits_intros) (auto simp: targeted_def split: option.splits)
qed

lemma prodGameAutoscalerReconciler_send [simp]:
  "SendScale (prodGameAutoscalerReconciler P) = SendScaleWebhookRequest P"
  by (simp add: prodGameAutoscalerReconciler_def)

section \<open>Example runs\<close>

definition scaledGameType :: GameType where
  "scaledGameType = \<lparr>gametype_meta = emptyMeta\<lparr>Name := ''g'', Namespace := ''default''\<rparr>,
     FleetSpec = \<lparr>ServerSpec = exampleSpec,
       Scaling = \<lparr>Replicas = 1, PrioritizeAllowed = True, AgePriority = OldestFirst\<rparr>\<rparr>,
     gametype_status = \<lparr>GameTypeConditions = [], CurrentFleetName = [], CurrentFleetReplicas = 0\<rparr>\<rparr>"

definition autoscalerCluster :: "int \<Rightarrow> cluster" where
  "autoscalerCluster n = emptyCluster\<lparr>mem_gametypes := [scaledGameType],
     mem_autoscalers := [webhookAutoscaler Webhook (Some Minute)],
     mem_web := [(''http://scaler/scale'', \<lparr>StatusCode = 200, Status = ''200 OK'',
       respBody = Inr ([], Inr (JObject [(''desired_replicas'', JInt n), (''scale'', JBool True)]))\<rparr>)]\<rparr>"

definition exampleAutoscalerReconcile :: "(cluster world, reconciled outcome) state" where
  "exampleAutoscalerReconcile =
     GameAutoscalerReconcile memPlatform (prodGameAutoscalerReconciler memPlatform) (''default'', ''s'')"

fun admittedRead :: "effect \<Rightarrow> bool" where
  "admittedRead (Got k n (Inr (ObjGameAutoscaler a))) =
     (k = ''GameAutoscaler'' \<and> n = (''default'', ''s'') \<and> ok (GameAutoscalerValidateCreate a))"
| "admittedRead _ = False"

lemma admittedReadE:
  assumes "list_ex admittedRead es"
  obtains a where "gotAutoscaler (''default'', ''s'') a \<in> set es" "ok (GameAutoscalerValidateCreate a)"
proof -
  from assms obtain e where "e \<in> set es" "admittedRead e" by (auto simp: list_ex_iff)
  with that show thesis by (cases e rule: admittedRead.cases) auto
qed

section \<open>Properties\<close>

text \<open>
  C17: A reconciliation of an autoscaler that the admission webhook accepts never dereferences a nil
  pointer: it returns a result. And a reconciliation that returns no error, of any autoscaler, asks to be
  run again after the interval of the autoscaler that was read.
\<close>

theorem admitted_autoscaler_never_panics:
  "emits (GameAutoscalerReconcile P (prodGameAutoscalerReconciler P) req) (\<lambda>res es.
     (\<forall>a. gotAutoscaler req a \<in> set es \<and> ok (GameAutoscalerValidateCreate a) \<longrightarrow> res \<noteq> Panic) \<and>
     (\<forall>x. res = Done (x, None) \<longrightarrow> (\<exists>a d. gotAutoscaler req a \<in> set es \<and>
       syncTime (Sync a) = Some d \<and> x = requeueAfter d)))"
  by (rule prod_webhook.reconcile_outcome) simp

theorem admitted_autoscaler_never_panics_witness:
  "list_ex admittedRead (calls exampleAutoscalerReconcile (autoscalerCluster 3)) \<and>
   answer exampleAutoscalerReconcile (autoscalerCluster 3) \<noteq> Panic \<and>
   (\<exists>d. answer exampleAutoscalerReconcile (autoscalerCluster 3) = Done (requeueAfter d, None))"
proof -
  have *: "list_ex admittedRead (calls exampleAutoscalerReconcile (autoscalerCluster 3))"
    by code_simp
  have "case answer exampleAutoscalerReconcile (autoscalerCluster 3) of Done (x, None) \<Rightarrow> True | _ \<Rightarrow> False"
    by code_simp
  then obtain x where x: "answer exampleAutoscalerReconcile (autoscalerCluster 3) = Done (x, None)"
    by (auto split: outcome.splits prod.splits option.splits)
  note run = emits_calls [OF admitted_autoscaler_never_panics [where P = memPlatform and req = "(''default'', ''s'')"],
    of "autoscalerCluster 3", folded exampleAutoscalerReconcile_def]
  from run * have "answer exampleAutoscalerReconcile (autoscalerCluster 3) \<noteq> Panic"
    by (auto elim!: admittedReadE)
  moreover from run x obtain d where "x = requeueAfter d" by blast
  ultimately show ?thesis using * x by blast
qed

text \<open>What a run was told: the autoscaler, the game type, and the decoded answer of the webhook.\<close>

definition told :: "NamespacedName \<Rightarrow> effect list \<Rightarrow> GameAutoscaler \<Rightarrow> GameType \<Rightarrow> AutoscaleResponse \<Rightarrow> bool" where
  "told req es a g result \<longleftrightarrow> gotAutoscaler req a \<in> set es \<and> gotGame a g \<in> set es \<and>
     (\<exists>q resp. Http q resp \<in> set es \<and> readResponse resp = Inr result)"

lemma SendScale_trace:
  "emits (SendScaleWebhookRequest P a g) (\<lambda>res es. 
     case res of Done (Inr result) \<Rightarrow> (\<exists>q resp. es = [Http q resp] \<and> readResponse resp = Inr result)
     | _ \<Rightarrow> es = [] \<or> (\<exists>q resp err. es = [Http q resp] \<and> readResponse resp = Inl err))"
  unfolding SendScaleWebhookRequest_def go_simps Let_def
  apply (intro emits_intros)
    apply (auto split: sum.splits)
  done

lemma autoscaler_writes:
  "emits (GameAutoscalerReconcile P (prodGameAutoscalerReconciler P) req) (\<lambda>res es.
     (\<forall>a g result. told req es a g result \<and> Scale result \<and> syncType (Sync a) = FixedInterval \<longrightarrow>
        (\<exists>b. writes es =
          [Update (ObjGameType (setGameReplicas (int32_of_int (DesiredReplicas result)) g)) b])) \<and>
     (writes es \<noteq> [] \<longrightarrow> (\<exists>a g result. told req es a g result \<and> Scale result \<and>
        policyType (AutoscalePolicy a) = Webhook \<and> syncType (Sync a) = FixedInterval)))"
  unfolding GameAutoscalerReconcile_def askWebhook_def scaleGameType_def go_simps
  apply (intro emits_intros; simp add: told_def)
  apply (rule emits_bind [OF SendScale_trace])
  subgoal for _ a _ g sent es
    apply (cases sent; simp)
     apply (intro emits_intros)
     apply (auto) [1]
    apply (intro emits_intros)
        apply (auto split: option.splits)
    done
  done

text \<open>
  C16: A reconciliation of an autoscaler writes at most once, and it writes exactly when the policy
  is a webhook, the interval is fixed and the webhook answered that it wants scaling; the write is
  the game type that was read with the replica count replaced by the low 32 bits of the answer.
\<close>

theorem autoscaler_follows_webhook:
  "emits (GameAutoscalerReconcile P (prodGameAutoscalerReconciler P) req) (\<lambda>res es.
     (\<forall>a g result. told req es a g result \<and> Scale result \<and> syncType (Sync a) = FixedInterval \<longrightarrow>
        (\<exists>b. writes es =
          [Update (ObjGameType (setGameReplicas (int32_of_int (DesiredReplicas result)) g)) b])) \<and>
     (writes es \<noteq> [] \<longrightarrow> (\<exists>a g result. told req es a g result \<and> Scale result \<and>
        policyType (AutoscalePolicy a) = Webhook \<and> syncType (Sync a) = FixedInterval)))"
  by (rule autoscaler_writes)

theorem autoscaler_follows_webhook_witness:
  "\<exists>a g result. told (''default'', ''s'') (calls exampleAutoscalerReconcile (autoscalerCluster 3)) a g result \<and>
     Scale result"
proof -
  have "writes (calls exampleAutoscalerReconcile (autoscalerCluster 3)) \<noteq> []"
    by code_simp
  then show ?thesis
    using emits_calls [OF autoscaler_follows_webhook [where P = memPlatform and req = "(''default'', ''s'')"],
      of "autoscalerCluster 3"]
    unfolding exampleAutoscalerReconcile_def by blast
qed

lemma int32_exact_iff: "sint (int32_of_int n) = sint n \<longleftrightarrow> - (2 ^ 31) \<le> sint n \<and> sint n < 2 ^ 31"
proof -
  have "sint (int32_of_int n) = signed_take_bit 31 (sint n)"
    by (simp add: int32_of_int_def sint_uint unsigned_ucast_eq signed_take_bit_take_bit)
  then show ?thesis by (simp add: signed_take_bit_int_eq_self_iff)
qed

text \<open>
  C35: The replica count that a reconciliation writes into the game type, when the webhook wants scaling, is
  the number the webhook asked for exactly when that number fits into 32 bits, negative numbers
  included; any other is silently cut.
\<close>

theorem desired_replicas_exact_iff:
  "emits (GameAutoscalerReconcile P (prodGameAutoscalerReconciler P) req) (\<lambda>res es. \<forall>a g result.
     told req es a g result \<and> Scale result \<and> syncType (Sync a) = FixedInterval \<longrightarrow>
       (\<exists>g' b. writes es = [Update (ObjGameType g') b] \<and>
          (sint (Replicas (Scaling (FleetSpec g'))) = sint (DesiredReplicas result) \<longleftrightarrow>
             - (2 ^ 31) \<le> sint (DesiredReplicas result) \<and> sint (DesiredReplicas result) < 2 ^ 31)))"
  by (rule emits_weaken [OF autoscaler_writes]) (fastforce simp: setGameReplicas_def int32_exact_iff)

fun webhookWants :: "int64 \<Rightarrow> effect \<Rightarrow> bool" where
  "webhookWants n (Http q resp) =
     (case readResponse resp of Inl err \<Rightarrow> False | Inr result \<Rightarrow> DesiredReplicas result = n)"
| "webhookWants n _ = True"

theorem desired_replicas_exact_iff_witness:
  "\<exists>g b. writes (calls exampleAutoscalerReconcile (autoscalerCluster 3)) = [Update (ObjGameType g) b] \<and>
     sint (Replicas (Scaling (FleetSpec g))) = 3"
proof -
  let ?c = "autoscalerCluster 3"
  have asked: "list_all (webhookWants 3) (calls exampleAutoscalerReconcile ?c)" by code_simp
  have "writes (calls exampleAutoscalerReconcile ?c) \<noteq> []" by code_simp
  with emits_calls [OF autoscaler_writes [where P = memPlatform and req = "(''default'', ''s'')"], of ?c]
  obtain a g result where t: "told (''default'', ''s'') (calls exampleAutoscalerReconcile ?c) a g result"
      "Scale result" "syncType (Sync a) = FixedInterval"
    unfolding exampleAutoscalerReconcile_def by blast
  from t(1) obtain q resp where "Http q resp \<in> set (calls exampleAutoscalerReconcile ?c)" "readResponse resp = Inr result"
    unfolding told_def by blast
  with asked have d: "DesiredReplicas result = 3" by (auto simp only: list_all_iff webhookWants.simps sum.case)
  from emits_calls [OF desired_replicas_exact_iff [where P = memPlatform and req = "(''default'', ''s'')"],
    of ?c, folded exampleAutoscalerReconcile_def] t
  obtain g' b where "writes (calls exampleAutoscalerReconcile ?c) = [Update (ObjGameType g') b]"
      "sint (Replicas (Scaling (FleetSpec g'))) = sint (DesiredReplicas result) \<longleftrightarrow>
         - (2 ^ 31) \<le> sint (DesiredReplicas result) \<and> sint (DesiredReplicas result) < 2 ^ 31" by blast
  with d show ?thesis by auto
qed

end
