(* ===== verification/Operator.thy ===== *)
theory Operator
  imports ServerController GameTypeController Autoscaler
begin

text \<open>
  The operator as a whole (\<open>operator/cmd/main.go\<close> starts its four controllers). What one
  reconciliation guarantees is carried over to the histories of the operator, in which the calls of
  many reconciliations are interleaved and any of them may have stopped half way: no pod is ever
  deleted, and no server loses its finalizer, without the permission that came before. The locale
  \<open>lasting\<close> states what makes such a guarantee survive the interleaving.
\<close>

section \<open>Reconciliations that leave servers and pods alone\<close>

fun sparesPods :: "effect \<Rightarrow> bool" where
  "sparesPods (Update (ObjServer _) _) = False"
| "sparesPods (Delete (ObjPod _) _) = False"
| "sparesPods _ = True"

lemma inquiry_spares_pods: "is_inquiry e \<Longrightarrow> sparesPods e"
  unfolding is_inquiry_def by (cases e) auto

lemma createServers_spares: "only sparesPods (createServers P namespace n fleet)"
  by (induction n arbitrary: fleet) (auto simp: go_simps intro!: only_intros)

lemma deleteServers_spares: "only sparesPods (deleteServers P servers)"
  by (induction servers) (auto simp: go_simps intro!: only_intros)

lemma deleteFleets_spares: "only sparesPods (deleteFleets P gametype fleets)"
  by (induction fleets) (auto simp: go_simps intro!: only_intros)

lemma search_spares: "only sparesPods (FindDeleteServer fleet servers (isDeleteAllowed P))"
  by (rule only_emits [OF FindDeleteServer_trace [OF prod_fleet_check]])
    (auto simp: searched_def list_all_iff inquiry_spares_pods split: if_splits)

lemmas fleet_parts = FleetReconcile_def FleetHandleDeletion_def releaseFleet_def fleetInitialize_def
  fleetScale_def fleetStatus_def scaleServerCount_def scaleUp_def scaleDown_def getServers_def

lemma FleetReconcile_spares: "only sparesPods (FleetReconcile P (prodFleetReconciler P) req)"
  unfolding fleet_parts prodFleetReconciler_def FleetReconciler.simps go_simps
  by (intro only_intros createServers_spares deleteServers_spares search_spares) simp_all


lemmas gametype_parts = GameTypeReconcile_def gametypeMaintain_def gametypeFinalize_def gametypeInitialize_def
  GameTypeHandleDeletion_def releaseGameType_def handleUpdating_def extraFleets_def oneFleet_def
  handReplicasDown_def noFleet_def handleCreation_def updateReplicaCount_def handleGametypeStatus_def
  GetFleetsForType_def

lemma GameTypeReconcile_spares: "only sparesPods (GameTypeReconcile P req)"
  unfolding gametype_parts go_simps
  by (intro only_intros deleteFleets_spares) simp_all

lemma GameAutoscalerReconcile_spares:
  "only sparesPods (GameAutoscalerReconcile P (prodGameAutoscalerReconciler P) req)"
  unfolding GameAutoscalerReconcile_def prodGameAutoscalerReconciler_send askWebhook_def scaleGameType_def
    SendScaleWebhookRequest_def go_simps
  by (intro only_intros) simp_all

section \<open>When a pod is deleted\<close>

text \<open>
  The deletion of the pod of the server \<open>k\<close> was allowed: the server was read while it was being deleted,
  its pod was read, and the check was asked about the two and answered yes.
\<close>

definition allowed :: "NamespacedName \<Rightarrow> effect list \<Rightarrow> bool" where
  "allowed k es \<longleftrightarrow> (\<exists>req server pod. serverKey server = k \<and> beingDeleted (server_meta server) \<and>
     subseq [Got ''Server'' req (Inr (ObjServer server)), gotPod k pod, Asked server pod (Inr True)] es)"

fun podDeletionOk :: "effect list \<Rightarrow> effect \<Rightarrow> bool" where
  "podDeletionOk pre (Delete (ObjPod pod) _) \<longleftrightarrow> (\<exists>k. gotPod k pod \<in> set pre \<and> allowed k pre)"
| "podDeletionOk pre _ \<longleftrightarrow> True"

fun deletesPod :: "effect \<Rightarrow> bool" where
  "deletesPod (Delete (ObjPod _) _) = True"
| "deletesPod _ = False"

lemma each_pod_spared [simp]:
  "list_all (\<lambda>e. \<not> deletesPod e) es \<Longrightarrow> each_after (\<lambda>pre. podDeletionOk (f pre)) es"
proof (rule each_after_all)
  have "podDeletionOk pre e" if "\<not> deletesPod e" for pre e
    using that by (cases "(pre, e)" rule: podDeletionOk.cases) simp_all
  then show "list_all (\<lambda>e. \<not> deletesPod e) es \<Longrightarrow> list_all (\<lambda>e. \<forall>pre. podDeletionOk (f pre) e) es"
    by (simp add: list_all_iff)
qed

lemma http_deletes_no_pod: "list_all is_http es \<Longrightarrow> list_all (\<lambda>e. \<not> deletesPod e) es"
  by (auto simp: list_all_iff elim!: is_http.elims)

lemma releasePod_keeps:
  "emits (releasePod P server pod) (\<lambda>res es. list_all (\<lambda>e. \<not> deletesPod e) es \<and>
     (\<forall>pod'. res = Inr pod' \<longrightarrow> pod' = pod \<or> gotPod (serverKey server) pod' \<in> set es))"
  unfolding releasePod_def go_simps podNameOf_def
  by (intro emits_intros) auto

lemma allowed_more: "allowed k es \<Longrightarrow> subseq es fs \<Longrightarrow> allowed k fs"
  unfolding allowed_def by (blast intro: subseq_order.order_trans)

lemma permitted_more: "permitted k es \<Longrightarrow> subseq es fs \<Longrightarrow> permitted k fs"
  unfolding permitted_def by (blast intro: subseq_order.order_trans)

lemma allowedI:
  assumes "beingDeleted (server_meta server)"
  shows "allowed (serverKey server) (Got ''Server'' req (Inr (ObjServer server)) #
     gotPod (serverKey server) pod # es @ Asked server pod (Inr True) # fs)"
proof -
  have "subseq [Asked server pod (Inr True)] (es @ Asked server pod (Inr True) # fs)"
    by (simp add: subseq_singleton_left)
  then have "subseq [Got ''Server'' req (Inr (ObjServer server)), gotPod (serverKey server) pod,
      Asked server pod (Inr True)] (Got ''Server'' req (Inr (ObjServer server)) #
     gotPod (serverKey server) pod # es @ Asked server pod (Inr True) # fs)"
    by simp
  with assms show ?thesis unfolding allowed_def by blast
qed

text \<open>The deletion of a pod, once it has been allowed.\<close>

lemma deletePodOf_allowed:
  assumes "allowed (serverKey server) zs" and "gotPod (serverKey server) pod \<in> set zs"
  shows "emits (deletePodOf P server pod) (\<lambda>_. each_after (\<lambda>pre. podDeletionOk (zs @ pre)))"
  unfolding deletePodOf_def go_simps
  apply (rule emits_bind [OF releasePod_keeps])
  apply (intro emits_intros)
  using assms allowed_more [OF assms(1) subseq_rev_drop_many [OF subseq_order.order_refl]]
  apply (auto simp del: split_paired_Ex)
  done

context deletion_check
begin

lemma handleDeletion_pods:
  assumes "DeletionAllowed r = check" and "beingDeleted (server_meta server)"
  shows "emits (ServerHandleDeletion P r server) (\<lambda>_. each_after
     (\<lambda>pre. podDeletionOk (Got ''Server'' req (Inr (ObjServer server)) # pre)))"
  unfolding ServerHandleDeletion_def go_simps assms podNameOf_def
  apply (intro emits_intros)
   apply simp
  apply (rule emits_bind [OF check_http])
  subgoal for got pod a es
    apply (drule http_deletes_no_pod)
    apply (intro emits_intros)
      apply simp
     apply simp
    apply (rule emits_weaken [OF deletePodOf_allowed [where
      zs = "Got ''Server'' req (Inr (ObjServer server)) # gotPod (serverKey server) pod # es @ [Asked server pod (Inr True)]"]])
      apply (rule allowedI [OF assms(2), where fs = "[]", simplified])
     apply simp
    apply simp
    done
  done

lemma serverFinalize_pods:
  assumes "DeletionAllowed r = check" and "beingDeleted (server_meta server)"
  shows "emits (serverFinalize P r server) (\<lambda>_. each_after
     (\<lambda>pre. podDeletionOk (Got ''Server'' req (Inr (ObjServer server)) # pre)))"
  unfolding serverFinalize_def go_simps
  by (rule emits_bind [OF handleDeletion_pods [OF assms]], intro emits_intros) auto

end

lemma serverInitialize_pods: "emits (serverInitialize P server) (\<lambda>_. list_all (\<lambda>e. \<not> deletesPod e))"
  unfolding serverInitialize_def go_simps only_def [symmetric] by (intro only_intros) simp_all

lemma serverMaintain_pods: "emits (serverMaintain P server) (\<lambda>_. list_all (\<lambda>e. \<not> deletesPod e))"
  unfolding serverMaintain_def ensurePodExists_def createPodFor_def ensurePodFinalizer_def go_simps
    only_def [symmetric]
  by (intro only_intros) simp_all

lemma serverReconcile_pods:
  assumes "deletion_check (DeletionAllowed r)"
  shows "emits (ServerReconcile P r req) (\<lambda>res. each_after podDeletionOk)"
  unfolding ServerReconcile_def go_simps
  apply (intro emits_intros; simp)
    apply (rule emits_weaken [OF serverInitialize_pods], simp)
   apply (rule deletion_check.serverFinalize_pods [OF assms refl], simp)
  apply (rule emits_weaken [OF serverMaintain_pods], simp)
  done

section \<open>Histories of the operator\<close>

text \<open>
  The four controllers run at the same time, each on its own objects, and may be stopped at any call
  (\<open>cmd/main.go\<close>). A reconciliation is the calls of one run, from any state of the
  platform; a history interleaves the calls of any number of reconciliations, each of them perhaps
  unfinished.
\<close>

inductive reconciliation :: "'w platform \<Rightarrow> effect list \<Rightarrow> bool" for P where
  server: "reconciliation P (calls (ServerReconcile P (prodServerReconciler P) req) w)"
| fleet: "reconciliation P (calls (FleetReconcile P (prodFleetReconciler P) req) w)"
| gametype: "reconciliation P (calls (GameTypeReconcile P req) w)"
| autoscaler: "reconciliation P (calls (GameAutoscalerReconcile P (prodGameAutoscalerReconciler P) req) w)"

inductive history :: "'w platform \<Rightarrow> effect list \<Rightarrow> bool" for P where
  start: "history P []"
| interleave: "history P h \<Longrightarrow> reconciliation P es \<Longrightarrow> prefix part es \<Longrightarrow> zs \<in> shuffles h part \<Longrightarrow> history P zs"

locale lasting =
  fixes R :: "'e list \<Rightarrow> 'e \<Rightarrow> bool"
  assumes lasts: "R pre e \<Longrightarrow> subseq pre pre' \<Longrightarrow> R pre' e"
begin

lemma after_more: "each_after (\<lambda>pre. R (us @ pre)) es \<Longrightarrow> subseq us vs \<Longrightarrow> each_after (\<lambda>pre. R (vs @ pre)) es"
  by (rule each_after_mono, assumption) (erule lasts, simp add: subseq_append)

lemma interleaved:
  assumes "zs \<in> shuffles xs ys" and "each_after (\<lambda>pre. R (us @ pre)) xs" and "each_after (\<lambda>pre. R (us @ pre)) ys"
  shows "each_after (\<lambda>pre. R (us @ pre)) zs"
  using assms
proof (induction zs arbitrary: xs ys us)
  case Nil
  then show ?case by simp
next
  case (Cons z zs)
  have longer: "subseq us (us @ [z])" by (simp add: subseq_rev_drop_many)
  have step: "R us z \<and> each_after (\<lambda>pre. R ((us @ [z]) @ pre)) zs \<Longrightarrow> ?case" by simp
  from Cons.prems(1) consider
      xs' where "xs = z # xs'" "zs \<in> shuffles xs' ys" | ys' where "ys = z # ys'" "zs \<in> shuffles xs ys'"
    unfolding Cons_in_shuffles_iff by (metis list.collapse)
  then show ?case
  proof cases
    case 1
    with Cons.prems Cons.IH [of xs' ys "us @ [z]"] after_more [OF Cons.prems(3) longer] show ?thesis
      by (intro step) simp
  next
    case 2
    with Cons.prems Cons.IH [of xs ys' "us @ [z]"] after_more [OF Cons.prems(2) longer] show ?thesis
      by (intro step) simp
  qed
qed

end

interpretation release: lasting serverReleaseOk
proof
  fix pre pre' :: "effect list" and e
  assume "serverReleaseOk pre e" "subseq pre pre'"
  then show "serverReleaseOk pre' e"
    by (cases "(pre, e)" rule: serverReleaseOk.cases) (auto intro: permitted_more)
qed

interpretation pod_deletion: lasting podDeletionOk
proof
  fix pre pre' :: "effect list" and e
  assume "podDeletionOk pre e" "subseq pre pre'"
  then show "podDeletionOk pre' e"
    by (cases "(pre, e)" rule: podDeletionOk.cases)
      (auto simp del: split_paired_Ex intro: allowed_more subseq_in)
qed

lemma sparesPods_ok:
  assumes "list_all sparesPods es"
  shows "each_after serverReleaseOk es \<and> each_after podDeletionOk es"
proof -
  have "sparesServer e \<and> \<not> deletesPod e" if "sparesPods e" for e
    using that by (cases e rule: sparesPods.cases) simp_all
  with assms have "list_all sparesServer es" "list_all (\<lambda>e. \<not> deletesPod e) es"
    by (auto simp: list_all_iff)
  then show ?thesis
    using each_release_spared [of es "\<lambda>x. x"] each_pod_spared [of es "\<lambda>x. x"] by simp
qed

lemma reconciliation_ok:
  assumes "finalizer_laws P" and "reconciliation P es"
  shows "each_after serverReleaseOk es \<and> each_after podDeletionOk es"
  using assms(2)
proof cases
  case (server req w)
  from emits_calls [OF serverReconcile_finalizer [OF assms(1) prod_check]]
    emits_calls [OF serverReconcile_pods [OF prod_check]]
  show ?thesis unfolding server by (rule conjI)
qed (simp_all add: sparesPods_ok only_calls FleetReconcile_spares GameTypeReconcile_spares
  GameAutoscalerReconcile_spares)

text \<open>
  C1: However the calls of the four controllers are interleaved, and wherever each of them stops, the
  operator deletes a pod only after it has read the pod's server being deleted, read the pod, asked the
  check about the two and been answered yes; and it writes a server without its finalizer only after
  that and the deletion of the pod.
\<close>

theorem operator_history_safe:
  assumes "finalizer_laws P" and "history P h"
  shows "each_after serverReleaseOk h \<and> each_after podDeletionOk h"
  using assms(2)
proof induction
  case start
  show ?case by simp
next
  case (interleave h es part zs)
  from reconciliation_ok [OF assms(1) interleave.hyps(2)] interleave.hyps(3)
  have "each_after serverReleaseOk part" "each_after podDeletionOk part"
    by (blast intro: each_after_prefix)+
  with interleave.IH interleave.hyps(4) show ?case
    using release.interleaved [of zs h part "[]"] pod_deletion.interleaved [of zs h part "[]"] by simp
qed

theorem operator_history_safe_witness:
  "\<exists>h. history memPlatform h \<and> list_ex deletesPod h \<and> list_ex isServerRelease h \<and>
     each_after serverReleaseOk h \<and> each_after podDeletionOk h"
proof -
  let ?h = "calls exampleReconcile (deletingCluster True)"
  have "history memPlatform ?h"
    by (rule history.interleave [OF history.start, of _ ?h ?h])
      (simp_all add: exampleReconcile_def reconciliation.server)
  moreover have "list_ex deletesPod ?h \<and> list_ex isServerRelease ?h" by code_simp
  ultimately show ?thesis using operator_history_safe [OF mem_finalizer_laws] by blast
qed

end
