(* ===== verification/Startup.thy ===== *)
theory Startup
  imports Operator
begin

text \<open>
  The start of the operator (\<open>operator/cmd/main.go\<close> and the \<open>SetupWithManager\<close> and
  \<open>SetupWebhookWithManager\<close> it calls): the options of the manager from the flags and the environment,
  and the registrations in order, each of which ends the process with code 1 when it fails; and the
  start of the service (\<open>service/cmd/main.go\<close>, \<open>service/internal/app/app.go\<close>). The manager of
  controller-runtime, the constructors of client-go, listening on a port and the parsing of the
  command line are parameters.
\<close>

section \<open>Options\<close>

record Flags =
  metricsAddr :: string
  probeAddr :: string
  enableLeaderElection :: bool
  secureMetrics :: bool
  enableHTTP2 :: bool

text \<open>What the flags are when the command line does not set them.\<close>

definition defaultFlags :: Flags where
  "defaultFlags = \<lparr>metricsAddr = ''0'', probeAddr = '':8081'', enableLeaderElection = False,
     secureMetrics = True, enableHTTP2 = False\<rparr>"

text \<open>A \<open>tls.Config\<close> as far as \<open>main\<close> changes it, and the options that change it.\<close>

record TlsConfig =
  NextProtos :: "string list"

definition disableHTTP2 :: "TlsConfig \<Rightarrow> TlsConfig" where
  "disableHTTP2 c = c\<lparr>NextProtos := [''http/1.1'']\<rparr>"

definition tlsOpts :: "Flags \<Rightarrow> (TlsConfig \<Rightarrow> TlsConfig) list" where
  "tlsOpts flags = (if \<not> enableHTTP2 flags then [disableHTTP2] else [])"

record MetricsOptions =
  BindAddress :: string
  SecureServing :: bool
  metricsTLSOpts :: "(TlsConfig \<Rightarrow> TlsConfig) list"
  withAuthentication :: bool

record ManagerOptions =
  Metrics :: MetricsOptions
  webhookTLSOpts :: "(TlsConfig \<Rightarrow> TlsConfig) list"
  HealthProbeBindAddress :: string
  LeaderElection :: bool
  LeaderElectionID :: string
  PprofBindAddress :: string

definition metricsServerOptions :: "Flags \<Rightarrow> MetricsOptions" where
  "metricsServerOptions flags =
     (let opts = \<lparr>BindAddress = metricsAddr flags, SecureServing = secureMetrics flags,
        metricsTLSOpts = tlsOpts flags, withAuthentication = False\<rparr>
      in if secureMetrics flags then opts\<lparr>withAuthentication := True\<rparr> else opts)"

definition ctrlOptions :: "Flags \<Rightarrow> (string \<Rightarrow> string) \<Rightarrow> ManagerOptions" where
  "ctrlOptions flags env =
     (let opts = \<lparr>Metrics = metricsServerOptions flags, webhookTLSOpts = tlsOpts flags,
        HealthProbeBindAddress = probeAddr flags, LeaderElection = enableLeaderElection flags,
        LeaderElectionID = ''2cde2894.unfamousthomas.me'', PprofBindAddress = []\<rparr>
      in if env ''PPROF_PORT'' \<noteq> [] then opts\<lparr>PprofBindAddress := '':'' @ env ''PPROF_PORT''\<rparr> else opts)"

section \<open>Registrations\<close>

record ControllerSetup =
  setupFor :: string
  setupOwns :: "string list"
  MaxConcurrentReconciles :: "nat option"

definition serverSetup :: ControllerSetup where
  "serverSetup = \<lparr>setupFor = ''Server'', setupOwns = [''Pod''], MaxConcurrentReconciles = Some 10\<rparr>"

definition fleetSetup :: ControllerSetup where
  "fleetSetup = \<lparr>setupFor = ''Fleet'', setupOwns = [''Server''], MaxConcurrentReconciles = Some 10\<rparr>"

definition gametypeSetup :: ControllerSetup where
  "gametypeSetup = \<lparr>setupFor = ''GameType'', setupOwns = [''Fleet''], MaxConcurrentReconciles = None\<rparr>"

definition autoscalerSetup :: ControllerSetup where
  "autoscalerSetup = \<lparr>setupFor = ''GameAutoscaler'', setupOwns = [], MaxConcurrentReconciles = None\<rparr>"

record 'w manager =
  newManager :: "ManagerOptions \<Rightarrow> ('w, unit) op"
  completeController :: "ControllerSetup \<Rightarrow> ('w, unit) op"
  completeWebhook :: "string \<Rightarrow> ('w, unit) op"
  addCheck :: "string \<Rightarrow> ('w, unit) op"
  startManager :: "('w, unit) op"

datatype startCall =
    NewManager ManagerOptions bool
  | SetupController ControllerSetup bool
  | SetupWebhook string bool
  | AddCheck string bool
  | StartManager bool
  | ServiceStep string bool

text \<open>\<open>if err := m; err != nil { os.Exit(1) }\<close>, followed by the rest, whose value is the exit code.\<close>

definition orExit :: "(('w, startCall) run, error + unit) state \<Rightarrow> (('w, startCall) run, nat) state
    \<Rightarrow> (('w, startCall) run, nat) state" where
  "orExit m rest = do {
     err \<leftarrow> m;
     case err of Inl _ \<Rightarrow> return 1 | Inr _ \<Rightarrow> rest
   }"

definition setupController :: "'w manager \<Rightarrow> ControllerSetup \<Rightarrow> (('w, startCall) run, error + unit) state" where
  [go_simps]: "setupController M c = call (completeController M c) (\<lambda>r. SetupController c (ok r))"

definition setupWebhook :: "'w manager \<Rightarrow> string \<Rightarrow> (('w, startCall) run, error + unit) state" where
  [go_simps]: "setupWebhook M k = call (completeWebhook M k) (\<lambda>r. SetupWebhook k (ok r))"

definition webhookUnlessDisabled :: "'w manager \<Rightarrow> (string \<Rightarrow> string) \<Rightarrow> string
    \<Rightarrow> (('w, startCall) run, nat) state \<Rightarrow> (('w, startCall) run, nat) state" where
  "webhookUnlessDisabled M env k rest =
     (if env ''ENABLE_WEBHOOKS'' \<noteq> ''false'' then orExit (setupWebhook M k) rest else rest)"

definition operatorMain :: "'w manager \<Rightarrow> Flags \<Rightarrow> (string \<Rightarrow> string) \<Rightarrow> (('w, startCall) run, nat) state" where
  "operatorMain M flags env =
     orExit (call (newManager M (ctrlOptions flags env)) (\<lambda>r. NewManager (ctrlOptions flags env) (ok r))) (
     orExit (setupController M serverSetup) (
     webhookUnlessDisabled M env ''Server'' (
     orExit (setupController M fleetSetup) (
     webhookUnlessDisabled M env ''Fleet'' (
     orExit (setupController M gametypeSetup) (
     orExit (setupController M autoscalerSetup) (
     webhookUnlessDisabled M env ''GameAutoscaler'' (
     webhookUnlessDisabled M env ''GameType'' (
     orExit (call (addCheck M ''healthz'') (\<lambda>r. AddCheck ''healthz'' (ok r))) (
     orExit (call (addCheck M ''readyz'') (\<lambda>r. AddCheck ''readyz'' (ok r))) (
     orExit (call (startManager M) (\<lambda>r. StartManager (ok r))) (
     return 0))))))))))))"

section \<open>The service\<close>

text \<open>\<open>log.Fatal\<close> ends the process with code 1; \<open>ListenAndServe\<close> returns only with an error.\<close>

record 'w serviceHost =
  inClusterConfig :: "('w, unit) op"
  newDynamicClient :: "('w, unit) op"
  newClientset :: "('w, unit) op"
  listenAndServe :: "string \<Rightarrow> ('w, unit) op"

definition CreateApp :: "'w serviceHost \<Rightarrow> (('w, startCall) run, nat) state \<Rightarrow> (('w, startCall) run, nat) state" where
  "CreateApp S rest =
     orExit (call (inClusterConfig S) (\<lambda>r. ServiceStep ''config'' (ok r))) (
     orExit (call (newDynamicClient S) (\<lambda>r. ServiceStep ''dynamic'' (ok r))) (
     orExit (call (newClientset S) (\<lambda>r. ServiceStep ''clientset'' (ok r))) rest))"

definition serviceMain :: "'w serviceHost \<Rightarrow> (('w, startCall) run, nat) state" where
  "serviceMain S = CreateApp S (
     orExit (call (listenAndServe S '':8080'') (\<lambda>r. ServiceStep ''listen'' (ok r))) (return 0))"

section \<open>Properties\<close>

fun startOk :: "startCall \<Rightarrow> bool" where
  "startOk (NewManager _ b) = b"
| "startOk (SetupController _ b) = b"
| "startOk (SetupWebhook _ b) = b"
| "startOk (AddCheck _ b) = b"
| "startOk (StartManager b) = b"
| "startOk (ServiceStep _ b) = b"

fun registered :: "startCall \<Rightarrow> string list" where
  "registered (SetupController c True) = [setupFor c]"
| "registered _ = []"

fun admitted :: "startCall \<Rightarrow> string list" where
  "admitted (SetupWebhook k True) = [k]"
| "admitted _ = []"

text \<open>Everything that has to be in place before the manager is started.\<close>

definition readyToStart :: "(string \<Rightarrow> string) \<Rightarrow> startCall list \<Rightarrow> bool" where
  "readyToStart env pre \<longleftrightarrow> list_all startOk pre \<and>
     concat (map registered pre) = [''Server'', ''Fleet'', ''GameType'', ''GameAutoscaler''] \<and>
     concat (map admitted pre) = (if env ''ENABLE_WEBHOOKS'' = ''false'' then []
       else [''Server'', ''Fleet'', ''GameAutoscaler'', ''GameType''])"

fun startedReady :: "(string \<Rightarrow> string) \<Rightarrow> startCall list \<Rightarrow> startCall \<Rightarrow> bool" where
  "startedReady env pre (StartManager _) = readyToStart env pre"
| "startedReady env pre _ = list_all startOk pre"

text \<open>The configuration that the options make, applied in order.\<close>

definition configured :: "(TlsConfig \<Rightarrow> TlsConfig) list \<Rightarrow> TlsConfig \<Rightarrow> TlsConfig" where
  "configured opts c = foldl (\<lambda>c f. f c) c opts"

fun securedBy :: "Flags \<Rightarrow> startCall \<Rightarrow> bool" where
  "securedBy flags (NewManager opts _) \<longleftrightarrow>
     (\<not> enableHTTP2 flags \<longrightarrow> (\<forall>c. NextProtos (configured (webhookTLSOpts opts) c) = [''http/1.1''] \<and>
        NextProtos (configured (metricsTLSOpts (Metrics opts)) c) = [''http/1.1''])) \<and>
     (secureMetrics flags \<longrightarrow> SecureServing (Metrics opts) \<and> withAuthentication (Metrics opts))"
| "securedBy flags _ \<longleftrightarrow> True"

lemma ctrlOptions_secured [simp]: "securedBy flags (NewManager (ctrlOptions flags env) b)"
  by (simp add: ctrlOptions_def metricsServerOptions_def tlsOpts_def configured_def disableHTTP2_def Let_def)

declare securedBy.simps(1) [simp del]

lemma emits_orExit [emits_intros]:
  assumes "\<And>e. Q (1 :: nat) [c (Inl e)]" and "emits rest (\<lambda>code es. Q code (c (Inr ()) # es))"
  shows "emits (orExit (call f c) rest) Q"
  unfolding orExit_def using assms by (intro emits_intros) auto

text \<open>
  C30: The operator makes its calls in one fixed order and stops at the first that fails, with exit code 1;
  it starts the manager only with all four controllers registered, and with the admission webhooks of all
  four kinds unless the environment disables them; it ends with code 0 exactly when nothing failed. Unless
  the flag allows HTTP/2, both its servers speak HTTP/1.1 only, and secure metrics ask for authentication.
\<close>

theorem operator_starts_complete:
  "emits (operatorMain M flags env) (\<lambda>code es. each_after (startedReady env) es \<and>
     list_all (securedBy flags) es \<and> (code = 0 \<longleftrightarrow> list_all startOk es) \<and> (code = 0 \<longrightarrow> es \<noteq> [] \<and> last es = StartManager True) \<and>
     code \<in> {0, 1})"
proof (cases "env ''ENABLE_WEBHOOKS'' = ''false''")
  case True
  show ?thesis
    unfolding operatorMain_def webhookUnlessDisabled_def go_simps
    by (simp add: True, intro emits_intros)
      (simp_all add: readyToStart_def True serverSetup_def fleetSetup_def gametypeSetup_def autoscalerSetup_def)
next
  case False
  show ?thesis
    unfolding operatorMain_def webhookUnlessDisabled_def go_simps
    by (simp add: False, intro emits_intros)
      (simp_all add: readyToStart_def False serverSetup_def fleetSetup_def gametypeSetup_def autoscalerSetup_def)
qed

text \<open>A manager in memory that refuses what a list says.\<close>

definition memAnswer :: "string list \<Rightarrow> string \<Rightarrow> (unit, unit) op" where
  "memAnswer refused k s = (if k \<in> set refused then Inl (newError k) else Inr (), s)"

definition memManager :: "string list \<Rightarrow> unit manager" where
  "memManager refused = \<lparr>newManager = (\<lambda>_. memAnswer refused ''manager''),
     completeController = (\<lambda>c. memAnswer refused (setupFor c)),
     completeWebhook = (\<lambda>k. memAnswer refused (''webhook-'' @ k)), addCheck = memAnswer refused,
     startManager = memAnswer refused ''start''\<rparr>"

theorem operator_starts_complete_witness:
  "answer (operatorMain (memManager []) defaultFlags (\<lambda>_. [])) () = 0 \<and>
   last (calls (operatorMain (memManager []) defaultFlags (\<lambda>_. [])) ()) = StartManager True"
proof -
  let ?m = "operatorMain (memManager []) defaultFlags (\<lambda>_. [])"
  have "list_all startOk (calls ?m ())"
    by (simp add: operatorMain_def orExit_def webhookUnlessDisabled_def go_simps calls_def newWorld_def memManager_def
      memAnswer_def)
  with emits_calls [OF operator_starts_complete [where M = "memManager []" and flags = defaultFlags
      and env = "\<lambda>_. []"], of "()"]
  show ?thesis by blast
qed

text \<open>The service listens only when it has its configuration and both its clients.\<close>

lemma service_listens_with_clients:
  "emits (serviceMain S) (\<lambda>code es. (code = 0 \<longleftrightarrow> list_all startOk es) \<and>
     (\<forall>b. ServiceStep ''listen'' b \<in> set es \<longrightarrow> butlast es =
        [ServiceStep ''config'' True, ServiceStep ''dynamic'' True, ServiceStep ''clientset'' True]))"
  unfolding serviceMain_def CreateApp_def by (intro emits_intros) auto

end
