(* ===== verification/ServerRounds.thy ===== *)
theory ServerRounds
  imports ServerController
begin

text \<open>
  A server over many reconciliations. What matters of it is its finalizers and those of its pod, if it has
  one. A round is one reconciliation that reports no error, in which the pod is read as it is and nobody
  else changes the two. A live server is ready after three rounds: it is protected by the finalizer and so
  is its pod. Once it is being deleted it loses its protection only when its pod is gone.
\<close>

section \<open>What a run does to a server and its pod\<close>

record life =
  serverFins :: "string list"
  podFins :: "string list option"

text \<open>
  The effects of a run in order: a read must find the pod as it is, a write that succeeds takes place, a
  deleted pod counts as gone, while it terminates too, unless a finalizer holds it. \<open>None\<close> when the run has
  read something else.
\<close>

fun lifeAfter :: "effect list \<Rightarrow> life \<Rightarrow> life option" where
  "lifeAfter [] l = Some l"
| "lifeAfter (Got k n (Inr (ObjPod pod)) # es) l =
     (if podFins l = Some (Finalizers (pod_meta pod)) then lifeAfter es l else None)"
| "lifeAfter (Got k n (Inl err) # es) l =
     (if errNotFound err \<and> podFins l \<noteq> None then None else lifeAfter es l)"
| "lifeAfter (Create (ObjPod pod) True # es) l = lifeAfter es (l\<lparr>podFins := Some (Finalizers (pod_meta pod))\<rparr>)"
| "lifeAfter (Update (ObjPod pod) True # es) l = lifeAfter es (l\<lparr>podFins := Some (Finalizers (pod_meta pod))\<rparr>)"
| "lifeAfter (Update (ObjServer server) True # es) l = lifeAfter es (l\<lparr>serverFins := Finalizers (server_meta server)\<rparr>)"
| "lifeAfter (Delete (ObjPod pod) True # es) l =
     lifeAfter es (if Finalizers (pod_meta pod) = [] then l\<lparr>podFins := None\<rparr> else l)"
| "lifeAfter (e # es) l = lifeAfter es l"

lemma lifeAfter_append: "lifeAfter (es @ fs) l = Option.bind (lifeAfter es l) (lifeAfter fs)"
  by (induction es l rule: lifeAfter.induct) auto

lemma lifeAfter_http: "list_all is_http es \<Longrightarrow> lifeAfter es l = Some l"
proof (induction es)
  case (Cons e es)
  then show ?case by (cases e) simp_all
qed simp

text \<open>A predicate holds after the effects of a run, unless the run has read something else.\<close>

definition after :: "effect list \<Rightarrow> life \<Rightarrow> (life \<Rightarrow> bool) \<Rightarrow> bool" where
  "after es l Q \<longleftrightarrow> (\<forall>l'. lifeAfter es l = Some l' \<longrightarrow> Q l')"

lemma after_simps [simp]:
  "after [] l Q \<longleftrightarrow> Q l"
  "after (Got k n (Inl err) # es) l Q \<longleftrightarrow> ((errNotFound err \<longrightarrow> podFins l = None) \<longrightarrow> after es l Q)"
  "after (Got k n (Inr (ObjPod pod)) # es) l Q \<longleftrightarrow>
     (podFins l = Some (Finalizers (pod_meta pod)) \<longrightarrow> after es l Q)"
  "after (Create (ObjPod pod) b # es) l Q \<longleftrightarrow>
     after es (if b then l\<lparr>podFins := Some (Finalizers (pod_meta pod))\<rparr> else l) Q"
  "after (Update (ObjPod pod) b # es) l Q \<longleftrightarrow>
     after es (if b then l\<lparr>podFins := Some (Finalizers (pod_meta pod))\<rparr> else l) Q"
  "after (Update (ObjServer server) b # es) l Q \<longleftrightarrow>
     after es (if b then l\<lparr>serverFins := Finalizers (server_meta server)\<rparr> else l) Q"
  "after (Delete (ObjPod pod) b # es) l Q \<longleftrightarrow>
     after es (if b \<and> Finalizers (pod_meta pod) = [] then l\<lparr>podFins := None\<rparr> else l) Q"
  "after (StatusUpdate obj answered # es) l Q \<longleftrightarrow> after es l Q"
  "after (Asked server pod a # es) l Q \<longleftrightarrow> after es l Q"
  "after (Event obj x y z # es) l Q \<longleftrightarrow> after es l Q"
  unfolding after_def by (simp_all del: not_None_eq) (cases b; simp)+

lemma after_read [simp]:
  "after (Got k n (map_sum id ObjPod r) # es) l Q \<longleftrightarrow> (case r of
     Inl err \<Rightarrow> (errNotFound err \<longrightarrow> podFins l = None) \<longrightarrow> after es l Q
   | Inr pod \<Rightarrow> podFins l = Some (Finalizers (pod_meta pod)) \<longrightarrow> after es l Q)"
  by (cases r) simp_all

lemma after_append [simp]: "after (es @ fs) l Q \<longleftrightarrow> after es l (\<lambda>l'. after fs l' Q)"
  by (auto simp: after_def lifeAfter_append bind_eq_Some_conv)

lemma after_same: "after es l (\<lambda>l'. l' = m) \<Longrightarrow> Q m \<Longrightarrow> after es l Q"
  by (auto simp: after_def)

lemma after_http: "list_all is_http es \<Longrightarrow> after es l Q \<longleftrightarrow> Q l"
  by (simp add: after_def lifeAfter_http)

lemma after_mono: "after es l Q \<Longrightarrow> (\<And>l'. Q l' \<Longrightarrow> Q' l') \<Longrightarrow> after es l Q'"
  by (simp add: after_def)

inductive serverRound :: "'w platform \<Rightarrow> NamespacedName \<Rightarrow> bool \<Rightarrow> life \<Rightarrow> life \<Rightarrow> bool" for P req dying where
  round: "calls (ServerReconcile P (prodServerReconciler P) req) w = Got ''Server'' req (Inr (ObjServer server)) # rest \<Longrightarrow>
     Finalizers (server_meta server) = serverFins l \<Longrightarrow> beingDeleted (server_meta server) = dying \<Longrightarrow>
     snd (answer (ServerReconcile P (prodServerReconciler P) req) w) = None \<Longrightarrow> lifeAfter rest l = Some l' \<Longrightarrow>
     serverRound P req dying l l'"

section \<open>Towards a ready server\<close>

abbreviation safe :: "string list \<Rightarrow> bool" where
  "safe fs \<equiv> SERVER_FINALIZER \<in> set fs"

definition ready :: "life \<Rightarrow> bool" where
  "ready l \<longleftrightarrow> safe (serverFins l) \<and> (\<exists>fs. podFins l = Some fs \<and> safe fs)"

text \<open>What is still to be done: the finalizer of the server, the pod, the finalizer of the pod.\<close>

definition toDo :: "life \<Rightarrow> nat" where
  "toDo l = (if safe (serverFins l) then 0 else 1) +
     (case podFins l of None \<Rightarrow> 2 | Some fs \<Rightarrow> if safe fs then 0 else 1)"

lemma toDo_0: "toDo l = 0 \<longleftrightarrow> ready l"
  by (auto simp: toDo_def ready_def split: option.splits)

text \<open>No finalizer but the one of the operator holds the pod.\<close>

definition ownPod :: "life \<Rightarrow> bool" where
  "ownPod l \<longleftrightarrow> (case podFins l of None \<Rightarrow> True | Some fs \<Rightarrow> set fs \<subseteq> {SERVER_FINALIZER})"

text \<open>Setting the controller of an object leaves its finalizers alone.\<close>

definition reference_laws :: "'w platform \<Rightarrow> bool" where
  "reference_laws P \<longleftrightarrow> (\<forall>owner m m'. setControllerReference P owner m = Inr m' \<longrightarrow> Finalizers m' = Finalizers m)"

lemma GetNewPod_finalizers: "GetNewPod P server namespace = (pod, dflt, server') \<Longrightarrow> Finalizers (pod_meta pod) = []"
  by (auto simp: builder_defs)

definition improves :: "life \<Rightarrow> life \<Rightarrow> bool" where
  "improves l l' \<longleftrightarrow> toDo l' \<le> toDo l - 1 \<and> (ownPod l \<longrightarrow> ownPod l')"

lemma improves_steps:
  "finalizer_laws P \<Longrightarrow> serverFins l = fs \<Longrightarrow> \<not> safe fs \<Longrightarrow>
     improves l (l\<lparr>serverFins := addFinalizer P fs SERVER_FINALIZER\<rparr>)"
  "podFins l = None \<Longrightarrow> improves l (l\<lparr>podFins := Some []\<rparr>)"
  "finalizer_laws P \<Longrightarrow> podFins l = Some fs \<Longrightarrow> \<not> safe fs \<Longrightarrow>
     improves l (l\<lparr>podFins := Some (addFinalizer P fs SERVER_FINALIZER)\<rparr>)"
  "safe (serverFins l) \<Longrightarrow> podFins l = Some fs \<Longrightarrow> safe fs \<Longrightarrow> improves l l"
  by (auto simp: improves_def toDo_def ownPod_def finalizer_lawsD split: option.splits)

lemma serverInitialize_improves:
  assumes "finalizer_laws P" and "\<not> safe (Finalizers (server_meta server))"
  shows "emits (serverInitialize P server) (\<lambda>res es. snd res = None \<longrightarrow>
     (\<forall>l. serverFins l = Finalizers (server_meta server) \<longrightarrow> after es l (improves l)))"
  unfolding serverInitialize_def go_simps using assms(2)
  by (intro emits_intros) (simp_all add: improves_steps(1) [OF assms(1)])

lemma createPodFor_life:
  assumes "reference_laws P"
  shows "emits (createPodFor P server) (\<lambda>(server', res) es. res \<noteq> Inr True \<and>
     (res = Inr False \<longrightarrow> (\<forall>l Q. after es l Q \<longleftrightarrow> Q (l\<lparr>podFins := Some []\<rparr>))))"
  unfolding createPodFor_def go_simps
  using assms by (intro emits_intros) (auto simp: reference_laws_def dest!: GetNewPod_finalizers)

lemma ensurePodExists_life:
  assumes "reference_laws P"
  shows "emits (ensurePodExists P server) (\<lambda>(server', res) es.
     (res = Inr True \<longrightarrow> (\<forall>l. after es l (\<lambda>l'. l' = l))) \<and> (res = Inr False \<longrightarrow> (\<forall>l. after es l (improves l))))"
  unfolding ensurePodExists_def go_simps
  by (intro emits_intros; (rule emits_weaken [OF createPodFor_life [OF assms]])?) (auto simp: improves_steps(2))

lemma ensurePodFinalizer_life:
  assumes "finalizer_laws P"
  shows "emits (ensurePodFinalizer P server) (\<lambda>res es. ok res \<longrightarrow>
     (\<forall>l. safe (serverFins l) \<longrightarrow> after es l (if res = Inr False then \<lambda>l'. l' = l \<and> ready l else improves l)))"
  unfolding ensurePodFinalizer_def go_simps
  by (intro emits_intros) (auto simp: podHasFinalizer_def mapPodFinalizers_def finalizer_lawsD(1) [OF assms]
    improves_steps(3) [OF assms] ready_def split: sum.splits)

lemma serverMaintain_improves:
  assumes "finalizer_laws P" and "reference_laws P"
  shows "emits (serverMaintain P server) (\<lambda>res es. snd res = None \<longrightarrow>
     (\<forall>l. safe (serverFins l) \<longrightarrow> after es l (improves l)))"
proof -
  have ready: "ready l \<Longrightarrow> improves l l" for l by (auto simp: ready_def improves_steps(4))
  show ?thesis
    unfolding serverMaintain_def go_simps
    apply (rule emits_bind [OF ensurePodExists_life [OF assms(2)]])
    apply (intro emits_intros; (rule emits_bind [OF ensurePodFinalizer_life [OF assms(1)]], intro emits_intros)?)
         apply (auto split: sum.splits)
     apply (rule after_same, erule spec, simp)
    apply (rule after_same, erule spec)
    apply (auto elim!: after_mono intro: ready)
    done
qed

lemma live_improves:
  assumes "serverRound P req False l l'" and "finalizer_laws P" and "reference_laws P"
  shows "improves l l'"
  using assms(1)
proof cases
  case (round w server rest)
  have "emits (ServerReconcile P (prodServerReconciler P) req) (\<lambda>res es. \<forall>server rest.
      es = Got ''Server'' req (Inr (ObjServer server)) # rest \<and> \<not> beingDeleted (server_meta server) \<and> snd res = None \<longrightarrow>
      (\<forall>l. serverFins l = Finalizers (server_meta server) \<longrightarrow> after rest l (improves l)))"
    unfolding ServerReconcile_def go_simps serverHasFinalizer_def finalizer_lawsD(1) [OF assms(2)]
    apply (intro emits_intros; simp)
      apply (rule emits_weaken [OF serverInitialize_improves [OF assms(2)]], simp, simp)
     apply (rule emits_weaken [OF deletion_check.serverFinalize_creates_no_pod [OF prod_check refl]], force)
    apply (rule emits_weaken [OF serverMaintain_improves [OF assms(2,3)]], simp)
    done
  from emits_calls [OF this, of w] round show ?thesis by (auto simp: after_def)
qed

section \<open>Towards a released server\<close>

lemma own_released:
  assumes "ownPod l" and "podFins l = Some fs"
  shows "\<not> safe fs \<Longrightarrow> fs = []" and "finalizer_laws P \<Longrightarrow> removeFinalizer P fs SERVER_FINALIZER = []"
proof -
  from assms have own: "set fs \<subseteq> {SERVER_FINALIZER}" by (simp add: ownPod_def)
  then show "\<not> safe fs \<Longrightarrow> fs = []" by (cases fs) auto
  assume "finalizer_laws P"
  from finalizer_lawsD(3) [OF this, of fs SERVER_FINALIZER] own
  have "set (removeFinalizer P fs SERVER_FINALIZER) = {}" by (simp only: Diff_eq_empty_iff)
  then show "removeFinalizer P fs SERVER_FINALIZER = []" by simp
qed

lemma ownPod_simps [simp]: "ownPod (l\<lparr>podFins := None\<rparr>)" "ownPod (l\<lparr>podFins := Some []\<rparr>)"
    "ownPod (l\<lparr>serverFins := fs\<rparr>) = ownPod l"
  by (simp_all add: ownPod_def)

text \<open>The server keeps its finalizers, and no pod appears.\<close>

definition held :: "life \<Rightarrow> life \<Rightarrow> bool" where
  "held l l' \<longleftrightarrow> serverFins l' = serverFins l \<and> ownPod l' \<and> (podFins l = None \<longrightarrow> podFins l' = None)"

lemma held_simps [simp]: "held l l = ownPod l" "held l (l\<lparr>podFins := Some fs\<rparr>) \<longleftrightarrow>
    ownPod (l\<lparr>podFins := Some fs\<rparr>) \<and> podFins l \<noteq> None"
    "held l m \<Longrightarrow> held l (m\<lparr>podFins := None\<rparr>)"
  by (auto simp: held_def)

lemma releasePod_life:
  assumes "finalizer_laws P"
  shows "emits (releasePod P server pod) (\<lambda>res es. \<forall>l. podFins l = Some (Finalizers (pod_meta pod)) \<and> ownPod l \<longrightarrow>
     after es l (\<lambda>l'. held l l' \<and> (\<forall>pod'. res = Inr pod' \<longrightarrow> Finalizers (pod_meta pod') = [])))"
  unfolding releasePod_def go_simps
  by (intro emits_intros) (auto simp: podHasFinalizer_def mapPodFinalizers_def finalizer_lawsD(1) [OF assms]
    own_released(2) [OF _ _ assms] own_released(1) split: sum.splits)

lemma deletePodOf_life:
  assumes "finalizer_laws P"
  shows "emits (deletePodOf P server pod) (\<lambda>(server', res) es.
     \<forall>l. podFins l = Some (Finalizers (pod_meta pod)) \<and> ownPod l \<longrightarrow>
       after es l (\<lambda>l'. held l l' \<and> (ok res \<longrightarrow> podFins l' = None)))"
  unfolding deletePodOf_def go_simps
  by (rule emits_bind [OF releasePod_life [OF assms]], intro emits_intros) (auto elim!: after_mono)

context deletion_check
begin

lemma handleDeletion_life:
  assumes "DeletionAllowed r = check" and "finalizer_laws P"
  shows "emits (ServerHandleDeletion P r server) (\<lambda>(server', res) es.
     \<forall>l. ownPod l \<longrightarrow> after es l (\<lambda>l'. held l l' \<and> (ok res \<longrightarrow> podFins l' = None)))"
  unfolding ServerHandleDeletion_def go_simps assms(1)
  apply (intro emits_intros)
   apply simp
  apply (rule emits_bind [OF check_http])
  apply (intro emits_intros; (rule emits_weaken [OF deletePodOf_life [OF assms(2)]])?)
    apply (auto simp: after_http)
  done

lemma serverFinalize_life:
  assumes "DeletionAllowed r = check" and "finalizer_laws P"
  shows "emits (serverFinalize P r server) (\<lambda>res es.
     \<forall>l. ownPod l \<longrightarrow> after es l (\<lambda>l'. held l l' \<or> podFins l' = None))"
  unfolding serverFinalize_def go_simps
  by (rule emits_bind [OF handleDeletion_life [OF assms]], intro emits_intros) (auto simp: held_def elim!: after_mono)

end

lemma dying_holds:
  assumes "serverRound P req True l l'" and "finalizer_laws P" and "ownPod l"
  shows "held l l' \<or> podFins l' = None"
  using assms(1)
proof cases
  case (round w server rest)
  have "emits (ServerReconcile P (prodServerReconciler P) req) (\<lambda>res es. \<forall>server rest.
      es = Got ''Server'' req (Inr (ObjServer server)) # rest \<and> beingDeleted (server_meta server) \<longrightarrow>
      (\<forall>l. ownPod l \<longrightarrow> after rest l (\<lambda>l'. held l l' \<or> podFins l' = None)))"
    unfolding ServerReconcile_def go_simps
    apply (intro emits_intros; simp)
      apply (rule emits_weaken [OF serverInitialize_calls], force)
     apply (rule emits_weaken [OF deletion_check.serverFinalize_life [OF prod_check refl assms(2)]], simp)
    apply (rule emits_weaken [OF serverMaintain_calls], force)
    done
  from emits_calls [OF this, of w] round assms(3) show ?thesis by (auto simp: after_def)
qed

section \<open>Rounds\<close>

lemma live_rounds:
  assumes "(serverRound P req False ^^ k) l l'" and "finalizer_laws P" and "reference_laws P" and "ownPod l"
  shows "toDo l' \<le> toDo l - k \<and> ownPod l'"
  using assms(1)
proof (induction k arbitrary: l')
  case (Suc k)
  then obtain m where m: "(serverRound P req False ^^ k) l m" "serverRound P req False m l'" by auto
  from live_improves [OF m(2) assms(2,3)] Suc.IH [OF m(1)] show ?case by (auto simp: improves_def)
qed (use assms(4) in simp)

definition releasedWithPod :: "life \<Rightarrow> bool" where
  "releasedWithPod l \<longleftrightarrow> \<not> safe (serverFins l) \<and> podFins l \<noteq> None"

lemma dying_rounds:
  assumes "(serverRound P req True ^^ k) l l'" and "finalizer_laws P" and "ownPod l" and "\<not> releasedWithPod l"
  shows "ownPod l' \<and> \<not> releasedWithPod l'"
  using assms(1)
proof (induction k arbitrary: l')
  case (Suc k)
  then obtain m where m: "(serverRound P req True ^^ k) l m" "serverRound P req True m l'" by auto
  with Suc.IH have "ownPod m" "\<not> releasedWithPod m" by auto
  with dying_holds [OF m(2) assms(2)] show ?case by (auto simp: held_def releasedWithPod_def ownPod_def)
qed (use assms(3,4) in simp)

text \<open>
  C11: A live server is ready after as many error-free reconciliations as there is to do for it, three at
  most, and ever after: it and its pod carry the finalizer. However often it is then reconciled while it is
  being deleted, it is not released before its pod is deleted, with no finalizer left that holds the pod.
\<close>

theorem server_lives_and_dies:
  assumes "finalizer_laws P" and "reference_laws P" and "ownPod l"
    and "(serverRound P req False ^^ k) l l'" and "toDo l \<le> k" and "(serverRound P req True ^^ n) l' l''"
  shows "toDo l \<le> 3 \<and> ready l' \<and> \<not> releasedWithPod l''"
proof -
  from live_rounds [OF assms(4,1,2,3)] assms(5) have l': "ready l'" "ownPod l'" by (simp_all flip: toDo_0)
  then have "\<not> releasedWithPod l'" by (simp add: ready_def releasedWithPod_def)
  from dying_rounds [OF assms(6,1) l'(2) this] l'(1) show ?thesis by (simp add: toDo_def split: option.splits)
qed

text \<open>The example server, from its creation to its release.\<close>

definition newServerCluster :: cluster where
  "newServerCluster = emptyCluster\<lparr>mem_servers := [exampleServer ''a'']\<rparr>"

definition unsafePodCluster :: cluster where
  "unsafePodCluster = podlessCluster\<lparr>mem_pods := [examplePod ''a'']\<rparr>"

fun lives :: "bool \<Rightarrow> life \<Rightarrow> life \<Rightarrow> effect list \<Rightarrow> bool" where
  "lives b l l' (Got k n (Inr (ObjServer server)) # es) \<longleftrightarrow> k = ''Server'' \<and> n = (''default'', ''a'') \<and>
     Finalizers (server_meta server) = serverFins l \<and> beingDeleted (server_meta server) = b \<and> lifeAfter es l = Some l'"
| "lives b l l' _ \<longleftrightarrow> False"

lemma exampleServerRound:
  assumes "lives b l l' (calls exampleReconcile c)" and "snd (answer exampleReconcile c) = None"
  shows "serverRound memPlatform (''default'', ''a'') b l l'"
proof -
  from assms(1) obtain server rest where
    "calls exampleReconcile c = Got ''Server'' (''default'', ''a'') (Inr (ObjServer server)) # rest"
    "Finalizers (server_meta server) = serverFins l" "beingDeleted (server_meta server) = b" "lifeAfter rest l = Some l'"
    by (elim lives.elims(2)) auto
  with assms(2) show ?thesis unfolding exampleReconcile_def by (intro serverRound.round)
qed

abbreviation lifeOf :: "bool \<Rightarrow> bool option \<Rightarrow> life" where
  "lifeOf i p \<equiv> \<lparr>serverFins = if i then [SERVER_FINALIZER] else [],
     podFins = map_option (\<lambda>b. if b then [SERVER_FINALIZER] else []) p\<rparr>"

lemma exampleLife:
  "serverRound memPlatform (''default'', ''a'') False (lifeOf False None) (lifeOf True None)"
  "serverRound memPlatform (''default'', ''a'') False (lifeOf True None) (lifeOf True (Some False))"
  "serverRound memPlatform (''default'', ''a'') False (lifeOf True (Some False)) (lifeOf True (Some True))"
  "serverRound memPlatform (''default'', ''a'') True (lifeOf True (Some True)) (lifeOf False None)"
proof -
  show "serverRound memPlatform (''default'', ''a'') False (lifeOf False None) (lifeOf True None)"
    by (rule exampleServerRound [where c = newServerCluster]) code_simp+
  show "serverRound memPlatform (''default'', ''a'') False (lifeOf True None) (lifeOf True (Some False))"
    by (rule exampleServerRound [where c = podlessCluster]) code_simp+
  show "serverRound memPlatform (''default'', ''a'') False (lifeOf True (Some False)) (lifeOf True (Some True))"
    by (rule exampleServerRound [where c = unsafePodCluster]) code_simp+
  show "serverRound memPlatform (''default'', ''a'') True (lifeOf True (Some True)) (lifeOf False None)"
    by (rule exampleServerRound [where c = "deletingCluster True"]) code_simp+
qed

lemma mem_reference_laws: "reference_laws memPlatform"
  by (simp add: reference_laws_def memPlatform_def)

theorem server_lives_and_dies_witness:
  "(serverRound memPlatform (''default'', ''a'') False ^^ 3) (lifeOf False None) (lifeOf True (Some True)) \<and>
   (serverRound memPlatform (''default'', ''a'') True ^^ 1) (lifeOf True (Some True)) (lifeOf False None) \<and>
   ready (lifeOf True (Some True)) \<and> \<not> releasedWithPod (lifeOf False None)"
proof -
  have live: "(serverRound memPlatform (''default'', ''a'') False ^^ 3) (lifeOf False None) (lifeOf True (Some True))"
    using exampleLife(1-3) by (auto simp: numeral_3_eq_3 relcompp_apply)
  have dying: "(serverRound memPlatform (''default'', ''a'') True ^^ 1) (lifeOf True (Some True)) (lifeOf False None)"
    using exampleLife(4) by (simp add: relcompp_apply)
  have "ownPod (lifeOf False None)" "toDo (lifeOf False None) \<le> 3" by (simp_all add: ownPod_def toDo_def)
  with server_lives_and_dies [OF mem_finalizer_laws mem_reference_laws _ live _ dying] live dying
  show ?thesis by blast
qed

end
