(* ===== verification/RolloutRounds.thy ===== *)
theory RolloutRounds
  imports GameTypeController "HOL-Library.Multiset"
begin

text \<open>
  A game type over many reconciliations. A round is one reconciliation of the live game type that
  reports no error, together with the time in which the one change it asked for takes place and
  nobody else changes its fleets or the spec of the game type. Whatever fleets there are in the
  beginning, after finitely many rounds there are one or two; and it is one, with the pod template of the
  game type, for good, when the template is one that the API server keeps as it is and the
  fleets of the beginning are older than the rounds.
\<close>

section \<open>What a reconciliation without an error does\<close>

text \<open>
  A status update is answered with the stored game type. Its spec is still the one that the run has read
  as long as nobody edits it.
\<close>

fun keepsSpec :: "FleetSpec \<Rightarrow> effect \<Rightarrow> bool" where
  "keepsSpec spec (StatusUpdate obj (Inr (ObjGameType g))) \<longleftrightarrow> FleetSpec g = spec"
| "keepsSpec spec _ \<longleftrightarrow> True"

abbreviation template :: "FleetSpec \<Rightarrow> PodSpec" where
  "template s \<equiv> Pod (ServerSpec s)"

text \<open>
  The change made for a listing: a new fleet when there is none or the only one has another template, a
  new replica count at most when it has the right one, and the deletion of the first oldest of several.
\<close>

definition creates :: "FleetSpec \<Rightarrow> effect list \<Rightarrow> bool" where
  "creates spec rs \<longleftrightarrow> (\<exists>f. rs = [Create (ObjFleet f) True] \<and> fleet_spec f = spec)"

fun rolled :: "FleetSpec \<Rightarrow> Fleet list \<Rightarrow> effect list \<Rightarrow> bool" where
  "rolled spec [] rs \<longleftrightarrow> creates spec rs"
| "rolled spec [x] rs \<longleftrightarrow> (if template (fleet_spec x) = template spec
     then rs = [] \<or> (\<exists>n. rs = [Update (ObjFleet (setReplicas n x)) True]) else creates spec rs)"
| "rolled spec xs rs \<longleftrightarrow> (\<exists>f. pick fleetCreated xs = Some f \<and>
     rs = (if DeletionTimestamp (fleet_meta f) = None then [Delete (ObjFleet f) True] else []))"

fun quiet :: "effect \<Rightarrow> bool" where
  "quiet (Listed _ _ _ _) = False"
| "quiet _ = True"

lemma foldl_quiet: "list_all quiet es \<Longrightarrow> foldl noteListing acc es = acc"
proof (induction es arbitrary: acc)
  case (Cons e es)
  then show ?case by (cases e) simp_all
qed simp

abbreviation goesWell :: "reconciled \<times> bool \<Rightarrow> bool" where
  "goesWell r \<equiv> (snd r \<longrightarrow> snd (fst r) = None)"

lemma handleCreation_rolled:
  "emits (handleCreation P gametype) (\<lambda>r es. list_all quiet es \<and>
     (snd (snd r) = None \<longrightarrow> creates (FleetSpec gametype) (filter isRollout es)))"
proof -
  have "fleet_spec f = FleetSpec gametype" if "GetFleetObjectForType P gametype = (f, g)" for f g
    using that by (auto simp: builder_defs)
  then show ?thesis
    unfolding handleCreation_def go_simps by (intro emits_intros) (auto simp: creates_def)
qed

lemma noFleet_rolled:
  "emits (noFleet P gametype) (\<lambda>r es. list_all quiet es \<and>
     (goesWell r \<longrightarrow> rolled (FleetSpec gametype) [] (filter isRollout es)))"
  unfolding noFleet_def go_simps
  by (rule emits_bind [OF handleCreation_rolled]) (intro emits_intros; auto)

lemma handReplicasDown_rolled:
  "emits (handReplicasDown P gametype x) (\<lambda>r es. list_all quiet es \<and>
     (goesWell r \<longrightarrow> (\<exists>n. filter isRollout es = [Update (ObjFleet (setReplicas n x)) True])))"
  unfolding handReplicasDown_def go_simps by (intro emits_intros) auto

lemma oneFleet_rolled:
  "emits (oneFleet P gametype x) (\<lambda>r es. list_all quiet es \<and>
     (list_all (keepsSpec (FleetSpec gametype)) es \<and> goesWell r \<longrightarrow>
        rolled (FleetSpec gametype) [x] (filter isRollout es)))"
  unfolding oneFleet_def go_simps
  apply (intro emits_intros; simp)
   apply (rule emits_bind [OF handleCreation_rolled])
   apply (intro emits_intros)
   apply (auto simp: AreFleetsPodsEqual_def) []
  apply (rule emits_weaken [OF handReplicasDown_rolled])
  apply (auto simp: AreFleetsPodsEqual_def)
  done

lemma extraFleets_rolled:
  assumes "1 < length xs"
  shows "emits (extraFleets P gametype xs) (\<lambda>r es. list_all quiet es \<and>
     (goesWell r \<longrightarrow> rolled (FleetSpec gametype) xs (filter isRollout es)))"
  unfolding extraFleets_def go_simps
  using assms by (cases xs rule: remdups_adj.cases) (intro emits_intros; auto split: sum.splits)+

lemma handleUpdating_rolled:
  "emits (handleUpdating P gametype) (\<lambda>r es. list_all (keepsSpec (FleetSpec gametype)) es \<and> goesWell r \<longrightarrow>
     (\<exists>xs. (\<forall>acc. foldl noteListing acc es = Some xs) \<and> rolled (FleetSpec gametype) xs (filter isRollout es)))"
  unfolding handleUpdating_def GetFleetsForType_def go_simps
  apply (intro emits_intros)
   apply simp
  subgoal for r fleets
    apply (cases fleets rule: remdups_adj.cases; simp)
      apply (rule emits_weaken [OF noFleet_rolled], simp add: foldl_quiet)
     apply (rule emits_weaken [OF oneFleet_rolled], simp add: foldl_quiet)
    apply (rule emits_weaken [OF extraFleets_rolled], simp, simp add: foldl_quiet)
    done
  done

lemma handleGametypeStatus_spec:
  "emits (handleGametypeStatus P gametype) (\<lambda>r es. FleetSpec (fst r) = FleetSpec gametype)"
  unfolding handleGametypeStatus_def GetFleetsForType_def go_simps
  by (intro emits_intros) (simp_all add: setCurrentFleetName_def)

lemma updateReplicaCount_spec:
  "emits (updateReplicaCount P gametype) (\<lambda>r es.
     list_all (keepsSpec (FleetSpec gametype)) es \<longrightarrow> FleetSpec (fst r) = FleetSpec gametype)"
  unfolding updateReplicaCount_def go_simps
  by (intro emits_intros) (auto simp: setCurrentFleetReplicas_def split: sum.splits)

lemma gametypeMaintain_rolled:
  "emits (gametypeMaintain P gametype) (\<lambda>r es. list_all (keepsSpec (FleetSpec gametype)) es \<and> snd r = None \<longrightarrow>
     (\<exists>xs. (\<forall>acc. foldl noteListing acc es = Some xs) \<and> rolled (FleetSpec gametype) xs (filter isRollout es)))"
  unfolding gametypeMaintain_def
  apply (rule emits_bind [OF emits_conj [OF handleGametypeStatus_calls handleGametypeStatus_spec]])
  apply (intro emits_intros; simp)
  apply (rule emits_bind [OF emits_conj [OF updateReplicaCount_calls updateReplicaCount_spec]])
  apply (intro emits_intros; simp)
  apply (rule emits_bind [OF handleUpdating_rolled])
  apply (intro emits_intros)
  apply auto
  done

lemma GameTypeReconcile_rolled:
  "emits (GameTypeReconcile P req) (\<lambda>r es. \<forall>gametype rest.
     es = Got ''GameType'' req (Inr (ObjGameType gametype)) # rest \<and> list_all (keepsSpec (FleetSpec gametype)) rest \<and>
     gametypeHasFinalizer P gametype \<and> \<not> beingDeleted (gametype_meta gametype) \<and> snd r = None \<longrightarrow>
       (\<exists>xs. lastFleets rest = Some xs \<and> rolled (FleetSpec gametype) xs (filter isRollout rest)))"
  unfolding GameTypeReconcile_def gametypeInitialize_def go_simps
  apply (intro emits_intros; simp)
   apply (rule emits_weaken [OF gametypeFinalize_appends], force)
  apply (rule emits_weaken [OF gametypeMaintain_rolled])
  apply (simp add: lastFleets_def)
  apply blast
  done

section \<open>Rounds\<close>

text \<open>
  What a round keeps of a fleet: its creation time and its pod template. Its replica count and its status
  may change.
\<close>

definition mark :: "Fleet \<Rightarrow> time \<times> PodSpec" where
  "mark f = (fleetCreated f, template (fleet_spec f))"

abbreviation marks :: "Fleet list \<Rightarrow> (time \<times> PodSpec) multiset" where
  "marks xs \<equiv> mset (map mark xs)"

text \<open>
  The cluster does what it was asked: a fleet that is created at the time \<open>now\<close> appears with this creation
  time, a deleted one goes away, an updated one takes the place of the one with its name. Creation times
  are whole seconds, so nothing is said of the order of \<open>now\<close> and the creation times there are. The pod
  template of what is written comes back as \<open>stored\<close> gives it: the JSON of the Kubernetes types leaves out
  an empty list where it omits empty fields, and reads a missing one as nil.
\<close>

fun takesPlace :: "(PodSpec \<Rightarrow> PodSpec) \<Rightarrow> time \<Rightarrow> effect list \<Rightarrow> Fleet list \<Rightarrow> Fleet list \<Rightarrow> bool" where
  "takesPlace stored now [] xs ys \<longleftrightarrow> marks ys = marks xs"
| "takesPlace stored now [Create (ObjFleet f) _] xs ys \<longleftrightarrow>
     marks ys = add_mset (now, stored (template (fleet_spec f))) (marks xs)"
| "takesPlace stored now [Delete (ObjFleet f) _] xs ys \<longleftrightarrow> marks ys = marks xs - {#mark f#}"
| "takesPlace stored now [Update (ObjFleet f) _] xs ys \<longleftrightarrow>
     marks ys = mset (map (\<lambda>x. if namespacedName (fleet_meta x) = namespacedName (fleet_meta f)
       then (fleetCreated f, stored (template (fleet_spec f))) else mark x) xs)"
| "takesPlace stored now _ xs ys \<longleftrightarrow> False"

inductive rolloutRound :: "'w platform \<Rightarrow> NamespacedName \<Rightarrow> (PodSpec \<Rightarrow> PodSpec) \<Rightarrow> PodSpec \<Rightarrow> time
    \<Rightarrow> Fleet list \<Rightarrow> Fleet list \<Rightarrow> bool" for P req stored tpl now where
  round: "calls (GameTypeReconcile P req) w = Got ''GameType'' req (Inr (ObjGameType gametype)) # rest \<Longrightarrow>
     gametypeHasFinalizer P gametype \<Longrightarrow> \<not> beingDeleted (gametype_meta gametype) \<Longrightarrow>
     template (FleetSpec gametype) = tpl \<Longrightarrow> list_all (keepsSpec (FleetSpec gametype)) rest \<Longrightarrow>
     snd (answer (GameTypeReconcile P req) w) = None \<Longrightarrow>
     lastFleets rest = Some xs \<Longrightarrow> list_all (\<lambda>f. \<not> beingDeleted (fleet_meta f)) xs \<Longrightarrow>
     takesPlace stored now (filter isRollout rest) xs ys \<Longrightarrow>
     rolloutRound P req stored tpl now xs ys"

text \<open>Rounds at the given times.\<close>

primrec rolloutRounds :: "'w platform \<Rightarrow> NamespacedName \<Rightarrow> (PodSpec \<Rightarrow> PodSpec) \<Rightarrow> PodSpec \<Rightarrow> time list
    \<Rightarrow> Fleet list \<Rightarrow> Fleet list \<Rightarrow> bool" where
  "rolloutRounds P req stored tpl [] xs zs \<longleftrightarrow> zs = xs"
| "rolloutRounds P req stored tpl (t # ts) xs zs \<longleftrightarrow>
     (\<exists>ys. rolloutRound P req stored tpl t xs ys \<and> rolloutRounds P req stored tpl ts ys zs)"

text \<open>The abstract round, on creation times and templates.\<close>

definition rolls :: "(PodSpec \<Rightarrow> PodSpec) \<Rightarrow> PodSpec \<Rightarrow> time \<Rightarrow> (time \<times> PodSpec) multiset
    \<Rightarrow> (time \<times> PodSpec) multiset \<Rightarrow> bool" where
  "rolls stored tpl now M N \<longleftrightarrow>
     (if size M = 0 then N = {#(now, stored tpl)#}
      else if size M = 1 then
        (if \<forall>m\<in>#M. snd m = tpl then N = image_mset (\<lambda>m. (fst m, stored tpl)) M \<or> N = M
         else N = add_mset (now, stored tpl) M)
      else (\<exists>m\<in>#M. (\<forall>m'\<in>#M. fst m \<le> fst m') \<and> N = M - {#m#}))"

lemma mark_simps [simp]: "mark (setReplicas n x) = mark x" "fleet_meta (setReplicas n x) = fleet_meta x"
  "fleetCreated (setReplicas n x) = fleetCreated x" "template (fleet_spec (setReplicas n x)) = template (fleet_spec x)"
  "fst (mark x) = fleetCreated x" "snd (mark x) = template (fleet_spec x)"
  by (simp_all add: mark_def setReplicas_def fleetCreated_def)

lemma rolloutRound_rolls:
  assumes "rolloutRound P req stored tpl now xs ys"
  shows "rolls stored tpl now (marks xs) (marks ys)"
  using assms
proof cases
  case (round w gametype rest)
  from emits_calls [OF GameTypeReconcile_rolled, of P req w] round
  have "rolled (FleetSpec gametype) xs (filter isRollout rest)" by auto
  with round(9,4,8) show ?thesis
  proof (induction "FleetSpec gametype" xs "filter isRollout rest" rule: rolled.induct)
    case 1
    then show ?case by (auto simp: rolls_def creates_def)
  next
    case (2 x)
    then show ?case by (auto simp: rolls_def creates_def split: if_splits)
  next
    case (3 x y zs)
    then obtain f where f: "pick fleetCreated (x # y # zs) = Some f"
      "filter isRollout rest = (if DeletionTimestamp (fleet_meta f) = None then [Delete (ObjFleet f) True] else [])"
      by auto
    from pick_Some [OF f(1)] have oldest: "f \<in> set (x # y # zs)" "\<forall>g\<in>set (x # y # zs). fleetCreated f \<le> fleetCreated g"
      by auto
    with 3 f(2) have "marks ys = marks (x # y # zs) - {#mark f#}" by (auto simp: list_all_iff)
    moreover have "mark f \<in># marks (x # y # zs)" using oldest(1) by auto
    moreover have "\<forall>m\<in>#marks (x # y # zs). fst (mark f) \<le> fst m" using oldest(2) by auto
    ultimately have "\<exists>m\<in>#marks (x # y # zs). (\<forall>m'\<in>#marks (x # y # zs). fst m \<le> fst m') \<and>
        marks ys = marks (x # y # zs) - {#m#}" by blast
    then show ?case by (simp add: rolls_def)
  qed
qed

section \<open>One or two fleets\<close>

lemma rolls_size:
  assumes "rolls stored tpl now M N"
  shows "size N = (if size M = 0 then 1 else if size M = 1 then (if \<forall>m\<in>#M. snd m = tpl then 1 else 2) else size M - 1)"
  using assms by (auto simp: rolls_def size_Diff_singleton split: if_splits)

lemma rounds_size:
  assumes "rolloutRounds P req stored tpl ts xs ys" and "max 1 (length xs) \<le> length ts"
  shows "length ys \<in> {1, 2}"
proof -
  have step: "length zs = (if length xs = 0 then 1 else if length xs = 1
      then (if \<forall>m\<in>#marks xs. snd m = tpl then 1 else 2) else length xs - 1)"
    if "rolloutRound P req stored tpl t xs zs" for t xs zs
    using rolls_size [OF rolloutRound_rolls [OF that]] by simp
  have few: "length ys \<in> {1, 2}" if "rolloutRounds P req stored tpl ts xs ys" "length xs \<in> {1, 2}" for ts xs
    using that
  proof (induction ts arbitrary: xs)
    case (Cons t ts)
    then obtain zs where "rolloutRound P req stored tpl t xs zs" "rolloutRounds P req stored tpl ts zs ys" by auto
    with Cons.IH [of zs] step Cons.prems(2) show ?case by (auto split: if_splits)
  qed simp
  show ?thesis
    using assms
  proof (induction ts arbitrary: xs)
    case (Cons t ts)
    then obtain zs where zs: "rolloutRound P req stored tpl t xs zs" "rolloutRounds P req stored tpl ts zs ys" by auto
    show ?case
    proof (cases "length xs \<le> 2")
      case True
      then consider "length xs = 0" | "length xs = 1" | "length xs = 2" by linarith
      then have "length zs \<in> {1, 2}" using step [OF zs(1)] by cases (auto split: if_splits)
      with few [OF zs(2)] show ?thesis by blast
    next
      case False
      with step [OF zs(1)] Cons.prems(2) have "max 1 (length zs) \<le> length ts" by (cases xs) simp_all
      with Cons.IH [OF zs(2)] show ?thesis .
    qed
  qed (simp)
qed

section \<open>One fleet\<close>

text \<open>
  How many rounds it takes: one for every fleet too many, and two more to make a new fleet and to give up
  the old one, unless the youngest fleets have the template already. Fleets with another template have to
  be older than the rounds to come: a fleet that the code makes while there is one of the same second may
  be taken for the older one.
\<close>

definition youngestGood :: "PodSpec \<Rightarrow> (time \<times> PodSpec) multiset \<Rightarrow> bool" where
  "youngestGood tpl M \<longleftrightarrow> (\<forall>m\<in>#M. (\<forall>m'\<in>#M. fst m' \<le> fst m) \<longrightarrow> snd m = tpl)"

definition rollsNeeded :: "PodSpec \<Rightarrow> (time \<times> PodSpec) multiset \<Rightarrow> nat" where
  "rollsNeeded tpl M = (if M = {#} then 1 else size M - 1 + (if youngestGood tpl M then 0 else 2))"

lemma youngestGood_diff:
  assumes "youngestGood tpl M" and "\<forall>m'\<in>#M. fst m \<le> fst m'"
  shows "youngestGood tpl (M - {#m#})"
  unfolding youngestGood_def
proof (intro ballI impI)
  fix n
  assume n: "n \<in># M - {#m#}" "\<forall>n'\<in>#M - {#m#}. fst n' \<le> fst n"
  then have "n \<in># M" by (rule_tac in_diffD)
  moreover have "fst m' \<le> fst n" if "m' \<in># M" for m'
  proof (cases "m' = m")
    case True
    with assms(2) \<open>n \<in># M\<close> show ?thesis by blast
  next
    case False
    with that have "m' \<in># M - {#m#}" by (simp add: in_diff_count)
    with n(2) show ?thesis by blast
  qed
  ultimately show "snd n = tpl" using assms(1) by (simp add: youngestGood_def)
qed

lemma rollsNeeded_0: "rollsNeeded tpl M = 0 \<longleftrightarrow> (\<exists>t. M = {#(t, tpl)#})"
proof
  assume "rollsNeeded tpl M = 0"
  then have "size M = 1" and good: "youngestGood tpl M"
    by (auto simp: rollsNeeded_def split: if_splits simp flip: nonempty_has_size) (metis le_antisym less_eq_Suc_le nonempty_has_size)
  then obtain m where "M = {#m#}" by (metis size_1_singleton_mset)
  with good show "\<exists>t. M = {#(t, tpl)#}" by (cases m) (auto simp: youngestGood_def)
qed (auto simp: rollsNeeded_def youngestGood_def)

definition settled :: "PodSpec \<Rightarrow> time list \<Rightarrow> (time \<times> PodSpec) multiset \<Rightarrow> bool" where
  "settled tpl ts M \<longleftrightarrow> (\<forall>m\<in>#M. snd m = tpl \<or> (\<forall>t\<in>set ts. fst m < t))"

lemma rolls_settled:
  assumes "rolls stored tpl t M N" and "stored tpl = tpl" and "settled tpl (t # ts) M"
  shows "settled tpl ts N"
  using assms by (auto simp: rolls_def settled_def dest: in_diffD split: if_splits)

lemma rolls_stays: "rolls stored tpl t {#(t', tpl)#} N \<Longrightarrow> stored tpl = tpl \<Longrightarrow> N = {#(t', tpl)#}"
  by (auto simp: rolls_def)

lemma rolls_decreases:
  assumes "rolls stored tpl t M N" and "stored tpl = tpl" and "settled tpl (t # ts) M" and "rollsNeeded tpl M \<noteq> 0"
  shows "rollsNeeded tpl N < rollsNeeded tpl M"
proof -
  consider "size M = 0" | "size M = 1" | "1 < size M" by linarith
  then show ?thesis
  proof cases
    case 1
    with assms(1,2) show ?thesis by (simp add: rolls_def rollsNeeded_def youngestGood_def)
  next
    case 2
    then obtain m where m: "M = {#m#}" by (metis size_1_singleton_mset)
    with assms(4) have bad: "snd m \<noteq> tpl" by (cases m) (auto simp: rollsNeeded_0)
    with m assms(3) have "fst m < t" by (simp add: settled_def)
    moreover from bad m assms(1,2) have "N = {#(t, tpl), m#}" by (simp add: rolls_def)
    ultimately show ?thesis using m bad by (auto simp: rollsNeeded_def youngestGood_def)
  next
    case 3
    with assms(1) obtain m where m: "m \<in># M" "\<forall>m'\<in>#M. fst m \<le> fst m'" "N = M - {#m#}"
      by (auto simp: rolls_def split: if_splits)
    then have "size N = size M - 1" by (simp add: size_Diff_singleton)
    with 3 youngestGood_diff [OF _ m(2)] m(3) show ?thesis by (auto simp: rollsNeeded_def)
  qed
qed

lemma rounds_reach:
  assumes "rolloutRounds P req stored tpl ts xs ys" and "stored tpl = tpl" and "settled tpl ts (marks xs)"
    and "rollsNeeded tpl (marks xs) \<le> length ts"
  shows "rollsNeeded tpl (marks ys) = 0"
  using assms(1,3,4)
proof (induction ts arbitrary: xs)
  case (Cons t ts)
  then obtain zs where zs: "rolloutRound P req stored tpl t xs zs" "rolloutRounds P req stored tpl ts zs ys" by auto
  note roll = rolloutRound_rolls [OF zs(1)]
  have "rollsNeeded tpl (marks zs) \<le> length ts"
  proof (cases "rollsNeeded tpl (marks xs) = 0")
    case True
    with roll assms(2) show ?thesis by (metis rolls_stays rollsNeeded_0 le0)
  next
    case False
    from rolls_decreases [OF roll assms(2) Cons.prems(2) False] Cons.prems(3) show ?thesis by simp
  qed
  with Cons.IH [OF zs(2) rolls_settled [OF roll assms(2) Cons.prems(2)]] show ?case .
qed simp

text \<open>
  With a template that the API server does not keep as it is, no fleet ever has the template of the game
  type for \<^term>\<open>AreFleetsPodsEqual\<close>: every round makes a fleet or deletes one.
\<close>

lemma rolls_changes:
  assumes "rolls stored tpl t M N" and "stored tpl \<noteq> tpl" and "\<forall>m\<in>#M. snd m \<noteq> tpl"
  shows "size N \<noteq> size M \<and> (\<forall>m\<in>#N. snd m \<noteq> tpl)"
proof -
  have "size (M - {#m#}) \<noteq> size M" if "m \<in># M" for m using size_Diff1_less [OF that] by simp
  moreover have "\<exists>m. m \<in># M" if "size M \<noteq> 0" using that by (metis multiset_nonemptyE size_empty)
  ultimately show ?thesis using assms
    by (auto simp: rolls_def dest: in_diffD split: if_splits)
qed

lemma rollout_never_settles:
  assumes "rolloutRounds P req stored tpl ts xs ys" and "stored tpl \<noteq> tpl"
    and "\<forall>f\<in>set xs. template (fleet_spec f) \<noteq> tpl" and "rolloutRound P req stored tpl t ys zs"
  shows "length zs \<noteq> length ys"
proof -
  have bad: "(\<forall>m\<in>#marks ws. snd m \<noteq> tpl) \<longleftrightarrow> (\<forall>f\<in>set ws. template (fleet_spec f) \<noteq> tpl)" for ws by auto
  have "\<forall>m\<in>#marks ys. snd m \<noteq> tpl"
    using assms(1,3) unfolding bad [symmetric]
  proof (induction ts arbitrary: xs)
    case (Cons t ts)
    then obtain ws where ws: "rolloutRound P req stored tpl t xs ws" "rolloutRounds P req stored tpl ts ws ys" by auto
    from rolls_changes [OF rolloutRound_rolls [OF ws(1)] assms(2) Cons.prems(2)] Cons.IH [OF ws(2)] show ?case by blast
  qed simp
  from rolls_changes [OF rolloutRound_rolls [OF assms(4)] assms(2) this] show ?thesis by simp
qed

section \<open>Example rounds\<close>

text \<open>What the JSON of a pod template keeps: the lists that are left out when they are empty come back as nil.\<close>

definition omitEmpty :: "'a goslice \<Rightarrow> 'a goslice" where
  "omitEmpty xs = (if elems xs = [] then None else xs)"

definition storedContainer :: "Container \<Rightarrow> Container" where
  "storedContainer c = c\<lparr>Ports := omitEmpty (Ports c), Env := omitEmpty (Env c)\<rparr>"

definition storedTemplate :: "PodSpec \<Rightarrow> PodSpec" where
  "storedTemplate p = p\<lparr>Containers := map_option (List.map storedContainer) (Containers p),
     ImagePullSecrets := omitEmpty (ImagePullSecrets p)\<rparr>"

lemma omitEmpty_twice [simp]: "omitEmpty (omitEmpty xs) = omitEmpty xs"
  by (simp add: omitEmpty_def)

lemma storedContainer_twice: "storedContainer \<circ> storedContainer = storedContainer"
  by (simp add: fun_eq_iff storedContainer_def)

lemma storedTemplate_twice: "storedTemplate (storedTemplate p) = storedTemplate p"
  by (simp add: storedTemplate_def option.map_comp storedContainer_twice flip: map_map comp_def)

definition oldFleet :: Fleet where
  "oldFleet = (typedFleet ''default'' ''old'' 3)\<lparr>fleet_spec := (fleet_spec exampleFleet)\<lparr>ServerSpec :=
     (ServerSpec (fleet_spec exampleFleet))\<lparr>Pod := \<lparr>Containers = None, ImagePullSecrets = None, podOther = []\<rparr>\<rparr>\<rparr>\<rparr>"

definition rolloutExample :: "(cluster world, reconciled) state" where
  "rolloutExample = GameTypeReconcile memPlatform (''default'', ''g'')"

fun rolloutStart :: "effect list \<Rightarrow> (NamespacedName \<times> GameType \<times> Fleet list \<times> effect list) option" where
  "rolloutStart (Got k n (Inr (ObjGameType g)) # rest) =
     (if k = ''GameType'' \<and> list_all (keepsSpec (FleetSpec g)) rest
      then map_option (\<lambda>xs. (n, g, xs, filter isRollout rest)) (lastFleets rest) else None)"
| "rolloutStart _ = None"

lemma rolloutStart_Some:
  "rolloutStart es = Some (n, g, xs, rs) \<Longrightarrow> \<exists>rest. es = Got ''GameType'' n (Inr (ObjGameType g)) # rest \<and>
     list_all (keepsSpec (FleetSpec g)) rest \<and> lastFleets rest = Some xs \<and> filter isRollout rest = rs"
  by (induction es rule: rolloutStart.induct) (auto split: if_splits)

fun onlyCreates :: "PodSpec \<Rightarrow> effect list \<Rightarrow> bool" where
  "onlyCreates tpl [Create (ObjFleet f) b] \<longleftrightarrow> template (fleet_spec f) = tpl"
| "onlyCreates tpl _ \<longleftrightarrow> False"

fun onlyDeletes :: "time \<times> PodSpec \<Rightarrow> effect list \<Rightarrow> bool" where
  "onlyDeletes m [Delete (ObjFleet f) b] \<longleftrightarrow> mark f = m"
| "onlyDeletes m _ \<longleftrightarrow> False"

definition rolloutFrom :: "cluster \<Rightarrow> (time \<times> PodSpec) list \<Rightarrow> PodSpec \<Rightarrow> (effect list \<Rightarrow> bool) \<Rightarrow> bool" where
  "rolloutFrom c ms tpl p \<longleftrightarrow> snd (answer rolloutExample c) = None \<and>
     (case rolloutStart (calls rolloutExample c) of None \<Rightarrow> False | Some (n, g, xs, rs) \<Rightarrow>
        n = (''default'', ''g'') \<and> gametypeHasFinalizer memPlatform g \<and> \<not> beingDeleted (gametype_meta g) \<and>
        template (FleetSpec g) = tpl \<and> list_all (\<lambda>f. \<not> beingDeleted (fleet_meta f)) xs \<and> map mark xs = ms \<and> p rs)"

lemma exampleRollout:
  assumes "rolloutFrom c ms tpl p"
  obtains xs rs where "map mark xs = ms" "p rs"
    "\<forall>ys stored now. takesPlace stored now rs xs ys \<longrightarrow> rolloutRound memPlatform (''default'', ''g'') stored tpl now xs ys"
proof -
  from assms obtain g xs rs where start: "rolloutStart (calls rolloutExample c) = Some ((''default'', ''g''), g, xs, rs)"
      "gametypeHasFinalizer memPlatform g" "\<not> beingDeleted (gametype_meta g)" "template (FleetSpec g) = tpl"
      "list_all (\<lambda>f. \<not> beingDeleted (fleet_meta f)) xs" "map mark xs = ms" "p rs"
    by (auto simp: rolloutFrom_def split: option.splits)
  have ok: "snd (answer (GameTypeReconcile memPlatform (''default'', ''g'')) c) = None"
    using assms unfolding rolloutFrom_def rolloutExample_def by simp
  from rolloutStart_Some [OF start(1)] obtain rest where rest: "calls rolloutExample c =
      Got ''GameType'' (''default'', ''g'') (Inr (ObjGameType g)) # rest" "list_all (keepsSpec (FleetSpec g)) rest"
      "lastFleets rest = Some xs" "filter isRollout rest = rs" by blast
  have "rolloutRound memPlatform (''default'', ''g'') stored tpl now xs ys" if "takesPlace stored now rs xs ys" for ys stored now
    using rolloutRound.round [OF rest(1) [unfolded rolloutExample_def] start(2-4) rest(2)
      ok rest(3) start(5)] that rest(4) by simp
  with start(6,7) show thesis by (intro that) auto
qed

section \<open>Properties\<close>

text \<open>
  C9: Rollouts converge. Whatever fleets a live game type has, with whatever pod templates and creation
  times, after as many rounds as there are fleets, and at least one, it has one fleet or two. When the API server keeps its
  pod template as it is and those fleets were created before the rounds, then after one round more it has
  exactly one fleet, and that fleet has the pod template of the game type. Both hold after every
  further round.
\<close>

theorem rollout_converges:
  assumes "rolloutRounds P req stored tpl ts xs ys"
  shows "(max 1 (length xs) \<le> length ts \<longrightarrow> length ys \<in> {1, 2}) \<and>
     (stored tpl = tpl \<and> (\<forall>x\<in>set xs. \<forall>t\<in>set ts. fleetCreated x < t) \<and> length xs + 1 \<le> length ts \<longrightarrow>
        (\<exists>f. ys = [f] \<and> template (fleet_spec f) = tpl))"
proof (intro conjI impI)
  assume "max 1 (length xs) \<le> length ts"
  then show "length ys \<in> {1, 2}" by (rule rounds_size [OF assms])
next
  assume *: "stored tpl = tpl \<and> (\<forall>x\<in>set xs. \<forall>t\<in>set ts. fleetCreated x < t) \<and> length xs + 1 \<le> length ts"
  then have "settled tpl ts (marks xs)" by (auto simp: settled_def)
  moreover have "rollsNeeded tpl (marks xs) \<le> length ts" using * by (auto simp: rollsNeeded_def)
  ultimately have "rollsNeeded tpl (marks ys) = 0" using rounds_reach [OF assms] * by blast
  then obtain t where "marks ys = {#(t, tpl)#}" by (auto simp: rollsNeeded_0)
  then have "map mark ys = [(t, tpl)]" by (simp only: mset_single_iff)
  then show "\<exists>f. ys = [f] \<and> template (fleet_spec f) = tpl" by (auto simp: mark_def)
qed

theorem rollout_converges_witness:
  "\<exists>xs f. map mark xs = [mark oldFleet] \<and> template (fleet_spec oldFleet) \<noteq> template (fleet_spec exampleFleet) \<and>
     rolloutRounds memPlatform (''default'', ''g'') storedTemplate (template (fleet_spec exampleFleet)) [9, 10] xs [f] \<and>
     template (fleet_spec f) = template (fleet_spec exampleFleet)"
proof -
  let ?tpl = "template (fleet_spec exampleFleet)" and ?new = "typedFleet ''default'' ''new'' 9"
  have "rolloutFrom (gametypeCluster None [oldFleet]) [mark oldFleet] ?tpl
      (onlyCreates ?tpl)"
    by code_simp
  then obtain xs rs where 1: "map mark xs = [mark oldFleet]"
      "onlyCreates ?tpl rs"
      "\<forall>ys stored now. takesPlace stored now rs xs ys \<longrightarrow> rolloutRound memPlatform (''default'', ''g'') stored ?tpl now xs ys"
    by (rule exampleRollout)
  have "rolloutFrom (gametypeCluster None [oldFleet, ?new]) [mark oldFleet, mark ?new] ?tpl
      (onlyDeletes (mark oldFleet))"
    by code_simp
  then obtain ys rs' where 2: "map mark ys = [mark oldFleet, mark ?new]"
      "onlyDeletes (mark oldFleet) rs'"
      "\<forall>zs stored now. takesPlace stored now rs' ys zs \<longrightarrow> rolloutRound memPlatform (''default'', ''g'') stored ?tpl now ys zs"
    by (rule exampleRollout)
  have new: "mark ?new = (9, ?tpl)" "fst (mark oldFleet) = 3" and kept: "storedTemplate ?tpl = ?tpl" by code_simp+
  obtain x where x: "xs = [x]" "mark x = mark oldFleet" using 1(1) by auto
  from 1(2) obtain f b where f: "rs = [Create (ObjFleet f) b]" "template (fleet_spec f) = ?tpl"
    by (auto elim: onlyCreates.elims)
  have "takesPlace storedTemplate 9 rs xs ys"
    using new kept x f 2(1) by (simp del: mark_simps add: add_mset_commute flip: mset_map)
  moreover from 2(2) obtain g b' where g: "rs' = [Delete (ObjFleet g) b']" "mark g = mark oldFleet"
    by (auto elim: onlyDeletes.elims)
  have "takesPlace storedTemplate 10 rs' ys [?new]" using 2(1) g by (simp del: mark_simps flip: mset_map)
  ultimately have "rolloutRounds memPlatform (''default'', ''g'') storedTemplate ?tpl [9, 10] xs [?new]"
    using 1(3) 2(3) by (simp, blast)
  moreover have "fleetCreated x = 3" using x(2) new(2) by (metis mark_simps(5))
  with rollout_converges [OF calculation] kept x(1) have "template (fleet_spec ?new) = ?tpl" by simp
  moreover have "template (fleet_spec oldFleet) \<noteq> ?tpl" by code_simp
  ultimately show ?thesis using 1(1) by (intro exI conjI)
qed

end
