(* ===== verification/FleetRounds.thy ===== *)
theory FleetRounds
  imports FleetController
begin

text \<open>
  A fleet over many reconciliations. A round is one reconciliation of the live fleet that reports no
  error, together with the time in which what it asked for takes place and nobody else changes the
  servers of the fleet: if it listed \<open>n\<close> servers, the next one lists \<open>n\<close> plus those created minus those
  deleted. The fleet then reaches its replica count after finitely many rounds and stays there.
\<close>

inductive fleetRound :: "'w platform \<Rightarrow> NamespacedName \<Rightarrow> int32 \<Rightarrow> nat \<Rightarrow> nat \<Rightarrow> bool" for P req d where
  round: "calls (FleetReconcile P (prodFleetReconciler P) req) w
        = Got ''Fleet'' req (Inr (ObjFleet fleet)) # serversOf fleet (Inr xs) # rest \<Longrightarrow>
     \<not> beingDeleted (fleet_meta fleet) \<Longrightarrow> desired fleet = d \<Longrightarrow> length xs < 2 ^ 31 \<Longrightarrow>
     snd (answer (FleetReconcile P (prodFleetReconciler P) req) w) = None \<Longrightarrow>
     fleetRound P req d (length xs) (length xs + length (creations rest) - length (deletions rest))"

text \<open>The abstract round: up in one step, down one at a time.\<close>

definition towards :: "int \<Rightarrow> int \<Rightarrow> int" where
  "towards d n = (if n < d then d else if d < n then n - 1 else n)"

lemma fleetRound_towards:
  assumes "fleetRound P req d n n'" and "0 \<le> sint d"
  shows "int n' = towards (sint d) (int n)"
  using assms(1)
proof cases
  case (round w fleet xs rest)
  let ?m = "FleetReconcile P (prodFleetReconciler P) req"
  have "scaledBy fleet (fst req) xs True (calls ?m w)"
    using FleetReconcile_scaled [THEN emits_calls, of P req w] round by auto
  with round assms(2) show ?thesis
    by (auto simp: scaledBy_def shortage_def towards_def of_nat_diff split: if_splits)
qed

text \<open>How many rounds it takes.\<close>

definition roundsNeeded :: "int \<Rightarrow> int \<Rightarrow> nat" where
  "roundsNeeded d n = (if n < d then 1 else nat (n - d))"

lemma towards_decreases: "n \<noteq> d \<Longrightarrow> roundsNeeded d (towards d n) < roundsNeeded d n"
  by (simp add: roundsNeeded_def towards_def)

lemma roundsNeeded_0: "roundsNeeded d n = 0 \<longleftrightarrow> n = d"
  by (auto simp: roundsNeeded_def)

lemma rounds_iterate:
  assumes "(fleetRound P req d ^^ k) n n'" and "0 \<le> sint d"
  shows "int n' = (towards (sint d) ^^ k) (int n)"
  using assms(1)
proof (induction k arbitrary: n')
  case (Suc k)
  then show ?case by (auto simp: fleetRound_towards [OF _ assms(2)])
qed simp

lemma iterate_reaches: "roundsNeeded d n \<le> k \<Longrightarrow> (towards d ^^ k) n = d"
proof (induction k arbitrary: n)
  case 0
  then show ?case by (simp add: roundsNeeded_0)
next
  case (Suc k)
  have "roundsNeeded d (towards d n) \<le> k"
  proof (cases "n = d")
    case True
    then show ?thesis by (simp add: towards_def roundsNeeded_def)
  next
    case False
    with Suc.prems towards_decreases [OF this] show ?thesis by linarith
  qed
  from Suc.IH [OF this] show ?case by (simp add: funpow_swap1)
qed

text \<open>
  C8: A live fleet whose replica count is not negative reaches it: after one round when servers are
  missing, after as many rounds as there are surplus servers otherwise, and it has that number of servers
  after every further round.
\<close>

theorem fleet_converges:
  assumes "(fleetRound P req d ^^ k) n n'" and "0 \<le> sint d" and "roundsNeeded (sint d) (int n) \<le> k"
  shows "int n' = sint d"
  using rounds_iterate [OF assms(1,2)] iterate_reaches [OF assms(3)] by simp

text \<open>Rounds of the example fleet, which wants one server, on the in-memory cluster.\<close>

lemma exampleRound:
  assumes "case startOf (calls exampleFleetReconcile c) of None \<Rightarrow> False
      | Some (n, f, xs) \<Rightarrow> n = (''default'', ''f'') \<and> \<not> beingDeleted (fleet_meta f) \<and> length xs = k \<and> desired f = 1"
    and "snd (answer exampleFleetReconcile c) = None" and "k < 2 ^ 31"
  shows "\<exists>k'. fleetRound memPlatform (''default'', ''f'') 1 k k'"
proof -
  from assms(1) obtain f xs rest where start: "calls exampleFleetReconcile c =
      Got ''Fleet'' (''default'', ''f'') (Inr (ObjFleet f)) # serversOf f (Inr xs) # rest"
      "\<not> beingDeleted (fleet_meta f)" "length xs = k" "desired f = 1"
    by (auto split: option.splits dest!: startOf_Some)
  show ?thesis
    using fleetRound.round [OF start(1) [unfolded exampleFleetReconcile_def] start(2,4)] start(3) assms(2,3)
    unfolding exampleFleetReconcile_def by blast
qed

lemma exampleRounds:
  "\<exists>n'. fleetRound memPlatform (''default'', ''f'') 1 3 n'" "\<exists>n'. fleetRound memPlatform (''default'', ''f'') 1 2 n'"
proof -
  let ?c = "\<lambda>n. fleetCluster protectedFleet (take n (mem_servers agedCluster))"
  show "\<exists>n'. fleetRound memPlatform (''default'', ''f'') 1 3 n'"
    by (rule exampleRound [where c = "?c 3"]) (code_simp, code_simp, simp)
  show "\<exists>n'. fleetRound memPlatform (''default'', ''f'') 1 2 n'"
    by (rule exampleRound [where c = "?c 2"]) (code_simp, code_simp, simp)
qed

lemma exampleTwoRounds: "\<exists>n'. (fleetRound memPlatform (''default'', ''f'') 1 ^^ 2) 3 n'"
proof -
  obtain a where a: "fleetRound memPlatform (''default'', ''f'') 1 3 a" using exampleRounds(1) by blast
  then have "a = 2" using fleetRound_towards [OF a] by (simp add: towards_def)
  with a exampleRounds(2) show ?thesis by (auto simp: numeral_2_eq_2)
qed

theorem fleet_converges_witness:
  "\<exists>n'. (fleetRound memPlatform (''default'', ''f'') 1 ^^ 2) 3 n' \<and> int n' = sint (1 :: int32)"
proof -
  obtain n' where "(fleetRound memPlatform (''default'', ''f'') 1 ^^ 2) 3 n'" using exampleTwoRounds by blast
  with fleet_converges [OF this] show ?thesis by (auto simp: roundsNeeded_def)
qed

end
