(* ===== verification/Scaling.thy ===== *)
theory Scaling
  imports RolloutRounds FleetRounds Autoscaler
begin

text \<open>
  The replica count on its way from the scaling webhook to the servers: the autoscaler writes it into
  the game type, the game type controller hands it down to the fleet, and the fleet controller makes or
  gives up servers until there are that many.
\<close>

section \<open>The game type hands its replica count down\<close>

text \<open>
  All that a run sees of the fleets of its game type is one fleet, alike whenever it is read; and nobody else
  writes the game type in between: a status update that succeeds is answered with the stored spec, which is
  the one the run has, and with the status that it has submitted.
\<close>

definition alike :: "Fleet \<Rightarrow> Fleet \<Rightarrow> bool" where
  "alike x f \<longleftrightarrow> Name (fleet_meta f) = Name (fleet_meta x) \<and> fleet_spec f = fleet_spec x"

fun seesOnly :: "FleetSpec \<Rightarrow> Fleet \<Rightarrow> effect \<Rightarrow> bool" where
  "seesOnly spec x (Listed _ _ _ (Inr [ObjFleet f])) \<longleftrightarrow> alike x f"
| "seesOnly spec x (Listed _ _ _ (Inr _)) \<longleftrightarrow> False"
| "seesOnly spec x (Got _ _ (Inr (ObjFleet f))) \<longleftrightarrow> alike x f"
| "seesOnly spec x (StatusUpdate (ObjGameType g) (Inr (ObjGameType g'))) \<longleftrightarrow>
     FleetSpec g' = spec \<and> gametype_status g' = gametype_status g"
| "seesOnly spec x _ \<longleftrightarrow> True"

lemma seesOnly_fleets [simp]: "seesOnly spec x (Listed k ns sel (Inr (map ObjFleet fs))) \<longleftrightarrow> (\<exists>f. fs = [f] \<and> alike x f)"
  by (cases fs rule: remdups_adj.cases) simp_all

definition handsDown :: "int32 \<Rightarrow> Fleet \<Rightarrow> effect list" where
  "handsDown n x = (if desired x = n then [] else [Update (ObjFleet (setReplicas n x)) True])"

text \<open>The game type as the first two parts of a reconciliation leave it.\<close>

definition counted :: "GameType \<Rightarrow> Fleet \<Rightarrow> GameType \<Rightarrow> bool" where
  "counted g x g' \<longleftrightarrow> FleetSpec g' = FleetSpec g \<and> CurrentFleetReplicas (gametype_status g') = desired x"

lemma pick_single [simp]: "pick age [x] = Some x"
  by (simp add: pick_def)

lemma handleGametypeStatus_named:
  "emits (handleGametypeStatus P gametype) (\<lambda>r es. list_all (\<lambda>e. \<not> isRollout e) es \<and>
     (list_all (seesOnly spec x) es \<and> snd r = Inr () \<longrightarrow>
        fst r = setCurrentFleetName (Name (fleet_meta x)) gametype))"
  unfolding handleGametypeStatus_def GetFleetsForType_def go_simps
  apply (intro emits_intros)
    apply simp
   apply clarsimp
  apply (intro conjI impI; hypsubst)
   apply simp
  apply (simp only: list.pred_inject seesOnly_fleets map_sum.simps simp_thms)
  apply (clarsimp simp: alike_def)
  done

lemma updateReplicaCount_counted:
  assumes "CurrentFleetName (gametype_status gametype) \<noteq> []"
  shows "emits (updateReplicaCount P gametype) (\<lambda>r es. list_all (\<lambda>e. \<not> isRollout e) es \<and>
     (list_all (seesOnly (FleetSpec gametype) x) es \<and> snd r = Inr () \<longrightarrow> counted gametype x (fst r)))"
  unfolding updateReplicaCount_def go_simps
  using assms
  by (intro emits_intros; simp)
    (auto simp: setCurrentFleetReplicas_def counted_def alike_def split: sum.splits)

lemma handReplicasDown_exact:
  "emits (handReplicasDown P gametype x) (\<lambda>r es. goesWell r \<longrightarrow>
     filter isRollout es = [Update (ObjFleet (setReplicas (wanted gametype) x)) True])"
  unfolding handReplicasDown_def go_simps
  by (intro emits_intros) (auto simp: setCurrentFleetReplicas_def)

lemma oneFleet_hands_down:
  assumes "counted g x gametype" and "template (fleet_spec x) = template (FleetSpec g)" and "alike x f"
  shows "emits (oneFleet P gametype f) (\<lambda>r es. list_all (seesOnly (FleetSpec g) x) es \<and> goesWell r \<longrightarrow>
     filter isRollout es = handsDown (wanted g) f)"
  unfolding oneFleet_def go_simps
  using assms
  apply (intro emits_intros; simp add: AreFleetsPodsEqual_def counted_def setCurrentFleetName_def alike_def)
    apply (rule emits_bind [OF handleCreation_rolled])
    apply (intro emits_intros; auto)
   apply (rule emits_weaken [OF handReplicasDown_exact])
   apply (auto simp: handsDown_def)
  done

lemma handleUpdating_hands_down:
  assumes "counted g x gametype" and "template (fleet_spec x) = template (FleetSpec g)"
  shows "emits (handleUpdating P gametype) (\<lambda>r es. list_all (seesOnly (FleetSpec g) x) es \<and> goesWell r \<longrightarrow>
     (\<exists>f. alike x f \<and> filter isRollout es = handsDown (wanted g) f))"
  unfolding handleUpdating_def GetFleetsForType_def go_simps
  apply (intro emits_intros)
   apply simp
  subgoal for r fleets
    apply (cases fleets rule: remdups_adj.cases; simp)
      apply (rule emits_weaken [OF noFleet_rolled], simp)
    subgoal for f
      apply (cases "alike x f"; simp)
       apply (rule emits_weaken [OF oneFleet_hands_down [OF assms]], assumption, blast)
      apply (rule emits_weaken [OF oneFleet_rolled], simp)
      done
    apply (rule emits_weaken [OF extraFleets_rolled], simp, simp)
    done
  done

lemma gametypeMaintain_hands_down:
  assumes "template (fleet_spec x) = template (FleetSpec gametype)"
    and "Name (fleet_meta x) \<noteq> []"
  shows "emits (gametypeMaintain P gametype) (\<lambda>r es. list_all (seesOnly (FleetSpec gametype) x) es \<and> snd r = None \<longrightarrow>
     (\<exists>f. alike x f \<and> filter isRollout es = handsDown (wanted gametype) f))"
proof -
  have rest: "emits (handleUpdating P g) (\<lambda>_ _. True)" "emits (updateReplicaCount P g) (\<lambda>_ _. True)" for g
    by (rule emits_weaken [OF handleUpdating_appends], simp) (rule emits_weaken [OF updateReplicaCount_calls], simp)
  show ?thesis
    unfolding gametypeMaintain_def
    apply (rule emits_bind [OF handleGametypeStatus_named [where x = x and spec = "FleetSpec gametype"]])
    apply (intro emits_intros; simp)
    apply (case_tac "list_all (seesOnly (FleetSpec gametype) x) es"; simp)
     apply (rule emits_bind [OF updateReplicaCount_counted [where x = x]])
      apply (simp add: setCurrentFleetName_def assms(2))
    apply (intro emits_intros; simp add: setCurrentFleetName_def)
     apply (case_tac "list_all (seesOnly (FleetSpec gametype) x) esa"; simp)
      apply (rule emits_bind [OF handleUpdating_hands_down [OF _ assms(1)]])
       apply (simp add: counted_def setCurrentFleetName_def)
      apply (intro emits_intros)
      apply auto [1]
     apply (rule emits_bind [OF rest(1)], intro emits_intros TrueI)
    apply (rule emits_bind [OF rest(2)], intro emits_intros TrueI)
    apply (rule emits_bind [OF rest(1)], intro emits_intros TrueI)
    done
qed

text \<open>The runs of a reconciliation of a live game type that see its one fleet.\<close>

definition oneFleetRun :: "'w platform \<Rightarrow> NamespacedName \<Rightarrow> GameType \<Rightarrow> Fleet \<Rightarrow> effect list \<Rightarrow> bool" where
  "oneFleetRun P req gametype x es \<longleftrightarrow>
     (\<exists>rest. es = Got ''GameType'' req (Inr (ObjGameType gametype)) # rest \<and> list_all (seesOnly (FleetSpec gametype) x) rest) \<and>
     gametypeHasFinalizer P gametype \<and> \<not> beingDeleted (gametype_meta gametype) \<and> Name (fleet_meta x) \<noteq> [] \<and>
     template (fleet_spec x) = template (FleetSpec gametype)"

lemma GameTypeReconcile_hands_down:
  "emits (GameTypeReconcile P req) (\<lambda>r es. \<forall>x gametype. oneFleetRun P req gametype x es \<and> snd r = None \<longrightarrow>
     (\<exists>f. alike x f \<and> filter isRollout es = handsDown (wanted gametype) f))"
proof (rule emits_all)
  fix x
  have "emits (gametypeMaintain P g) (\<lambda>r es. template (fleet_spec x) = template (FleetSpec g) \<and>
      Name (fleet_meta x) \<noteq> [] \<and> list_all (seesOnly (FleetSpec g) x) es \<and> snd r = None \<longrightarrow>
      (\<exists>f. alike x f \<and> filter isRollout es = handsDown (wanted g) f))" for g
  proof (cases "template (fleet_spec x) = template (FleetSpec g) \<and> Name (fleet_meta x) \<noteq> []")
    case True
    then have "emits (gametypeMaintain P g) (\<lambda>r es. list_all (seesOnly (FleetSpec g) x) es \<and> snd r = None \<longrightarrow>
        (\<exists>f. alike x f \<and> filter isRollout es = handsDown (wanted g) f))"
      by (intro gametypeMaintain_hands_down) simp_all
    then show ?thesis by (rule emits_weaken) blast
  next
    case False
    then show ?thesis by (intro emits_weaken [OF gametypeMaintain_rollout]) blast
  qed
  then show "emits (GameTypeReconcile P req) (\<lambda>r es. \<forall>gametype. oneFleetRun P req gametype x es \<and> snd r = None \<longrightarrow>
      (\<exists>f. alike x f \<and> filter isRollout es = handsDown (wanted gametype) f))"
    unfolding GameTypeReconcile_def gametypeInitialize_def oneFleetRun_def go_simps
    apply (intro emits_intros; simp)
     apply (rule emits_weaken [OF gametypeFinalize_appends], force)
    apply (rule emits_weaken, assumption)
    apply blast
    done
qed

section \<open>From the webhook to the servers\<close>

text \<open>
  The three stages. A run of the autoscaler was told to scale to \<open>d\<close> and has written the game type \<open>g\<close>; a
  run of the game type controller that reports no error reads that replica count and template, sees the
  one fleet \<open>x\<close> with that template, has its status updates stored without a write of somebody else in
  between, and leaves the fleet as \<open>f\<close>.
\<close>

definition autoscaled :: "'w platform \<Rightarrow> NamespacedName \<Rightarrow> int64 \<Rightarrow> GameType \<Rightarrow> bool" where
  "autoscaled P req d g \<longleftrightarrow> (\<exists>w a g0 result.
     told req (calls (GameAutoscalerReconcile P (prodGameAutoscalerReconciler P) req) w) a g0 result \<and>
     Scale result \<and> syncType (Sync a) = FixedInterval \<and> DesiredReplicas result = d \<and>
     Update (ObjGameType g) True \<in> set (calls (GameAutoscalerReconcile P (prodGameAutoscalerReconciler P) req) w))"

fun fleetAfter :: "effect list \<Rightarrow> Fleet \<Rightarrow> Fleet" where
  "fleetAfter [] x = x"
| "fleetAfter (Update (ObjFleet f) True # es) x = fleetAfter es f"
| "fleetAfter (e # es) x = fleetAfter es x"

lemma fleetAfter_filter: "fleetAfter (filter isRollout es) x = fleetAfter es x"
  by (induction es x rule: fleetAfter.induct) simp_all

definition handedDown :: "'w platform \<Rightarrow> NamespacedName \<Rightarrow> FleetSpec \<Rightarrow> Fleet \<Rightarrow> Fleet \<Rightarrow> bool" where
  "handedDown P req spec x f \<longleftrightarrow> (\<exists>w g. FleetSpec g = spec \<and>
     oneFleetRun P req g x (calls (GameTypeReconcile P req) w) \<and>
     snd (answer (GameTypeReconcile P req) w) = None \<and> f = fleetAfter (calls (GameTypeReconcile P req) w) x)"

lemma autoscaled_replicas:
  assumes "autoscaled P req d g"
  shows "Replicas (Scaling (FleetSpec g)) = int32_of_int d"
proof -
  let ?m = "GameAutoscalerReconcile P (prodGameAutoscalerReconciler P) req"
  from assms obtain w a g0 result where t: "told req (calls ?m w) a g0 result" "Scale result"
      "syncType (Sync a) = FixedInterval" "DesiredReplicas result = d" and u: "Update (ObjGameType g) True \<in> set (calls ?m w)"
    unfolding autoscaled_def by blast
  with emits_calls [OF autoscaler_writes, of req P w] obtain b where
    "writes (calls ?m w) = [Update (ObjGameType (setGameReplicas (int32_of_int d) g0)) b]" by blast
  moreover from u have "Update (ObjGameType g) True \<in> set (writes (calls ?m w))" by (simp add: writes_def)
  ultimately show ?thesis by (simp add: setGameReplicas_def)
qed

lemma handedDown_replicas:
  assumes "handedDown P req spec x f"
  shows "desired f = Replicas (Scaling spec)"
proof -
  let ?m = "GameTypeReconcile P req"
  from assms obtain w g where g: "FleetSpec g = spec" "oneFleetRun P req g x (calls ?m w)"
      "snd (answer ?m w) = None" "f = fleetAfter (calls ?m w) x"
    unfolding handedDown_def by blast
  with emits_calls [OF GameTypeReconcile_hands_down, of P req w] obtain x'
    where "alike x x'" "filter isRollout (calls ?m w) = handsDown (wanted g) x'" by blast
  with g show ?thesis
    by (auto simp: fleetAfter_filter [symmetric, of "calls ?m w"] handsDown_def alike_def setReplicas_def)
qed

section \<open>Properties\<close>

text \<open>
  C10: Scaling reaches the servers. When the webhook wants \<open>d\<close> replicas, the autoscaler has written the game
  type and the game type controller has handed the count down to its fleet, then the fleet has \<open>d\<close> servers
  after one round of the fleet controller when servers are missing, after one round per surplus server
  otherwise, and ever after; for every \<open>d\<close> that is not negative and fits into 32 bits.
\<close>

theorem webhook_scales_servers:
  assumes "autoscaled P areq d g" and "handedDown P greq (FleetSpec g) x f"
    and "(fleetRound P freq (desired f) ^^ k) n n'"
    and "0 \<le> sint d" and "sint d < 2 ^ 31" and "roundsNeeded (sint d) (int n) \<le> k"
  shows "int n' = sint d"
proof -
  have f: "desired f = int32_of_int d"
    using handedDown_replicas [OF assms(2)] autoscaled_replicas [OF assms(1)] by simp
  with int32_exact_iff [of d] assms(4,5) have d: "sint (desired f) = sint d" by simp
  from rounds_iterate [OF assms(3)] d assms(4) have "int n' = (towards (sint d) ^^ k) (int n)" by simp
  with iterate_reaches [OF assms(6)] show ?thesis by simp
qed

text \<open>Example runs: the webhook wants one replica, the fleet has five.\<close>

definition oneReplica :: FleetSpec where
  "oneReplica = FleetSpec (setGameReplicas 1 scaledGameType)"

fun wroteOne :: "effect list \<Rightarrow> bool" where
  "wroteOne [Update (ObjGameType g) b] \<longleftrightarrow> b \<and> FleetSpec g = oneReplica"
| "wroteOne _ \<longleftrightarrow> False"

lemma exampleAutoscaled: "\<exists>g. autoscaled memPlatform (''default'', ''s'') 1 g \<and> FleetSpec g = oneReplica"
proof -
  let ?es = "calls exampleAutoscalerReconcile (autoscalerCluster 1)"
  have "wroteOne (writes ?es)" by code_simp
  then obtain g where g: "writes ?es = [Update (ObjGameType g) True]" "FleetSpec g = oneReplica"
    by (auto elim: wroteOne.elims)
  with emits_calls [OF autoscaler_writes [where P = memPlatform and req = "(''default'', ''s'')"], of "autoscalerCluster 1",
    folded exampleAutoscalerReconcile_def]
  obtain a g0 result where t: "told (''default'', ''s'') ?es a g0 result" "Scale result" "syncType (Sync a) = FixedInterval"
    by auto
  have "list_all (webhookWants 1) ?es" by code_simp
  moreover from t(1) obtain q resp where "Http q resp \<in> set ?es" "readResponse resp = Inr result"
    unfolding told_def by blast
  ultimately have "DesiredReplicas result = 1" by (auto simp only: list_all_iff webhookWants.simps sum.case)
  moreover have "set (writes ?es) \<subseteq> set ?es" by (simp add: writes_def)
  with g(1) have "Update (ObjGameType g) True \<in> set ?es" by simp
  ultimately have "autoscaled memPlatform (''default'', ''s'') 1 g"
    using t unfolding autoscaled_def exampleAutoscalerReconcile_def by blast
  with g(2) show ?thesis by blast
qed

definition fiveFleet :: Fleet where
  "fiveFleet = setReplicas 5 ((typedFleet ''default'' ''f'' 3)\<lparr>fleet_spec := oneReplica\<rparr>)"

definition fiveCluster :: cluster where
  "fiveCluster = (gametypeCluster None [fiveFleet])\<lparr>mem_gametypes := [(exampleGameType None)\<lparr>FleetSpec := oneReplica\<rparr>]\<rparr>"

fun seesFive :: "effect list \<Rightarrow> bool" where
  "seesFive (Got k n (Inr (ObjGameType g)) # es) \<longleftrightarrow> k = ''GameType'' \<and> n = (''default'', ''g'') \<and>
     gametypeHasFinalizer memPlatform g \<and> \<not> beingDeleted (gametype_meta g) \<and> FleetSpec g = oneReplica \<and>
     list_all (seesOnly oneReplica fiveFleet) es"
| "seesFive _ \<longleftrightarrow> False"

lemma exampleHandedDown: "\<exists>f. handedDown memPlatform (''default'', ''g'') oneReplica fiveFleet f"
proof -
  have "seesFive (calls exampleGameTypeReconcile fiveCluster)" by code_simp
  moreover have "snd (answer exampleGameTypeReconcile fiveCluster) = None" by code_simp
  moreover have "Name (fleet_meta fiveFleet) \<noteq> []" "template (fleet_spec fiveFleet) = template oneReplica" by code_simp+
  ultimately show ?thesis
    unfolding handedDown_def oneFleetRun_def exampleGameTypeReconcile_def
    by (elim seesFive.elims(2)) (auto intro!: exI [of _ fiveCluster])
qed

theorem webhook_scales_servers_witness:
  "\<exists>g f n'. autoscaled memPlatform (''default'', ''s'') 1 g \<and>
     handedDown memPlatform (''default'', ''g'') (FleetSpec g) fiveFleet f \<and>
     (fleetRound memPlatform (''default'', ''f'') (desired f) ^^ 2) 3 n' \<and> n' = 1"
proof -
  obtain g where g: "autoscaled memPlatform (''default'', ''s'') 1 g" "FleetSpec g = oneReplica"
    using exampleAutoscaled by blast
  obtain f where f: "handedDown memPlatform (''default'', ''g'') (FleetSpec g) fiveFleet f"
    using exampleHandedDown g(2) by auto
  have "Replicas (Scaling oneReplica) = 1" by code_simp
  with handedDown_replicas [OF f] g(2) have "desired f = 1" by simp
  with exampleTwoRounds obtain n' where r: "(fleetRound memPlatform (''default'', ''f'') (desired f) ^^ 2) 3 n'" by auto
  from webhook_scales_servers [OF g(1) f r] have "n' = 1" by (simp add: roundsNeeded_def)
  with g f r show ?thesis by blast
qed

end
