(* ===== verification/ExampleWebhook.thy ===== *)
theory ExampleWebhook
  imports HttpServer
begin

text \<open>
  The example scaling webhook (\<open>example/webhook\<close>): it holds the scaling that a user has set and
  answers every request with it. Both fields are pointers; the model keeps them as options.
\<close>

section \<open>app.go\<close>

record ScalingInfo =
  infoReplicas :: "int64 option"
  infoScale :: "bool option"

text \<open>The state \<open>main\<close> starts with.\<close>

definition initialScaling :: ScalingInfo where
  "initialScaling = \<lparr>infoReplicas = Some 1, infoScale = Some True\<rparr>"

definition decodeScalingInfo :: "json \<Rightarrow> error + ScalingInfo" where
  "decodeScalingInfo j = decodeStruct (\<lambda>k v r.
       if keyIs ''desired_replicas'' k
       then (case decodePtr decodeInt 0 v (infoReplicas r) of
           Inl e \<Rightarrow> Inl e | Inr n \<Rightarrow> Inr (r\<lparr>infoReplicas := n\<rparr>))
       else if keyIs ''scale'' k
       then (case decodePtr decodeBool False v (infoScale r) of
           Inl e \<Rightarrow> Inl e | Inr b \<Rightarrow> Inr (r\<lparr>infoScale := b\<rparr>))
       else Inr r) j \<lparr>infoReplicas = None, infoScale = None\<rparr>"

definition encodeScalingInfo :: "ScalingInfo \<Rightarrow> json" where
  "encodeScalingInfo r = JObject
     [(''desired_replicas'', case infoReplicas r of None \<Rightarrow> JNull | Some n \<Rightarrow> JInt (sint n)),
      (''scale'', case infoScale r of None \<Rightarrow> JNull | Some b \<Rightarrow> JBool b)]"

section \<open>scale.go and health.go\<close>

definition applyScalingInfo :: "ScalingInfo \<Rightarrow> ScalingInfo \<Rightarrow> ScalingInfo" where
  "applyScalingInfo request a =
     (let a = (if infoScale request \<noteq> None then a\<lparr>infoScale := infoScale request\<rparr> else a)
      in if infoReplicas request \<noteq> None then a\<lparr>infoReplicas := infoReplicas request\<rparr> else a)"

definition GetScalingInfo :: "ScalingInfo \<Rightarrow> ResponseWriter \<Rightarrow> ResponseWriter" where
  "GetScalingInfo a w =
     (case Write (encodeScalingInfo a) (setContentType ''application/json'' w) of
        (True, w) \<Rightarrow> w
      | (False, w) \<Rightarrow> WriteHeader 500 w)"

definition SetScalingInfo :: "ScalingInfo \<Rightarrow> Request \<Rightarrow> ResponseWriter \<Rightarrow> ScalingInfo \<times> ResponseWriter" where
  "SetScalingInfo a r w =
     (case (case Body r of Inl e \<Rightarrow> Inl e | Inr j \<Rightarrow> decodeScalingInfo j) of
        Inl err \<Rightarrow> (a, WriteHeader 400 w)
      | Inr request \<Rightarrow>
          let a = applyScalingInfo request a in
          (case Write (encodeScalingInfo a) (setContentType ''application/json'' w) of
             (True, w) \<Rightarrow> (a, w)
           | (False, w) \<Rightarrow> (a, WriteHeader 500 w)))"

definition WebhookHealth :: "ResponseWriter \<Rightarrow> ResponseWriter" where
  "WebhookHealth w = WriteHeader 200 w"

section \<open>routes.go\<close>

definition WebhookServe :: "ScalingInfo \<Rightarrow> Request \<Rightarrow> ResponseWriter \<Rightarrow> ScalingInfo \<times> ResponseWriter" where
  "WebhookServe a r w =
     (if URLPath r = ''/scale'' then
        if methodServes ''POST'' (Method r) then SetScalingInfo a r w
        else if methodServes ''GET'' (Method r) then (a, GetScalingInfo a w)
        else (a, WriteHeader 405 w)
      else if URLPath r = ''/health'' then (a, WebhookHealth w)
      else (a, WriteHeader 404 w))"

fun webhookSession :: "ScalingInfo \<Rightarrow> Request list \<Rightarrow> ScalingInfo" where
  "webhookSession a [] = a"
| "webhookSession a (r # rs) = webhookSession (fst (WebhookServe a r (newWriter False))) rs"

section \<open>Properties\<close>

lemma applyScalingInfo_simps [simp]:
  "infoScale (applyScalingInfo q a) = (case infoScale q of None \<Rightarrow> infoScale a | Some b \<Rightarrow> Some b)"
  "infoReplicas (applyScalingInfo q a) = (case infoReplicas q of None \<Rightarrow> infoReplicas a | Some b \<Rightarrow> Some b)"
  by (auto simp: applyScalingInfo_def Let_def split: option.splits)

text \<open>The scaling that a request sets, if it is one that is accepted.\<close>

definition posted :: "Request \<Rightarrow> ScalingInfo option" where
  "posted r = (if URLPath r = ''/scale'' \<and> Method r = ''POST'' then
     (case Body r of Inl e \<Rightarrow> None | Inr j \<Rightarrow>
       (case decodeScalingInfo j of Inl e \<Rightarrow> None | Inr q \<Rightarrow> Some q)) else None)"

lemma WebhookServe_state:
  "fst (WebhookServe a r w) = (case posted r of None \<Rightarrow> a | Some q \<Rightarrow> applyScalingInfo q a)"
  by (auto simp: WebhookServe_def posted_def SetScalingInfo_def methodServes_def Let_def
    split: sum.splits prod.splits bool.splits)

definition settled :: "ScalingInfo \<Rightarrow> bool" where
  "settled a \<longleftrightarrow> infoReplicas a \<noteq> None \<and> infoScale a \<noteq> None"

lemma settled_serve: "settled a \<Longrightarrow> settled (fst (WebhookServe a r w))"
  by (auto simp: WebhookServe_state settled_def split: option.splits)

lemma webhookSession_settled: "settled (webhookSession initialScaling rs)"
proof -
  have "settled (webhookSession a rs)" if "settled a" for a
    using that by (induction rs arbitrary: a) (simp_all add: settled_serve)
  moreover have "settled initialScaling" by (simp add: initialScaling_def settled_def)
  ultimately show ?thesis by blast
qed

text \<open>
  C33: The webhook starts with a scaling in which both fields are set, and no request, accepted or
  rejected, can unset one: after any requests, a read is answered with one object, which holds a number
  and a flag and reads back as the scaling that is stored.
\<close>

theorem webhook_always_answers:
  "case sentBody (GetScalingInfo (webhookSession initialScaling rs) (newWriter False)) of
     [j] \<Rightarrow> (case decodeScalingInfo j of Inr info \<Rightarrow> settled info \<and> info = webhookSession initialScaling rs
       | Inl e \<Rightarrow> False) | _ \<Rightarrow> False"
proof -
  obtain n b where "webhookSession initialScaling rs = \<lparr>infoReplicas = Some n, infoScale = Some b\<rparr>"
    using webhookSession_settled [of rs] by (cases "webhookSession initialScaling rs") (auto simp: settled_def)
  then show ?thesis
    by (simp add: GetScalingInfo_def decodeScalingInfo_def encodeScalingInfo_def prod.case_eq_if
      bool.case_eq_if key_simps settled_def)
qed

end
