(* ===== verification/ServiceKube.thy ===== *)
theory ServiceKube
  imports Platform
begin

text \<open>
  The cluster side of the REST service (\<open>service/internal/kube\<close>): the manifests it takes, their
  JSON, and the operations on the cluster. The service copies the types of the operator, with
  differences that the JSON shows. The client-go clients, the network, and the JSON of the
  Kubernetes types \<open>v1.PodSpec\<close>, \<open>metav1.Duration\<close> and \<open>unstructured.Unstructured\<close> are the
  parameter \<open>K\<close>; a pod spec and a duration are carried as the JSON they are written as. The order
  of the members that a Go map is written with is not modelled.
\<close>

section \<open>kubeinfo.go and utils.go\<close>

definition crdGroup :: string where "crdGroup = ''network.unfamousthomas.me''"
definition crdVersion :: string where "crdVersion = ''v1alpha1''"
definition scalerResourceName :: string where "scalerResourceName = ''gameautoscalers''"
definition gameResourceName :: string where "gameResourceName = ''gametypes''"
definition fleetResourceName :: string where "fleetResourceName = ''fleets''"
definition serverResourceName :: string where "serverResourceName = ''servers''"

record GroupVersionResource =
  Group :: string
  Version :: string
  Resource :: string

record Metadata =
  mdName :: string
  mdNamespace :: string
  mdLabels :: "(string \<times> string) list option"

definition zeroMetadata :: Metadata where
  "zeroMetadata = \<lparr>mdName = [], mdNamespace = [], mdLabels = None\<rparr>"

definition decodeMetadata :: "json \<Rightarrow> Metadata \<Rightarrow> error + Metadata" where
  "decodeMetadata = decodeStruct (structFields
     [structField ''name'' decodeString mdName mdName_update,
      structField ''namespace'' decodeString mdNamespace mdNamespace_update,
      structField ''labels'' decodeStringMap mdLabels mdLabels_update])"

definition encodeMetadata :: "Metadata \<Rightarrow> json" where
  "encodeMetadata m = JObject [(''name'', JString (mdName m)), (''namespace'', JString (mdNamespace m)),
     (''labels'', case mdLabels m of None \<Rightarrow> JNull | Some ls \<Rightarrow> JObject (map (\<lambda>(k, v). (k, JString v)) ls))]"

text \<open>What the four manifests share.\<close>

record 's Manifest =
  ApiVersion :: string
  Kind :: string
  Metadata :: Metadata
  Spec :: 's

section \<open>The clients\<close>

record DynItem =
  itemName :: string
  itemNamespace :: string
  itemLabels :: "string \<rightharpoonup> string"

record 'w kube =
  dynCreate :: "GroupVersionResource \<Rightarrow> string \<Rightarrow> json \<Rightarrow> ('w, unit) op"
  dynDelete :: "GroupVersionResource \<Rightarrow> string \<Rightarrow> string \<Rightarrow> ('w, unit) op"
  dynList :: "GroupVersionResource \<Rightarrow> string \<Rightarrow> ('w, DynItem list) op"
  podGet :: "string \<Rightarrow> string \<Rightarrow> ('w, Pod) op"
  podUpdate :: "string \<Rightarrow> Pod \<Rightarrow> ('w, Pod) op"
  kubeHttp :: "HttpRequest \<Rightarrow> ('w, HttpResponse) op"
  unstructuredOf :: "json \<Rightarrow> error + json"
  podSpecOf :: "json \<Rightarrow> json \<Rightarrow> error + json"
  durationOf :: "json \<Rightarrow> json \<Rightarrow> error + json"
  zeroPodSpec :: json
  zeroDuration :: json

datatype kubeCall =
    DynCreate GroupVersionResource string json bool
  | DynDelete GroupVersionResource string string bool
  | DynList GroupVersionResource string "error + DynItem list"
  | PodGet string string "error + Pod"
  | PodUpdate string Pod bool
  | Send HttpRequest bool

type_synonym 'w service = "('w, kubeCall) run"

definition doCreate :: "'w kube \<Rightarrow> GroupVersionResource \<Rightarrow> string \<Rightarrow> json \<Rightarrow> ('w service, error + unit) state" where
  [go_simps]: "doCreate K g ns j = call (dynCreate K g ns j) (\<lambda>r. DynCreate g ns j (ok r))"

definition doDelete :: "'w kube \<Rightarrow> GroupVersionResource \<Rightarrow> string \<Rightarrow> string \<Rightarrow> ('w service, error + unit) state" where
  [go_simps]: "doDelete K g ns n = call (dynDelete K g ns n) (\<lambda>r. DynDelete g ns n (ok r))"

definition doList :: "'w kube \<Rightarrow> GroupVersionResource \<Rightarrow> string \<Rightarrow> ('w service, error + DynItem list) state" where
  [go_simps]: "doList K g ns = call (dynList K g ns) (\<lambda>r. DynList g ns r)"

definition doPodGet :: "'w kube \<Rightarrow> string \<Rightarrow> string \<Rightarrow> ('w service, error + Pod) state" where
  [go_simps]: "doPodGet K ns n = call (podGet K ns n) (\<lambda>r. PodGet ns n r)"

definition doPodUpdate :: "'w kube \<Rightarrow> string \<Rightarrow> Pod \<Rightarrow> ('w service, error + Pod) state" where
  [go_simps]: "doPodUpdate K ns p = call (podUpdate K ns p) (\<lambda>r. PodUpdate ns p (ok r))"

definition doSend :: "'w kube \<Rightarrow> HttpRequest \<Rightarrow> ('w service, error + HttpResponse) state" where
  [go_simps]: "doSend K q = call (kubeHttp K q) (\<lambda>r. Send q (ok r))"

section \<open>server.go\<close>

definition ServerGCR :: GroupVersionResource where
  "ServerGCR = \<lparr>Group = crdGroup, Version = crdVersion, Resource = serverResourceName\<rparr>"

record SvcServerSpec =
  svcPod :: json
  svcTimeOut :: "json option"
  svcAllowForceDelete :: bool

definition zeroServerSpec :: "'w kube \<Rightarrow> SvcServerSpec" where
  "zeroServerSpec K = \<lparr>svcPod = zeroPodSpec K, svcTimeOut = None, svcAllowForceDelete = False\<rparr>"

definition decodeServerSpec :: "'w kube \<Rightarrow> json \<Rightarrow> SvcServerSpec \<Rightarrow> error + SvcServerSpec" where
  "decodeServerSpec K = decodeStruct (structFields
     [structField ''pod'' (podSpecOf K) svcPod svcPod_update,
      structField ''timeout'' (decodePtr (durationOf K) (zeroDuration K)) svcTimeOut svcTimeOut_update,
      structField ''allowForceDelete'' decodeBool svcAllowForceDelete svcAllowForceDelete_update])"

definition encodeServerSpec :: "SvcServerSpec \<Rightarrow> json" where
  "encodeServerSpec s = JObject ([(''pod'', svcPod s),
     (''timeout'', case svcTimeOut s of None \<Rightarrow> JNull | Some d \<Rightarrow> d)]
     @ (if svcAllowForceDelete s then [(''allowForceDelete'', JBool True)] else []))"

definition decodeManifest :: "(json \<Rightarrow> 's \<Rightarrow> error + 's) \<Rightarrow> json \<Rightarrow> 's Manifest \<Rightarrow> error + 's Manifest" where
  "decodeManifest decodeSpec = decodeStruct (structFields
     [structField ''apiVersion'' decodeString ApiVersion ApiVersion_update,
      structField ''kind'' decodeString Kind Kind_update,
      structField ''metadata'' decodeMetadata Metadata Metadata_update,
      structField ''spec'' decodeSpec Spec Spec_update])"

definition encodeManifest :: "('s \<Rightarrow> json) \<Rightarrow> 's Manifest \<Rightarrow> json" where
  "encodeManifest encodeSpec x = JObject [(''apiVersion'', JString (ApiVersion x)),
     (''kind'', JString (Kind x)), (''metadata'', encodeMetadata (Metadata x)),
     (''spec'', encodeSpec (Spec x))]"

definition zeroManifest :: "'s \<Rightarrow> 's Manifest" where
  "zeroManifest z = \<lparr>ApiVersion = [], Kind = [], Metadata = zeroMetadata, Spec = z\<rparr>"

definition setVersionKind :: "string \<Rightarrow> 's Manifest \<Rightarrow> 's Manifest" where
  "setVersionKind kind x = x\<lparr>ApiVersion := crdGroup @ ''/'' @ crdVersion, Kind := kind\<rparr>"

definition serverToUnstructured ::
    "'w kube \<Rightarrow> SvcServerSpec Manifest \<Rightarrow> SvcServerSpec Manifest \<times> (error + json)" where
  "serverToUnstructured K server =
     (let server = setVersionKind gameResourceName server
      in (server, unstructuredOf K (encodeManifest encodeServerSpec server)))"

definition SvcCreateServer :: "'w kube \<Rightarrow> SvcServerSpec Manifest
    \<Rightarrow> ('w service, SvcServerSpec Manifest \<times> (error + unit)) state" where
  "SvcCreateServer K server = (case serverToUnstructured K server of
       (server, Inl err) \<Rightarrow> return (server, Inl err)
     | (server, Inr serverStruct) \<Rightarrow> do {
         made \<leftarrow> doCreate K ServerGCR (mdNamespace (Metadata server)) serverStruct;
         return (server, made)
       })"

definition sendDeleteAllowed :: "'w kube \<Rightarrow> string \<Rightarrow> string \<Rightarrow> ('w service, error + unit) state" where
  "sendDeleteAllowed K name namespace = do {
     got \<leftarrow> doPodGet K namespace (name @ ''-pod'');
     case got of
       Inl err \<Rightarrow> return (Inl err)
     | Inr pod \<Rightarrow> do {
         resp \<leftarrow> doSend K \<lparr>reqMethod = ''POST'', reqUrl = ''http://'' @ PodIP pod @ '':8080/allow_delete'',
           reqBody = Some (encodeFlag ''allowed'' True)\<rparr>;
         return (case resp of Inl err \<Rightarrow> Inl err | Inr _ \<Rightarrow> Inr ())
       }
   }"

definition SvcDeleteServer :: "'w kube \<Rightarrow> Metadata \<Rightarrow> bool \<Rightarrow> ('w service, error + unit) state" where
  "SvcDeleteServer K metadata force = do {
     deleted \<leftarrow> doDelete K ServerGCR (mdNamespace metadata) (mdName metadata);
     case deleted of
       Inl err \<Rightarrow> return (Inl err)
     | Inr _ \<Rightarrow>
         if force then sendDeleteAllowed K (mdName metadata) (mdNamespace metadata)
         else return (Inr ())
   }"

section \<open>fleet.go\<close>

definition FleetGCR :: GroupVersionResource where
  "FleetGCR = \<lparr>Group = crdGroup, Version = crdVersion, Resource = fleetResourceName\<rparr>"

record SvcFleetScaling =
  svcReplicas :: int32
  svcPrioritizeAllowed :: bool
  svcAgePriority :: string

record SvcFleetSpec =
  svcServerSpec :: SvcServerSpec
  svcScaling :: SvcFleetScaling

definition zeroFleetSpec :: "'w kube \<Rightarrow> SvcFleetSpec" where
  "zeroFleetSpec K = \<lparr>svcServerSpec = zeroServerSpec K,
     svcScaling = \<lparr>svcReplicas = 0, svcPrioritizeAllowed = False, svcAgePriority = []\<rparr>\<rparr>"

definition decodeFleetScaling :: "json \<Rightarrow> SvcFleetScaling \<Rightarrow> error + SvcFleetScaling" where
  "decodeFleetScaling = decodeStruct (structFields
     [structField ''replicas'' decodeInt32 svcReplicas svcReplicas_update,
      structField ''prioritizeAllowed'' decodeBool svcPrioritizeAllowed svcPrioritizeAllowed_update,
      structField ''agePriority'' decodeString svcAgePriority svcAgePriority_update])"

definition decodeFleetSpec :: "'w kube \<Rightarrow> json \<Rightarrow> SvcFleetSpec \<Rightarrow> error + SvcFleetSpec" where
  "decodeFleetSpec K = decodeStruct (structFields
     [structField ''spec'' (decodeServerSpec K) svcServerSpec svcServerSpec_update,
      structField ''scaling'' decodeFleetScaling svcScaling svcScaling_update])"

definition encodeFleetSpec :: "SvcFleetSpec \<Rightarrow> json" where
  "encodeFleetSpec s = JObject [(''spec'', encodeServerSpec (svcServerSpec s)),
     (''scaling'', JObject [(''replicas'', JInt (sint (svcReplicas (svcScaling s)))),
        (''prioritizeAllowed'', JBool (svcPrioritizeAllowed (svcScaling s))),
        (''agePriority'', JString (svcAgePriority (svcScaling s)))])]"

definition fleetToUnstructured ::
    "'w kube \<Rightarrow> SvcFleetSpec Manifest \<Rightarrow> SvcFleetSpec Manifest \<times> (error + json)" where
  "fleetToUnstructured K fleet =
     (let fleet = setVersionKind fleetResourceName fleet
      in (fleet, unstructuredOf K (encodeManifest encodeFleetSpec fleet)))"

definition SvcCreateFleet :: "'w kube \<Rightarrow> SvcFleetSpec Manifest
    \<Rightarrow> ('w service, SvcFleetSpec Manifest \<times> (error + unit)) state" where
  "SvcCreateFleet K fleet = (case fleetToUnstructured K fleet of
       (fleet, Inl err) \<Rightarrow> return (fleet, Inl err)
     | (fleet, Inr fleetStruct) \<Rightarrow> do {
         made \<leftarrow> doCreate K FleetGCR (mdNamespace (Metadata fleet)) fleetStruct;
         return (fleet, made)
       })"

text \<open>The loop of \<open>forceDeleteFleet\<close> over the listed items.\<close>

primrec allowItems :: "'w kube \<Rightarrow> Metadata \<Rightarrow> DynItem list \<Rightarrow> ('w service, error + unit) state" where
  "allowItems K metadata [] = return (Inr ())"
| "allowItems K metadata (server # items) =
     (if itemLabels server ''fleet'' \<noteq> Some (mdName metadata) then allowItems K metadata items
      else do {
        sent \<leftarrow> sendDeleteAllowed K (itemName server) (itemNamespace server);
        case sent of
          Inl err \<Rightarrow> return (Inl err)
        | Inr _ \<Rightarrow> allowItems K metadata items
      })"

definition forceDeleteFleet :: "'w kube \<Rightarrow> Metadata \<Rightarrow> ('w service, error + unit) state" where
  "forceDeleteFleet K metadata = do {
     listed \<leftarrow> doList K FleetGCR (mdNamespace metadata);
     case listed of
       Inl err \<Rightarrow> return (Inl err)
     | Inr items \<Rightarrow> allowItems K metadata items
   }"

definition SvcDeleteFleet :: "'w kube \<Rightarrow> Metadata \<Rightarrow> bool \<Rightarrow> ('w service, error + unit) state" where
  "SvcDeleteFleet K metadata force = do {
     deleted \<leftarrow> doDelete K FleetGCR (mdNamespace metadata) (mdName metadata);
     case deleted of
       Inl err \<Rightarrow> return (Inl err)
     | Inr _ \<Rightarrow> if force then forceDeleteFleet K metadata else return (Inr ())
   }"

section \<open>game.go\<close>

definition GameGCR :: GroupVersionResource where
  "GameGCR = \<lparr>Group = crdGroup, Version = crdVersion, Resource = gameResourceName\<rparr>"

record SvcGameTypeSpec =
  svcFleetSpec :: SvcFleetSpec

definition decodeGameTypeSpec :: "'w kube \<Rightarrow> json \<Rightarrow> SvcGameTypeSpec \<Rightarrow> error + SvcGameTypeSpec" where
  "decodeGameTypeSpec K = decodeStruct (structFields
     [structField ''fleetSpec'' (decodeFleetSpec K) svcFleetSpec svcFleetSpec_update])"

definition encodeGameTypeSpec :: "SvcGameTypeSpec \<Rightarrow> json" where
  "encodeGameTypeSpec s = JObject [(''fleetSpec'', encodeFleetSpec (svcFleetSpec s))]"

definition gametypeToUnstructured ::
    "'w kube \<Rightarrow> SvcGameTypeSpec Manifest \<Rightarrow> SvcGameTypeSpec Manifest \<times> (error + json)" where
  "gametypeToUnstructured K gametype =
     (let gametype = setVersionKind gameResourceName gametype
      in (gametype, unstructuredOf K (encodeManifest encodeGameTypeSpec gametype)))"

definition SvcCreateGame :: "'w kube \<Rightarrow> SvcGameTypeSpec Manifest
    \<Rightarrow> ('w service, SvcGameTypeSpec Manifest \<times> (error + unit)) state" where
  "SvcCreateGame K game = (case gametypeToUnstructured K game of
       (game, Inl err) \<Rightarrow> return (game, Inl err)
     | (game, Inr gameStruct) \<Rightarrow> do {
         made \<leftarrow> doCreate K GameGCR (mdNamespace (Metadata game)) gameStruct;
         return (game, made)
       })"

text \<open>The loop of \<open>removeFleetsForGame\<close>: for every matching item it deletes by the game's own metadata.\<close>

primrec removeFleets :: "'w kube \<Rightarrow> Metadata \<Rightarrow> bool \<Rightarrow> DynItem list \<Rightarrow> ('w service, error + unit) state" where
  "removeFleets K metadata force [] = return (Inr ())"
| "removeFleets K metadata force (fleet # items) =
     (if itemLabels fleet ''type'' \<noteq> Some (mdName metadata) then removeFleets K metadata force items
      else do {
        deleted \<leftarrow> SvcDeleteFleet K metadata force;
        case deleted of
          Inl err \<Rightarrow> return (Inl err)
        | Inr _ \<Rightarrow> removeFleets K metadata force items
      })"

definition removeFleetsForGame :: "'w kube \<Rightarrow> Metadata \<Rightarrow> bool \<Rightarrow> ('w service, error + unit) state" where
  "removeFleetsForGame K metadata force = do {
     listed \<leftarrow> doList K FleetGCR (mdNamespace metadata);
     case listed of
       Inl err \<Rightarrow> return (Inl err)
     | Inr fleets \<Rightarrow> removeFleets K metadata force fleets
   }"

definition SvcDeleteGame :: "'w kube \<Rightarrow> Metadata \<Rightarrow> bool \<Rightarrow> ('w service, error + unit) state" where
  "SvcDeleteGame K metadata force = do {
     deleted \<leftarrow> doDelete K GameGCR (mdNamespace metadata) (mdName metadata);
     case deleted of
       Inl err \<Rightarrow> return (Inl err)
     | Inr _ \<Rightarrow> if force then removeFleetsForGame K metadata force else return (Inr ())
   }"

section \<open>scaler.go\<close>

record SvcService =
  svcServiceName :: string
  svcServiceNamespace :: string
  svcServicePort :: int64

record SvcWebhook =
  svcUrl :: "string option"
  svcPath :: string
  svcService :: SvcService

record SvcPolicy =
  svcPolicyType :: string
  svcWebhook :: SvcWebhook

record SvcSync =
  svcSyncType :: string
  svcFixedInterval :: int64

record SvcScalerSpec =
  svcGameName :: string
  svcPolicy :: SvcPolicy
  svcSync :: SvcSync

definition zeroScalerSpec :: SvcScalerSpec where
  "zeroScalerSpec = \<lparr>svcGameName = [],
     svcPolicy = \<lparr>svcPolicyType = [], svcWebhook = \<lparr>svcUrl = None, svcPath = [],
       svcService = \<lparr>svcServiceName = [], svcServiceNamespace = [], svcServicePort = 0\<rparr>\<rparr>\<rparr>,
     svcSync = \<lparr>svcSyncType = [], svcFixedInterval = 0\<rparr>\<rparr>"

definition decodeService :: "json \<Rightarrow> SvcService \<Rightarrow> error + SvcService" where
  "decodeService = decodeStruct (structFields
     [structField ''name'' decodeString svcServiceName svcServiceName_update,
      structField ''namespace'' decodeString svcServiceNamespace svcServiceNamespace_update,
      structField ''port'' decodeInt svcServicePort svcServicePort_update])"

definition decodeWebhook :: "json \<Rightarrow> SvcWebhook \<Rightarrow> error + SvcWebhook" where
  "decodeWebhook = decodeStruct (structFields
     [structField ''url'' (decodePtr decodeString []) svcUrl svcUrl_update,
      structField ''path'' decodeString svcPath svcPath_update,
      structField ''service'' decodeService svcService svcService_update])"

definition decodePolicy :: "json \<Rightarrow> SvcPolicy \<Rightarrow> error + SvcPolicy" where
  "decodePolicy = decodeStruct (structFields
     [structField ''type'' decodeString svcPolicyType svcPolicyType_update,
      structField ''webhook'' decodeWebhook svcWebhook svcWebhook_update])"

definition decodeSync :: "json \<Rightarrow> SvcSync \<Rightarrow> error + SvcSync" where
  "decodeSync = decodeStruct (structFields
     [structField ''type'' decodeString svcSyncType svcSyncType_update,
      structField ''fixedInterval'' decodeInt svcFixedInterval svcFixedInterval_update])"

definition decodeScalerSpec :: "json \<Rightarrow> SvcScalerSpec \<Rightarrow> error + SvcScalerSpec" where
  "decodeScalerSpec = decodeStruct (structFields
     [structField ''gameName'' decodeString svcGameName svcGameName_update,
      structField ''policy'' decodePolicy svcPolicy svcPolicy_update,
      structField ''sync'' decodeSync svcSync svcSync_update])"

definition encodeSync :: "SvcSync \<Rightarrow> json" where
  "encodeSync s = JObject [(''type'', JString (svcSyncType s)),
     (''fixedInterval'', JInt (sint (svcFixedInterval s)))]"

definition encodePolicy :: "SvcPolicy \<Rightarrow> json" where
  "encodePolicy p = JObject [(''type'', JString (svcPolicyType p)),
     (''webhook'', JObject [(''url'', case svcUrl (svcWebhook p) of None \<Rightarrow> JNull | Some u \<Rightarrow> JString u),
        (''path'', JString (svcPath (svcWebhook p))),
        (''service'', JObject [(''name'', JString (svcServiceName (svcService (svcWebhook p)))),
           (''namespace'', JString (svcServiceNamespace (svcService (svcWebhook p)))),
           (''port'', JInt (sint (svcServicePort (svcService (svcWebhook p)))))])])]"

definition encodeScalerSpec :: "SvcScalerSpec \<Rightarrow> json" where
  "encodeScalerSpec s = JObject [(''gameName'', JString (svcGameName s)),
     (''policy'', encodePolicy (svcPolicy s)), (''sync'', encodeSync (svcSync s))]"

definition scalerToUnstructured ::
    "'w kube \<Rightarrow> SvcScalerSpec Manifest \<Rightarrow> SvcScalerSpec Manifest \<times> (error + json)" where
  "scalerToUnstructured K autoscaler =
     (let autoscaler = setVersionKind scalerResourceName autoscaler
      in (autoscaler, unstructuredOf K (encodeManifest encodeScalerSpec autoscaler)))"

definition SvcCreateScaler :: "'w kube \<Rightarrow> SvcScalerSpec Manifest
    \<Rightarrow> ('w service, SvcScalerSpec Manifest \<times> (error + unit)) state" where
  "SvcCreateScaler K scaler = (case scalerToUnstructured K scaler of
       (scaler, Inl err) \<Rightarrow> return (scaler, Inl err)
     | (scaler, Inr scalerStruct) \<Rightarrow> do {
         made \<leftarrow> doCreate K ServerGCR (mdNamespace (Metadata scaler)) scalerStruct;
         return (scaler, made)
       })"

definition SvcDeleteScaler :: "'w kube \<Rightarrow> Metadata \<Rightarrow> ('w service, error + unit) state" where
  "SvcDeleteScaler K metadata = doDelete K ServerGCR (mdNamespace metadata) (mdName metadata)"

section \<open>pod.go\<close>

text \<open>
  \<open>maps.Copy\<close> writes into the label map of the pod; writing into a nil map panics, and nothing is
  written when there is no label to copy. \<open>delete\<close> on a nil map does nothing.
\<close>

definition setPodLabels :: "(string \<rightharpoonup> string) option \<Rightarrow> Pod \<Rightarrow> Pod" where
  "setPodLabels l pod = pod\<lparr>pod_meta := (pod_meta pod)\<lparr>Labels := l\<rparr>\<rparr>"

definition AddPodLabels :: "'w kube \<Rightarrow> Metadata \<Rightarrow> ('w service, (error + unit) outcome) state" where
  "AddPodLabels K metadata = do {
     got \<leftarrow> doPodGet K (mdNamespace metadata) (mdName metadata @ ''-pod'');
     case got of
       Inl err \<Rightarrow> return (Done (Inl err))
     | Inr pod \<Rightarrow>
         let new = (case mdLabels metadata of None \<Rightarrow> [] | Some ls \<Rightarrow> ls) in
         (case (Labels (pod_meta pod), new) of
            (None, _ # _) \<Rightarrow> return Panic
          | (labels, new) \<Rightarrow> do {
              let labels = map_option (\<lambda>m. m ++ map_of new) labels;
              updated \<leftarrow> doPodUpdate K (mdNamespace metadata) (setPodLabels labels pod);
              return (Done (case updated of Inl err \<Rightarrow> Inl err | Inr _ \<Rightarrow> Inr ()))
            })
   }"

definition RemovePodLabel :: "'w kube \<Rightarrow> Metadata \<Rightarrow> string \<Rightarrow> ('w service, error + unit) state" where
  "RemovePodLabel K metadata key = do {
     got \<leftarrow> doPodGet K (mdNamespace metadata) (mdName metadata @ ''-pod'');
     case got of
       Inl err \<Rightarrow> return (Inl err)
     | Inr pod \<Rightarrow> do {
         let labels = map_option (\<lambda>m. m(key := None)) (Labels (pod_meta pod));
         updated \<leftarrow> doPodUpdate K (mdNamespace metadata) (setPodLabels labels pod);
         return (case updated of Inl err \<Rightarrow> Inl err | Inr _ \<Rightarrow> Inr ())
       }
   }"

section \<open>What is written is read back\<close>

fun uniqueLabels :: "(string \<times> string) list option \<Rightarrow> bool" where
  "uniqueLabels None = True"
| "uniqueLabels (Some ls) = distinct (map fst ls)"

lemma decodeMetadata_encode:
  assumes "uniqueLabels (mdLabels m)"
  shows "decodeMetadata (encodeMetadata m) zeroMetadata = Inr m"
proof (cases "mdLabels m")
  case None
  then show ?thesis
    by (simp add: decodeMetadata_def encodeMetadata_def zeroMetadata_def key_simps)
next
  case (Some ls)
  with assms decodeStringMap_encode [of ls] show ?thesis
    by (simp add: decodeMetadata_def encodeMetadata_def zeroMetadata_def key_simps
      del: decodeStringMap.simps)
qed

lemma decodeManifest_encode:
  assumes "uniqueLabels (mdLabels (Metadata x))" and "decodeSpec (encodeSpec (Spec x)) z = Inr (Spec x)"
  shows "decodeManifest decodeSpec (encodeManifest encodeSpec x) (zeroManifest z) = Inr x"
  using assms decodeMetadata_encode [OF assms(1)]
  by (simp add: decodeManifest_def encodeManifest_def zeroManifest_def key_simps)

lemma decodeScalerSpec_encode: "decodeScalerSpec (encodeScalerSpec s) zeroScalerSpec = Inr s"
  apply (cases "svcUrl (svcWebhook (svcPolicy s))")
  apply (simp_all add: decodeScalerSpec_def encodeScalerSpec_def zeroScalerSpec_def decodePolicy_def
    encodePolicy_def decodeSync_def encodeSync_def decodeWebhook_def decodeService_def key_simps)
  done

lemma decodeServerSpec_encode:
  assumes "podSpecOf K (svcPod s) (zeroPodSpec K) = Inr (svcPod s)"
    and "\<And>d. svcTimeOut s = Some d \<Longrightarrow> d \<noteq> JNull \<and> durationOf K d (zeroDuration K) = Inr d"
  shows "decodeServerSpec K (encodeServerSpec s) (zeroServerSpec K) = Inr s"
proof -
  have t: "decodePtr (durationOf K) (zeroDuration K) (case svcTimeOut s of None \<Rightarrow> JNull | Some d \<Rightarrow> d) None
    = Inr (svcTimeOut s)"
    using assms(2) by (cases "svcTimeOut s"; cases "the (svcTimeOut s)") auto
  show ?thesis
    by (simp add: decodeServerSpec_def encodeServerSpec_def zeroServerSpec_def assms(1) t key_simps)
qed

lemma decodeFleetSpec_encode:
  assumes "decodeServerSpec K (encodeServerSpec (svcServerSpec s)) (zeroServerSpec K) = Inr (svcServerSpec s)"
  shows "decodeFleetSpec K (encodeFleetSpec s) (zeroFleetSpec K) = Inr s"
  using assms
  by (simp add: decodeFleetSpec_def encodeFleetSpec_def zeroFleetSpec_def decodeFleetScaling_def key_simps)

end
