(* ===== verification/Network.thy ===== *)
theory Network
  imports Platform HttpServer
begin

text \<open>
  The two ends of an HTTP exchange: the request a handler sees of what a client sends to one of its
  paths, and the response a client sees of what a handler has written.
\<close>

definition requestOf :: "string \<Rightarrow> HttpRequest \<Rightarrow> Request" where
  "requestOf p q = \<lparr>Method = reqMethod q, URLPath = p,
     Body = (case reqBody q of None \<Rightarrow> Inl (newError ''EOF'') | Some j \<Rightarrow> Inr j)\<rparr>"

definition carries :: "HttpResponse \<Rightarrow> ResponseWriter \<Rightarrow> bool" where
  "carries resp w \<longleftrightarrow> StatusCode resp = finalStatus w \<and>
     (case respBody resp of Inl e \<Rightarrow> False | Inr (t, parsed) \<Rightarrow>
        (case sentBody w of [] \<Rightarrow> \<not> ok parsed | j # js \<Rightarrow> parsed = Inr j))"

lemma carriesD:
  assumes "carries resp w" and "sentBody w = [j]"
  obtains t where "respBody resp = Inr (t, Inr j)" and "StatusCode resp = finalStatus w"
  using assms by (auto simp: carries_def split: sum.splits)

end
