(* ===== verification/ServiceHandlers.thy ===== *)
theory ServiceHandlers
  imports ServiceKube Network
begin

text \<open>
  The HTTP side of the REST service (\<open>service/internal/handlers\<close>, \<open>service/internal/routes\<close>):
  every handler decodes its request, calls one operation of \<open>ServiceKube\<close> and answers. The four
  create handlers, and the delete handlers of fleets, games and scalers, are the same text up to
  names; the model states it once and the handlers instantiate it. Encoding these values cannot
  fail. The contract they share is the locale \<open>rest_endpoint\<close>.
\<close>

section \<open>Requests\<close>

record DeleteObjectRequest =
  delMetadata :: "Metadata option"
  delForce :: bool

record RemovePodLabelRequest =
  remMetadata :: "Metadata option"
  remLabel :: "string option"

definition decodeBody :: "(json \<Rightarrow> error + 'a) \<Rightarrow> Request \<Rightarrow> error + 'a" where
  "decodeBody dec r = (case Body r of Inl e \<Rightarrow> Inl e | Inr j \<Rightarrow> dec j)"

text \<open>\<open>struct{ X *T `json:"name"` }\<close>.\<close>

definition decodeWrapped :: "string \<Rightarrow> (json \<Rightarrow> 'a \<Rightarrow> error + 'a) \<Rightarrow> 'a \<Rightarrow> json \<Rightarrow> error + 'a option" where
  "decodeWrapped name dec zero j =
     decodeStruct (structFields [structField name (decodePtr dec zero) id (\<lambda>f. f)]) j None"

definition decodeDeleteObjectRequest :: "json \<Rightarrow> error + DeleteObjectRequest" where
  "decodeDeleteObjectRequest j = decodeStruct (structFields
     [structField ''metadata'' (decodePtr decodeMetadata zeroMetadata) delMetadata delMetadata_update,
      structField ''force'' decodeBool delForce delForce_update]) j \<lparr>delMetadata = None, delForce = False\<rparr>"

definition decodeRemovePodLabelRequest :: "json \<Rightarrow> error + RemovePodLabelRequest" where
  "decodeRemovePodLabelRequest j = decodeStruct (structFields
     [structField ''metadata'' (decodePtr decodeMetadata zeroMetadata) remMetadata remMetadata_update,
      structField ''label'' (decodePtr decodeString []) remLabel remLabel_update])
     j \<lparr>remMetadata = None, remLabel = None\<rparr>"

section \<open>Answers\<close>

definition errorBody :: "string \<Rightarrow> error \<Rightarrow> json" where
  "errorBody message err = JObject [(''error'', JString (errText err)), (''message'', JString message)]"

text \<open>The error branch: the body is written first, and the status after it.\<close>

definition respondError :: "string \<Rightarrow> error \<Rightarrow> ResponseWriter \<Rightarrow> ResponseWriter" where
  "respondError message err w =
     (case Write (errorBody message err) w of
        (False, w) \<Rightarrow> w
      | (True, w) \<Rightarrow> WriteHeader 500 w)"

definition respondObject :: "json \<Rightarrow> ResponseWriter \<Rightarrow> ResponseWriter" where
  "respondObject j w = (case Write j w of (False, w) \<Rightarrow> w | (True, w) \<Rightarrow> WriteHeader 200 w)"

definition serveCreate :: "(json \<Rightarrow> error + 'm option) \<Rightarrow> ('m \<Rightarrow> ('w service, 'm \<times> (error + unit)) state)
    \<Rightarrow> ('m \<Rightarrow> json) \<Rightarrow> string \<Rightarrow> Request \<Rightarrow> ResponseWriter \<Rightarrow> ('w service, ResponseWriter) state" where
  "serveCreate dec create enc message r w =
     (let w = setContentType ''application/json'' w in
      case decodeBody dec r of
        Inl err \<Rightarrow> return (WriteHeader 400 w)
      | Inr None \<Rightarrow> return (WriteHeader 400 w)
      | Inr (Some x) \<Rightarrow> do {
          (x, made) \<leftarrow> create x;
          return (case made of
            Inl err \<Rightarrow> respondError message err w
          | Inr _ \<Rightarrow> respondObject (enc x) w)
        })"

definition serveDelete :: "(Metadata \<Rightarrow> bool \<Rightarrow> ('w service, error + unit) state) \<Rightarrow> string
    \<Rightarrow> Request \<Rightarrow> ResponseWriter \<Rightarrow> ('w service, ResponseWriter) state" where
  "serveDelete del message r w =
     (let w = setContentType ''application/json'' w in
      case decodeBody decodeDeleteObjectRequest r of
        Inl err \<Rightarrow> return (WriteHeader 400 w)
      | Inr request \<Rightarrow>
          (case delMetadata request of
             None \<Rightarrow> return (WriteHeader 400 w)
           | Some metadata \<Rightarrow> do {
               deleted \<leftarrow> del metadata (delForce request);
               return (case deleted of
                 Inl err \<Rightarrow> respondError message err w
               | Inr _ \<Rightarrow> WriteHeader 200 w)
             }))"

section \<open>server.go\<close>

definition CreateServerHandler :: "'w kube \<Rightarrow> Request \<Rightarrow> ResponseWriter \<Rightarrow> ('w service, ResponseWriter) state" where
  "CreateServerHandler K = serveCreate
     (decodeWrapped ''server'' (decodeManifest (decodeServerSpec K)) (zeroManifest (zeroServerSpec K)))
     (SvcCreateServer K) (encodeManifest encodeServerSpec) ''Error creating server''"

text \<open>The one handler that sends the status before the body.\<close>

definition DeleteServerHandler :: "'w kube \<Rightarrow> Request \<Rightarrow> ResponseWriter \<Rightarrow> ('w service, ResponseWriter) state" where
  "DeleteServerHandler K r w =
     (let w = setContentType ''application/json'' w in
      case decodeBody decodeDeleteObjectRequest r of
        Inl err \<Rightarrow> return (WriteHeader 400 w)
      | Inr request \<Rightarrow>
          (case delMetadata request of
             None \<Rightarrow> return (WriteHeader 400 w)
           | Some metadata \<Rightarrow> do {
               deleted \<leftarrow> SvcDeleteServer K metadata (delForce request);
               return (case deleted of
                 Inl err \<Rightarrow> snd (Write (errorBody ''Error deleting server'' err) (WriteHeader 500 w))
               | Inr _ \<Rightarrow> WriteHeader 200 w)
             }))"

section \<open>fleet.go, game.go and scaler.go\<close>

definition CreateFleetHandler :: "'w kube \<Rightarrow> Request \<Rightarrow> ResponseWriter \<Rightarrow> ('w service, ResponseWriter) state" where
  "CreateFleetHandler K = serveCreate
     (decodeWrapped ''fleet'' (decodeManifest (decodeFleetSpec K)) (zeroManifest (zeroFleetSpec K)))
     (SvcCreateFleet K) (encodeManifest encodeFleetSpec) ''Error creating fleet''"

definition DeleteFleetHandler :: "'w kube \<Rightarrow> Request \<Rightarrow> ResponseWriter \<Rightarrow> ('w service, ResponseWriter) state" where
  "DeleteFleetHandler K = serveDelete (SvcDeleteFleet K) ''Error deleting fleet''"

definition CreateGameHandler :: "'w kube \<Rightarrow> Request \<Rightarrow> ResponseWriter \<Rightarrow> ('w service, ResponseWriter) state" where
  "CreateGameHandler K = serveCreate
     (decodeWrapped ''game'' (decodeManifest (decodeGameTypeSpec K))
       (zeroManifest \<lparr>svcFleetSpec = zeroFleetSpec K\<rparr>))
     (SvcCreateGame K) (encodeManifest encodeGameTypeSpec) ''Error creating game''"

definition DeleteGameHandler :: "'w kube \<Rightarrow> Request \<Rightarrow> ResponseWriter \<Rightarrow> ('w service, ResponseWriter) state" where
  "DeleteGameHandler K = serveDelete (SvcDeleteGame K) ''Error deleting game''"

definition CreateScalerHandler :: "'w kube \<Rightarrow> Request \<Rightarrow> ResponseWriter \<Rightarrow> ('w service, ResponseWriter) state" where
  "CreateScalerHandler K = serveCreate
     (decodeWrapped ''scaler'' (decodeManifest decodeScalerSpec) (zeroManifest zeroScalerSpec))
     (SvcCreateScaler K) (encodeManifest encodeScalerSpec) ''Error creating scaler''"

definition DeleteScalerHandler :: "'w kube \<Rightarrow> Request \<Rightarrow> ResponseWriter \<Rightarrow> ('w service, ResponseWriter) state" where
  "DeleteScalerHandler K = serveDelete (\<lambda>metadata force. SvcDeleteScaler K metadata) ''Error deleting scaler''"

section \<open>pod.go\<close>

definition AddPodLabelHandler ::
    "'w kube \<Rightarrow> Request \<Rightarrow> ResponseWriter \<Rightarrow> ('w service, ResponseWriter outcome) state" where
  "AddPodLabelHandler K r w =
     (let w = setContentType ''application/json'' w in
      case decodeBody (decodeWrapped ''metadata'' decodeMetadata zeroMetadata) r of
        Inl err \<Rightarrow> return (Done (WriteHeader 400 w))
      | Inr None \<Rightarrow> return (Done (WriteHeader 400 w))
      | Inr (Some metadata) \<Rightarrow> do {
          added \<leftarrow> AddPodLabels K metadata;
          return (case added of
            Panic \<Rightarrow> Panic
          | Done (Inl err) \<Rightarrow> Done (respondError ''Error adding pod labels'' err w)
          | Done (Inr _) \<Rightarrow> Done w)
        })"

definition RemovePodLabelHandler ::
    "'w kube \<Rightarrow> Request \<Rightarrow> ResponseWriter \<Rightarrow> ('w service, ResponseWriter) state" where
  "RemovePodLabelHandler K r w =
     (let w = setContentType ''application/json'' w in
      case decodeBody decodeRemovePodLabelRequest r of
        Inl err \<Rightarrow> return (WriteHeader 400 w)
      | Inr request \<Rightarrow>
          (case (remMetadata request, remLabel request) of
             (Some metadata, Some label) \<Rightarrow> do {
               removed \<leftarrow> RemovePodLabel K metadata label;
               return (case removed of
                 Inl err \<Rightarrow> respondError ''Error removing pod label'' err w
               | Inr _ \<Rightarrow> w)
             }
           | _ \<Rightarrow> return (WriteHeader 400 w)))"

section \<open>health.go and routes.go\<close>

definition ServiceHealth :: "ResponseWriter \<Rightarrow> ResponseWriter" where
  "ServiceHealth w = WriteHeader 200 w"

definition postOrDelete :: "Request \<Rightarrow> ResponseWriter \<Rightarrow> ('w service, ResponseWriter outcome) state
    \<Rightarrow> ('w service, ResponseWriter outcome) state \<Rightarrow> ('w service, ResponseWriter outcome) state" where
  "postOrDelete r w post del =
     (if Method r = ''POST'' then post else if Method r = ''DELETE'' then del
      else return (Done (WriteHeader 405 w)))"

definition finish :: "('w service, ResponseWriter) state \<Rightarrow> ('w service, ResponseWriter outcome) state" where
  "finish h = do { w \<leftarrow> h; return (Done w) }"

definition ServiceServe ::
    "'w kube \<Rightarrow> Request \<Rightarrow> ResponseWriter \<Rightarrow> ('w service, ResponseWriter outcome) state" where
  "ServiceServe K r w =
     (if URLPath r = ''/server'' then
        postOrDelete r w (finish (CreateServerHandler K r w)) (finish (DeleteServerHandler K r w))
      else if URLPath r = ''/server/pod/labels'' then
        postOrDelete r w (AddPodLabelHandler K r w) (finish (RemovePodLabelHandler K r w))
      else if URLPath r = ''/fleet'' then
        postOrDelete r w (finish (CreateFleetHandler K r w)) (finish (DeleteFleetHandler K r w))
      else if URLPath r = ''/game'' then
        postOrDelete r w (finish (CreateGameHandler K r w)) (finish (DeleteGameHandler K r w))
      else if URLPath r = ''/scaler'' then
        postOrDelete r w (finish (CreateScalerHandler K r w)) (finish (DeleteScalerHandler K r w))
      else if URLPath r = ''/health'' then return (Done (ServiceHealth w))
      else return (Done (WriteHeader 404 w)))"

section \<open>The calls of the operations\<close>

fun kubeOk :: "kubeCall \<Rightarrow> bool" where
  "kubeOk (DynCreate _ _ _ b) = b"
| "kubeOk (DynDelete _ _ _ b) = b"
| "kubeOk (DynList _ _ r) = ok r"
| "kubeOk (PodGet _ _ r) = ok r"
| "kubeOk (PodUpdate _ _ b) = b"
| "kubeOk (Send _ b) = b"

text \<open>The names a run deletes under, and where it sends requests.\<close>

fun deletedName :: "kubeCall \<Rightarrow> string list" where
  "deletedName (DynDelete _ _ n _) = [n]"
| "deletedName _ = []"

definition deletedNames :: "kubeCall list \<Rightarrow> string list" where
  "deletedNames es = concat (map deletedName es)"

lemma deletedNames_simps [simp]:
  "deletedNames [] = []" "deletedNames (e # es) = deletedName e @ deletedNames es"
  "deletedNames (es @ fs) = deletedNames es @ deletedNames fs"
  by (simp_all add: deletedNames_def)

text \<open>The only request the service sends: it allows the deletion of a pod it has read.\<close>

fun allowsPod :: "kubeCall list \<Rightarrow> kubeCall \<Rightarrow> bool" where
  "allowsPod pre (Send q _) \<longleftrightarrow> (\<exists>ns n pod. pre \<noteq> [] \<and> last pre = PodGet ns n (Inr pod) \<and>
     q = \<lparr>reqMethod = ''POST'', reqUrl = ''http://'' @ PodIP pod @ '':8080/allow_delete'',
       reqBody = Some (encodeFlag ''allowed'' True)\<rparr>)"
| "allowsPod pre _ \<longleftrightarrow> True"

lemmas kube_defs = SvcCreateServer_def serverToUnstructured_def SvcCreateFleet_def fleetToUnstructured_def
  SvcCreateGame_def gametypeToUnstructured_def SvcCreateScaler_def scalerToUnstructured_def
  SvcDeleteScaler_def Let_def

lemma sendDeleteAllowed_trace:
  "emits (sendDeleteAllowed K name namespace) (\<lambda>res es. deletedNames es = [] \<and>
     (ok res \<longleftrightarrow> list_all kubeOk es) \<and> each_after (\<lambda>pre. allowsPod (zs @ pre)) es \<and>
     (ok res \<longrightarrow> (\<exists>q. Send q True \<in> set es)))"
  unfolding sendDeleteAllowed_def go_simps
  by (intro emits_intros) (auto split: sum.splits)


lemma SvcDeleteServer_trace:
  "emits (SvcDeleteServer K metadata force) (\<lambda>res es. (ok res \<longleftrightarrow> list_all kubeOk es) \<and>
     each_after allowsPod es \<and> deletedNames es = [mdName metadata] \<and> es \<noteq> [] \<and>
     (force \<and> ok res \<longrightarrow> (\<exists>q. Send q True \<in> set es)))"
  unfolding SvcDeleteServer_def go_simps
  apply (intro emits_intros)
    apply simp
   apply (rule emits_weaken [OF sendDeleteAllowed_trace [where zs = "[a]" for a, simplified]])
   apply auto
  done

lemma emits_true_SvcCreate:
  "emits (SvcCreateServer K x) (\<lambda>_ _. True)" "emits (SvcCreateFleet K y) (\<lambda>_ _. True)"
  "emits (SvcCreateGame K z) (\<lambda>_ _. True)" "emits (SvcCreateScaler K v) (\<lambda>_ _. True)"
  unfolding kube_defs go_simps by ((intro emits_intros; simp)+)

lemma allowItems_trace:
  "emits (allowItems K metadata items) (\<lambda>res es. deletedNames es = [] \<and> (ok res \<longleftrightarrow> list_all kubeOk es) \<and>
     (list_all (\<lambda>item. itemLabels item ''fleet'' \<noteq> Some (mdName metadata)) items \<longrightarrow> es = []))"
proof (induction items)
  case Nil
  show ?case by (simp, intro emits_intros) simp
next
  case (Cons item items)
  show ?case
    unfolding allowItems.simps
    apply (intro emits_intros)
     apply (rule emits_weaken [OF Cons], simp)
    apply (rule emits_bind [OF sendDeleteAllowed_trace [where zs = "[]"]])
    apply (intro emits_intros)
     apply simp
    apply (rule emits_weaken [OF Cons])
    apply simp
    done
qed

lemma SvcDeleteFleet_trace:
  "emits (SvcDeleteFleet K metadata force) (\<lambda>res es. (ok res \<longleftrightarrow> list_all kubeOk es) \<and>
     deletedNames es = [mdName metadata] \<and>
     (\<forall>q b. Send q b \<in> set es \<longrightarrow> (\<exists>ns items. DynList FleetGCR ns (Inr items) \<in> set es \<and>
        \<not> list_all (\<lambda>item. itemLabels item ''fleet'' \<noteq> Some (mdName metadata)) items)))"
  unfolding SvcDeleteFleet_def forceDeleteFleet_def go_simps
  apply (intro emits_intros)
     apply simp
    apply simp
   apply (rule emits_weaken [OF allowItems_trace])
   apply fastforce
  apply simp
  done

lemma removeFleets_trace:
  "emits (removeFleets K metadata force items) (\<lambda>res es. (ok res \<longleftrightarrow> list_all kubeOk es) \<and>
     list_all (\<lambda>n. n = mdName metadata) (deletedNames es))"
proof (induction items)
  case Nil
  show ?case by (simp, intro emits_intros) simp
next
  case (Cons item items)
  show ?case
    unfolding removeFleets.simps
    apply (intro emits_intros)
     apply (rule emits_weaken [OF Cons], simp)
    apply (rule emits_bind [OF SvcDeleteFleet_trace])
    apply (intro emits_intros)
     apply simp
    apply (rule emits_weaken [OF Cons])
    apply simp
    done
qed

lemma SvcDeleteGame_trace:
  "emits (SvcDeleteGame K metadata force) (\<lambda>res es. (ok res \<longleftrightarrow> list_all kubeOk es) \<and>
     list_all (\<lambda>n. n = mdName metadata) (deletedNames es))"
  unfolding SvcDeleteGame_def removeFleetsForGame_def go_simps
  apply (intro emits_intros)
     apply simp
    apply simp
   apply (rule emits_weaken [OF removeFleets_trace])
   apply simp
  apply simp
  done

lemma SvcDeleteScaler_trace: "emits (SvcDeleteScaler K metadata) (\<lambda>_ _. True)"
  unfolding SvcDeleteScaler_def go_simps by (intro emits_intros) simp

section \<open>The contract of an endpoint\<close>

locale rest_endpoint =
  fixes handle :: "Request \<Rightarrow> ResponseWriter \<Rightarrow> ('w service, ResponseWriter) state"
    and accepts :: "Request \<Rightarrow> bool"
  assumes rejected: "\<not> accepts r \<Longrightarrow>
      handle r w = return (WriteHeader 400 (setContentType ''application/json'' w))"
    and accepted: "accepts r \<Longrightarrow> emits (handle r (newWriter b)) (\<lambda>w es. finalStatus w = 200)"
begin

lemma status_by_body:
  "emits (handle r (newWriter b)) (\<lambda>w es. finalStatus w = (if accepts r then 200 else 400) \<and>
     (\<not> accepts r \<longrightarrow> es = []))"
proof (cases "accepts r")
  case True
  with accepted [OF True, of b] show ?thesis by simp
next
  case False
  then show ?thesis
    unfolding rejected [OF False] by (intro emits_intros) (simp add: finalStatus_def)
qed

lemma called_is_200: "emits (handle r (newWriter b)) (\<lambda>w es. es \<noteq> [] \<longrightarrow> finalStatus w = 200)"
  by (rule emits_weaken [OF status_by_body]) (auto split: if_splits)

end

definition acceptsCreate :: "(json \<Rightarrow> error + 'm option) \<Rightarrow> Request \<Rightarrow> bool" where
  "acceptsCreate dec r = (case decodeBody dec r of Inr (Some x) \<Rightarrow> True | _ \<Rightarrow> False)"

definition acceptsDelete :: "Request \<Rightarrow> bool" where
  "acceptsDelete r = (case decodeBody decodeDeleteObjectRequest r of
     Inr request \<Rightarrow> delMetadata request \<noteq> None | Inl e \<Rightarrow> False)"

lemma respond_200 [simp]:
  "finalStatus (respondError m e (setContentType t (newWriter b))) = 200"
  "finalStatus (respondObject j (setContentType t (newWriter b))) = 200"
  "finalStatus (WriteHeader c (setContentType t (newWriter b))) = c"
  by (auto simp: respondError_def respondObject_def finalStatus_def Write_def Let_def
    split: option.splits)

lemma serveCreate_endpoint:
  assumes "\<And>x. emits (create x) (\<lambda>_ _. True)"
  shows "rest_endpoint (serveCreate dec create enc message) (acceptsCreate dec)"
proof
  fix r w b
  show "\<not> acceptsCreate dec r \<Longrightarrow> serveCreate dec create enc message r w =
      return (WriteHeader 400 (setContentType ''application/json'' w))"
    by (auto simp: acceptsCreate_def serveCreate_def Let_def split: sum.splits option.splits)
  assume "acceptsCreate dec r"
  then obtain x where "decodeBody dec r = Inr (Some x)"
    by (auto simp: acceptsCreate_def split: sum.splits option.splits)
  then show "emits (serveCreate dec create enc message r (newWriter b)) (\<lambda>w es. finalStatus w = 200)"
    unfolding serveCreate_def Let_def
    by (simp, intro emits_bind [OF assms] emits_intros) (auto split: sum.splits)
qed

lemma serveDelete_endpoint:
  assumes "\<And>m f. emits (del m f) (\<lambda>_ _. True)"
  shows "rest_endpoint (serveDelete del message) acceptsDelete"
proof
  fix r w b
  show "\<not> acceptsDelete r \<Longrightarrow> serveDelete del message r w =
      return (WriteHeader 400 (setContentType ''application/json'' w))"
    by (auto simp: acceptsDelete_def serveDelete_def Let_def split: sum.splits option.splits)
  assume "acceptsDelete r"
  then obtain request m where "decodeBody decodeDeleteObjectRequest r = Inr request" "delMetadata request = Some m"
    by (auto simp: acceptsDelete_def split: sum.splits option.splits)
  then show "emits (serveDelete del message r (newWriter b)) (\<lambda>w es. finalStatus w = 200)"
    unfolding serveDelete_def Let_def
    by (simp, intro emits_bind [OF assms] emits_intros) (auto split: sum.splits)
qed

interpretation create_server: rest_endpoint "CreateServerHandler K"
    "acceptsCreate (decodeWrapped ''server'' (decodeManifest (decodeServerSpec K)) (zeroManifest (zeroServerSpec K)))"
  unfolding CreateServerHandler_def by (rule serveCreate_endpoint) (rule emits_true_SvcCreate)

interpretation create_fleet: rest_endpoint "CreateFleetHandler K"
    "acceptsCreate (decodeWrapped ''fleet'' (decodeManifest (decodeFleetSpec K)) (zeroManifest (zeroFleetSpec K)))"
  unfolding CreateFleetHandler_def by (rule serveCreate_endpoint) (rule emits_true_SvcCreate)

interpretation create_game: rest_endpoint "CreateGameHandler K"
    "acceptsCreate (decodeWrapped ''game'' (decodeManifest (decodeGameTypeSpec K))
       (zeroManifest \<lparr>svcFleetSpec = zeroFleetSpec K\<rparr>))"
  unfolding CreateGameHandler_def by (rule serveCreate_endpoint) (rule emits_true_SvcCreate)

interpretation create_scaler: rest_endpoint "CreateScalerHandler K"
    "acceptsCreate (decodeWrapped ''scaler'' (decodeManifest decodeScalerSpec) (zeroManifest zeroScalerSpec))"
  unfolding CreateScalerHandler_def by (rule serveCreate_endpoint) (rule emits_true_SvcCreate)

interpretation delete_fleet: rest_endpoint "DeleteFleetHandler K" acceptsDelete
  unfolding DeleteFleetHandler_def
  by (rule serveDelete_endpoint) (rule emits_weaken [OF SvcDeleteFleet_trace], rule TrueI)

interpretation delete_game: rest_endpoint "DeleteGameHandler K" acceptsDelete
  unfolding DeleteGameHandler_def
  by (rule serveDelete_endpoint) (rule emits_weaken [OF SvcDeleteGame_trace], rule TrueI)

interpretation delete_scaler: rest_endpoint "DeleteScalerHandler K" acceptsDelete
  unfolding DeleteScalerHandler_def
  by (rule serveDelete_endpoint) (rule SvcDeleteScaler_trace)

end
