(* ===== verification/MemKube.thy ===== *)
theory MemKube
  imports ServiceKube MemCluster
begin

text \<open>
  A cluster in memory on which the properties are evaluated: objects by resource, namespace and
  name, the pods, and the sidecars behind their addresses.
\<close>

record kubeState =
  stored :: "(GroupVersionResource \<times> string \<times> DynItem) list"
  kubePods :: "Pod list"
  kubeSidecars :: "(string \<times> App) list"

fun jsonMember :: "string \<Rightarrow> json \<Rightarrow> json" where
  "jsonMember k (JObject ms) = (case map_of ms k of None \<Rightarrow> JNull | Some j \<Rightarrow> j)"
| "jsonMember k _ = JNull"

fun jsonText :: "json \<Rightarrow> string" where
  "jsonText (JString s) = s"
| "jsonText _ = []"

definition itemOf :: "json \<Rightarrow> DynItem" where
  "itemOf j = (let m = jsonMember ''metadata'' j in
     \<lparr>itemName = jsonText (jsonMember ''name'' m), itemNamespace = jsonText (jsonMember ''namespace'' m),
      itemLabels = (\<lambda>k. case jsonMember k (jsonMember ''labels'' m) of JString s \<Rightarrow> Some s | _ \<Rightarrow> None)\<rparr>)"

definition memKube :: "kubeState kube" where
  "memKube = \<lparr>
     dynCreate = (\<lambda>g ns j s. (Inr (), s\<lparr>stored := stored s @ [(g, ns, itemOf j)]\<rparr>)),
     dynDelete = (\<lambda>g ns n s.
       if list_ex (\<lambda>(g', ns', i). g' = g \<and> ns' = ns \<and> itemName i = n) (stored s)
       then (Inr (), s\<lparr>stored := filter (\<lambda>(g', ns', i). \<not> (g' = g \<and> ns' = ns \<and> itemName i = n)) (stored s)\<rparr>)
       else (Inl (newError ''not found''), s)),
     dynList = (\<lambda>g ns s. (Inr (map (\<lambda>(_, _, i). i) (filter (\<lambda>(g', ns', _). g' = g \<and> ns' = ns) (stored s))), s)),
     podGet = (\<lambda>ns n s.
       (memFind pod_meta (kubePods s) (ns, n), s)),
     podUpdate = (\<lambda>ns p s. (Inr p, s\<lparr>kubePods := memReplace pod_meta p (kubePods s)\<rparr>)),
     kubeHttp = (\<lambda>q s. case memHttp (kubeSidecars s) q of (r, as) \<Rightarrow> (r, s\<lparr>kubeSidecars := as\<rparr>)),
     unstructuredOf = Inr,
     podSpecOf = (\<lambda>j old. Inr j),
     durationOf = (\<lambda>j old. Inr j),
     zeroPodSpec = JObject [],
     zeroDuration = JString ''0s''\<rparr>"


definition exampleKube :: kubeState where
  "exampleKube = \<lparr>stored = [(ServerGCR, ''default'', \<lparr>itemName = ''s'', itemNamespace = ''default'', itemLabels = Map.empty\<rparr>)],
     kubePods = [(examplePod ''s'')\<lparr>pod_meta := (pod_meta (examplePod ''s''))\<lparr>Labels := Some [''server'' \<mapsto> ''s'']\<rparr>\<rparr>],
     kubeSidecars = [(''10.0.0.1'', initialApp)]\<rparr>"

definition deleteRequest :: "string \<Rightarrow> string \<Rightarrow> bool \<Rightarrow> Request" where
  "deleteRequest p n force = \<lparr>Method = ''DELETE'', URLPath = p, Body = Inr (JObject
     [(''metadata'', JObject [(''name'', JString n), (''namespace'', JString ''default'')]), (''force'', JBool force)])\<rparr>"

end
