(* ===== verification/ServiceProps.thy ===== *)
theory ServiceProps
  imports ServiceHandlers MemKube
begin

text \<open>
  What the REST service does for the requests it gets: the status it answers with, the calls it makes
  to the cluster, what it writes there, and the sidecars it talks to.
\<close>

section \<open>Statuses\<close>

lemma status_not_500:
  assumes "h \<in> {CreateServerHandler K, CreateFleetHandler K, CreateGameHandler K, CreateScalerHandler K,
     DeleteFleetHandler K, DeleteGameHandler K, DeleteScalerHandler K}"
  shows "emits (h r (newWriter failing)) (\<lambda>w es. es \<noteq> [] \<longrightarrow> finalStatus w = 200)"
  using assms
  by (elim insertE emptyE; hypsubst) (rule create_server.called_is_200 create_fleet.called_is_200
    create_game.called_is_200 create_scaler.called_is_200 delete_fleet.called_is_200
    delete_game.called_is_200 delete_scaler.called_is_200)+

lemma delete_server_status:
  "emits (DeleteServerHandler K r (newWriter failing)) (\<lambda>w es. es \<noteq> [] \<longrightarrow>
     finalStatus w = (if list_all kubeOk es then 200 else 500))"
  unfolding DeleteServerHandler_def Let_def
  apply (intro emits_intros)
    apply simp
   apply simp
  apply (rule emits_bind [OF SvcDeleteServer_trace])
  apply (intro emits_intros)
  apply (auto simp: finalStatus_def split: sum.splits)
  done

text \<open>
  C38: The create handlers, and the delete handlers of fleets, games and scalers, answer every request
  for which they call the cluster with status 200, whether the call succeeds or fails: the status
  500 they set comes after the body and is ignored. Only the handler that deletes a server tells the
  two apart: it answers 200 exactly when every call it made succeeded, and 500 otherwise.
\<close>

theorem service_status_hides_failure:
  "(\<forall>h \<in> {CreateServerHandler K, CreateFleetHandler K, CreateGameHandler K, CreateScalerHandler K,
       DeleteFleetHandler K, DeleteGameHandler K, DeleteScalerHandler K}.
     emits (h r (newWriter failing)) (\<lambda>w es. es \<noteq> [] \<longrightarrow> finalStatus w = 200)) \<and>
   emits (DeleteServerHandler K r (newWriter failing)) (\<lambda>w es. es \<noteq> [] \<longrightarrow>
     finalStatus w = (if list_all kubeOk es then 200 else 500))"
  using status_not_500 delete_server_status by blast

theorem service_status_hides_failure_witness:
  "(let m = DeleteFleetHandler memKube (deleteRequest ''/fleet'' ''f'' True) (newWriter False) in
     list_ex (\<lambda>e. \<not> kubeOk e) (calls m exampleKube) \<and> finalStatus (answer m exampleKube) = 200) \<and>
   (let m = DeleteServerHandler memKube (deleteRequest ''/server'' ''t'' True) (newWriter False) in
     list_ex (\<lambda>e. \<not> kubeOk e) (calls m exampleKube) \<and> finalStatus (answer m exampleKube) = 500)"
proof -
  let ?f = "DeleteFleetHandler memKube (deleteRequest ''/fleet'' ''f'' True) (newWriter False)"
  let ?s = "DeleteServerHandler memKube (deleteRequest ''/server'' ''t'' True) (newWriter False)"
  have bad: "list_ex (\<lambda>e. \<not> kubeOk e) (calls ?f exampleKube)" "list_ex (\<lambda>e. \<not> kubeOk e) (calls ?s exampleKube)"
    by code_simp+
  have "emits ?f (\<lambda>w es. es \<noteq> [] \<longrightarrow> finalStatus w = 200)"
    by (rule bspec [OF conjunct1 [OF service_status_hides_failure [where K = memKube]]]) simp
  from emits_calls [OF this, of exampleKube]
    emits_calls [OF conjunct2 [OF service_status_hides_failure], of memKube "deleteRequest ''/server'' ''t'' True" False exampleKube] bad
  show ?thesis by (auto simp: Let_def list_ex_iff list_all_iff)
qed

section \<open>Properties of the requests\<close>

lemma delete_server_runs: "emits (DeleteServerHandler K r (newWriter b)) (\<lambda>_ _. True)"
  unfolding DeleteServerHandler_def Let_def
  by (intro emits_intros emits_bind [OF SvcDeleteServer_trace] TrueI)

lemma pod_labels_run:
  "emits (AddPodLabels K m) (\<lambda>_ _. True)" "emits (RemovePodLabel K m k) (\<lambda>_ _. True)"
  unfolding AddPodLabels_def RemovePodLabel_def go_simps Let_def
  by ((intro emits_intros TrueI; simp split: option.splits list.splits; intro conjI allI impI emits_intros TrueI)+)

lemma pod_handlers_run:
  "emits (AddPodLabelHandler K r w) (\<lambda>_ _. True)"
  "emits (do { v \<leftarrow> RemovePodLabelHandler K r w; return (Done v) }) (\<lambda>_ _. True)"
  unfolding AddPodLabelHandler_def RemovePodLabelHandler_def Let_def
  by (auto simp: emits_bind_assoc intro!: emits_intros emits_bind [OF pod_labels_run(1)] emits_bind [OF pod_labels_run(2)] split: option.splits)

definition servicePaths :: "string list" where
  "servicePaths = [''/server'', ''/server/pod/labels'', ''/fleet'', ''/game'', ''/scaler'']"

lemmas route_defs = ServiceServe_def postOrDelete_def finish_def ServiceHealth_def

lemma handler_runs:
  "emits (CreateServerHandler K r (newWriter b)) (\<lambda>_ _. True)"
  "emits (CreateFleetHandler K r (newWriter b)) (\<lambda>_ _. True)"
  "emits (CreateGameHandler K r (newWriter b)) (\<lambda>_ _. True)"
  "emits (CreateScalerHandler K r (newWriter b)) (\<lambda>_ _. True)"
  "emits (DeleteFleetHandler K r (newWriter b)) (\<lambda>_ _. True)"
  "emits (DeleteGameHandler K r (newWriter b)) (\<lambda>_ _. True)"
  "emits (DeleteScalerHandler K r (newWriter b)) (\<lambda>_ _. True)"
  "emits (DeleteServerHandler K r (newWriter b)) (\<lambda>_ _. True)"
  by (rule emits_weaken [OF create_server.status_by_body] emits_weaken [OF create_fleet.status_by_body]
    emits_weaken [OF create_game.status_by_body] emits_weaken [OF create_scaler.status_by_body]
    emits_weaken [OF delete_fleet.status_by_body] emits_weaken [OF delete_game.status_by_body]
    emits_weaken [OF delete_scaler.status_by_body] emits_weaken [OF delete_server_runs], rule TrueI)+

lemma ServiceServe_runs: "emits (ServiceServe K r (newWriter b)) (\<lambda>_ _. True)"
  unfolding route_defs
  by (intro emits_intros emits_bind [OF handler_runs(1)] emits_bind [OF handler_runs(2)]
    emits_bind [OF handler_runs(3)] emits_bind [OF handler_runs(4)] emits_bind [OF handler_runs(5)]
    emits_bind [OF handler_runs(6)] emits_bind [OF handler_runs(7)] emits_bind [OF handler_runs(8)]
    TrueI pod_handlers_run)

lemmas handler_defs = CreateServerHandler_def CreateFleetHandler_def CreateGameHandler_def
  CreateScalerHandler_def DeleteFleetHandler_def DeleteGameHandler_def DeleteScalerHandler_def
  DeleteServerHandler_def AddPodLabelHandler_def RemovePodLabelHandler_def serveCreate_def serveDelete_def

text \<open>
  C32: The service calls the cluster only for a \<open>POST\<close> or \<open>DELETE\<close> on one of its five paths with a
  body that parses: every other request, of whatever method, path and body, is answered without a
  single call.
\<close>

theorem service_calls_need_request:
  "emits (ServiceServe K r (newWriter failing)) (\<lambda>res es. es \<noteq> [] \<longrightarrow>
     Method r \<in> {''POST'', ''DELETE''} \<and> URLPath r \<in> set servicePaths \<and> ok (Body r))"
proof (cases "Method r \<in> {''POST'', ''DELETE''} \<and> URLPath r \<in> set servicePaths \<and> ok (Body r)")
  case True
  with ServiceServe_runs show ?thesis by simp
next
  case False
  then consider e where "Body r = Inl e" | "Method r \<notin> {''POST'', ''DELETE''}" | "URLPath r \<notin> set servicePaths"
    by (cases "Body r") auto
  then have "emits (ServiceServe K r (newWriter failing)) (\<lambda>res es. es = [])"
  proof cases
    case 1
    then show ?thesis
      by (auto simp: route_defs handler_defs decodeBody_def Let_def intro!: emits_intros)
  qed (auto simp: route_defs servicePaths_def intro!: emits_intros)
  then show ?thesis by (rule emits_weaken) simp
qed

theorem service_calls_need_request_witness:
  "calls (ServiceServe memKube (deleteRequest ''/fleets'' ''f'' True) (newWriter False)) exampleKube = [] \<and>
   calls (ServiceServe memKube (deleteRequest ''/fleet'' ''f'' True) (newWriter False)) exampleKube \<noteq> []"
proof
  let ?r = "deleteRequest ''/fleets'' ''f'' True"
  have "URLPath ?r \<notin> set servicePaths" by code_simp
  with emits_calls [OF service_calls_need_request, of memKube ?r False exampleKube]
  show "calls (ServiceServe memKube ?r (newWriter False)) exampleKube = []" by blast
  show "calls (ServiceServe memKube (deleteRequest ''/fleet'' ''f'' True) (newWriter False)) exampleKube \<noteq> []"
    by code_simp
qed

text \<open>A run that posts one object.\<close>

fun postedAs :: "GroupVersionResource \<Rightarrow> string \<Rightarrow> string \<Rightarrow> kubeCall list \<Rightarrow> bool" where
  "postedAs g kind ns [DynCreate g' ns' j b] \<longleftrightarrow> g' = g \<and> ns' = ns \<and> jsonMember ''kind'' j = JString kind"
| "postedAs g kind ns _ = False"

text \<open>The documented behaviour of \<open>Unstructured.UnmarshalJSON\<close>: an object that has a kind is taken with it.\<close>

definition unstructured_laws :: "'w kube \<Rightarrow> bool" where
  "unstructured_laws K \<longleftrightarrow> (\<forall>j k. jsonMember ''kind'' j = JString k \<and> k \<noteq> [] \<longrightarrow>
     (\<exists>u. unstructuredOf K j = Inr u \<and> jsonMember ''kind'' u = JString k))"

lemma unstructured_of_manifest:
  assumes "unstructured_laws K" and "k \<noteq> []"
  obtains u where "unstructuredOf K (encodeManifest enc (setVersionKind k x)) = Inr u"
    and "jsonMember ''kind'' u = JString k"
proof -
  have "jsonMember ''kind'' (encodeManifest enc (setVersionKind k x)) = JString k"
    by (simp add: encodeManifest_def setVersionKind_def)
  with assms that show thesis unfolding unstructured_laws_def by blast
qed

lemma posted_manifest:
  assumes "unstructured_laws K" and "k \<noteq> []"
  shows "emits (case unstructuredOf K (encodeManifest enc (setVersionKind k x)) of
       Inl err \<Rightarrow> return (setVersionKind k x, Inl err)
     | Inr u \<Rightarrow> do { made \<leftarrow> doCreate K g (mdNamespace (Metadata (setVersionKind k x))) u;
         return (setVersionKind k x, made) })
     (\<lambda>_ es. postedAs g k (mdNamespace (Metadata x)) es)"
proof -
  obtain u where "unstructuredOf K (encodeManifest enc (setVersionKind k x)) = Inr u"
    and "jsonMember ''kind'' u = JString k"
    using unstructured_of_manifest [OF assms] .
  then show ?thesis
    unfolding go_simps by (simp, intro emits_intros) (simp add: setVersionKind_def)
qed

text \<open>
  C39: What a create sends: each of the four posts one object, under the namespace of its metadata, but
  under the resource and the kind that the code names. A server is posted as a \<open>gametypes\<close> object,
  and a scaler to the resource \<open>servers\<close>.
\<close>

theorem created_resource_and_kind:
  assumes "unstructured_laws K"
  shows "emits (SvcCreateServer K s) (\<lambda>_ es. postedAs ServerGCR ''gametypes'' (mdNamespace (Metadata s)) es) \<and>
     emits (SvcCreateFleet K f) (\<lambda>_ es. postedAs FleetGCR ''fleets'' (mdNamespace (Metadata f)) es) \<and>
     emits (SvcCreateGame K g) (\<lambda>_ es. postedAs GameGCR ''gametypes'' (mdNamespace (Metadata g)) es) \<and>
     emits (SvcCreateScaler K a) (\<lambda>_ es. postedAs ServerGCR ''gameautoscalers'' (mdNamespace (Metadata a)) es)"
  using posted_manifest [OF assms, where k = "''gametypes''" and enc = encodeServerSpec and x = s and g = ServerGCR]
    posted_manifest [OF assms, where k = "''fleets''" and enc = encodeFleetSpec and x = f and g = FleetGCR]
    posted_manifest [OF assms, where k = "''gametypes''" and enc = encodeGameTypeSpec and x = g and g = GameGCR]
    posted_manifest [OF assms, where k = "''gameautoscalers''" and enc = encodeScalerSpec and x = a and g = ServerGCR]
  by (simp add: kube_defs gameResourceName_def fleetResourceName_def scalerResourceName_def)

lemma mem_unstructured_laws: "unstructured_laws memKube"
  by (simp add: unstructured_laws_def memKube_def)

theorem created_resource_and_kind_witness:
  "postedAs ServerGCR ''gametypes'' ''default'' (calls (SvcCreateServer memKube
     ((zeroManifest (zeroServerSpec memKube))\<lparr>Metadata := zeroMetadata\<lparr>mdNamespace := ''default''\<rparr>\<rparr>)) exampleKube)"
  using emits_calls [OF conjunct1 [OF created_resource_and_kind [OF mem_unstructured_laws]], of
    "(zeroManifest (zeroServerSpec memKube))\<lparr>Metadata := zeroMetadata\<lparr>mdNamespace := ''default''\<rparr>\<rparr>" exampleKube]
  by simp

lemma forced_game_deletion:
  "emits (SvcDeleteGame K metadata force) (\<lambda>res es. (ok res \<longleftrightarrow> list_all kubeOk es) \<and>
     (\<forall>g ns n b. DynDelete g ns n b \<in> set es \<longrightarrow> n = mdName metadata))"
proof (rule emits_weaken [OF SvcDeleteGame_trace])
  fix res es
  assume *: "(ok res \<longleftrightarrow> list_all kubeOk es) \<and> list_all (\<lambda>n. n = mdName metadata) (deletedNames es)"
  have "n \<in> set (deletedNames es)" if "DynDelete g ns n b \<in> set es" for g ns n b
    using that by (induction es) auto
  with * show "(ok res \<longleftrightarrow> list_all kubeOk es) \<and> (\<forall>g ns n b. DynDelete g ns n b \<in> set es \<longrightarrow> n = mdName metadata)"
    by (auto simp: list_all_iff)
qed

lemma forced_fleet_deletion:
  "emits (SvcDeleteFleet K metadata force) (\<lambda>res es. (ok res \<longleftrightarrow> list_all kubeOk es) \<and>
     (\<forall>q b. Send q b \<in> set es \<longrightarrow> (\<exists>ns items. DynList FleetGCR ns (Inr items) \<in> set es \<and>
        list_ex (\<lambda>item. itemLabels item ''fleet'' = Some (mdName metadata)) items)))"
  by (rule emits_weaken [OF SvcDeleteFleet_trace]) (force simp: list_all_iff list_ex_iff)

text \<open>
  C40: Forced deletions miss what they are after. That of a game deletes, besides the game, only a
  fleet that has the game's own name, once per fleet of the game: no other name is ever deleted. That
  of a fleet looks for the servers of the fleet among the fleets: it asks no sidecar unless the
  listing of the fleets has an object labelled with the fleet. Both report success exactly when all
  their calls succeeded.
\<close>

theorem forced_deletions_miss:
  "emits (SvcDeleteGame K metadata force) (\<lambda>res es. (ok res \<longleftrightarrow> list_all kubeOk es) \<and>
     (\<forall>g ns n b. DynDelete g ns n b \<in> set es \<longrightarrow> n = mdName metadata)) \<and>
   emits (SvcDeleteFleet K metadata force) (\<lambda>res es. (ok res \<longleftrightarrow> list_all kubeOk es) \<and>
     (\<forall>q b. Send q b \<in> set es \<longrightarrow> (\<exists>ns items. DynList FleetGCR ns (Inr items) \<in> set es \<and>
        list_ex (\<lambda>item. itemLabels item ''fleet'' = Some (mdName metadata)) items)))"
  using forced_game_deletion forced_fleet_deletion by blast

definition labelledItem :: "string \<Rightarrow> string \<Rightarrow> string \<Rightarrow> DynItem" where
  "labelledItem n k v = \<lparr>itemName = n, itemNamespace = ''default'', itemLabels = [k \<mapsto> v]\<rparr>"

definition gameKube :: kubeState where
  "gameKube = exampleKube\<lparr>stored := [(GameGCR, ''default'', labelledItem ''g'' ''x'' ''y''),
     (FleetGCR, ''default'', labelledItem ''g-fleet-1'' ''type'' ''g'')]\<rparr>"

definition gameMetadata :: Metadata where
  "gameMetadata = \<lparr>mdName = ''g'', mdNamespace = ''default'', mdLabels = None\<rparr>"

definition fleetKube :: kubeState where
  "fleetKube = exampleKube\<lparr>stored := [(FleetGCR, ''default'', labelledItem ''f'' ''type'' ''g''),
     (ServerGCR, ''default'', labelledItem ''s'' ''fleet'' ''f'')]\<rparr>"

definition fleetMetadata :: Metadata where
  "fleetMetadata = \<lparr>mdName = ''f'', mdNamespace = ''default'', mdLabels = None\<rparr>"

theorem forced_deletions_miss_witness:
  "(\<forall>b. DynDelete FleetGCR ''default'' ''g-fleet-1'' b \<notin> set (calls (SvcDeleteGame memKube gameMetadata True) gameKube)) \<and>
   \<not> (\<exists>q b. Send q b \<in> set (calls (SvcDeleteFleet memKube fleetMetadata True) fleetKube)) \<and>
   length (calls (SvcDeleteFleet memKube fleetMetadata True) fleetKube) = 2"
proof (intro conjI)
  have "''g-fleet-1'' \<noteq> mdName gameMetadata" by code_simp
  with emits_calls [OF conjunct1 [OF forced_deletions_miss], of memKube gameMetadata True gameKube]
  show "\<forall>b. DynDelete FleetGCR ''default'' ''g-fleet-1'' b \<notin> set (calls (SvcDeleteGame memKube gameMetadata True) gameKube)"
    by blast
  let ?es = "calls (SvcDeleteFleet memKube fleetMetadata True) fleetKube"
  have "list_all (\<lambda>e. case e of DynList _ _ (Inr items) \<Rightarrow>
      \<not> list_ex (\<lambda>item. itemLabels item ''fleet'' = Some (mdName fleetMetadata)) items | _ \<Rightarrow> True) ?es"
    by code_simp
  with emits_calls [OF conjunct2 [OF forced_deletions_miss], of memKube fleetMetadata True fleetKube]
  show "\<not> (\<exists>q b. Send q b \<in> set ?es)" by (fastforce simp: list_all_iff)
  show "length ?es = 2" by code_simp
qed

fun labelsAdded :: "(string \<times> string) list \<Rightarrow> (error + unit) outcome \<Rightarrow> kubeCall list \<Rightarrow> bool" where
  "labelsAdded new res [PodGet _ _ (Inl e)] \<longleftrightarrow> res = Done (Inl e)"
| "labelsAdded new res [PodGet _ _ (Inr pod)] \<longleftrightarrow> res = Panic \<and> Labels (pod_meta pod) = None \<and> new \<noteq> []"
| "labelsAdded new res [PodGet _ _ (Inr pod), PodUpdate _ pod' b] \<longleftrightarrow>
     (new = [] \<or> Labels (pod_meta pod) \<noteq> None) \<and> (\<exists>l. pod' = setPodLabels l pod) \<and>
     (\<forall>k. labelOf (pod_meta pod') k = (case map_of new k of None \<Rightarrow> labelOf (pod_meta pod) k | Some v \<Rightarrow> Some v)) \<and>
     (if b then res = Done (Inr ()) else (\<exists>e. res = Done (Inl e)))"
| "labelsAdded new res _ \<longleftrightarrow> False"

text \<open>The calls that read and write the pod of a server.\<close>

fun onPodOf :: "Metadata \<Rightarrow> kubeCall \<Rightarrow> bool" where
  "onPodOf metadata (PodGet ns n _) \<longleftrightarrow> ns = mdNamespace metadata \<and> n = mdName metadata @ ''-pod''"
| "onPodOf metadata (PodUpdate ns _ _) \<longleftrightarrow> ns = mdNamespace metadata"
| "onPodOf metadata _ \<longleftrightarrow> False"

lemma labels_added:
  "emits (AddPodLabels K metadata) (\<lambda>res es.
     list_all (onPodOf metadata) es \<and>
     labelsAdded (case mdLabels metadata of None \<Rightarrow> [] | Some ls \<Rightarrow> ls) res es)"
  unfolding AddPodLabels_def go_simps Let_def
  apply (intro emits_intros)
   apply simp
  apply (simp split: option.splits list.splits)
  apply (intro conjI allI impI emits_intros)
  apply (auto simp: setPodLabels_def labelOf_def labelsOrEmpty_def map_add_def split: sum.splits option.splits)
  done


fun labelRemoved :: "string \<Rightarrow> error + unit \<Rightarrow> kubeCall list \<Rightarrow> bool" where
  "labelRemoved key res [PodGet _ _ (Inl e)] \<longleftrightarrow> res = Inl e"
| "labelRemoved key res [PodGet _ _ (Inr pod), PodUpdate _ pod' b] \<longleftrightarrow>
     (\<exists>l. pod' = setPodLabels l pod) \<and>
     (\<forall>k. labelOf (pod_meta pod') k = (if k = key then None else labelOf (pod_meta pod) k)) \<and>
     (b \<longleftrightarrow> res = Inr ())"
| "labelRemoved key res _ \<longleftrightarrow> False"

lemma label_removed:
  "emits (RemovePodLabel K metadata key) (\<lambda>res es. list_all (onPodOf metadata) es \<and>
     labelRemoved key res es)"
  unfolding RemovePodLabel_def go_simps Let_def
  by (intro emits_intros)
    (auto simp: setPodLabels_def labelOf_def labelsOrEmpty_def split: sum.splits option.splits)

text \<open>
  C34: Editing labels reads the pod of the server and writes it back with nothing but its labels changed:
  added labels are laid over its own, and a removed one is gone, also when the pod did not have it. An
  error is reported exactly when a call failed. Adding panics, without writing, exactly when the pod is
  read, there is a label to add and the pod has no label map; removing never does.
\<close>

theorem pod_labels_edited:
  "emits (AddPodLabels K metadata) (\<lambda>res es. list_all (onPodOf metadata) es \<and>
     labelsAdded (case mdLabels metadata of None \<Rightarrow> [] | Some ls \<Rightarrow> ls) res es) \<and>
   emits (RemovePodLabel K metadata key) (\<lambda>res es. list_all (onPodOf metadata) es \<and> labelRemoved key res es)"
  by (intro conjI labels_added label_removed)

text \<open>
  A forced deletion of a server, once it reports success, has sent the request that allows the
  deletion to the address of the server's pod; served by the sidecar there, the request sets the
  flag, and whoever asks the sidecar next is told that deletion is allowed.
\<close>

lemma forced_server_deletion_allows:
  "emits (SvcDeleteServer K metadata True) (\<lambda>res es. ok res \<longrightarrow>
     (\<exists>pod q. PodGet (mdNamespace metadata) (mdName metadata @ ''-pod'') (Inr pod) \<in> set es \<and> Send q True \<in> set es \<and>
       reqUrl q = ''http://'' @ PodIP pod @ '':8080/allow_delete'' \<and>
       (\<forall>a. sentBody (IsDeleteAllowedHandler (fst (SidecarServe a (requestOf ''/allow_delete'' q) (newWriter False)))
          (newWriter False)) = [encodeFlag ''allowed'' True])))"
proof -
  have served: "sentBody (IsDeleteAllowedHandler (fst (SidecarServe a (requestOf ''/allow_delete''
      \<lparr>reqMethod = ''POST'', reqUrl = u, reqBody = Some (encodeFlag ''allowed'' True)\<rparr>) (newWriter False)))
      (newWriter False)) = [encodeFlag ''allowed'' True]" for a u
    using serve_DeleteAllowed [of a "requestOf ''/allow_delete''
      \<lparr>reqMethod = ''POST'', reqUrl = u, reqBody = Some (encodeFlag ''allowed'' True)\<rparr>" "newWriter False"]
    by (simp add: allow_delete.read_reports requestOf_def postedFlag_def)
  show ?thesis
    unfolding SvcDeleteServer_def sendDeleteAllowed_def go_simps
    by (intro emits_intros) (auto simp: served split: sum.splits if_splits)
qed

text \<open>The documented behaviour of the JSON of the Kubernetes types: a value that was read is read back as itself.\<close>

fun readsBack :: "'w kube \<Rightarrow> SvcServerSpec \<Rightarrow> bool" where
  "readsBack K s \<longleftrightarrow> podSpecOf K (svcPod s) (zeroPodSpec K) = Inr (svcPod s) \<and>
     (case svcTimeOut s of None \<Rightarrow> True | Some d \<Rightarrow> d \<noteq> JNull \<and> durationOf K d (zeroDuration K) = Inr d)"

lemma readsBack_server: "readsBack K s \<Longrightarrow> decodeServerSpec K (encodeServerSpec s) (zeroServerSpec K) = Inr s"
  by (rule decodeServerSpec_encode) (auto split: option.splits)

text \<open>
  C31: The manifest of a game that the service posts, and answers with, reads back as the same manifest:
  nothing a client has set is lost on the way through the service.
\<close>

theorem game_manifest_roundtrip:
  assumes "uniqueLabels (mdLabels (Metadata x))" and "readsBack K (svcServerSpec (svcFleetSpec (Spec x)))"
  shows "decodeManifest (decodeGameTypeSpec K) (encodeManifest encodeGameTypeSpec x)
     (zeroManifest \<lparr>svcFleetSpec = zeroFleetSpec K\<rparr>) = Inr x"
proof (rule decodeManifest_encode [OF assms(1)])
  show "decodeGameTypeSpec K (encodeGameTypeSpec (Spec x)) \<lparr>svcFleetSpec = zeroFleetSpec K\<rparr> = Inr (Spec x)"
    using decodeFleetSpec_encode [OF readsBack_server [OF assms(2)]]
    by (simp add: decodeGameTypeSpec_def encodeGameTypeSpec_def key_simps)
qed

definition exampleGameManifest :: "SvcGameTypeSpec Manifest" where
  "exampleGameManifest = \<lparr>ApiVersion = ''v1'', Kind = ''gametypes'',
     Metadata = \<lparr>mdName = ''g'', mdNamespace = ''default'', mdLabels = Some [(''a'', ''b'')]\<rparr>,
     Spec = \<lparr>svcFleetSpec = \<lparr>svcServerSpec = \<lparr>svcPod = JObject [(''containers'', JArray [])],
       svcTimeOut = Some (JString ''5m0s''), svcAllowForceDelete = True\<rparr>,
       svcScaling = \<lparr>svcReplicas = 3, svcPrioritizeAllowed = True, svcAgePriority = ''oldest_first''\<rparr>\<rparr>\<rparr>\<rparr>"

theorem game_manifest_roundtrip_witness:
  "decodeManifest (decodeGameTypeSpec memKube) (encodeManifest encodeGameTypeSpec exampleGameManifest)
     (zeroManifest \<lparr>svcFleetSpec = zeroFleetSpec memKube\<rparr>) = Inr exampleGameManifest"
  by (rule game_manifest_roundtrip) (simp_all add: exampleGameManifest_def memKube_def)

end
