(* ===== verification/GoHeap.thy ===== *)
theory GoHeap
  imports Prelude "HOL-Library.Sublist"
begin

text \<open>
  Go's memory where a claim depends on what is shared. A heap is the list of its cells, an address
  is a position, and allocation appends, so that a heap that extends another has changed nothing in
  it. A struct is a value that may hold pointers and slices. The shape of a type says of its values
  whether they are well typed in a heap (\<open>fits\<close>), what they stand for (\<open>means\<close>) and which cells that
  depends on (\<open>reach\<close>). The contract of a copy (the locale \<open>deep_copier\<close>) is that it only allocates,
  and gives a well-typed value that stands for the same and reaches new cells only; the contract is
  composed along the structure of a type.
\<close>

section \<open>Cells\<close>

type_synonym addr = nat
type_synonym 'c heap = "'c list"

definition alloc :: "'c \<Rightarrow> ('c heap, addr) state" where
  "alloc c = State (\<lambda>h. (length h, h @ [c]))"

definition load :: "addr \<Rightarrow> ('c heap, 'c) state" where
  "load a = State (\<lambda>h. (h ! a, h))"

definition store :: "addr \<Rightarrow> 'c \<Rightarrow> ('c heap, unit) state" where
  "store a c = State (\<lambda>h. ((), h[a := c]))"

lemma run_state_heap [simp]:
  "run_state (alloc c) h = (length h, h @ [c])"
  "run_state (load a) h = (h ! a, h)"
  "run_state (store a c) h = ((), h[a := c])"
  by (simp_all add: alloc_def load_def store_def)

text \<open>Two heaps hold the same at addresses that both have.\<close>

definition agree :: "addr set \<Rightarrow> 'c heap \<Rightarrow> 'c heap \<Rightarrow> bool" where
  "agree S h h' \<longleftrightarrow> (\<forall>a\<in>S. a < length h \<and> a < length h' \<and> h' ! a = h ! a)"

lemma agree_mono: "agree S h h' \<Longrightarrow> T \<subseteq> S \<Longrightarrow> agree T h h'"
  by (auto simp: agree_def)

lemma agree_Un [simp]: "agree (S \<union> T) h h' \<longleftrightarrow> agree S h h' \<and> agree T h h'"
  by (auto simp: agree_def)

lemma agree_insert [simp]:
  "agree (insert a S) h h' \<longleftrightarrow> a < length h \<and> a < length h' \<and> h' ! a = h ! a \<and> agree S h h'"
  by (auto simp: agree_def)

lemma agree_UN [simp]: "agree (\<Union>x\<in>A. f x) h h' \<longleftrightarrow> (\<forall>x\<in>A. agree (f x) h h')"
  by (auto simp: agree_def)

lemma agree_prefix: "prefix h h' \<Longrightarrow> S \<subseteq> {..<length h} \<Longrightarrow> agree S h h'"
  by (auto simp: agree_def nth_append elim!: prefixE)

lemma agree_store: "S \<subseteq> {..<length h} \<Longrightarrow> a \<notin> S \<Longrightarrow> agree S h (h[a := c])"
  unfolding agree_def by (metis lessThan_iff length_list_update nth_list_update_neq subset_iff)

lemma prefix_store: "prefix h h' \<Longrightarrow> length h \<le> a \<Longrightarrow> prefix h (h'[a := c])"
  by (auto simp: list_update_append elim!: prefixE)

lemma prefix_nth: "prefix h h' \<Longrightarrow> a < length h \<Longrightarrow> h' ! a = h ! a"
  by (auto simp: nth_append elim!: prefixE)

section \<open>Shapes\<close>

record ('c, 'a, 'v) shape =
  fits :: "'c heap \<Rightarrow> 'a \<Rightarrow> bool"
  means :: "'c heap \<Rightarrow> 'a \<Rightarrow> 'v"
  reach :: "'c heap \<Rightarrow> 'a \<Rightarrow> addr set"

text \<open>The cells that hold a value of one type.\<close>

record ('c, 'a) kind =
  holds :: "'c \<Rightarrow> bool"
  content :: "'c \<Rightarrow> 'a"
  cell :: "'a \<Rightarrow> 'c"

definition kindOk :: "('c, 'a) kind \<Rightarrow> bool" where
  "kindOk K \<longleftrightarrow> (\<forall>x. holds K (cell K x) \<and> content K (cell K x) = x)"

lemma kindOkD [simp]: "kindOk K \<Longrightarrow> holds K (cell K x)" "kindOk K \<Longrightarrow> content K (cell K x) = x"
  by (simp_all add: kindOk_def)

text \<open>A value without addresses.\<close>

definition valueShape :: "('a \<Rightarrow> 'v) \<Rightarrow> ('c, 'a, 'v) shape" where
  "valueShape f = \<lparr>fits = (\<lambda>h x. True), means = (\<lambda>h x. f x), reach = (\<lambda>h x. {})\<rparr>"

text \<open>A pointer, nil or to a value of a type.\<close>

definition ptrShape :: "('c, 'a) kind \<Rightarrow> ('c, 'a, 'v) shape \<Rightarrow> ('c, addr option, 'v option) shape" where
  "ptrShape K S = \<lparr>
     fits = (\<lambda>h p. case p of None \<Rightarrow> True
       | Some a \<Rightarrow> a < length h \<and> holds K (h ! a) \<and> fits S h (content K (h ! a))),
     means = (\<lambda>h p. case p of None \<Rightarrow> None | Some a \<Rightarrow> Some (means S h (content K (h ! a)))),
     reach = (\<lambda>h p. case p of None \<Rightarrow> {} | Some a \<Rightarrow> insert a (reach S h (content K (h ! a))))\<rparr>"

text \<open>A slice, nil or a window of an array: what is between its length and its capacity is not seen.\<close>

record slice =
  array :: addr
  offset :: nat
  len :: nat
  capacity :: nat

definition window :: "slice \<Rightarrow> 'a list \<Rightarrow> 'a list" where
  "window s xs = take (len s) (drop (offset s) xs)"

definition sliceShape :: "('c, 'a list) kind \<Rightarrow> ('c, 'a, 'v) shape \<Rightarrow> ('c, slice option, 'v list option) shape" where
  "sliceShape K S = \<lparr>
     fits = (\<lambda>h p. case p of None \<Rightarrow> True | Some s \<Rightarrow> array s < length h \<and> holds K (h ! array s)
       \<and> len s \<le> capacity s \<and> offset s + capacity s \<le> length (content K (h ! array s))
       \<and> list_all (fits S h) (window s (content K (h ! array s)))),
     means = (\<lambda>h p. case p of None \<Rightarrow> None
       | Some s \<Rightarrow> Some (map (means S h) (window s (content K (h ! array s))))),
     reach = (\<lambda>h p. case p of None \<Rightarrow> {}
       | Some s \<Rightarrow> insert (array s) (\<Union>x\<in>set (window s (content K (h ! array s))). reach S h x))\<rparr>"

text \<open>Two values, and a struct over the parts of it that hold addresses.\<close>

definition pairShape :: "('c, 'a, 'v) shape \<Rightarrow> ('c, 'b, 'u) shape \<Rightarrow> ('c, 'a \<times> 'b, 'v \<times> 'u) shape" where
  "pairShape S T = \<lparr>
     fits = (\<lambda>h x. fits S h (fst x) \<and> fits T h (snd x)),
     means = (\<lambda>h x. (means S h (fst x), means T h (snd x))),
     reach = (\<lambda>h x. reach S h (fst x) \<union> reach T h (snd x))\<rparr>"

definition structShape :: "('a \<Rightarrow> 'b) \<Rightarrow> ('v \<Rightarrow> 'a \<Rightarrow> 'u) \<Rightarrow> ('c, 'b, 'v) shape \<Rightarrow> ('c, 'a, 'u) shape" where
  "structShape parts V S = \<lparr>
     fits = (\<lambda>h x. fits S h (parts x)),
     means = (\<lambda>h x. V (means S h (parts x)) x),
     reach = (\<lambda>h x. reach S h (parts x))\<rparr>"

lemmas shape_defs = valueShape_def ptrShape_def sliceShape_def pairShape_def structShape_def

section \<open>The contract of a copy\<close>

locale deep_copier =
  fixes S :: "('c, 'a, 'v) shape" and copy :: "'a \<Rightarrow> ('c heap, 'a) state"
  assumes local: "agree (reach S h x) h h' \<Longrightarrow>
      fits S h' x = fits S h x \<and> means S h' x = means S h x \<and> reach S h' x = reach S h x"
    and in_range: "fits S h x \<Longrightarrow> reach S h x \<subseteq> {..<length h}"
    and copied: "fits S h x \<Longrightarrow> run_state (copy x) h = (y, h') \<Longrightarrow> prefix h h' \<and> fits S h' y \<and>
      means S h' y = means S h x \<and> reach S h' y \<subseteq> {length h..<length h'}"
begin

lemma kept:
  assumes "fits S h x" and "prefix h h'"
  shows "fits S h' x" "means S h' x = means S h x" "reach S h' x = reach S h x"
  using local [OF agree_prefix [OF assms(2) in_range [OF assms(1)]]] assms(1) by simp_all

lemma stored:
  assumes "fits S h x" and "a \<notin> reach S h x"
  shows "fits S (h[a := c]) x" "means S (h[a := c]) x = means S h x" "reach S (h[a := c]) x = reach S h x"
  using local [OF agree_store [OF in_range [OF assms(1)] assms(2)]] assms(1) by simp_all

lemma apart:
  assumes "fits S h x" and "run_state (copy x) h = (y, h')"
  shows "reach S h' x \<inter> reach S h' y = {}"
proof -
  from copied [OF assms] have h: "prefix h h'" and y: "reach S h' y \<subseteq> {length h..<length h'}" by simp_all
  from kept(3) [OF assms(1) h] in_range [OF assms(1)] have "reach S h' x \<subseteq> {..<length h}" by simp
  with y show ?thesis by fastforce
qed

text \<open>
  Whatever is done to the cells of the copy, the original stands for what it stood for, and the
  other way round.
\<close>

lemma original_isolated:
  assumes "fits S h x" and "run_state (copy x) h = (y, h')" and "agree ({..<length h'} - reach S h' y) h' h''"
  shows "means S h'' x = means S h x"
proof -
  from copied [OF assms(1,2)] have "prefix h h'" by simp
  note x = kept [OF assms(1) this]
  from apart [OF assms(1,2)] in_range [OF x(1)]
  have "reach S h' x \<subseteq> {..<length h'} - reach S h' y" by auto
  from local [OF agree_mono [OF assms(3) this]] x(2) show ?thesis by simp
qed

lemma copy_isolated:
  assumes "fits S h x" and "run_state (copy x) h = (y, h')" and "agree ({..<length h'} - reach S h' x) h' h''"
  shows "means S h'' y = means S h x"
proof -
  from copied [OF assms(1,2)] have y: "fits S h' y" "means S h' y = means S h x" by simp_all
  from apart [OF assms(1,2)] in_range [OF y(1)]
  have "reach S h' y \<subseteq> {..<length h'} - reach S h' x" by auto
  from local [OF agree_mono [OF assms(3) this]] y(2) show ?thesis by simp
qed

text \<open>
  A copy made after the allocation of a cell and written into that cell.
\<close>

lemma copied_into:
  assumes "fits S h x" and "prefix h h1" and "b < length h1" and "run_state (copy x) h1 = (y, h2)"
  shows "prefix h1 h2" "fits S (h2[b := c]) y" "means S (h2[b := c]) y = means S h x"
    "reach S (h2[b := c]) y \<subseteq> {length h1..<length h2}"
proof -
  note x = kept [OF assms(1,2)]
  from copied [OF x(1) assms(4)] x(2) show "prefix h1 h2" by simp
  from copied [OF x(1) assms(4)] x(2)
  have y: "fits S h2 y" "means S h2 y = means S h x" "reach S h2 y \<subseteq> {length h1..<length h2}" by simp_all
  with assms(3) have "b \<notin> reach S h2 y" by auto
  from stored [OF y(1) this] y show "fits S (h2[b := c]) y" "means S (h2[b := c]) y = means S h x"
    "reach S (h2[b := c]) y \<subseteq> {length h1..<length h2}" by simp_all
qed

end

section \<open>Copies of parts\<close>

text \<open>A value without addresses is copied by assignment.\<close>

lemma deep_copier_value: "deep_copier (valueShape f) return"
  by unfold_locales (auto simp: valueShape_def)

text \<open>\<open>new(T)\<close>, which is zeroed, and the copy of the value behind the pointer written into it.\<close>

definition newCopy :: "('c, 'a) kind \<Rightarrow> 'a \<Rightarrow> ('a \<Rightarrow> ('c heap, 'a) state) \<Rightarrow> addr option
    \<Rightarrow> ('c heap, addr option) state" where
  "newCopy K zero DeepCopyInto p = (case p of None \<Rightarrow> return None | Some a \<Rightarrow> do {
     out \<leftarrow> alloc (cell K zero);
     c \<leftarrow> load a;
     y \<leftarrow> DeepCopyInto (content K c);
     store out (cell K y);
     return (Some out)
   })"

lemma deep_copier_new:
  assumes K: "kindOk K" and C: "deep_copier S copy"
  shows "deep_copier (ptrShape K S) (newCopy K zero copy)"
proof
  fix h h' :: "'a list" and x
  assume "agree (reach (ptrShape K S) h x) h h'"
  then show "fits (ptrShape K S) h' x = fits (ptrShape K S) h x \<and>
      means (ptrShape K S) h' x = means (ptrShape K S) h x \<and> reach (ptrShape K S) h' x = reach (ptrShape K S) h x"
    using deep_copier.local [OF C] by (cases x) (auto simp: ptrShape_def)
next
  fix h :: "'a list" and x
  assume "fits (ptrShape K S) h x"
  then show "reach (ptrShape K S) h x \<subseteq> {..<length h}"
    using deep_copier.in_range [OF C] by (cases x) (auto simp: ptrShape_def)
next
  fix h h' :: "'a list" and p q
  assume fits: "fits (ptrShape K S) h p" and run: "run_state (newCopy K zero copy p) h = (q, h')"
  show "prefix h h' \<and> fits (ptrShape K S) h' q \<and> means (ptrShape K S) h' q = means (ptrShape K S) h p \<and>
      reach (ptrShape K S) h' q \<subseteq> {length h..<length h'}"
  proof (cases p)
    case None
    with run show ?thesis by (auto simp: newCopy_def ptrShape_def)
  next
    case (Some a)
    let ?h1 = "h @ [cell K zero]"
    from fits Some have a: "a < length h" "fits S h (content K (h ! a))" by (auto simp: ptrShape_def)
    obtain y h2 where y: "run_state (copy (content K (h ! a))) ?h1 = (y, h2)" by force
    from run Some a y have q: "q = Some (length h)" "h' = h2[length h := cell K y]"
      by (auto simp: newCopy_def nth_append)
    have "prefix h ?h1" "length h < length ?h1" by simp_all
    note copied = deep_copier.copied_into [OF C a(2) this y]
    from copied(1) have "length h < length h2" "prefix h h2" by (auto elim!: prefixE)
    with copied(2,3) copied(4) [of "cell K y"] K show ?thesis
      by (auto simp: q Some ptrShape_def intro: prefix_store)
  qed
qed

text \<open>One part after the other, and a struct whose parts are replaced by their copies.\<close>

definition copyBoth :: "('a \<Rightarrow> ('c heap, 'a) state) \<Rightarrow> ('b \<Rightarrow> ('c heap, 'b) state) \<Rightarrow> 'a \<times> 'b
    \<Rightarrow> ('c heap, 'a \<times> 'b) state" where
  "copyBoth f g x = do { a \<leftarrow> f (fst x); b \<leftarrow> g (snd x); return (a, b) }"

lemma deep_copier_pair:
  assumes 1: "deep_copier S c1" and 2: "deep_copier T c2"
  shows "deep_copier (pairShape S T) (copyBoth c1 c2)"
proof
  fix h h' :: "'a list" and x
  assume "agree (reach (pairShape S T) h x) h h'"
  then show "fits (pairShape S T) h' x = fits (pairShape S T) h x \<and>
      means (pairShape S T) h' x = means (pairShape S T) h x \<and> reach (pairShape S T) h' x = reach (pairShape S T) h x"
    using deep_copier.local [OF 1, of h "fst x" h'] deep_copier.local [OF 2, of h "snd x" h']
    by (simp add: pairShape_def)
next
  fix h :: "'a list" and x
  assume "fits (pairShape S T) h x"
  then show "reach (pairShape S T) h x \<subseteq> {..<length h}"
    using deep_copier.in_range [OF 1] deep_copier.in_range [OF 2] by (simp add: pairShape_def)
next
  fix h h' :: "'a list" and x y
  assume fits: "fits (pairShape S T) h x" and run: "run_state (copyBoth c1 c2 x) h = (y, h')"
  obtain a h1 where a: "run_state (c1 (fst x)) h = (a, h1)" by force
  obtain b h2 where b: "run_state (c2 (snd x)) h1 = (b, h2)" by force
  from run a b have y: "y = (a, b)" "h' = h2" by (simp_all add: copyBoth_def)
  from fits have x: "fits S h (fst x)" "fits T h (snd x)" by (simp_all add: pairShape_def)
  from deep_copier.copied [OF 1 x(1) a]
  have A: "prefix h h1" "fits S h1 a" "means S h1 a = means S h (fst x)" "reach S h1 a \<subseteq> {length h..<length h1}"
    by simp_all
  note x2 = deep_copier.kept [OF 2 x(2) A(1)]
  from deep_copier.copied [OF 2 x2(1) b] x2(2)
  have B: "prefix h1 h2" "fits T h2 b" "means T h2 b = means T h (snd x)" "reach T h2 b \<subseteq> {length h1..<length h2}"
    by simp_all
  note A2 = deep_copier.kept [OF 1 A(2) B(1)]
  from A(1) B(1) have "prefix h h2" "length h \<le> length h1" "length h1 \<le> length h2"
    by (auto dest: prefix_length_le prefix_order.trans)
  with A A2 B show "prefix h h' \<and> fits (pairShape S T) h' y \<and> means (pairShape S T) h' y = means (pairShape S T) h x \<and>
      reach (pairShape S T) h' y \<subseteq> {length h..<length h'}"
    by (auto simp: pairShape_def y)
qed

lemma deep_copier_struct:
  assumes C: "deep_copier S c" and "\<And>a x. parts (put a x) = a" and "\<And>v a x. V v (put a x) = V v x"
    and "\<And>x. copy x = do { a \<leftarrow> c (parts x); return (put a x) }"
  shows "deep_copier (structShape parts V S) copy"
proof
  fix h h' :: "'a list" and x
  assume "agree (reach (structShape parts V S) h x) h h'"
  then show "fits (structShape parts V S) h' x = fits (structShape parts V S) h x \<and>
      means (structShape parts V S) h' x = means (structShape parts V S) h x \<and>
      reach (structShape parts V S) h' x = reach (structShape parts V S) h x"
    using deep_copier.local [OF C] by (simp add: structShape_def)
next
  fix h :: "'a list" and x
  assume "fits (structShape parts V S) h x"
  then show "reach (structShape parts V S) h x \<subseteq> {..<length h}"
    using deep_copier.in_range [OF C] by (simp add: structShape_def)
next
  fix h h' :: "'a list" and x y
  assume "fits (structShape parts V S) h x" and run: "run_state (copy x) h = (y, h')"
  then have fits: "fits S h (parts x)" by (simp add: structShape_def)
  obtain a h1 where a: "run_state (c (parts x)) h = (a, h1)" by force
  with run have "y = put a x" "h' = h1" by (simp_all add: assms(4))
  with deep_copier.copied [OF C fits a]
  show "prefix h h' \<and> fits (structShape parts V S) h' y \<and>
      means (structShape parts V S) h' y = means (structShape parts V S) h x \<and>
      reach (structShape parts V S) h' y \<subseteq> {length h..<length h'}"
    by (simp add: structShape_def assms(2,3))
qed

section \<open>Copies of slices\<close>

text \<open>\<open>make([]T, len(*in))\<close>, and \<open>for i := range *in { (*in)[i].DeepCopyInto(&(*out)[i]) }\<close>.\<close>

fun copyElems :: "('c, 'a list) kind \<Rightarrow> ('a \<Rightarrow> ('c heap, 'a) state) \<Rightarrow> slice \<Rightarrow> addr \<Rightarrow> nat \<Rightarrow> nat
    \<Rightarrow> ('c heap, unit) state" where
  "copyElems K DeepCopyInto s out i 0 = return ()"
| "copyElems K DeepCopyInto s out i (Suc left) = do {
     xs \<leftarrow> load (array s);
     y \<leftarrow> DeepCopyInto (content K xs ! (offset s + i));
     ys \<leftarrow> load out;
     store out (cell K ((content K ys)[i := y]));
     copyElems K DeepCopyInto s out (Suc i) left
   }"

definition copySlice :: "('c, 'a list) kind \<Rightarrow> 'a \<Rightarrow> ('a \<Rightarrow> ('c heap, 'a) state) \<Rightarrow> slice option
    \<Rightarrow> ('c heap, slice option) state" where
  "copySlice K zero DeepCopyInto p = (case p of None \<Rightarrow> return None | Some s \<Rightarrow> do {
     out \<leftarrow> alloc (cell K (replicate (len s) zero));
     copyElems K DeepCopyInto s out 0 (len s);
     return (Some \<lparr>array = out, offset = 0, len = len s, capacity = len s\<rparr>)
   })"

text \<open>
  \<open>append(s, x)\<close> writes into the array of the slice when there is room behind its last element, and
  makes a new array otherwise (of a capacity that the language leaves open; here the smallest). A
  copied slice has no such room, so an \<open>append\<close> to it writes no cell that anybody else sees.
\<close>

definition appendSlice :: "('c, 'a list) kind \<Rightarrow> slice option \<Rightarrow> 'a \<Rightarrow> ('c heap, slice option) state" where
  "appendSlice K p x = (case p of
     None \<Rightarrow> do {
       a \<leftarrow> alloc (cell K [x]);
       return (Some \<lparr>array = a, offset = 0, len = 1, capacity = 1\<rparr>)
     }
   | Some s \<Rightarrow> do {
       c \<leftarrow> load (array s);
       if len s < capacity s then do {
         store (array s) (cell K ((content K c)[offset s + len s := x]));
         return (Some (s\<lparr>len := len s + 1\<rparr>))
       } else do {
         a \<leftarrow> alloc (cell K (window s (content K c) @ [x]));
         return (Some \<lparr>array = a, offset = 0, len = len s + 1, capacity = len s + 1\<rparr>)
       }
     })"

lemma copySlice_full: "run_state (copySlice K zero copy p) h = (Some s, h') \<Longrightarrow> capacity s = len s"
  by (auto simp: copySlice_def split: option.splits prod.splits)

lemma append_to_copy:
  assumes "run_state (copySlice K zero copy p) h = (q, h1)" and "run_state (appendSlice K q x) h1 = (r, h2)"
  shows "prefix h1 h2"
proof (cases q)
  case None
  with assms(2) show ?thesis by (auto simp: appendSlice_def)
next
  case (Some s)
  from copySlice_full [OF assms(1) [unfolded Some]] have "capacity s = len s" .
  with assms(2) Some show ?thesis by (auto simp: appendSlice_def)
qed

text \<open>The elements written so far, in the array at \<open>out\<close>.\<close>

definition elemsCopied :: "('c, 'a list) kind \<Rightarrow> ('c, 'a, 'v) shape \<Rightarrow> 'c heap \<Rightarrow> 'a list \<Rightarrow> nat \<Rightarrow> 'c heap \<Rightarrow> bool" where
  "elemsCopied K S h xs i h' \<longleftrightarrow> prefix h h' \<and> length h < length h' \<and>
     (\<exists>ys. h' ! length h = cell K ys \<and> length ys = length xs \<and> (\<forall>j<i.
        fits S h' (ys ! j) \<and> means S h' (ys ! j) = means S h (xs ! j) \<and>
        reach S h' (ys ! j) \<subseteq> {length h<..<length h'}))"

lemma elemsCopied_step:
  assumes K: "kindOk K" and C: "deep_copier S copy" and inv: "elemsCopied K S h xs i h1"
    and i: "i < length xs" and x: "fits S h (xs ! i)" and run: "run_state (copy (xs ! i)) h1 = (y, h2)"
  shows "elemsCopied K S h xs (Suc i) (h2[length h := cell K ((content K (h2 ! length h))[i := y])])"
proof -
  let ?b = "length h"
  from inv obtain ys where h1: "prefix h h1" "?b < length h1" and ys: "h1 ! ?b = cell K ys" "length ys = length xs"
    and prev: "\<And>j. j < i \<Longrightarrow> fits S h1 (ys ! j)" "\<And>j. j < i \<Longrightarrow> means S h1 (ys ! j) = means S h (xs ! j)"
      "\<And>j. j < i \<Longrightarrow> reach S h1 (ys ! j) \<subseteq> {?b<..<length h1}"
    unfolding elemsCopied_def by auto
  note new = deep_copier.copied_into [OF C x h1 run]
  have len: "length h1 \<le> length h2" using new(1) by (rule prefix_length_le)
  have h2: "h2 ! ?b = cell K ys" using prefix_nth [OF new(1) h1(2)] ys(1) by simp
  let ?h3 = "h2[?b := cell K (ys[i := y])]"
  have old: "fits S ?h3 (ys ! j) \<and> means S ?h3 (ys ! j) = means S h (xs ! j) \<and>
      reach S ?h3 (ys ! j) \<subseteq> {?b<..<length ?h3}" if "j < i" for j
  proof -
    note k = deep_copier.kept [OF C prev(1) [OF that] new(1)]
    from k(3) prev(3) [OF that] have "?b \<notin> reach S h2 (ys ! j)" by auto
    from deep_copier.stored [OF C k(1) this] k prev(2,3) [OF that] len show ?thesis by auto
  qed
  have "prefix h ?h3" using h1(1) new(1) by (auto intro: prefix_store dest: prefix_order.trans)
  moreover have "fits S ?h3 (ys[i := y] ! j) \<and> means S ?h3 (ys[i := y] ! j) = means S h (xs ! j) \<and>
      reach S ?h3 (ys[i := y] ! j) \<subseteq> {?b<..<length ?h3}" if "j < Suc i" for j
  proof (cases "j = i")
    case True
    with new(2,3) new(4) [of "cell K (ys[i := y])"] h1(2) i ys(2) show ?thesis by auto
  next
    case False
    with old [of j] that show ?thesis by simp
  qed
  ultimately show ?thesis
    using h1(2) len ys(2) K unfolding elemsCopied_def by (intro conjI exI [of _ "ys[i := y]"]) (auto simp: h2)
qed

lemma elemsCopied_loop:
  assumes K: "kindOk K" and C: "deep_copier S copy" and s: "array s < length h"
    and xs: "xs = window s (content K (h ! array s))" "offset s + len s \<le> length (content K (h ! array s))"
    and fits: "list_all (fits S h) xs"
  shows "elemsCopied K S h xs i h1 \<Longrightarrow> i + left = len s \<Longrightarrow>
    elemsCopied K S h xs (len s) (snd (run_state (copyElems K copy s (length h) i left) h1))"
proof (induction left arbitrary: i h1)
  case (Suc left)
  from xs have len: "length xs = len s" by (simp add: window_def)
  with Suc.prems(2) have i: "i < length xs" by simp
  from Suc.prems(1) have "h1 ! array s = h ! array s" by (auto simp: elemsCopied_def prefix_nth s)
  with xs i have x: "content K (h1 ! array s) ! (offset s + i) = xs ! i" by (simp add: window_def)
  obtain y h2 where y: "run_state (copy (xs ! i)) h1 = (y, h2)" by force
  from fits i have "fits S h (xs ! i)" by (simp add: list_all_length)
  from Suc.IH [OF elemsCopied_step [OF K C Suc.prems(1) i this y]] Suc.prems(2) show ?case
    by (simp add: x y)
qed simp

lemma deep_copier_slice:
  assumes K: "kindOk K" and C: "deep_copier S copy"
  shows "deep_copier (sliceShape K S) (copySlice K zero copy)"
proof
  fix h h' :: "'a list" and p
  assume "agree (reach (sliceShape K S) h p) h h'"
  then show "fits (sliceShape K S) h' p = fits (sliceShape K S) h p \<and>
      means (sliceShape K S) h' p = means (sliceShape K S) h p \<and> reach (sliceShape K S) h' p = reach (sliceShape K S) h p"
    using deep_copier.local [OF C, of h _ h'] by (cases p) (auto simp: sliceShape_def list_all_iff)
next
  fix h :: "'a list" and p
  assume "fits (sliceShape K S) h p"
  then show "reach (sliceShape K S) h p \<subseteq> {..<length h}"
    using deep_copier.in_range [OF C, of h] by (cases p) (auto simp: sliceShape_def list_all_iff)
next
  fix h h' :: "'a list" and p q
  assume fits: "fits (sliceShape K S) h p" and run: "run_state (copySlice K zero copy p) h = (q, h')"
  show "prefix h h' \<and> fits (sliceShape K S) h' q \<and> means (sliceShape K S) h' q = means (sliceShape K S) h p \<and>
      reach (sliceShape K S) h' q \<subseteq> {length h..<length h'}"
  proof (cases p)
    case None
    with run show ?thesis by (auto simp: copySlice_def sliceShape_def)
  next
    case (Some s)
    let ?xs = "window s (content K (h ! array s))" and ?h1 = "h @ [cell K (replicate (len s) zero)]"
    from fits Some have s: "array s < length h" "offset s + len s \<le> length (content K (h ! array s))"
      and all: "list_all (fits S h) ?xs" by (auto simp: sliceShape_def)
    from run Some have q: "q = Some \<lparr>array = length h, offset = 0, len = len s, capacity = len s\<rparr>"
      "h' = snd (run_state (copyElems K copy s (length h) 0 (len s)) ?h1)"
      by (auto simp: copySlice_def split: prod.splits)
    have len: "length ?xs = len s" using s by (simp add: window_def)
    then have "elemsCopied K S h ?xs 0 ?h1" by (auto simp: elemsCopied_def)
    from elemsCopied_loop [OF K C s(1) refl s(2) all this, of "len s"]
    obtain ys where h': "prefix h h'" "length h < length h'" and ys: "h' ! length h = cell K ys" "length ys = len s"
      and each: "\<And>j. j < len s \<Longrightarrow> fits S h' (ys ! j) \<and> means S h' (ys ! j) = means S h (?xs ! j) \<and>
        reach S h' (ys ! j) \<subseteq> {length h<..<length h'}"
      by (auto simp: elemsCopied_def q(2) len)
    have "list_all (fits S h') ys" using each ys(2) by (simp add: list_all_length)
    moreover have "map (means S h') ys = map (means S h) ?xs"
      using each ys(2) len by (auto intro: nth_equalityI)
    moreover have "(\<Union>x\<in>set ys. reach S h' x) \<subseteq> {length h<..<length h'}"
      using each ys(2) by (fastforce simp: in_set_conv_nth)
    ultimately show ?thesis using h' ys K by (auto simp: q(1) Some sliceShape_def window_def)
  qed
qed

end
