(* ===== verification/DeepCopy.thy ===== *)
theory DeepCopy
  imports Objects GoHeap
begin

text \<open>
  \<open>operator/api/v1alpha1/zz_generated.deepcopy.go\<close>: the deep copies by which the client library
  hands out and caches the resources. The structs of the API are given here as they lie in memory,
  with their pointers and slices, over an opaque struct \<open>'x\<close> for the Kubernetes types they embed
  (ObjectMeta, ListMeta, PodSpec, Condition), whose own copies are code outside the repository. The
  shape of each struct reads it back as the record of \<open>Objects\<close> that the controllers are modelled
  over, so that the contract of the copies is what justifies values in place of pointers there.
\<close>

section \<open>The structs in memory\<close>

record TypeMeta =
  typeKind :: string
  typeAPIVersion :: string

record 'x goServerSpec =
  spec_Pod :: 'x
  spec_TimeOut :: "addr option"
  spec_AllowForceDelete :: bool

record goServerStatus =
  server_Conditions :: "slice option"

record 'x goServer =
  server_TypeMeta :: TypeMeta
  server_ObjectMeta :: 'x
  server_Spec :: "'x goServerSpec"
  server_Status :: goServerStatus

record 'x goFleetSpec =
  fleet_ServerSpec :: "'x goServerSpec"
  fleet_Scaling :: FleetScaling

record goFleetStatus =
  fleet_Conditions :: "slice option"
  fleet_CurrentReplicas :: int32

record 'x goFleet =
  fleet_TypeMeta :: TypeMeta
  fleet_ObjectMeta :: 'x
  fleet_Spec :: "'x goFleetSpec"
  fleet_Status :: goFleetStatus

record 'x goGameTypeSpec =
  game_FleetSpec :: "'x goFleetSpec"

record goGameTypeStatus =
  game_Conditions :: "slice option"
  game_CurrentFleetName :: string
  game_CurrentFleetReplicas :: int32

record 'x goGameType =
  game_TypeMeta :: TypeMeta
  game_ObjectMeta :: 'x
  game_Spec :: "'x goGameTypeSpec"
  game_Status :: goGameTypeStatus

record goWebhookAutoscalerSpec =
  hook_Url :: "addr option"
  hook_Path :: "addr option"
  hook_Service :: "addr option"

record goAutoscalePolicy =
  policy_Type :: string
  policy_WebhookAutoscalerSpec :: goWebhookAutoscalerSpec

record goSync =
  sync_Type :: string
  sync_Time :: "addr option"

record goGameAutoscalerSpec =
  scaler_GameName :: string
  scaler_AutoscalePolicy :: goAutoscalePolicy
  scaler_Sync :: goSync

text \<open>\<open>GameAutoscalerStatus\<close> has no fields.\<close>

type_synonym goGameAutoscalerStatus = unit

record 'x goGameAutoscaler =
  scaler_TypeMeta :: TypeMeta
  scaler_ObjectMeta :: 'x
  scaler_Spec :: goGameAutoscalerSpec
  scaler_Status :: goGameAutoscalerStatus

record 'x goServerList =
  servers_TypeMeta :: TypeMeta
  servers_ListMeta :: 'x
  servers_Items :: "slice option"

record 'x goFleetList =
  fleets_TypeMeta :: TypeMeta
  fleets_ListMeta :: 'x
  fleets_Items :: "slice option"

record 'x goGameTypeList =
  games_TypeMeta :: TypeMeta
  games_ListMeta :: 'x
  games_Items :: "slice option"

record 'x goGameAutoscalerList =
  scalers_TypeMeta :: TypeMeta
  scalers_ListMeta :: 'x
  scalers_Items :: "slice option"

section \<open>Cells\<close>

text \<open>A cell holds a value of one Go type, or (\<open>'o\<close>) something of the embedded Kubernetes types.
\<close>

datatype (plugins only: code) ('x, 'o) memcell =
    DurationCell "duration"
  | StringCell "string"
  | ConditionsCell "'x list"
  | ServersCell "'x goServer list"
  | FleetsCell "'x goFleet list"
  | GameTypesCell "'x goGameType list"
  | AutoscalersCell "'x goGameAutoscaler list"
  | AutoscalePolicyCell "goAutoscalePolicy"
  | FleetCell "'x goFleet"
  | FleetListCell "'x goFleetList"
  | FleetScalingCell "FleetScaling"
  | FleetSpecCell "'x goFleetSpec"
  | FleetStatusCell "goFleetStatus"
  | GameAutoscalerCell "'x goGameAutoscaler"
  | GameAutoscalerListCell "'x goGameAutoscalerList"
  | GameAutoscalerSpecCell "goGameAutoscalerSpec"
  | GameAutoscalerStatusCell "goGameAutoscalerStatus"
  | GameTypeCell "'x goGameType"
  | GameTypeListCell "'x goGameTypeList"
  | GameTypeSpecCell "'x goGameTypeSpec"
  | GameTypeStatusCell "goGameTypeStatus"
  | ServerCell "'x goServer"
  | ServerListCell "'x goServerList"
  | ServerSpecCell "'x goServerSpec"
  | ServerStatusCell "goServerStatus"
  | ServiceCell "Service"
  | SyncCell "goSync"
  | WebhookAutoscalerSpecCell "goWebhookAutoscalerSpec"
  | OutsideCell 'o

type_synonym ('x, 'o) mem = "('x, 'o) memcell heap"
type_synonym ('x, 'o, 'a) copier = "'a \<Rightarrow> (('x, 'o) mem, 'a) state"

definition durationKind :: "(('x, 'o) memcell, duration) kind" where
  "durationKind = \<lparr>holds = (\<lambda>c. case c of DurationCell _ \<Rightarrow> True | _ \<Rightarrow> False),
     content = (\<lambda>c. case c of DurationCell x \<Rightarrow> x), cell = DurationCell\<rparr>"

definition stringKind :: "(('x, 'o) memcell, string) kind" where
  "stringKind = \<lparr>holds = (\<lambda>c. case c of StringCell _ \<Rightarrow> True | _ \<Rightarrow> False),
     content = (\<lambda>c. case c of StringCell x \<Rightarrow> x), cell = StringCell\<rparr>"

definition conditionsKind :: "(('x, 'o) memcell, 'x list) kind" where
  "conditionsKind = \<lparr>holds = (\<lambda>c. case c of ConditionsCell _ \<Rightarrow> True | _ \<Rightarrow> False),
     content = (\<lambda>c. case c of ConditionsCell x \<Rightarrow> x), cell = ConditionsCell\<rparr>"

definition serversKind :: "(('x, 'o) memcell, 'x goServer list) kind" where
  "serversKind = \<lparr>holds = (\<lambda>c. case c of ServersCell _ \<Rightarrow> True | _ \<Rightarrow> False),
     content = (\<lambda>c. case c of ServersCell x \<Rightarrow> x), cell = ServersCell\<rparr>"

definition fleetsKind :: "(('x, 'o) memcell, 'x goFleet list) kind" where
  "fleetsKind = \<lparr>holds = (\<lambda>c. case c of FleetsCell _ \<Rightarrow> True | _ \<Rightarrow> False),
     content = (\<lambda>c. case c of FleetsCell x \<Rightarrow> x), cell = FleetsCell\<rparr>"

definition gameTypesKind :: "(('x, 'o) memcell, 'x goGameType list) kind" where
  "gameTypesKind = \<lparr>holds = (\<lambda>c. case c of GameTypesCell _ \<Rightarrow> True | _ \<Rightarrow> False),
     content = (\<lambda>c. case c of GameTypesCell x \<Rightarrow> x), cell = GameTypesCell\<rparr>"

definition autoscalersKind :: "(('x, 'o) memcell, 'x goGameAutoscaler list) kind" where
  "autoscalersKind = \<lparr>holds = (\<lambda>c. case c of AutoscalersCell _ \<Rightarrow> True | _ \<Rightarrow> False),
     content = (\<lambda>c. case c of AutoscalersCell x \<Rightarrow> x), cell = AutoscalersCell\<rparr>"

definition autoscalePolicyKind :: "(('x, 'o) memcell, goAutoscalePolicy) kind" where
  "autoscalePolicyKind = \<lparr>holds = (\<lambda>c. case c of AutoscalePolicyCell _ \<Rightarrow> True | _ \<Rightarrow> False),
     content = (\<lambda>c. case c of AutoscalePolicyCell x \<Rightarrow> x), cell = AutoscalePolicyCell\<rparr>"

definition fleetKind :: "(('x, 'o) memcell, 'x goFleet) kind" where
  "fleetKind = \<lparr>holds = (\<lambda>c. case c of FleetCell _ \<Rightarrow> True | _ \<Rightarrow> False),
     content = (\<lambda>c. case c of FleetCell x \<Rightarrow> x), cell = FleetCell\<rparr>"

definition fleetListKind :: "(('x, 'o) memcell, 'x goFleetList) kind" where
  "fleetListKind = \<lparr>holds = (\<lambda>c. case c of FleetListCell _ \<Rightarrow> True | _ \<Rightarrow> False),
     content = (\<lambda>c. case c of FleetListCell x \<Rightarrow> x), cell = FleetListCell\<rparr>"

definition fleetScalingKind :: "(('x, 'o) memcell, FleetScaling) kind" where
  "fleetScalingKind = \<lparr>holds = (\<lambda>c. case c of FleetScalingCell _ \<Rightarrow> True | _ \<Rightarrow> False),
     content = (\<lambda>c. case c of FleetScalingCell x \<Rightarrow> x), cell = FleetScalingCell\<rparr>"

definition fleetSpecKind :: "(('x, 'o) memcell, 'x goFleetSpec) kind" where
  "fleetSpecKind = \<lparr>holds = (\<lambda>c. case c of FleetSpecCell _ \<Rightarrow> True | _ \<Rightarrow> False),
     content = (\<lambda>c. case c of FleetSpecCell x \<Rightarrow> x), cell = FleetSpecCell\<rparr>"

definition fleetStatusKind :: "(('x, 'o) memcell, goFleetStatus) kind" where
  "fleetStatusKind = \<lparr>holds = (\<lambda>c. case c of FleetStatusCell _ \<Rightarrow> True | _ \<Rightarrow> False),
     content = (\<lambda>c. case c of FleetStatusCell x \<Rightarrow> x), cell = FleetStatusCell\<rparr>"

definition gameAutoscalerKind :: "(('x, 'o) memcell, 'x goGameAutoscaler) kind" where
  "gameAutoscalerKind = \<lparr>holds = (\<lambda>c. case c of GameAutoscalerCell _ \<Rightarrow> True | _ \<Rightarrow> False),
     content = (\<lambda>c. case c of GameAutoscalerCell x \<Rightarrow> x), cell = GameAutoscalerCell\<rparr>"

definition gameAutoscalerListKind :: "(('x, 'o) memcell, 'x goGameAutoscalerList) kind" where
  "gameAutoscalerListKind = \<lparr>holds = (\<lambda>c. case c of GameAutoscalerListCell _ \<Rightarrow> True | _ \<Rightarrow> False),
     content = (\<lambda>c. case c of GameAutoscalerListCell x \<Rightarrow> x), cell = GameAutoscalerListCell\<rparr>"

definition gameAutoscalerSpecKind :: "(('x, 'o) memcell, goGameAutoscalerSpec) kind" where
  "gameAutoscalerSpecKind = \<lparr>holds = (\<lambda>c. case c of GameAutoscalerSpecCell _ \<Rightarrow> True | _ \<Rightarrow> False),
     content = (\<lambda>c. case c of GameAutoscalerSpecCell x \<Rightarrow> x), cell = GameAutoscalerSpecCell\<rparr>"

definition gameAutoscalerStatusKind :: "(('x, 'o) memcell, goGameAutoscalerStatus) kind" where
  "gameAutoscalerStatusKind = \<lparr>holds = (\<lambda>c. case c of GameAutoscalerStatusCell _ \<Rightarrow> True | _ \<Rightarrow> False),
     content = (\<lambda>c. case c of GameAutoscalerStatusCell x \<Rightarrow> x), cell = GameAutoscalerStatusCell\<rparr>"

definition gameTypeKind :: "(('x, 'o) memcell, 'x goGameType) kind" where
  "gameTypeKind = \<lparr>holds = (\<lambda>c. case c of GameTypeCell _ \<Rightarrow> True | _ \<Rightarrow> False),
     content = (\<lambda>c. case c of GameTypeCell x \<Rightarrow> x), cell = GameTypeCell\<rparr>"

definition gameTypeListKind :: "(('x, 'o) memcell, 'x goGameTypeList) kind" where
  "gameTypeListKind = \<lparr>holds = (\<lambda>c. case c of GameTypeListCell _ \<Rightarrow> True | _ \<Rightarrow> False),
     content = (\<lambda>c. case c of GameTypeListCell x \<Rightarrow> x), cell = GameTypeListCell\<rparr>"

definition gameTypeSpecKind :: "(('x, 'o) memcell, 'x goGameTypeSpec) kind" where
  "gameTypeSpecKind = \<lparr>holds = (\<lambda>c. case c of GameTypeSpecCell _ \<Rightarrow> True | _ \<Rightarrow> False),
     content = (\<lambda>c. case c of GameTypeSpecCell x \<Rightarrow> x), cell = GameTypeSpecCell\<rparr>"

definition gameTypeStatusKind :: "(('x, 'o) memcell, goGameTypeStatus) kind" where
  "gameTypeStatusKind = \<lparr>holds = (\<lambda>c. case c of GameTypeStatusCell _ \<Rightarrow> True | _ \<Rightarrow> False),
     content = (\<lambda>c. case c of GameTypeStatusCell x \<Rightarrow> x), cell = GameTypeStatusCell\<rparr>"

definition serverKind :: "(('x, 'o) memcell, 'x goServer) kind" where
  "serverKind = \<lparr>holds = (\<lambda>c. case c of ServerCell _ \<Rightarrow> True | _ \<Rightarrow> False),
     content = (\<lambda>c. case c of ServerCell x \<Rightarrow> x), cell = ServerCell\<rparr>"

definition serverListKind :: "(('x, 'o) memcell, 'x goServerList) kind" where
  "serverListKind = \<lparr>holds = (\<lambda>c. case c of ServerListCell _ \<Rightarrow> True | _ \<Rightarrow> False),
     content = (\<lambda>c. case c of ServerListCell x \<Rightarrow> x), cell = ServerListCell\<rparr>"

definition serverSpecKind :: "(('x, 'o) memcell, 'x goServerSpec) kind" where
  "serverSpecKind = \<lparr>holds = (\<lambda>c. case c of ServerSpecCell _ \<Rightarrow> True | _ \<Rightarrow> False),
     content = (\<lambda>c. case c of ServerSpecCell x \<Rightarrow> x), cell = ServerSpecCell\<rparr>"

definition serverStatusKind :: "(('x, 'o) memcell, goServerStatus) kind" where
  "serverStatusKind = \<lparr>holds = (\<lambda>c. case c of ServerStatusCell _ \<Rightarrow> True | _ \<Rightarrow> False),
     content = (\<lambda>c. case c of ServerStatusCell x \<Rightarrow> x), cell = ServerStatusCell\<rparr>"

definition serviceKind :: "(('x, 'o) memcell, Service) kind" where
  "serviceKind = \<lparr>holds = (\<lambda>c. case c of ServiceCell _ \<Rightarrow> True | _ \<Rightarrow> False),
     content = (\<lambda>c. case c of ServiceCell x \<Rightarrow> x), cell = ServiceCell\<rparr>"

definition syncKind :: "(('x, 'o) memcell, goSync) kind" where
  "syncKind = \<lparr>holds = (\<lambda>c. case c of SyncCell _ \<Rightarrow> True | _ \<Rightarrow> False),
     content = (\<lambda>c. case c of SyncCell x \<Rightarrow> x), cell = SyncCell\<rparr>"

definition webhookAutoscalerSpecKind :: "(('x, 'o) memcell, goWebhookAutoscalerSpec) kind" where
  "webhookAutoscalerSpecKind = \<lparr>holds = (\<lambda>c. case c of WebhookAutoscalerSpecCell _ \<Rightarrow> True | _ \<Rightarrow> False),
     content = (\<lambda>c. case c of WebhookAutoscalerSpecCell x \<Rightarrow> x), cell = WebhookAutoscalerSpecCell\<rparr>"

lemmas kind_defs = durationKind_def
  stringKind_def
  conditionsKind_def
  serversKind_def
  fleetsKind_def
  gameTypesKind_def
  autoscalersKind_def
  autoscalePolicyKind_def
  fleetKind_def
  fleetListKind_def
  fleetScalingKind_def
  fleetSpecKind_def
  fleetStatusKind_def
  gameAutoscalerKind_def
  gameAutoscalerListKind_def
  gameAutoscalerSpecKind_def
  gameAutoscalerStatusKind_def
  gameTypeKind_def
  gameTypeListKind_def
  gameTypeSpecKind_def
  gameTypeStatusKind_def
  serverKind_def
  serverListKind_def
  serverSpecKind_def
  serverStatusKind_def
  serviceKind_def
  syncKind_def
  webhookAutoscalerSpecKind_def

lemma kinds_ok [simp]:
  "kindOk durationKind"
  "kindOk stringKind"
  "kindOk conditionsKind"
  "kindOk serversKind"
  "kindOk fleetsKind"
  "kindOk gameTypesKind"
  "kindOk autoscalersKind"
  "kindOk autoscalePolicyKind"
  "kindOk fleetKind"
  "kindOk fleetListKind"
  "kindOk fleetScalingKind"
  "kindOk fleetSpecKind"
  "kindOk fleetStatusKind"
  "kindOk gameAutoscalerKind"
  "kindOk gameAutoscalerListKind"
  "kindOk gameAutoscalerSpecKind"
  "kindOk gameAutoscalerStatusKind"
  "kindOk gameTypeKind"
  "kindOk gameTypeListKind"
  "kindOk gameTypeSpecKind"
  "kindOk gameTypeStatusKind"
  "kindOk serverKind"
  "kindOk serverListKind"
  "kindOk serverSpecKind"
  "kindOk serverStatusKind"
  "kindOk serviceKind"
  "kindOk syncKind"
  "kindOk webhookAutoscalerSpecKind"
  by (simp_all add: kindOk_def kind_defs)

section \<open>Code outside the repository\<close>

text \<open>
  The embedded Kubernetes structs: their \<open>DeepCopyInto\<close> and their zero values. What the generated
  code relies on is that these are deep copies too (\<open>k8sDeep\<close>), for some way of reading the structs.
\<close>

record ListMeta =
  listResourceVersion :: string
  listContinue :: string
  listRemainingItemCount :: "int64 option"

record ('x, 'o) k8sCopies =
  DeepCopyInto_ObjectMeta :: "('x, 'o, 'x) copier"
  DeepCopyInto_ListMeta :: "('x, 'o, 'x) copier"
  DeepCopyInto_PodSpec :: "('x, 'o, 'x) copier"
  DeepCopyInto_Condition :: "('x, 'o, 'x) copier"
  zeroOfObjectMeta :: 'x
  zeroOfListMeta :: 'x
  zeroOfPodSpec :: 'x
  zeroOfCondition :: 'x

record ('x, 'o) k8sShapes =
  objectMetaShape :: "(('x, 'o) memcell, 'x, ObjectMeta) shape"
  listMetaShape :: "(('x, 'o) memcell, 'x, ListMeta) shape"
  podSpecShape :: "(('x, 'o) memcell, 'x, PodSpec) shape"
  conditionShape :: "(('x, 'o) memcell, 'x, Condition) shape"

definition k8sDeep :: "('x, 'o) k8sCopies \<Rightarrow> ('x, 'o) k8sShapes \<Rightarrow> bool" where
  "k8sDeep C R \<longleftrightarrow>
     deep_copier (objectMetaShape R) (DeepCopyInto_ObjectMeta C) \<and>
     deep_copier (listMetaShape R) (DeepCopyInto_ListMeta C) \<and>
     deep_copier (podSpecShape R) (DeepCopyInto_PodSpec C) \<and>
     deep_copier (conditionShape R) (DeepCopyInto_Condition C)"

section \<open>Zero values\<close>

definition zeroOfTypeMeta :: TypeMeta where
  "zeroOfTypeMeta = \<lparr>typeKind = [], typeAPIVersion = []\<rparr>"

definition zeroOfServerSpec :: "('x, 'o) k8sCopies \<Rightarrow> 'x goServerSpec" where
  "zeroOfServerSpec C = \<lparr>spec_Pod = zeroOfPodSpec C, spec_TimeOut = None, spec_AllowForceDelete = False\<rparr>"

definition zeroOfServerStatus :: goServerStatus where
  "zeroOfServerStatus = \<lparr>server_Conditions = None\<rparr>"

definition zeroOfServer :: "('x, 'o) k8sCopies \<Rightarrow> 'x goServer" where
  "zeroOfServer C = \<lparr>server_TypeMeta = zeroOfTypeMeta, server_ObjectMeta = zeroOfObjectMeta C,
     server_Spec = zeroOfServerSpec C, server_Status = zeroOfServerStatus\<rparr>"

definition zeroOfFleetScaling :: FleetScaling where
  "zeroOfFleetScaling = \<lparr>Replicas = 0, PrioritizeAllowed = False, AgePriority = []\<rparr>"

definition zeroOfFleetSpec :: "('x, 'o) k8sCopies \<Rightarrow> 'x goFleetSpec" where
  "zeroOfFleetSpec C = \<lparr>fleet_ServerSpec = zeroOfServerSpec C, fleet_Scaling = zeroOfFleetScaling\<rparr>"

definition zeroOfFleetStatus :: goFleetStatus where
  "zeroOfFleetStatus = \<lparr>fleet_Conditions = None, fleet_CurrentReplicas = 0\<rparr>"

definition zeroOfFleet :: "('x, 'o) k8sCopies \<Rightarrow> 'x goFleet" where
  "zeroOfFleet C = \<lparr>fleet_TypeMeta = zeroOfTypeMeta, fleet_ObjectMeta = zeroOfObjectMeta C,
     fleet_Spec = zeroOfFleetSpec C, fleet_Status = zeroOfFleetStatus\<rparr>"

definition zeroOfGameTypeSpec :: "('x, 'o) k8sCopies \<Rightarrow> 'x goGameTypeSpec" where
  "zeroOfGameTypeSpec C = \<lparr>game_FleetSpec = zeroOfFleetSpec C\<rparr>"

definition zeroOfGameTypeStatus :: goGameTypeStatus where
  "zeroOfGameTypeStatus = \<lparr>game_Conditions = None, game_CurrentFleetName = [], game_CurrentFleetReplicas = 0\<rparr>"

definition zeroOfGameType :: "('x, 'o) k8sCopies \<Rightarrow> 'x goGameType" where
  "zeroOfGameType C = \<lparr>game_TypeMeta = zeroOfTypeMeta, game_ObjectMeta = zeroOfObjectMeta C,
     game_Spec = zeroOfGameTypeSpec C, game_Status = zeroOfGameTypeStatus\<rparr>"

definition zeroOfService :: Service where
  "zeroOfService = \<lparr>serviceName = [], serviceNamespace = [], Port = 0\<rparr>"

definition zeroOfWebhookAutoscalerSpec :: goWebhookAutoscalerSpec where
  "zeroOfWebhookAutoscalerSpec = \<lparr>hook_Url = None, hook_Path = None, hook_Service = None\<rparr>"

definition zeroOfAutoscalePolicy :: goAutoscalePolicy where
  "zeroOfAutoscalePolicy = \<lparr>policy_Type = [], policy_WebhookAutoscalerSpec = zeroOfWebhookAutoscalerSpec\<rparr>"

definition zeroOfSync :: goSync where
  "zeroOfSync = \<lparr>sync_Type = [], sync_Time = None\<rparr>"

definition zeroOfGameAutoscalerSpec :: goGameAutoscalerSpec where
  "zeroOfGameAutoscalerSpec = \<lparr>scaler_GameName = [], scaler_AutoscalePolicy = zeroOfAutoscalePolicy,
     scaler_Sync = zeroOfSync\<rparr>"

definition zeroOfGameAutoscaler :: "('x, 'o) k8sCopies \<Rightarrow> 'x goGameAutoscaler" where
  "zeroOfGameAutoscaler C = \<lparr>scaler_TypeMeta = zeroOfTypeMeta, scaler_ObjectMeta = zeroOfObjectMeta C,
     scaler_Spec = zeroOfGameAutoscalerSpec, scaler_Status = ()\<rparr>"

definition zeroOfServerList :: "('x, 'o) k8sCopies \<Rightarrow> 'x goServerList" where
  "zeroOfServerList C = \<lparr>servers_TypeMeta = zeroOfTypeMeta, servers_ListMeta = zeroOfListMeta C, servers_Items = None\<rparr>"

definition zeroOfFleetList :: "('x, 'o) k8sCopies \<Rightarrow> 'x goFleetList" where
  "zeroOfFleetList C = \<lparr>fleets_TypeMeta = zeroOfTypeMeta, fleets_ListMeta = zeroOfListMeta C, fleets_Items = None\<rparr>"

definition zeroOfGameTypeList :: "('x, 'o) k8sCopies \<Rightarrow> 'x goGameTypeList" where
  "zeroOfGameTypeList C = \<lparr>games_TypeMeta = zeroOfTypeMeta, games_ListMeta = zeroOfListMeta C, games_Items = None\<rparr>"

definition zeroOfGameAutoscalerList :: "('x, 'o) k8sCopies \<Rightarrow> 'x goGameAutoscalerList" where
  "zeroOfGameAutoscalerList C = \<lparr>scalers_TypeMeta = zeroOfTypeMeta, scalers_ListMeta = zeroOfListMeta C,
     scalers_Items = None\<rparr>"

section \<open>The generated code\<close>

text \<open>
  \<open>in.DeepCopyInto(out)\<close> starts with \<open>*out = *in\<close> and is therefore a function of \<open>in\<close> alone; its
  result is what \<open>*out\<close> holds in the end. \<open>DeepCopy\<close> takes and returns a pointer.
\<close>

definition DeepCopyInto_Service :: "('x, 'o, Service) copier" where
  "DeepCopyInto_Service inp = return inp"

definition DeepCopy_Service :: "('x, 'o, addr option) copier" where
  "DeepCopy_Service = newCopy serviceKind zeroOfService DeepCopyInto_Service"

definition DeepCopyInto_WebhookAutoscalerSpec :: "('x, 'o, goWebhookAutoscalerSpec) copier" where
  "DeepCopyInto_WebhookAutoscalerSpec inp = do {
     let out = inp;
     url \<leftarrow> newCopy stringKind [] return (hook_Url inp);
     let out = out\<lparr>hook_Url := url\<rparr>;
     path \<leftarrow> newCopy stringKind [] return (hook_Path inp);
     let out = out\<lparr>hook_Path := path\<rparr>;
     service \<leftarrow> newCopy serviceKind zeroOfService return (hook_Service inp);
     return (out\<lparr>hook_Service := service\<rparr>)
   }"

definition DeepCopy_WebhookAutoscalerSpec :: "('x, 'o, addr option) copier" where
  "DeepCopy_WebhookAutoscalerSpec = newCopy webhookAutoscalerSpecKind zeroOfWebhookAutoscalerSpec DeepCopyInto_WebhookAutoscalerSpec"

definition DeepCopyInto_AutoscalePolicy :: "('x, 'o, goAutoscalePolicy) copier" where
  "DeepCopyInto_AutoscalePolicy inp = do {
     let out = inp;
     webhook \<leftarrow> DeepCopyInto_WebhookAutoscalerSpec (policy_WebhookAutoscalerSpec inp);
     return (out\<lparr>policy_WebhookAutoscalerSpec := webhook\<rparr>)
   }"

definition DeepCopy_AutoscalePolicy :: "('x, 'o, addr option) copier" where
  "DeepCopy_AutoscalePolicy = newCopy autoscalePolicyKind zeroOfAutoscalePolicy DeepCopyInto_AutoscalePolicy"

definition DeepCopyInto_Sync :: "('x, 'o, goSync) copier" where
  "DeepCopyInto_Sync inp = do {
     let out = inp;
     time \<leftarrow> newCopy durationKind 0 return (sync_Time inp);
     return (out\<lparr>sync_Time := time\<rparr>)
   }"

definition DeepCopy_Sync :: "('x, 'o, addr option) copier" where
  "DeepCopy_Sync = newCopy syncKind zeroOfSync DeepCopyInto_Sync"

definition DeepCopyInto_GameAutoscalerSpec :: "('x, 'o, goGameAutoscalerSpec) copier" where
  "DeepCopyInto_GameAutoscalerSpec inp = do {
     let out = inp;
     policy \<leftarrow> DeepCopyInto_AutoscalePolicy (scaler_AutoscalePolicy inp);
     let out = out\<lparr>scaler_AutoscalePolicy := policy\<rparr>;
     sync \<leftarrow> DeepCopyInto_Sync (scaler_Sync inp);
     return (out\<lparr>scaler_Sync := sync\<rparr>)
   }"

definition DeepCopy_GameAutoscalerSpec :: "('x, 'o, addr option) copier" where
  "DeepCopy_GameAutoscalerSpec = newCopy gameAutoscalerSpecKind zeroOfGameAutoscalerSpec DeepCopyInto_GameAutoscalerSpec"

definition DeepCopyInto_GameAutoscalerStatus :: "('x, 'o, goGameAutoscalerStatus) copier" where
  "DeepCopyInto_GameAutoscalerStatus inp = return inp"

definition DeepCopy_GameAutoscalerStatus :: "('x, 'o, addr option) copier" where
  "DeepCopy_GameAutoscalerStatus = newCopy gameAutoscalerStatusKind () DeepCopyInto_GameAutoscalerStatus"

definition DeepCopyInto_GameAutoscaler :: "('x, 'o) k8sCopies \<Rightarrow> ('x, 'o, 'x goGameAutoscaler) copier" where
  "DeepCopyInto_GameAutoscaler C inp = do {
     let out = inp;
     let out = out\<lparr>scaler_TypeMeta := scaler_TypeMeta inp\<rparr>;
     meta \<leftarrow> DeepCopyInto_ObjectMeta C (scaler_ObjectMeta inp);
     let out = out\<lparr>scaler_ObjectMeta := meta\<rparr>;
     spec \<leftarrow> DeepCopyInto_GameAutoscalerSpec (scaler_Spec inp);
     let out = out\<lparr>scaler_Spec := spec\<rparr>;
     return (out\<lparr>scaler_Status := scaler_Status inp\<rparr>)
   }"

definition DeepCopy_GameAutoscaler :: "('x, 'o) k8sCopies \<Rightarrow> ('x, 'o, addr option) copier" where
  "DeepCopy_GameAutoscaler C = newCopy gameAutoscalerKind (zeroOfGameAutoscaler C) (DeepCopyInto_GameAutoscaler C)"

definition DeepCopyInto_GameAutoscalerList :: "('x, 'o) k8sCopies \<Rightarrow> ('x, 'o, 'x goGameAutoscalerList) copier" where
  "DeepCopyInto_GameAutoscalerList C inp = do {
     let out = inp;
     let out = out\<lparr>scalers_TypeMeta := scalers_TypeMeta inp\<rparr>;
     meta \<leftarrow> DeepCopyInto_ListMeta C (scalers_ListMeta inp);
     let out = out\<lparr>scalers_ListMeta := meta\<rparr>;
     items \<leftarrow> copySlice autoscalersKind (zeroOfGameAutoscaler C) (DeepCopyInto_GameAutoscaler C) (scalers_Items inp);
     return (out\<lparr>scalers_Items := items\<rparr>)
   }"

definition DeepCopy_GameAutoscalerList :: "('x, 'o) k8sCopies \<Rightarrow> ('x, 'o, addr option) copier" where
  "DeepCopy_GameAutoscalerList C = newCopy gameAutoscalerListKind (zeroOfGameAutoscalerList C) (DeepCopyInto_GameAutoscalerList C)"

definition DeepCopyInto_ServerSpec :: "('x, 'o) k8sCopies \<Rightarrow> ('x, 'o, 'x goServerSpec) copier" where
  "DeepCopyInto_ServerSpec C inp = do {
     let out = inp;
     pod \<leftarrow> DeepCopyInto_PodSpec C (spec_Pod inp);
     let out = out\<lparr>spec_Pod := pod\<rparr>;
     timeOut \<leftarrow> newCopy durationKind 0 return (spec_TimeOut inp);
     return (out\<lparr>spec_TimeOut := timeOut\<rparr>)
   }"

definition DeepCopy_ServerSpec :: "('x, 'o) k8sCopies \<Rightarrow> ('x, 'o, addr option) copier" where
  "DeepCopy_ServerSpec C = newCopy serverSpecKind (zeroOfServerSpec C) (DeepCopyInto_ServerSpec C)"

definition DeepCopyInto_ServerStatus :: "('x, 'o) k8sCopies \<Rightarrow> ('x, 'o, goServerStatus) copier" where
  "DeepCopyInto_ServerStatus C inp = do {
     let out = inp;
     conditions \<leftarrow> copySlice conditionsKind (zeroOfCondition C) (DeepCopyInto_Condition C) (server_Conditions inp);
     return (out\<lparr>server_Conditions := conditions\<rparr>)
   }"

definition DeepCopy_ServerStatus :: "('x, 'o) k8sCopies \<Rightarrow> ('x, 'o, addr option) copier" where
  "DeepCopy_ServerStatus C = newCopy serverStatusKind zeroOfServerStatus (DeepCopyInto_ServerStatus C)"

definition DeepCopyInto_Server :: "('x, 'o) k8sCopies \<Rightarrow> ('x, 'o, 'x goServer) copier" where
  "DeepCopyInto_Server C inp = do {
     let out = inp;
     let out = out\<lparr>server_TypeMeta := server_TypeMeta inp\<rparr>;
     meta \<leftarrow> DeepCopyInto_ObjectMeta C (server_ObjectMeta inp);
     let out = out\<lparr>server_ObjectMeta := meta\<rparr>;
     spec \<leftarrow> DeepCopyInto_ServerSpec C (server_Spec inp);
     let out = out\<lparr>server_Spec := spec\<rparr>;
     status \<leftarrow> DeepCopyInto_ServerStatus C (server_Status inp);
     return (out\<lparr>server_Status := status\<rparr>)
   }"

definition DeepCopy_Server :: "('x, 'o) k8sCopies \<Rightarrow> ('x, 'o, addr option) copier" where
  "DeepCopy_Server C = newCopy serverKind (zeroOfServer C) (DeepCopyInto_Server C)"

definition DeepCopyInto_ServerList :: "('x, 'o) k8sCopies \<Rightarrow> ('x, 'o, 'x goServerList) copier" where
  "DeepCopyInto_ServerList C inp = do {
     let out = inp;
     let out = out\<lparr>servers_TypeMeta := servers_TypeMeta inp\<rparr>;
     meta \<leftarrow> DeepCopyInto_ListMeta C (servers_ListMeta inp);
     let out = out\<lparr>servers_ListMeta := meta\<rparr>;
     items \<leftarrow> copySlice serversKind (zeroOfServer C) (DeepCopyInto_Server C) (servers_Items inp);
     return (out\<lparr>servers_Items := items\<rparr>)
   }"

definition DeepCopy_ServerList :: "('x, 'o) k8sCopies \<Rightarrow> ('x, 'o, addr option) copier" where
  "DeepCopy_ServerList C = newCopy serverListKind (zeroOfServerList C) (DeepCopyInto_ServerList C)"

definition DeepCopyInto_FleetScaling :: "('x, 'o, FleetScaling) copier" where
  "DeepCopyInto_FleetScaling inp = return inp"

definition DeepCopy_FleetScaling :: "('x, 'o, addr option) copier" where
  "DeepCopy_FleetScaling = newCopy fleetScalingKind zeroOfFleetScaling DeepCopyInto_FleetScaling"

definition DeepCopyInto_FleetSpec :: "('x, 'o) k8sCopies \<Rightarrow> ('x, 'o, 'x goFleetSpec) copier" where
  "DeepCopyInto_FleetSpec C inp = do {
     let out = inp;
     spec \<leftarrow> DeepCopyInto_ServerSpec C (fleet_ServerSpec inp);
     let out = out\<lparr>fleet_ServerSpec := spec\<rparr>;
     return (out\<lparr>fleet_Scaling := fleet_Scaling inp\<rparr>)
   }"

definition DeepCopy_FleetSpec :: "('x, 'o) k8sCopies \<Rightarrow> ('x, 'o, addr option) copier" where
  "DeepCopy_FleetSpec C = newCopy fleetSpecKind (zeroOfFleetSpec C) (DeepCopyInto_FleetSpec C)"

definition DeepCopyInto_FleetStatus :: "('x, 'o) k8sCopies \<Rightarrow> ('x, 'o, goFleetStatus) copier" where
  "DeepCopyInto_FleetStatus C inp = do {
     let out = inp;
     conditions \<leftarrow> copySlice conditionsKind (zeroOfCondition C) (DeepCopyInto_Condition C) (fleet_Conditions inp);
     return (out\<lparr>fleet_Conditions := conditions\<rparr>)
   }"

definition DeepCopy_FleetStatus :: "('x, 'o) k8sCopies \<Rightarrow> ('x, 'o, addr option) copier" where
  "DeepCopy_FleetStatus C = newCopy fleetStatusKind zeroOfFleetStatus (DeepCopyInto_FleetStatus C)"

definition DeepCopyInto_Fleet :: "('x, 'o) k8sCopies \<Rightarrow> ('x, 'o, 'x goFleet) copier" where
  "DeepCopyInto_Fleet C inp = do {
     let out = inp;
     let out = out\<lparr>fleet_TypeMeta := fleet_TypeMeta inp\<rparr>;
     meta \<leftarrow> DeepCopyInto_ObjectMeta C (fleet_ObjectMeta inp);
     let out = out\<lparr>fleet_ObjectMeta := meta\<rparr>;
     spec \<leftarrow> DeepCopyInto_FleetSpec C (fleet_Spec inp);
     let out = out\<lparr>fleet_Spec := spec\<rparr>;
     status \<leftarrow> DeepCopyInto_FleetStatus C (fleet_Status inp);
     return (out\<lparr>fleet_Status := status\<rparr>)
   }"

definition DeepCopy_Fleet :: "('x, 'o) k8sCopies \<Rightarrow> ('x, 'o, addr option) copier" where
  "DeepCopy_Fleet C = newCopy fleetKind (zeroOfFleet C) (DeepCopyInto_Fleet C)"

definition DeepCopyInto_FleetList :: "('x, 'o) k8sCopies \<Rightarrow> ('x, 'o, 'x goFleetList) copier" where
  "DeepCopyInto_FleetList C inp = do {
     let out = inp;
     let out = out\<lparr>fleets_TypeMeta := fleets_TypeMeta inp\<rparr>;
     meta \<leftarrow> DeepCopyInto_ListMeta C (fleets_ListMeta inp);
     let out = out\<lparr>fleets_ListMeta := meta\<rparr>;
     items \<leftarrow> copySlice fleetsKind (zeroOfFleet C) (DeepCopyInto_Fleet C) (fleets_Items inp);
     return (out\<lparr>fleets_Items := items\<rparr>)
   }"

definition DeepCopy_FleetList :: "('x, 'o) k8sCopies \<Rightarrow> ('x, 'o, addr option) copier" where
  "DeepCopy_FleetList C = newCopy fleetListKind (zeroOfFleetList C) (DeepCopyInto_FleetList C)"

definition DeepCopyInto_GameTypeSpec :: "('x, 'o) k8sCopies \<Rightarrow> ('x, 'o, 'x goGameTypeSpec) copier" where
  "DeepCopyInto_GameTypeSpec C inp = do {
     let out = inp;
     spec \<leftarrow> DeepCopyInto_FleetSpec C (game_FleetSpec inp);
     return (out\<lparr>game_FleetSpec := spec\<rparr>)
   }"

definition DeepCopy_GameTypeSpec :: "('x, 'o) k8sCopies \<Rightarrow> ('x, 'o, addr option) copier" where
  "DeepCopy_GameTypeSpec C = newCopy gameTypeSpecKind (zeroOfGameTypeSpec C) (DeepCopyInto_GameTypeSpec C)"

definition DeepCopyInto_GameTypeStatus :: "('x, 'o) k8sCopies \<Rightarrow> ('x, 'o, goGameTypeStatus) copier" where
  "DeepCopyInto_GameTypeStatus C inp = do {
     let out = inp;
     conditions \<leftarrow> copySlice conditionsKind (zeroOfCondition C) (DeepCopyInto_Condition C) (game_Conditions inp);
     return (out\<lparr>game_Conditions := conditions\<rparr>)
   }"

definition DeepCopy_GameTypeStatus :: "('x, 'o) k8sCopies \<Rightarrow> ('x, 'o, addr option) copier" where
  "DeepCopy_GameTypeStatus C = newCopy gameTypeStatusKind zeroOfGameTypeStatus (DeepCopyInto_GameTypeStatus C)"

definition DeepCopyInto_GameType :: "('x, 'o) k8sCopies \<Rightarrow> ('x, 'o, 'x goGameType) copier" where
  "DeepCopyInto_GameType C inp = do {
     let out = inp;
     let out = out\<lparr>game_TypeMeta := game_TypeMeta inp\<rparr>;
     meta \<leftarrow> DeepCopyInto_ObjectMeta C (game_ObjectMeta inp);
     let out = out\<lparr>game_ObjectMeta := meta\<rparr>;
     spec \<leftarrow> DeepCopyInto_GameTypeSpec C (game_Spec inp);
     let out = out\<lparr>game_Spec := spec\<rparr>;
     status \<leftarrow> DeepCopyInto_GameTypeStatus C (game_Status inp);
     return (out\<lparr>game_Status := status\<rparr>)
   }"

definition DeepCopy_GameType :: "('x, 'o) k8sCopies \<Rightarrow> ('x, 'o, addr option) copier" where
  "DeepCopy_GameType C = newCopy gameTypeKind (zeroOfGameType C) (DeepCopyInto_GameType C)"

definition DeepCopyInto_GameTypeList :: "('x, 'o) k8sCopies \<Rightarrow> ('x, 'o, 'x goGameTypeList) copier" where
  "DeepCopyInto_GameTypeList C inp = do {
     let out = inp;
     let out = out\<lparr>games_TypeMeta := games_TypeMeta inp\<rparr>;
     meta \<leftarrow> DeepCopyInto_ListMeta C (games_ListMeta inp);
     let out = out\<lparr>games_ListMeta := meta\<rparr>;
     items \<leftarrow> copySlice gameTypesKind (zeroOfGameType C) (DeepCopyInto_GameType C) (games_Items inp);
     return (out\<lparr>games_Items := items\<rparr>)
   }"

definition DeepCopy_GameTypeList :: "('x, 'o) k8sCopies \<Rightarrow> ('x, 'o, addr option) copier" where
  "DeepCopy_GameTypeList C = newCopy gameTypeListKind (zeroOfGameTypeList C) (DeepCopyInto_GameTypeList C)"

section \<open>Objects of any type\<close>

text \<open>
  A value of the interface \<open>runtime.Object\<close> is nil (\<open>None\<close>) or a pointer with its type, and the pointer
  may be nil itself. \<open>DeepCopyObject\<close> keeps the two apart: a nil pointer gives the nil interface.
\<close>

datatype runtimeObject =
    ServerPtr "addr option"
  | ServerListPtr "addr option"
  | FleetPtr "addr option"
  | FleetListPtr "addr option"
  | GameTypePtr "addr option"
  | GameTypeListPtr "addr option"
  | GameAutoscalerPtr "addr option"
  | GameAutoscalerListPtr "addr option"

definition DeepCopyObject_Server :: "('x, 'o) k8sCopies \<Rightarrow> addr option \<Rightarrow> (('x, 'o) mem, runtimeObject option) state" where
  "DeepCopyObject_Server C inp = do {
     c \<leftarrow> DeepCopy_Server C inp;
     if c \<noteq> None then return (Some (ServerPtr c)) else return None
   }"

definition DeepCopyObject_ServerList :: "('x, 'o) k8sCopies \<Rightarrow> addr option \<Rightarrow> (('x, 'o) mem, runtimeObject option) state" where
  "DeepCopyObject_ServerList C inp = do {
     c \<leftarrow> DeepCopy_ServerList C inp;
     if c \<noteq> None then return (Some (ServerListPtr c)) else return None
   }"

definition DeepCopyObject_Fleet :: "('x, 'o) k8sCopies \<Rightarrow> addr option \<Rightarrow> (('x, 'o) mem, runtimeObject option) state" where
  "DeepCopyObject_Fleet C inp = do {
     c \<leftarrow> DeepCopy_Fleet C inp;
     if c \<noteq> None then return (Some (FleetPtr c)) else return None
   }"

definition DeepCopyObject_FleetList :: "('x, 'o) k8sCopies \<Rightarrow> addr option \<Rightarrow> (('x, 'o) mem, runtimeObject option) state" where
  "DeepCopyObject_FleetList C inp = do {
     c \<leftarrow> DeepCopy_FleetList C inp;
     if c \<noteq> None then return (Some (FleetListPtr c)) else return None
   }"

definition DeepCopyObject_GameType :: "('x, 'o) k8sCopies \<Rightarrow> addr option \<Rightarrow> (('x, 'o) mem, runtimeObject option) state" where
  "DeepCopyObject_GameType C inp = do {
     c \<leftarrow> DeepCopy_GameType C inp;
     if c \<noteq> None then return (Some (GameTypePtr c)) else return None
   }"

definition DeepCopyObject_GameTypeList :: "('x, 'o) k8sCopies \<Rightarrow> addr option \<Rightarrow> (('x, 'o) mem, runtimeObject option) state" where
  "DeepCopyObject_GameTypeList C inp = do {
     c \<leftarrow> DeepCopy_GameTypeList C inp;
     if c \<noteq> None then return (Some (GameTypeListPtr c)) else return None
   }"

definition DeepCopyObject_GameAutoscaler :: "('x, 'o) k8sCopies \<Rightarrow> addr option \<Rightarrow> (('x, 'o) mem, runtimeObject option) state" where
  "DeepCopyObject_GameAutoscaler C inp = do {
     c \<leftarrow> DeepCopy_GameAutoscaler C inp;
     if c \<noteq> None then return (Some (GameAutoscalerPtr c)) else return None
   }"

definition DeepCopyObject_GameAutoscalerList :: "('x, 'o) k8sCopies \<Rightarrow> addr option \<Rightarrow> (('x, 'o) mem, runtimeObject option) state" where
  "DeepCopyObject_GameAutoscalerList C inp = do {
     c \<leftarrow> DeepCopy_GameAutoscalerList C inp;
     if c \<noteq> None then return (Some (GameAutoscalerListPtr c)) else return None
   }"

text \<open>The method called through the interface.\<close>

fun DeepCopyObject :: "('x, 'o) k8sCopies \<Rightarrow> runtimeObject \<Rightarrow> (('x, 'o) mem, runtimeObject option) state" where
  "DeepCopyObject C (ServerPtr p) = DeepCopyObject_Server C p"
| "DeepCopyObject C (ServerListPtr p) = DeepCopyObject_ServerList C p"
| "DeepCopyObject C (FleetPtr p) = DeepCopyObject_Fleet C p"
| "DeepCopyObject C (FleetListPtr p) = DeepCopyObject_FleetList C p"
| "DeepCopyObject C (GameTypePtr p) = DeepCopyObject_GameType C p"
| "DeepCopyObject C (GameTypeListPtr p) = DeepCopyObject_GameTypeList C p"
| "DeepCopyObject C (GameAutoscalerPtr p) = DeepCopyObject_GameAutoscaler C p"
| "DeepCopyObject C (GameAutoscalerListPtr p) = DeepCopyObject_GameAutoscalerList C p"

end
