(* ===== verification/DeepCopyProps.thy ===== *)
theory DeepCopyProps
  imports DeepCopy
begin

text \<open>
  The generated copies are deep. The shape of each struct reads it as the record that the other
  theories work on; every \<open>DeepCopyInto\<close> and \<open>DeepCopy\<close> meets the contract \<open>deep_copier\<close> of
  \<open>GoHeap\<close>, by composition along the fields of the struct; and the objects copied through the
  interface \<open>runtime.Object\<close> are isolated from what they were copied from.
\<close>

section \<open>What the structs stand for\<close>

definition serviceShape :: "(('x, 'o) memcell, Service, Service) shape" where
  "serviceShape = valueShape id"

definition fleetScalingShape :: "(('x, 'o) memcell, FleetScaling, FleetScaling) shape" where
  "fleetScalingShape = valueShape id"

definition autoscalerStatusShape :: "(('x, 'o) memcell, goGameAutoscalerStatus, unit) shape" where
  "autoscalerStatusShape = valueShape id"

definition webhookSpecShape :: "(('x, 'o) memcell, goWebhookAutoscalerSpec, WebhookAutoscalerSpec) shape" where
  "webhookSpecShape = structShape (\<lambda>x. (hook_Url x, hook_Path x, hook_Service x))
     (\<lambda>(u, p, s) x. \<lparr>Url = u, Path = p, Service = s\<rparr>)
     (pairShape (ptrShape stringKind (valueShape id))
       (pairShape (ptrShape stringKind (valueShape id)) (ptrShape serviceKind serviceShape)))"

definition autoscalePolicyShape :: "(('x, 'o) memcell, goAutoscalePolicy, AutoscalePolicy) shape" where
  "autoscalePolicyShape = structShape (\<lambda>x. policy_WebhookAutoscalerSpec x)
     (\<lambda>w x. \<lparr>policyType = policy_Type x, WebhookAutoscalerSpec = w\<rparr>)
     (webhookSpecShape)"

definition syncShape :: "(('x, 'o) memcell, goSync, Sync) shape" where
  "syncShape = structShape (\<lambda>x. sync_Time x)
     (\<lambda>t x. \<lparr>syncType = sync_Type x, syncTime = t\<rparr>)
     (ptrShape durationKind (valueShape id))"

definition autoscalerSpecShape :: "(('x, 'o) memcell, goGameAutoscalerSpec, string \<times> AutoscalePolicy \<times> Sync) shape" where
  "autoscalerSpecShape = structShape (\<lambda>x. (scaler_AutoscalePolicy x, scaler_Sync x))
     (\<lambda>(p, s) x. (scaler_GameName x, p, s))
     (pairShape autoscalePolicyShape syncShape)"

definition autoscalerShape :: "('x, 'o) k8sShapes \<Rightarrow> (('x, 'o) memcell, 'x goGameAutoscaler, TypeMeta \<times> GameAutoscaler) shape" where
  "autoscalerShape R = structShape (\<lambda>x. (scaler_ObjectMeta x, scaler_Spec x))
     (\<lambda>(m, g, p, s) x. (scaler_TypeMeta x, \<lparr>autoscaler_meta = m, GameName = g, AutoscalePolicy = p, Sync = s\<rparr>))
     (pairShape (objectMetaShape R) autoscalerSpecShape)"

definition serverSpecShape :: "('x, 'o) k8sShapes \<Rightarrow> (('x, 'o) memcell, 'x goServerSpec, ServerSpec) shape" where
  "serverSpecShape R = structShape (\<lambda>x. (spec_Pod x, spec_TimeOut x))
     (\<lambda>(p, t) x. \<lparr>Pod = p, TimeOut = t, AllowForceDelete = spec_AllowForceDelete x\<rparr>)
     (pairShape (podSpecShape R) (ptrShape durationKind (valueShape id)))"

definition fleetSpecShape :: "('x, 'o) k8sShapes \<Rightarrow> (('x, 'o) memcell, 'x goFleetSpec, FleetSpec) shape" where
  "fleetSpecShape R = structShape (\<lambda>x. fleet_ServerSpec x)
     (\<lambda>s x. \<lparr>ServerSpec = s, Scaling = fleet_Scaling x\<rparr>)
     (serverSpecShape R)"

definition gameTypeSpecShape :: "('x, 'o) k8sShapes \<Rightarrow> (('x, 'o) memcell, 'x goGameTypeSpec, FleetSpec) shape" where
  "gameTypeSpecShape R = structShape (\<lambda>x. game_FleetSpec x)
     (\<lambda>s x. s)
     (fleetSpecShape R)"

definition serverStatusShape :: "('x, 'o) k8sShapes \<Rightarrow> (('x, 'o) memcell, goServerStatus, ServerStatus) shape" where
  "serverStatusShape R = structShape (\<lambda>x. server_Conditions x)
     (\<lambda>c x. \<lparr>ServerConditions = elems c\<rparr>)
     (sliceShape conditionsKind (conditionShape R))"

definition fleetStatusShape :: "('x, 'o) k8sShapes \<Rightarrow> (('x, 'o) memcell, goFleetStatus, FleetStatus) shape" where
  "fleetStatusShape R = structShape (\<lambda>x. fleet_Conditions x)
     (\<lambda>c x. \<lparr>FleetConditions = elems c, CurrentReplicas = fleet_CurrentReplicas x\<rparr>)
     (sliceShape conditionsKind (conditionShape R))"

definition gameTypeStatusShape :: "('x, 'o) k8sShapes \<Rightarrow> (('x, 'o) memcell, goGameTypeStatus, GameTypeStatus) shape" where
  "gameTypeStatusShape R = structShape (\<lambda>x. game_Conditions x)
     (\<lambda>c x. \<lparr>GameTypeConditions = elems c, CurrentFleetName = game_CurrentFleetName x,
       CurrentFleetReplicas = game_CurrentFleetReplicas x\<rparr>)
     (sliceShape conditionsKind (conditionShape R))"

definition serverShape :: "('x, 'o) k8sShapes \<Rightarrow> (('x, 'o) memcell, 'x goServer, TypeMeta \<times> Server) shape" where
  "serverShape R = structShape (\<lambda>x. (server_ObjectMeta x, server_Spec x, server_Status x))
     (\<lambda>(m, s, t) x. (server_TypeMeta x, \<lparr>server_meta = m, server_spec = s, server_status = t\<rparr>))
     (pairShape (objectMetaShape R) (pairShape (serverSpecShape R) (serverStatusShape R)))"

definition fleetShape :: "('x, 'o) k8sShapes \<Rightarrow> (('x, 'o) memcell, 'x goFleet, TypeMeta \<times> Fleet) shape" where
  "fleetShape R = structShape (\<lambda>x. (fleet_ObjectMeta x, fleet_Spec x, fleet_Status x))
     (\<lambda>(m, s, t) x. (fleet_TypeMeta x, \<lparr>fleet_meta = m, fleet_spec = s, fleet_status = t\<rparr>))
     (pairShape (objectMetaShape R) (pairShape (fleetSpecShape R) (fleetStatusShape R)))"

definition gameTypeShape :: "('x, 'o) k8sShapes \<Rightarrow> (('x, 'o) memcell, 'x goGameType, TypeMeta \<times> GameType) shape" where
  "gameTypeShape R = structShape (\<lambda>x. (game_ObjectMeta x, game_Spec x, game_Status x))
     (\<lambda>(m, s, t) x. (game_TypeMeta x, \<lparr>gametype_meta = m, FleetSpec = s, gametype_status = t\<rparr>))
     (pairShape (objectMetaShape R) (pairShape (gameTypeSpecShape R) (gameTypeStatusShape R)))"

definition serverListShape :: "('x, 'o) k8sShapes \<Rightarrow> (('x, 'o) memcell, 'x goServerList, TypeMeta \<times> ListMeta \<times> (TypeMeta \<times> Server) list option) shape" where
  "serverListShape R = structShape (\<lambda>x. (servers_ListMeta x, servers_Items x))
     (\<lambda>(m, xs) x. (servers_TypeMeta x, m, xs))
     (pairShape (listMetaShape R) (sliceShape serversKind (serverShape R)))"

definition fleetListShape :: "('x, 'o) k8sShapes \<Rightarrow> (('x, 'o) memcell, 'x goFleetList, TypeMeta \<times> ListMeta \<times> (TypeMeta \<times> Fleet) list option) shape" where
  "fleetListShape R = structShape (\<lambda>x. (fleets_ListMeta x, fleets_Items x))
     (\<lambda>(m, xs) x. (fleets_TypeMeta x, m, xs))
     (pairShape (listMetaShape R) (sliceShape fleetsKind (fleetShape R)))"

definition gameTypeListShape :: "('x, 'o) k8sShapes \<Rightarrow> (('x, 'o) memcell, 'x goGameTypeList, TypeMeta \<times> ListMeta \<times> (TypeMeta \<times> GameType) list option) shape" where
  "gameTypeListShape R = structShape (\<lambda>x. (games_ListMeta x, games_Items x))
     (\<lambda>(m, xs) x. (games_TypeMeta x, m, xs))
     (pairShape (listMetaShape R) (sliceShape gameTypesKind (gameTypeShape R)))"

definition autoscalerListShape :: "('x, 'o) k8sShapes \<Rightarrow> (('x, 'o) memcell, 'x goGameAutoscalerList, TypeMeta \<times> ListMeta \<times> (TypeMeta \<times> GameAutoscaler) list option) shape" where
  "autoscalerListShape R = structShape (\<lambda>x. (scalers_ListMeta x, scalers_Items x))
     (\<lambda>(m, xs) x. (scalers_TypeMeta x, m, xs))
     (pairShape (listMetaShape R) (sliceShape autoscalersKind (autoscalerShape R)))"

section \<open>The copies are deep\<close>

lemma k8sDeepD:
  assumes "k8sDeep C R"
  shows "deep_copier (objectMetaShape R) (DeepCopyInto_ObjectMeta C)"
    "deep_copier (listMetaShape R) (DeepCopyInto_ListMeta C)"
    "deep_copier (podSpecShape R) (DeepCopyInto_PodSpec C)"
    "deep_copier (conditionShape R) (DeepCopyInto_Condition C)"
  using assms by (simp_all add: k8sDeep_def)

lemma stringPtr: "deep_copier (ptrShape stringKind (valueShape id)) (newCopy stringKind zero return)"
  by (intro deep_copier_new deep_copier_value) simp

lemma durationPtr: "deep_copier (ptrShape durationKind (valueShape id)) (newCopy durationKind zero return)"
  by (intro deep_copier_new deep_copier_value) simp

lemma servicePtr: "deep_copier (ptrShape serviceKind serviceShape) (newCopy serviceKind zero return)"
  unfolding serviceShape_def by (intro deep_copier_new deep_copier_value) simp

interpretation service: deep_copier serviceShape DeepCopyInto_Service
  unfolding serviceShape_def using deep_copier_value by (simp add: DeepCopyInto_Service_def [abs_def])

interpretation fleetScaling: deep_copier fleetScalingShape DeepCopyInto_FleetScaling
  unfolding fleetScalingShape_def using deep_copier_value by (simp add: DeepCopyInto_FleetScaling_def [abs_def])

interpretation autoscalerStatus: deep_copier autoscalerStatusShape DeepCopyInto_GameAutoscalerStatus
  unfolding autoscalerStatusShape_def using deep_copier_value by (simp add: DeepCopyInto_GameAutoscalerStatus_def [abs_def])

interpretation webhookSpec: deep_copier webhookSpecShape DeepCopyInto_WebhookAutoscalerSpec
  unfolding webhookSpecShape_def
  by (rule deep_copier_struct [where put = "\<lambda>(u, p, s) x. x\<lparr>hook_Url := u, hook_Path := p, hook_Service := s\<rparr>",
        OF deep_copier_pair [OF stringPtr deep_copier_pair [OF stringPtr servicePtr]]])
    (auto simp: DeepCopyInto_WebhookAutoscalerSpec_def copyBoth_def split: prod.splits)

interpretation autoscalePolicy: deep_copier autoscalePolicyShape DeepCopyInto_AutoscalePolicy
  unfolding autoscalePolicyShape_def
  by (rule deep_copier_struct [where put = "\<lambda>w x. x\<lparr>policy_WebhookAutoscalerSpec := w\<rparr>",
        OF webhookSpec.deep_copier_axioms])
    (auto simp: DeepCopyInto_AutoscalePolicy_def copyBoth_def split: prod.splits)

interpretation sync: deep_copier syncShape DeepCopyInto_Sync
  unfolding syncShape_def
  by (rule deep_copier_struct [where put = "\<lambda>t x. x\<lparr>sync_Time := t\<rparr>",
        OF durationPtr])
    (auto simp: DeepCopyInto_Sync_def copyBoth_def split: prod.splits)

interpretation autoscalerSpec: deep_copier autoscalerSpecShape DeepCopyInto_GameAutoscalerSpec
  unfolding autoscalerSpecShape_def
  by (rule deep_copier_struct [where put = "\<lambda>(p, s) x. x\<lparr>scaler_AutoscalePolicy := p, scaler_Sync := s\<rparr>",
        OF deep_copier_pair [OF autoscalePolicy.deep_copier_axioms sync.deep_copier_axioms]])
    (auto simp: DeepCopyInto_GameAutoscalerSpec_def copyBoth_def split: prod.splits)

lemma deep_copier_autoscaler:
  assumes k8s: "k8sDeep C R"
  shows "deep_copier (autoscalerShape R) (DeepCopyInto_GameAutoscaler C)"
  unfolding autoscalerShape_def
  by (rule deep_copier_struct [where put = "\<lambda>(m, s) x. x\<lparr>scaler_ObjectMeta := m, scaler_Spec := s, scaler_Status := ()\<rparr>",
        OF deep_copier_pair [OF k8sDeepD(1) [OF k8s] autoscalerSpec.deep_copier_axioms]])
    (auto simp: DeepCopyInto_GameAutoscaler_def copyBoth_def split: prod.splits)

lemma deep_copier_serverSpec:
  assumes k8s: "k8sDeep C R"
  shows "deep_copier (serverSpecShape R) (DeepCopyInto_ServerSpec C)"
  unfolding serverSpecShape_def
  by (rule deep_copier_struct [where put = "\<lambda>(p, t) x. x\<lparr>spec_Pod := p, spec_TimeOut := t\<rparr>",
        OF deep_copier_pair [OF k8sDeepD(3) [OF k8s] durationPtr]])
    (auto simp: DeepCopyInto_ServerSpec_def copyBoth_def split: prod.splits)

lemma deep_copier_fleetSpec:
  assumes k8s: "k8sDeep C R"
  shows "deep_copier (fleetSpecShape R) (DeepCopyInto_FleetSpec C)"
  unfolding fleetSpecShape_def
  by (rule deep_copier_struct [where put = "\<lambda>s x. x\<lparr>fleet_ServerSpec := s\<rparr>",
        OF deep_copier_serverSpec [OF k8s]])
    (auto simp: DeepCopyInto_FleetSpec_def copyBoth_def split: prod.splits)

lemma deep_copier_gameTypeSpec:
  assumes k8s: "k8sDeep C R"
  shows "deep_copier (gameTypeSpecShape R) (DeepCopyInto_GameTypeSpec C)"
  unfolding gameTypeSpecShape_def
  by (rule deep_copier_struct [where put = "\<lambda>s x. x\<lparr>game_FleetSpec := s\<rparr>",
        OF deep_copier_fleetSpec [OF k8s]])
    (auto simp: DeepCopyInto_GameTypeSpec_def copyBoth_def split: prod.splits)

lemma deep_copier_serverStatus:
  assumes k8s: "k8sDeep C R"
  shows "deep_copier (serverStatusShape R) (DeepCopyInto_ServerStatus C)"
  unfolding serverStatusShape_def
  by (rule deep_copier_struct [where put = "\<lambda>c x. x\<lparr>server_Conditions := c\<rparr>",
        OF deep_copier_slice [OF kinds_ok(3) k8sDeepD(4) [OF k8s]]])
    (auto simp: DeepCopyInto_ServerStatus_def copyBoth_def split: prod.splits)

lemma deep_copier_fleetStatus:
  assumes k8s: "k8sDeep C R"
  shows "deep_copier (fleetStatusShape R) (DeepCopyInto_FleetStatus C)"
  unfolding fleetStatusShape_def
  by (rule deep_copier_struct [where put = "\<lambda>c x. x\<lparr>fleet_Conditions := c\<rparr>",
        OF deep_copier_slice [OF kinds_ok(3) k8sDeepD(4) [OF k8s]]])
    (auto simp: DeepCopyInto_FleetStatus_def copyBoth_def split: prod.splits)

lemma deep_copier_gameTypeStatus:
  assumes k8s: "k8sDeep C R"
  shows "deep_copier (gameTypeStatusShape R) (DeepCopyInto_GameTypeStatus C)"
  unfolding gameTypeStatusShape_def
  by (rule deep_copier_struct [where put = "\<lambda>c x. x\<lparr>game_Conditions := c\<rparr>",
        OF deep_copier_slice [OF kinds_ok(3) k8sDeepD(4) [OF k8s]]])
    (auto simp: DeepCopyInto_GameTypeStatus_def copyBoth_def split: prod.splits)

lemma deep_copier_server:
  assumes k8s: "k8sDeep C R"
  shows "deep_copier (serverShape R) (DeepCopyInto_Server C)"
  unfolding serverShape_def
  by (rule deep_copier_struct [where put = "\<lambda>(m, s, t) x. x\<lparr>server_ObjectMeta := m, server_Spec := s, server_Status := t\<rparr>",
        OF deep_copier_pair [OF k8sDeepD(1) [OF k8s] deep_copier_pair [OF deep_copier_serverSpec [OF k8s] deep_copier_serverStatus [OF k8s]]]])
    (auto simp: DeepCopyInto_Server_def copyBoth_def split: prod.splits)

lemma deep_copier_fleet:
  assumes k8s: "k8sDeep C R"
  shows "deep_copier (fleetShape R) (DeepCopyInto_Fleet C)"
  unfolding fleetShape_def
  by (rule deep_copier_struct [where put = "\<lambda>(m, s, t) x. x\<lparr>fleet_ObjectMeta := m, fleet_Spec := s, fleet_Status := t\<rparr>",
        OF deep_copier_pair [OF k8sDeepD(1) [OF k8s] deep_copier_pair [OF deep_copier_fleetSpec [OF k8s] deep_copier_fleetStatus [OF k8s]]]])
    (auto simp: DeepCopyInto_Fleet_def copyBoth_def split: prod.splits)

lemma deep_copier_gameType:
  assumes k8s: "k8sDeep C R"
  shows "deep_copier (gameTypeShape R) (DeepCopyInto_GameType C)"
  unfolding gameTypeShape_def
  by (rule deep_copier_struct [where put = "\<lambda>(m, s, t) x. x\<lparr>game_ObjectMeta := m, game_Spec := s, game_Status := t\<rparr>",
        OF deep_copier_pair [OF k8sDeepD(1) [OF k8s] deep_copier_pair [OF deep_copier_gameTypeSpec [OF k8s] deep_copier_gameTypeStatus [OF k8s]]]])
    (auto simp: DeepCopyInto_GameType_def copyBoth_def split: prod.splits)

lemma deep_copier_serverList:
  assumes k8s: "k8sDeep C R"
  shows "deep_copier (serverListShape R) (DeepCopyInto_ServerList C)"
  unfolding serverListShape_def
  by (rule deep_copier_struct [where put = "\<lambda>(m, xs) x. x\<lparr>servers_ListMeta := m, servers_Items := xs\<rparr>",
        OF deep_copier_pair [OF k8sDeepD(2) [OF k8s] deep_copier_slice [OF kinds_ok(4) deep_copier_server [OF k8s]]]])
    (auto simp: DeepCopyInto_ServerList_def copyBoth_def split: prod.splits)

lemma deep_copier_fleetList:
  assumes k8s: "k8sDeep C R"
  shows "deep_copier (fleetListShape R) (DeepCopyInto_FleetList C)"
  unfolding fleetListShape_def
  by (rule deep_copier_struct [where put = "\<lambda>(m, xs) x. x\<lparr>fleets_ListMeta := m, fleets_Items := xs\<rparr>",
        OF deep_copier_pair [OF k8sDeepD(2) [OF k8s] deep_copier_slice [OF kinds_ok(5) deep_copier_fleet [OF k8s]]]])
    (auto simp: DeepCopyInto_FleetList_def copyBoth_def split: prod.splits)

lemma deep_copier_gameTypeList:
  assumes k8s: "k8sDeep C R"
  shows "deep_copier (gameTypeListShape R) (DeepCopyInto_GameTypeList C)"
  unfolding gameTypeListShape_def
  by (rule deep_copier_struct [where put = "\<lambda>(m, xs) x. x\<lparr>games_ListMeta := m, games_Items := xs\<rparr>",
        OF deep_copier_pair [OF k8sDeepD(2) [OF k8s] deep_copier_slice [OF kinds_ok(6) deep_copier_gameType [OF k8s]]]])
    (auto simp: DeepCopyInto_GameTypeList_def copyBoth_def split: prod.splits)

lemma deep_copier_autoscalerList:
  assumes k8s: "k8sDeep C R"
  shows "deep_copier (autoscalerListShape R) (DeepCopyInto_GameAutoscalerList C)"
  unfolding autoscalerListShape_def
  by (rule deep_copier_struct [where put = "\<lambda>(m, xs) x. x\<lparr>scalers_ListMeta := m, scalers_Items := xs\<rparr>",
        OF deep_copier_pair [OF k8sDeepD(2) [OF k8s] deep_copier_slice [OF kinds_ok(7) deep_copier_autoscaler [OF k8s]]]])
    (auto simp: DeepCopyInto_GameAutoscalerList_def copyBoth_def split: prod.splits)

text \<open>The copies that take and return a pointer.\<close>

lemma deep_copier_DeepCopy_plain:
  shows "deep_copier (ptrShape serviceKind serviceShape) DeepCopy_Service"
    "deep_copier (ptrShape webhookAutoscalerSpecKind webhookSpecShape) DeepCopy_WebhookAutoscalerSpec"
    "deep_copier (ptrShape autoscalePolicyKind autoscalePolicyShape) DeepCopy_AutoscalePolicy"
    "deep_copier (ptrShape syncKind syncShape) DeepCopy_Sync"
    "deep_copier (ptrShape gameAutoscalerSpecKind autoscalerSpecShape) DeepCopy_GameAutoscalerSpec"
    "deep_copier (ptrShape gameAutoscalerStatusKind autoscalerStatusShape) DeepCopy_GameAutoscalerStatus"
    "deep_copier (ptrShape fleetScalingKind fleetScalingShape) DeepCopy_FleetScaling"
  unfolding DeepCopy_Service_def DeepCopy_WebhookAutoscalerSpec_def DeepCopy_AutoscalePolicy_def DeepCopy_Sync_def DeepCopy_GameAutoscalerSpec_def DeepCopy_GameAutoscalerStatus_def DeepCopy_FleetScaling_def
  by (simp_all add: deep_copier_new service.deep_copier_axioms webhookSpec.deep_copier_axioms autoscalePolicy.deep_copier_axioms sync.deep_copier_axioms autoscalerSpec.deep_copier_axioms autoscalerStatus.deep_copier_axioms fleetScaling.deep_copier_axioms)

lemma deep_copier_DeepCopy:
  assumes "k8sDeep C R"
  shows "deep_copier (ptrShape gameAutoscalerKind (autoscalerShape R)) (DeepCopy_GameAutoscaler C)"
    "deep_copier (ptrShape gameAutoscalerListKind (autoscalerListShape R)) (DeepCopy_GameAutoscalerList C)"
    "deep_copier (ptrShape serverSpecKind (serverSpecShape R)) (DeepCopy_ServerSpec C)"
    "deep_copier (ptrShape serverStatusKind (serverStatusShape R)) (DeepCopy_ServerStatus C)"
    "deep_copier (ptrShape serverKind (serverShape R)) (DeepCopy_Server C)"
    "deep_copier (ptrShape serverListKind (serverListShape R)) (DeepCopy_ServerList C)"
    "deep_copier (ptrShape fleetSpecKind (fleetSpecShape R)) (DeepCopy_FleetSpec C)"
    "deep_copier (ptrShape fleetStatusKind (fleetStatusShape R)) (DeepCopy_FleetStatus C)"
    "deep_copier (ptrShape fleetKind (fleetShape R)) (DeepCopy_Fleet C)"
    "deep_copier (ptrShape fleetListKind (fleetListShape R)) (DeepCopy_FleetList C)"
    "deep_copier (ptrShape gameTypeSpecKind (gameTypeSpecShape R)) (DeepCopy_GameTypeSpec C)"
    "deep_copier (ptrShape gameTypeStatusKind (gameTypeStatusShape R)) (DeepCopy_GameTypeStatus C)"
    "deep_copier (ptrShape gameTypeKind (gameTypeShape R)) (DeepCopy_GameType C)"
    "deep_copier (ptrShape gameTypeListKind (gameTypeListShape R)) (DeepCopy_GameTypeList C)"
  unfolding DeepCopy_GameAutoscaler_def DeepCopy_GameAutoscalerList_def DeepCopy_ServerSpec_def DeepCopy_ServerStatus_def DeepCopy_Server_def DeepCopy_ServerList_def DeepCopy_FleetSpec_def DeepCopy_FleetStatus_def DeepCopy_Fleet_def DeepCopy_FleetList_def DeepCopy_GameTypeSpec_def DeepCopy_GameTypeStatus_def DeepCopy_GameType_def DeepCopy_GameTypeList_def
  by (simp_all add: assms deep_copier_new deep_copier_autoscaler deep_copier_autoscalerList deep_copier_serverSpec deep_copier_serverStatus deep_copier_server deep_copier_serverList deep_copier_fleetSpec deep_copier_fleetStatus deep_copier_fleet deep_copier_fleetList deep_copier_gameTypeSpec deep_copier_gameTypeStatus deep_copier_gameType deep_copier_gameTypeList)

section \<open>Objects of any type\<close>

datatype objectValue =
    ServerValue "TypeMeta \<times> Server"
  | ServerListValue "TypeMeta \<times> ListMeta \<times> (TypeMeta \<times> Server) list option"
  | FleetValue "TypeMeta \<times> Fleet"
  | FleetListValue "TypeMeta \<times> ListMeta \<times> (TypeMeta \<times> Fleet) list option"
  | GameTypeValue "TypeMeta \<times> GameType"
  | GameTypeListValue "TypeMeta \<times> ListMeta \<times> (TypeMeta \<times> GameType) list option"
  | GameAutoscalerValue "TypeMeta \<times> GameAutoscaler"
  | GameAutoscalerListValue "TypeMeta \<times> ListMeta \<times> (TypeMeta \<times> GameAutoscaler) list option"

fun goType :: "runtimeObject \<Rightarrow> string" where
  "goType (ServerPtr p) = ''Server''"
| "goType (ServerListPtr p) = ''ServerList''"
| "goType (FleetPtr p) = ''Fleet''"
| "goType (FleetListPtr p) = ''FleetList''"
| "goType (GameTypePtr p) = ''GameType''"
| "goType (GameTypeListPtr p) = ''GameTypeList''"
| "goType (GameAutoscalerPtr p) = ''GameAutoscaler''"
| "goType (GameAutoscalerListPtr p) = ''GameAutoscalerList''"

fun pointer :: "runtimeObject \<Rightarrow> addr option" where
  "pointer (ServerPtr p) = p"
| "pointer (ServerListPtr p) = p"
| "pointer (FleetPtr p) = p"
| "pointer (FleetListPtr p) = p"
| "pointer (GameTypePtr p) = p"
| "pointer (GameTypeListPtr p) = p"
| "pointer (GameAutoscalerPtr p) = p"
| "pointer (GameAutoscalerListPtr p) = p"

definition objectShape :: "('x, 'o) k8sShapes \<Rightarrow> (('x, 'o) memcell, runtimeObject, objectValue option) shape" where
  "objectShape R = \<lparr>
     fits = (\<lambda>h x. case x of
         ServerPtr p \<Rightarrow> fits (ptrShape serverKind (serverShape R)) h p
       | ServerListPtr p \<Rightarrow> fits (ptrShape serverListKind (serverListShape R)) h p
       | FleetPtr p \<Rightarrow> fits (ptrShape fleetKind (fleetShape R)) h p
       | FleetListPtr p \<Rightarrow> fits (ptrShape fleetListKind (fleetListShape R)) h p
       | GameTypePtr p \<Rightarrow> fits (ptrShape gameTypeKind (gameTypeShape R)) h p
       | GameTypeListPtr p \<Rightarrow> fits (ptrShape gameTypeListKind (gameTypeListShape R)) h p
       | GameAutoscalerPtr p \<Rightarrow> fits (ptrShape gameAutoscalerKind (autoscalerShape R)) h p
       | GameAutoscalerListPtr p \<Rightarrow> fits (ptrShape gameAutoscalerListKind (autoscalerListShape R)) h p),
     means = (\<lambda>h x. case x of
         ServerPtr p \<Rightarrow> map_option ServerValue (means (ptrShape serverKind (serverShape R)) h p)
       | ServerListPtr p \<Rightarrow> map_option ServerListValue (means (ptrShape serverListKind (serverListShape R)) h p)
       | FleetPtr p \<Rightarrow> map_option FleetValue (means (ptrShape fleetKind (fleetShape R)) h p)
       | FleetListPtr p \<Rightarrow> map_option FleetListValue (means (ptrShape fleetListKind (fleetListShape R)) h p)
       | GameTypePtr p \<Rightarrow> map_option GameTypeValue (means (ptrShape gameTypeKind (gameTypeShape R)) h p)
       | GameTypeListPtr p \<Rightarrow> map_option GameTypeListValue (means (ptrShape gameTypeListKind (gameTypeListShape R)) h p)
       | GameAutoscalerPtr p \<Rightarrow> map_option GameAutoscalerValue (means (ptrShape gameAutoscalerKind (autoscalerShape R)) h p)
       | GameAutoscalerListPtr p \<Rightarrow> map_option GameAutoscalerListValue (means (ptrShape gameAutoscalerListKind (autoscalerListShape R)) h p)),
     reach = (\<lambda>h x. case x of
         ServerPtr p \<Rightarrow> reach (ptrShape serverKind (serverShape R)) h p
       | ServerListPtr p \<Rightarrow> reach (ptrShape serverListKind (serverListShape R)) h p
       | FleetPtr p \<Rightarrow> reach (ptrShape fleetKind (fleetShape R)) h p
       | FleetListPtr p \<Rightarrow> reach (ptrShape fleetListKind (fleetListShape R)) h p
       | GameTypePtr p \<Rightarrow> reach (ptrShape gameTypeKind (gameTypeShape R)) h p
       | GameTypeListPtr p \<Rightarrow> reach (ptrShape gameTypeListKind (gameTypeListShape R)) h p
       | GameAutoscalerPtr p \<Rightarrow> reach (ptrShape gameAutoscalerKind (autoscalerShape R)) h p
       | GameAutoscalerListPtr p \<Rightarrow> reach (ptrShape gameAutoscalerListKind (autoscalerListShape R)) h p)\<rparr>"

text \<open>The copy behind the interface, before a nil pointer is turned into the nil interface.\<close>

fun copyPointee :: "('x, 'o) k8sCopies \<Rightarrow> runtimeObject \<Rightarrow> (('x, 'o) mem, runtimeObject) state" where
  "copyPointee C (ServerPtr p) = do { c \<leftarrow> DeepCopy_Server C p; return (ServerPtr c) }"
| "copyPointee C (ServerListPtr p) = do { c \<leftarrow> DeepCopy_ServerList C p; return (ServerListPtr c) }"
| "copyPointee C (FleetPtr p) = do { c \<leftarrow> DeepCopy_Fleet C p; return (FleetPtr c) }"
| "copyPointee C (FleetListPtr p) = do { c \<leftarrow> DeepCopy_FleetList C p; return (FleetListPtr c) }"
| "copyPointee C (GameTypePtr p) = do { c \<leftarrow> DeepCopy_GameType C p; return (GameTypePtr c) }"
| "copyPointee C (GameTypeListPtr p) = do { c \<leftarrow> DeepCopy_GameTypeList C p; return (GameTypeListPtr c) }"
| "copyPointee C (GameAutoscalerPtr p) = do { c \<leftarrow> DeepCopy_GameAutoscaler C p; return (GameAutoscalerPtr c) }"
| "copyPointee C (GameAutoscalerListPtr p) = do { c \<leftarrow> DeepCopy_GameAutoscalerList C p; return (GameAutoscalerListPtr c) }"

lemma newCopy_None [simp]: "newCopy K zero copy None = return None"
  by (simp add: newCopy_def)

lemma newCopy_Some: "run_state (newCopy K zero copy (Some a)) h = (q, h') \<Longrightarrow> q = Some (length h)"
  by (auto simp: newCopy_def split: prod.splits)

lemmas DeepCopy_defs = DeepCopy_Server_def
  DeepCopy_ServerList_def
  DeepCopy_Fleet_def
  DeepCopy_FleetList_def
  DeepCopy_GameType_def
  DeepCopy_GameTypeList_def
  DeepCopy_GameAutoscaler_def
  DeepCopy_GameAutoscalerList_def

lemmas DeepCopyObject_defs = DeepCopyObject_Server_def
  DeepCopyObject_ServerList_def
  DeepCopyObject_Fleet_def
  DeepCopyObject_FleetList_def
  DeepCopyObject_GameType_def
  DeepCopyObject_GameTypeList_def
  DeepCopyObject_GameAutoscaler_def
  DeepCopyObject_GameAutoscalerList_def

lemma DeepCopyObject_copyPointee:
  assumes "run_state (DeepCopyObject C obj) h = (r, h')"
  shows "\<exists>c. run_state (copyPointee C obj) h = (c, h') \<and> goType c = goType obj \<and>
    (pointer c = None \<longleftrightarrow> pointer obj = None) \<and> r = (if pointer obj = None then None else Some c)"
proof (cases "pointer obj")
  case None
  with assms show ?thesis by (cases obj) (auto simp: DeepCopyObject_defs DeepCopy_defs)
next
  case (Some a)
  with assms show ?thesis
    by (cases obj) (auto simp: DeepCopyObject_defs DeepCopy_defs split: prod.splits if_splits dest: newCopy_Some)
qed

lemma deep_copier_object:
  assumes "k8sDeep C R"
  shows "deep_copier (objectShape R) (copyPointee C)"
proof
  note C = deep_copier_DeepCopy [OF assms]
  fix h h' :: "('a, 'b) mem" and x
  assume "agree (reach (objectShape R) h x) h h'"
  then show "fits (objectShape R) h' x = fits (objectShape R) h x \<and>
      means (objectShape R) h' x = means (objectShape R) h x \<and> reach (objectShape R) h' x = reach (objectShape R) h x"
    by (cases x) (simp_all add: objectShape_def C [THEN deep_copier.local])
next
  note C = deep_copier_DeepCopy [OF assms]
  fix h :: "('a, 'b) mem" and x
  assume "fits (objectShape R) h x"
  then show "reach (objectShape R) h x \<subseteq> {..<length h}"
    by (cases x) (simp_all add: objectShape_def C [THEN deep_copier.in_range])
next
  note C = deep_copier_DeepCopy [OF assms]
  fix h h' :: "('a, 'b) mem" and x y
  assume "fits (objectShape R) h x" and "run_state (copyPointee C x) h = (y, h')"
  then show "prefix h h' \<and> fits (objectShape R) h' y \<and> means (objectShape R) h' y = means (objectShape R) h x \<and>
      reach (objectShape R) h' y \<subseteq> {length h..<length h'}"
    by - (cases x; clarsimp simp: objectShape_def split: prod.splits; drule (1) C [THEN deep_copier.copied]; simp)
qed

section \<open>A Kubernetes that keeps labels in a map\<close>

text \<open>
  The embedded structs with one shared part: the labels of an ObjectMeta are a map, that is, an
  address. Copying an ObjectMeta makes a new map; the other structs hold no addresses.
\<close>

record k8sStruct =
  k8sMeta :: ObjectMeta
  k8sLabels :: "addr option"
  k8sList :: ListMeta
  k8sPod :: PodSpec
  k8sCondition :: Condition

definition labelsKind :: "(('x, (string \<times> string) list) memcell, (string \<times> string) list) kind" where
  "labelsKind = \<lparr>holds = (\<lambda>c. case c of OutsideCell _ \<Rightarrow> True | _ \<Rightarrow> False),
     content = (\<lambda>c. case c of OutsideCell m \<Rightarrow> m), cell = OutsideCell\<rparr>"

definition k8sZero :: k8sStruct where
  "k8sZero = \<lparr>k8sMeta = emptyMeta, k8sLabels = None,
     k8sList = \<lparr>listResourceVersion = [], listContinue = [], listRemainingItemCount = None\<rparr>,
     k8sPod = \<lparr>Containers = None, ImagePullSecrets = None, podOther = []\<rparr>,
     k8sCondition = \<lparr>condType = [], condStatus = False, condLastTransitionTime = 0, condReason = [], condMessage = []\<rparr>\<rparr>"

definition memCopies :: "(k8sStruct, (string \<times> string) list) k8sCopies" where
  "memCopies = \<lparr>
     DeepCopyInto_ObjectMeta = (\<lambda>x. do {
       l \<leftarrow> newCopy labelsKind [] return (k8sLabels x);
       return (x\<lparr>k8sLabels := l\<rparr>)
     }),
     DeepCopyInto_ListMeta = return, DeepCopyInto_PodSpec = return, DeepCopyInto_Condition = return,
     zeroOfObjectMeta = k8sZero, zeroOfListMeta = k8sZero, zeroOfPodSpec = k8sZero, zeroOfCondition = k8sZero\<rparr>"

definition memShapes :: "(k8sStruct, (string \<times> string) list) k8sShapes" where
  "memShapes = \<lparr>
     objectMetaShape = structShape k8sLabels (\<lambda>l x. k8sMeta x\<lparr>Labels := map_option map_of l\<rparr>)
       (ptrShape labelsKind (valueShape id)),
     listMetaShape = valueShape k8sList, podSpecShape = valueShape k8sPod, conditionShape = valueShape k8sCondition\<rparr>"

lemma labelsKind_ok: "kindOk labelsKind"
  by (simp add: kindOk_def labelsKind_def)

lemma memDeep: "k8sDeep memCopies memShapes"
proof -
  have "deep_copier (objectMetaShape memShapes) (DeepCopyInto_ObjectMeta memCopies)"
    unfolding memCopies_def memShapes_def k8sCopies.simps k8sShapes.simps
    by (intro deep_copier_struct [where put = "\<lambda>l x. x\<lparr>k8sLabels := l\<rparr>"])
      (simp_all add: labelsKind_ok deep_copier_new deep_copier_value)
  then show ?thesis by (simp add: k8sDeep_def memCopies_def memShapes_def deep_copier_value)
qed

interpretation memObject: deep_copier "objectShape memShapes" "copyPointee memCopies"
  by (rule deep_copier_object [OF memDeep])

text \<open>
  A server in memory: its labels are at address 1, its timeout at 0, and its one condition is a
  window of an array with room for another.
\<close>

definition sampleMem :: "(k8sStruct, (string \<times> string) list) mem" where
  "sampleMem = [DurationCell Minute, OutsideCell [(''game'', ''chess'')], ConditionsCell [k8sZero, k8sZero],
     ServerCell \<lparr>server_TypeMeta = \<lparr>typeKind = ''Server'', typeAPIVersion = ''v1''\<rparr>,
       server_ObjectMeta = k8sZero\<lparr>k8sLabels := Some 1\<rparr>,
       server_Spec = \<lparr>spec_Pod = k8sZero, spec_TimeOut = Some 0, spec_AllowForceDelete = True\<rparr>,
       server_Status = \<lparr>server_Conditions = Some \<lparr>array = 2, offset = 0, len = 1, capacity = 2\<rparr>\<rparr>\<rparr>]"

definition sampleCopied :: "(k8sStruct, (string \<times> string) list) mem" where
  "sampleCopied = snd (run_state (DeepCopyObject memCopies (ServerPtr (Some 3))) sampleMem)"

lemma sampleFits: "fits (objectShape memShapes) sampleMem (ServerPtr (Some 3))"
  by code_simp

lemma sampleRun:
  "run_state (DeepCopyObject memCopies (ServerPtr (Some 3))) sampleMem = (Some (ServerPtr (Some 4)), sampleCopied)"
proof -
  have "fst (run_state (DeepCopyObject memCopies (ServerPtr (Some 3))) sampleMem) = Some (ServerPtr (Some 4))"
    by code_simp
  then show ?thesis by (simp add: sampleCopied_def prod_eq_iff)
qed

section \<open>Properties\<close>

text \<open>
  C19: \<open>DeepCopyObject\<close> keeps types. Called on a well-typed object of any of the eight registered
  types, it returns the nil interface exactly for a nil pointer (never a typed nil), and otherwise a
  pointer of the same type to a value that is well typed in the resulting memory: each pointer and
  each slice of it, at any depth, leads to a cell of the type that its field declares. No cell that
  existed before is written.
\<close>

theorem deep_copy_keeps_types:
  assumes "k8sDeep C R" and "fits (objectShape R) h obj" and "run_state (DeepCopyObject C obj) h = (r, h')"
  shows "prefix h h' \<and> (r = None \<longleftrightarrow> pointer obj = None) \<and>
    (\<forall>c. r = Some c \<longrightarrow> goType c = goType obj \<and> pointer c \<noteq> None \<and> fits (objectShape R) h' c)"
proof -
  from DeepCopyObject_copyPointee [OF assms(3)] obtain c
    where "run_state (copyPointee C obj) h = (c, h')" "goType c = goType obj"
      "pointer c = None \<longleftrightarrow> pointer obj = None" "r = (if pointer obj = None then None else Some c)" by auto
  with deep_copier.copied [OF deep_copier_object [OF assms(1)] assms(2)] show ?thesis by auto
qed

theorem deep_copy_keeps_types_witness:
  "prefix sampleMem sampleCopied \<and> fits (objectShape memShapes) sampleCopied (ServerPtr (Some 4))"
  using deep_copy_keeps_types [OF memDeep sampleFits sampleRun] by simp

text \<open>
  C18: The copies are deep. A copy stands for the same object as the original, field by field as the
  controllers read it; and whatever is later done to the cells of one of the two, in any order and
  at any depth (labels, containers, timeout, conditions, items of a list), the other one still
  stands for what it stood for. So an object taken from the cache may be changed in place.
\<close>

theorem deep_copy_isolated:
  assumes "k8sDeep C R" and "fits (objectShape R) h obj" and "run_state (DeepCopyObject C obj) h = (Some c, h')"
  shows "means (objectShape R) h' c = means (objectShape R) h obj \<and>
    (\<forall>h''. agree ({..<length h'} - reach (objectShape R) h' c) h' h'' \<longrightarrow>
       means (objectShape R) h'' obj = means (objectShape R) h obj) \<and>
    (\<forall>h''. agree ({..<length h'} - reach (objectShape R) h' obj) h' h'' \<longrightarrow>
       means (objectShape R) h'' c = means (objectShape R) h obj)"
proof -
  from DeepCopyObject_copyPointee [OF assms(3)] have run: "run_state (copyPointee C obj) h = (c, h')"
    by (auto split: if_splits)
  note D = deep_copier_object [OF assms(1)]
  from deep_copier.copied [OF D assms(2) run] show ?thesis
    using deep_copier.original_isolated [OF D assms(2) run] deep_copier.copy_isolated [OF D assms(2) run] by simp
qed

theorem deep_copy_isolated_witness:
  "means (objectShape memShapes) sampleCopied (ServerPtr (Some 4)) = means (objectShape memShapes) sampleMem (ServerPtr (Some 3)) \<and>
   means (objectShape memShapes) (sampleCopied[6 := DurationCell 0, 5 := OutsideCell []]) (ServerPtr (Some 3)) =
     means (objectShape memShapes) sampleMem (ServerPtr (Some 3))"
proof -
  have "reach (objectShape memShapes) sampleCopied (ServerPtr (Some 4)) = {4, 5, 6, 7}" by code_simp
  then have "agree ({..<length sampleCopied} - reach (objectShape memShapes) sampleCopied (ServerPtr (Some 4)))
      sampleCopied (sampleCopied[6 := DurationCell 0, 5 := OutsideCell []])"
    by (auto simp: agree_def)
  with deep_copy_isolated [OF memDeep sampleFits sampleRun] show ?thesis by blast
qed

end
