(* ===== verification/Spec2Isabelle.thy ===== *)
theory Spec2Isabelle
  imports Startup ServerRounds Scaling ExampleWebhook ServiceProps DeepCopyProps
begin

text \<open>
  The game-server platform of this repository: a Kubernetes operator, the sidecar that runs beside
  every game server, the REST service in front of the cluster, and an example scaling webhook.

  \<^bold>\<open>The program.\<close> A \<open>GameType\<close> owns fleets, a \<open>Fleet\<close> owns servers, a \<open>Server\<close> owns one pod, and a
  \<open>GameAutoscaler\<close> writes the replica count of a game type. Each kind has a controller whose
  \<open>Reconcile\<close> reads one object and makes a few calls to the API server. Game types, fleets, servers and
  their pods carry a finalizer; a server is released only when its sidecar allows it, a fleet when it has no
  server left, a game type when it has no fleet left. The operator talks to a sidecar over HTTP (ask for
  shutdown, ask whether deletion is allowed) and to the scaling webhook; the service creates and deletes the
  objects for its clients and can tell a sidecar to allow a deletion.

  \<^bold>\<open>The outside.\<close> Code that is not in the repository is a parameter. The record \<open>'w platform\<close> (theory
  \<open>Platform\<close>) has the controller-runtime client, the network, the clock, the environment and the helpers
  of \<open>controllerutil\<close>; the record \<open>'w kube\<close> (theory \<open>ServiceKube\<close>) has client-go and the JSON of the
  Kubernetes types. Both act on a hidden state \<open>'w\<close> of which nothing is assumed, so reads may be stale,
  writes may fail and the cluster may change between any two calls. What a property needs beyond that
  is a named hypothesis about documented behaviour (\<open>finalizer_laws\<close>, \<open>reference_laws\<close>, \<open>unstructured_laws\<close>,
  \<open>readsBack\<close>, \<open>k8sDeep\<close>, \<open>servedBy\<close>, \<open>sharedSidecar\<close>). \<open>MemCluster\<close>,
  \<open>MemKube\<close> and \<open>clusterKube\<close> below are instances in memory, on which the witnesses run.

  \<^bold>\<open>The theories.\<close>
  \<^item> \<open>Prelude\<close>: Go's integers and errors, the collections of rules. \<open>Traces\<close>: programs as state monads that
    record their calls, and the logic \<open>emits m Q\<close> (\<open>Q\<close> holds of the result and the calls of every run of
    \<open>m\<close>) and \<open>only p m\<close> (every call satisfies \<open>p\<close>), with rules along the structure of a program.
  \<^item> \<open>Json\<close>, \<open>HttpServer\<close>, \<open>Network\<close>: what is used of \<open>encoding/json\<close> and \<open>net/http\<close>, on both ends.
  \<^item> \<open>Objects\<close> (\<open>operator/api/v1alpha1/*_types.go\<close>), \<open>Events\<close> (\<open>internal/utils/events.go\<close>), \<open>Builders\<close>
    (\<open>internal/utils/pod.go\<close>, \<open>server.go\<close>, \<open>gametype.go\<close>): the resources and how one is made from its owner;
    the locale \<open>owned_child\<close> states that a child is found by the selector of its owner only.
  \<^item> \<open>Sidecar\<close> (\<open>sidecar/\<close>): handlers, routes and sessions; locale \<open>flag_endpoint\<close>, interpreted twice.
  \<^item> \<open>SidecarClient\<close> (\<open>sidecar_requests.go\<close>, \<open>server_communication.go\<close>): the two deletion checks and their
    interfaces, locales \<open>deletion_check\<close> and \<open>fleet_deletion_check\<close>.
  \<^item> \<open>ServerController\<close>, \<open>FleetDeletion\<close> (\<open>fleet_deletion.go\<close>), \<open>FleetController\<close>, \<open>GameTypeController\<close>,
    \<open>Autoscaler\<close> (\<open>gameautoscaler_controller.go\<close>, \<open>autoscale_communication.go\<close>): the four reconciliations,
    each with its calls, its guards and what it writes; \<open>Webhooks\<close> (\<open>*_webhook.go\<close>): defaulting and
    validation.
  \<^item> \<open>Operator\<close> (\<open>cmd/main.go\<close>): the controllers together. A history is an interleaving of the calls of any
    number of reconciliations, each stopped anywhere; the locale \<open>lasting\<close> carries a guarantee of
    one reconciliation over to histories. \<open>Startup\<close> (\<open>cmd/main.go\<close>, the \<open>SetupWithManager\<close> functions): the
    options of the manager and the registrations, over the record \<open>'w manager\<close>, and the start of the service.
  \<^item> \<open>ServerRounds\<close>, \<open>FleetRounds\<close>, \<open>RolloutRounds\<close>: a server, a fleet and a game type over many
    reconciliations, as an iterated relation over what is read or listed, and their convergence by a measure.
    A round ends when the changes it asked for have taken place and nobody else has changed anything; that
    status updates are answered with the stored object, whose spec is the one that was read, is a condition on
    the calls of the run (\<open>keepsSpec\<close>, \<open>seesOnly\<close>). A rollout gives every fleet made in a round the time of that
    round and the pod template as its JSON keeps it, and assumes no order between the times.
    \<open>Scaling\<close> joins three controllers: the replica count on its way from the webhook through the game type
    and the fleet to the servers.
  \<^item> \<open>GoHeap\<close>: memory as a list of cells, the shapes of pointers, slices and structs over it, and the
    contract of a copy, the locale \<open>deep_copier\<close>, composed along shapes. \<open>DeepCopy\<close>
    (\<open>zz_generated.deepcopy.go\<close>): the structs as they lie in memory and every generated function over them.
    \<open>DeepCopyProps\<close>: the shapes that read them as the records of \<open>Objects\<close>, and the contract for each.
  \<^item> \<open>ServiceKube\<close> (\<open>service/internal/kube\<close>), \<open>ServiceHandlers\<close> (\<open>service/internal/handlers\<close>, \<open>routes\<close>),
    \<open>ServiceProps\<close>: the service, with the contract of its handlers as the locale \<open>rest_endpoint\<close>.
  \<^item> \<open>ExampleWebhook\<close> (\<open>example/webhook\<close>).
  \<^item> This theory composes the programs: the operator with the sidecar, the service with both, the
    autoscaler with the webhook.

  \<^bold>\<open>What is shown.\<close> Safety of deletion (nothing is released or deleted without the answer that permits
  it, in one reconciliation and in every history); the exact effect of a reconciliation of a fleet and of a
  game type; that a server becomes ready, a fleet reaches its replica count and a game type one fleet with its pod
  template (as soon as the API server keeps that template as it is and the other fleets are older), that the count the webhook asks for reaches the servers, and that a deletion forced through the
  service is carried out by the operator; that the operator starts complete or not at all; that the search
  for the server to give up refines a choice of the first extreme element; that the generated copies are
  well typed and share nothing with their originals, so that the other theories may take objects as values;
  the functional behaviour of the checks, the webhooks, the autoscaler and the service on every branch,
  errors and panics included; the round trips of the JSON; the bounds of the replica count; and, where the
  code departs from what it means to do, that it does.

  \<^bold>\<open>Choices.\<close> A nil dereference or a write into a nil map is the outcome \<open>Panic\<close>; an error is the left of a
  sum. A slice is an option of a list, so a nil slice and an empty one differ and \<open>=\<close> on the records of the
  specs is \<open>reflect.DeepEqual\<close>. Replica counts are 32-bit words and Go's \<open>int\<close> is a 64-bit word. Every loop of the program runs over
  a list or a counted range, so all definitions are total and none needs fuel. A body is the JSON value that
  its text parses to.

  \<^bold>\<open>Not modelled.\<close> The parsing of the command line of \<open>main\<close>, the registration of types with the scheme,
  logging, listening on a port, and the text form of JSON: calls of libraries without logic of their own.
\<close>

section \<open>The operator and the sidecar\<close>

text \<open>
  The hypothesis under which the operator and a sidecar are composed: as long as \<open>I\<close> holds, each of the two
  requests that the operator makes to the address of the pod is delivered to the sidecar, whose state is
  \<open>app\<close>, and its response delivered back; reading the clock does not touch it.
\<close>

fun operatorAsks :: "HttpRequest \<Rightarrow> string \<Rightarrow> bool" where
  "operatorAsks q p \<longleftrightarrow> reqMethod q = ''POST'' \<and> p = ''/shutdown'' \<or> reqMethod q = ''GET'' \<and> p = ''/allow_delete''"

definition servedBy :: "'w platform \<Rightarrow> string \<Rightarrow> ('w \<Rightarrow> bool) \<Rightarrow> ('w \<Rightarrow> App) \<Rightarrow> bool" where
  "servedBy P ip I app \<longleftrightarrow>
     (\<forall>q p w. I w \<and> reqUrl q = sidecarUrl ip @ p \<and> operatorAsks q p \<longrightarrow>
        (case SidecarServe (app w) (requestOf p q) (newWriter False) of (a, v) \<Rightarrow>
           \<exists>resp w'. httpDo P q w = (Inr resp, w') \<and> I w' \<and> app w' = a \<and> carries resp v)) \<and>
     (\<forall>w. I w \<longrightarrow> I (snd (timeNow P w)) \<and> app (snd (timeNow P w)) = app w)"

lemma servedByD:
  assumes "servedBy P ip I app" and "I w" and "reqUrl q = sidecarUrl ip @ p" and "operatorAsks q p"
    and "SidecarServe (app w) (requestOf p q) (newWriter False) = (a, v)"
  obtains resp w' where "httpDo P q w = (Inr resp, w')" "I w'" "app w' = a" "carries resp v"
proof -
  note served = assms(1) [unfolded servedBy_def, THEN conjunct1, rule_format]
  from served [of w q p] assms(2-5) obtain resp w'
    where "httpDo P q w = (Inr resp, w')" "I w'" "app w' = a" "carries resp v"
    by auto
  then show thesis by (rule that)
qed

lemma podUrl: "buildPodBaseAddress pod @ p = sidecarUrl (PodIP pod) @ ''/'' @ p"
  by (simp add: buildPodBaseAddress_def sidecarUrl_def)

lemma serve_shutdown:
  obtains v where "SidecarServe a (requestOf ''/shutdown'' \<lparr>reqMethod = ''POST'', reqUrl = u,
      reqBody = Some (encodeFlag ''shutdown'' True)\<rparr>) (newWriter False) = (a\<lparr>ShutdownRequested := True\<rparr>, v)"
    and "finalStatus v = 200"
  by (auto simp: sidecar_defs requestOf_def Let_def prod.case_eq_if bool.case_eq_if finalStatus_def)

lemma serve_allow_delete:
  obtains v where "SidecarServe a (requestOf ''/allow_delete'' \<lparr>reqMethod = ''GET'', reqUrl = u,
      reqBody = None\<rparr>) (newWriter False) = (a, v)"
    and "finalStatus v = 200" and "sentBody v = [encodeFlag ''allowed'' (DeleteAllowed a)]"
  by (auto simp: sidecar_defs requestOf_def Let_def prod.case_eq_if bool.case_eq_if finalStatus_def)

lemma askSidecar_served:
  assumes "servedBy P (PodIP pod) I app" and "I (backend s)"
  obtains s' where "run_state (askSidecar P pod) s = (Inr (DeleteAllowed (app (backend s))), s')"
    and "app (backend s') = (app (backend s))\<lparr>ShutdownRequested := True\<rparr>" and "I (backend s')"
proof -
  let ?q = "\<lparr>reqMethod = ''POST'', reqUrl = buildPodBaseAddress pod @ ''shutdown'',
    reqBody = Some (encodeFlag ''shutdown'' True)\<rparr>"
  let ?g = "\<lparr>reqMethod = ''GET'', reqUrl = buildPodBaseAddress pod @ ''allow_delete'', reqBody = None\<rparr>"
  obtain v where v: "SidecarServe (app (backend s)) (requestOf ''/shutdown'' ?q) (newWriter False)
      = ((app (backend s))\<lparr>ShutdownRequested := True\<rparr>, v)" "finalStatus v = 200"
    by (rule serve_shutdown)
  obtain r1 w1 where 1: "httpDo P ?q (backend s) = (Inr r1, w1)" "I w1"
      "app w1 = (app (backend s))\<lparr>ShutdownRequested := True\<rparr>" "carries r1 v"
    by (rule servedByD [OF assms(1,2) _ _ v(1)]) (simp_all add: podUrl)
  obtain u where u: "SidecarServe (app w1) (requestOf ''/allow_delete'' ?g) (newWriter False) = (app w1, u)"
      "finalStatus u = 200" "sentBody u = [encodeFlag ''allowed'' (DeleteAllowed (app w1))]"
    by (rule serve_allow_delete)
  obtain r2 w2 where 2: "httpDo P ?g w1 = (Inr r2, w2)" "I w2" "app w2 = app w1" "carries r2 u"
    by (rule servedByD [OF assms(1) 1(2) _ _ u(1)]) (simp_all add: podUrl)
  obtain t where t: "respBody r2 = Inr (t, Inr (encodeFlag ''allowed'' (DeleteAllowed (app w1))))"
      "StatusCode r2 = 200"
    using carriesD [OF 2(4) u(3)] u(2) by metis
  from 1(4) v(2) have "StatusCode r1 = 200" by (simp add: carries_def)
  with 1 2 t have "run_state (askSidecar P pod) s = (Inr (DeleteAllowed (app (backend s))),
      s\<lparr>backend := w2, trace := trace s @ [Http ?q (Inr r1), Http ?g (Inr r2)]\<rparr>)"
    by (simp add: askSidecar_def RequestShutdown_def IsDeleteAllowed_def go_simps StatusOK_def)
  from that [OF this] 1 2 show thesis by simp
qed

text \<open>The time-out of a server has passed since its deletion was asked for.\<close>

definition overdue :: "Server \<Rightarrow> time \<Rightarrow> bool" where
  "overdue server now = (case (TimeOut (server_spec server), DeletionTimestamp (server_meta server)) of
     (Some timeout, Some since) \<Rightarrow> since + timeout < now | _ \<Rightarrow> False)"

definition needsNoAnswer :: "Server \<Rightarrow> Pod \<Rightarrow> time \<Rightarrow> bool" where
  "needsNoAnswer server pod now \<longleftrightarrow>
     Phase pod \<noteq> PodRunning \<or> AllowForceDelete (server_spec server) \<or> overdue server now"

lemma check_decides:
  assumes "servedBy P (PodIP pod) I app" and "I (backend s)" and "beingDeleted (server_meta server)"
    and "run_state (IsDeletionAllowed P server pod) s = (res, s')"
  shows "res = Done (Inr (needsNoAnswer server pod (fst (timeNow P (backend s))) \<or> DeleteAllowed (app (backend s)))) \<and>
     app (backend s') = (if needsNoAnswer server pod (fst (timeNow P (backend s))) then app (backend s)
       else (app (backend s))\<lparr>ShutdownRequested := True\<rparr>)"
proof -
  obtain d where d: "DeletionTimestamp (server_meta server) = Some d"
    using assms(3) by auto
  let ?s = "s\<lparr>backend := snd (timeNow P (backend s))\<rparr>"
  have now: "I (backend ?s)" "app (backend ?s) = app (backend s)"
    using assms(1,2) by (auto simp: servedBy_def)
  obtain s1 where s1: "run_state (askSidecar P pod) s = (Inr (DeleteAllowed (app (backend s))), s1)"
      "app (backend s1) = (app (backend s))\<lparr>ShutdownRequested := True\<rparr>"
    using askSidecar_served [OF assms(1,2)] .
  obtain s2 where s2: "run_state (askSidecar P pod) ?s = (Inr (DeleteAllowed (app (backend s))), s2)"
      "app (backend s2) = (app (backend s))\<lparr>ShutdownRequested := True\<rparr>"
    using askSidecar_served [OF assms(1) now(1)] now(2) by metis
  show ?thesis
    using assms(4) s1 s2 now(2) d
    by (auto simp: IsDeletionAllowed_def go_simps needsNoAnswer_def overdue_def prod.case_eq_if
      split: if_splits option.splits)
qed

text \<open>
  C6: With the sidecar answering at the address of the pod, the deletion check of a server that is being
  deleted always answers, and answers yes exactly when the pod is not running, or force deletion is
  allowed, or the time-out has passed, or the game server has allowed its deletion. In the first three
  cases the sidecar is left alone; otherwise it has been told that a shutdown is wanted.
\<close>

theorem deletion_check_decides:
  assumes "servedBy P (PodIP pod) I app" and "I (backend s)" and "beingDeleted (server_meta server)"
    and "run_state (IsDeletionAllowed P server pod) s = (res, s')"
  shows "res = Done (Inr (needsNoAnswer server pod (fst (timeNow P (backend s))) \<or> DeleteAllowed (app (backend s)))) \<and>
     app (backend s') = (if needsNoAnswer server pod (fst (timeNow P (backend s))) then app (backend s)
       else (app (backend s))\<lparr>ShutdownRequested := True\<rparr>)"
  using assms by (rule check_decides)

text \<open>The in-memory cluster delivers to its one sidecar.\<close>

definition oneSidecar :: "string \<Rightarrow> cluster \<Rightarrow> bool" where
  "oneSidecar ip c \<longleftrightarrow> map fst (mem_sidecars c) = [ip] \<and> mem_web c = []"

lemma mem_delivers:
  assumes "oneSidecar ip w" and "reqUrl q = sidecarUrl ip @ p"
  shows "\<exists>resp w'. httpDo memPlatform q w = (Inr resp, w') \<and> oneSidecar ip w' \<and>
      snd (hd (mem_sidecars w')) = fst (SidecarServe (snd (hd (mem_sidecars w))) (requestOf p q) (newWriter False)) \<and>
      carries resp (snd (SidecarServe (snd (hd (mem_sidecars w))) (requestOf p q) (newWriter False)))"
proof -
  from assms(1) obtain a where "mem_sidecars w = [(ip, a)]" "mem_web w = []"
    by (cases "mem_sidecars w") (auto simp: oneSidecar_def)
  with assms(2) show ?thesis
    by (auto simp: memPlatform_def oneSidecar_def carries_def requestOf_def Let_def prod.case_eq_if
      split: list.splits)
qed

lemma mem_servedBy: "servedBy memPlatform ip (oneSidecar ip) (\<lambda>c. snd (hd (mem_sidecars c)))"
  using mem_delivers by (auto simp: servedBy_def memPlatform_def prod.case_eq_if)

theorem deletion_check_decides_witness:
  "answer (IsDeletionAllowed memPlatform deletingServer (examplePod ''s'')) (deletingCluster True) = Done (Inr True) \<and>
   answer (IsDeletionAllowed memPlatform deletingServer (examplePod ''s'')) (deletingCluster False) = Done (Inr False)"
proof -
  have "answer (IsDeletionAllowed memPlatform deletingServer (examplePod ''s'')) (deletingCluster b) = Done (Inr b)" for b
  proof -
    let ?s = "newWorld (deletingCluster b) :: cluster world"
    let ?run = "run_state (IsDeletionAllowed memPlatform deletingServer (examplePod ''s'')) ?s"
    have one: "oneSidecar (PodIP (examplePod ''s'')) (backend ?s)"
      by (simp add: oneSidecar_def deletingCluster_def newWorld_def emptyCluster_def examplePod_def)
    have deleted: "beingDeleted (server_meta deletingServer)" by (simp add: deletingServer_def)
    have run: "?run = (fst ?run, snd ?run)" by simp
    have "fst ?run = Done (Inr (needsNoAnswer deletingServer (examplePod ''s'')
        (fst (timeNow memPlatform (backend ?s))) \<or> DeleteAllowed (snd (hd (mem_sidecars (backend ?s))))))"
      by (rule conjunct1 [OF deletion_check_decides [OF mem_servedBy one deleted run]])
    moreover have "\<not> needsNoAnswer deletingServer (examplePod ''s'') (fst (timeNow memPlatform (backend ?s)))"
      by (cases b) code_simp+
    moreover have "DeleteAllowed (snd (hd (mem_sidecars (backend ?s)))) = b"
      by (cases b) code_simp+
    ultimately show ?thesis by (simp add: answer_def)
  qed
  then show ?thesis by blast
qed

section \<open>The service, the sidecar and the operator\<close>

lemma check_allowed:
  assumes "servedBy P (PodIP pod) I app" and "I (backend s)" and "beingDeleted (server_meta server)"
    and "DeleteAllowed (app (backend s))"
  shows "fst (run_state (IsDeletionAllowed P server pod) s) = Done (Inr True)"
  using check_decides [OF assms(1-3) surjective_pairing, THEN conjunct1] assms(4) by simp

text \<open>
  The hypotheses under which the service and the operator share a sidecar: the request with which the service
  allows a deletion, when it is answered, has been served by it, and deleting a server, reading a server and reading a pod do not touch it.
\<close>

definition sharedSidecar :: "'w kube \<Rightarrow> 'w platform \<Rightarrow> string \<Rightarrow> ('w \<Rightarrow> bool) \<Rightarrow> ('w \<Rightarrow> App) \<Rightarrow> bool" where
  "sharedSidecar K P ip I app \<longleftrightarrow> servedBy P ip I app \<and>
     (\<forall>q w resp w'. I w \<and> reqMethod q = ''POST'' \<and> reqUrl q = sidecarUrl ip @ ''/allow_delete'' \<and>
        kubeHttp K q w = (Inr resp, w') \<longrightarrow>
        I w' \<and> app w' = fst (SidecarServe (app w) (requestOf ''/allow_delete'' q) (newWriter False))) \<and>
     (\<forall>w w'. I w \<and> ((\<exists>g ns n. w' = snd (dynDelete K g ns n w)) \<or> (\<exists>ns n. w' = snd (podGet K ns n w)) \<or>
        (\<exists>n. w' = snd (getServer P n w)) \<or> (\<exists>n. w' = snd (getPod P n w))) \<longrightarrow> I w' \<and> app w' = app w)"

lemma sharedSidecarD:
  assumes "sharedSidecar K P ip I app" and "I w"
  shows "reqMethod q = ''POST'' \<Longrightarrow> reqUrl q = sidecarUrl ip @ ''/allow_delete'' \<Longrightarrow>
      kubeHttp K q w = (Inr resp, w') \<Longrightarrow>
      I w' \<and> app w' = fst (SidecarServe (app w) (requestOf ''/allow_delete'' q) (newWriter False))"
    and "dynDelete K g ns n w = (rd, w') \<Longrightarrow> I w' \<and> app w' = app w"
    and "podGet K ns n w = (rp, w') \<Longrightarrow> I w' \<and> app w' = app w"
    and "getServer P k w = (rs, w') \<Longrightarrow> I w' \<and> app w' = app w"
    and "getPod P k w = (rp', w') \<Longrightarrow> I w' \<and> app w' = app w"
  using assms unfolding sharedSidecar_def by (blast, metis snd_conv, metis snd_conv, metis snd_conv, metis snd_conv)

text \<open>
  The service has deleted a server by force: it reports success, and the pod it read has the address \<open>ip\<close>.
\<close>

fun podAt :: "string \<Rightarrow> kubeCall \<Rightarrow> bool" where
  "podAt ip (PodGet ns n (Inr pod)) \<longleftrightarrow> PodIP pod = ip"
| "podAt ip _ \<longleftrightarrow> True"

definition forcedDeletion :: "'w kube \<Rightarrow> Metadata \<Rightarrow> string \<Rightarrow> 'w \<Rightarrow> bool" where
  "forcedDeletion K metadata ip w \<longleftrightarrow> answer (SvcDeleteServer K metadata True) w = Inr () \<and>
     list_all (podAt ip) (calls (SvcDeleteServer K metadata True) w)"

lemma forced_deletion_sets_flag:
  assumes "sharedSidecar K P ip I app" and "I w" and "forcedDeletion K metadata ip w"
  shows "I (worldAfter (SvcDeleteServer K metadata True) w) \<and>
     DeleteAllowed (app (worldAfter (SvcDeleteServer K metadata True) w))"
proof -
  note forced = assms(3) [unfolded forcedDeletion_def]
  obtain rd w1 where d: "dynDelete K ServerGCR (mdNamespace metadata) (mdName metadata) w = (rd, w1)" by force
  obtain rp w2 where p: "podGet K (mdNamespace metadata) (mdName metadata @ ''-pod'') w1 = (rp, w2)" by force
  from forced d p obtain pod where pod: "rd = Inr ()" "rp = Inr pod"
    by (cases rd; cases rp) (auto simp: SvcDeleteServer_def sendDeleteAllowed_def go_simps answer_def newWorld_def)
  let ?q = "\<lparr>reqMethod = ''POST'', reqUrl = ''http://'' @ PodIP pod @ '':8080/allow_delete'',
    reqBody = Some (encodeFlag ''allowed'' True)\<rparr>"
  obtain rh w3 where h: "kubeHttp K ?q w2 = (rh, w3)" by force
  from forced d p h pod obtain resp where resp: "rh = Inr resp"
    by (cases rh) (auto simp: SvcDeleteServer_def sendDeleteAllowed_def go_simps answer_def newWorld_def)
  have run: "calls (SvcDeleteServer K metadata True) w = [DynDelete ServerGCR (mdNamespace metadata) (mdName metadata) True,
      PodGet (mdNamespace metadata) (mdName metadata @ ''-pod'') (Inr pod), Send ?q True]"
    "worldAfter (SvcDeleteServer K metadata True) w = w3"
    using d p h pod resp
    by (simp_all add: SvcDeleteServer_def sendDeleteAllowed_def go_simps calls_def worldAfter_def newWorld_def)
  with forced have "PodIP pod = ip" by simp
  then have url: "reqUrl ?q = sidecarUrl ip @ ''/allow_delete''" by (simp add: sidecarUrl_def)
  note shared = sharedSidecarD [OF assms(1)]
  from shared(2) [OF assms(2) d] have 1: "I w1" by simp
  from shared(3) [OF 1 p] have 2: "I w2" by simp
  from shared(1) [OF 2 _ url, of resp w3] h resp
  have "I w3" "app w3 = fst (SidecarServe (app w2) (requestOf ''/allow_delete'' ?q) (newWriter False))" by auto
  then show ?thesis
    by (simp add: run serve_DeleteAllowed requestOf_def postedFlag_def)
qed

lemma handleDeletion_asks:
  assumes "getPod P (podNameOf server) w = (Inr pod, w')"
    and "run_state (DeletionAllowed r server pod) (s\<lparr>backend := w', trace := trace s @ [gotPod (serverKey server) pod]\<rparr>) = (Inr True, s')"
    and "backend s = w"
  shows "Asked server pod (Inr True) \<in> set (trace (snd (run_state (ServerHandleDeletion P r server) s)))"
proof -
  from assms have "run_state (ServerHandleDeletion P r server) s
      = run_state (deletePodOf P server pod) (s'\<lparr>trace := trace s' @ [Asked server pod (Inr True)]\<rparr>)"
    by (simp add: ServerHandleDeletion_def go_simps podNameOf_def)
  moreover have "Asked server pod (Inr True) \<in> set (trace (s'\<lparr>trace := trace s' @ [Asked server pod (Inr True)]\<rparr>))"
    by simp
  ultimately show ?thesis using trace_grows [OF deletePodOf_trace] by metis
qed

lemma serverFinalize_asks:
  assumes "Asked server pod a \<in> set (trace (snd (run_state (ServerHandleDeletion P r server) s)))"
  shows "Asked server pod a \<in> set (trace (snd (run_state (serverFinalize P r server) s)))"
  unfolding serverFinalize_def
  by (rule bind_grows [OF assms]) (simp only: go_simps, intro emits_intros TrueI)

lemma reconcile_asks:
  assumes "sharedSidecar K P ip I app" and "I w" and "DeleteAllowed (app w)"
    and "getServer P req w = (Inr server, w1)" and "beingDeleted (server_meta server)"
    and "getPod P (podNameOf server) w1 = (Inr pod, w2)" and "PodIP pod = ip"
  shows "Asked server pod (Inr True) \<in> set (calls (ServerReconcile P (prodServerReconciler P) req) w)"
proof -
  let ?r = "prodServerReconciler P"
  let ?s = "\<lparr>backend = w1, trace = [Got ''Server'' req (Inr (ObjServer server))]\<rparr>"
  let ?t = "?s\<lparr>backend := w2, trace := trace ?s @ [gotPod (serverKey server) pod]\<rparr>"
  note shared = sharedSidecarD [OF assms(1)]
  from shared(4) [OF assms(2,4)] have 1: "I w1" "app w1 = app w" by auto
  from shared(5) [OF 1(1) assms(6)] 1(2) have 2: "I w2" "app w2 = app w" by auto
  have "servedBy P (PodIP pod) I app" using assms(1,7) by (simp add: sharedSidecar_def)
  from check_allowed [OF this _ assms(5), of ?t] 2 assms(3)
  obtain s' where "run_state (DeletionAllowed ?r server pod) ?t = (Inr True, s')"
    by (cases "run_state (DeletionAllowed ?r server pod) ?t")
      (auto simp: prodServerReconciler_def ProdDeletionChecker_def run_state_bind split: prod.splits)
  with handleDeletion_asks [OF assms(6) this]
  have "Asked server pod (Inr True) \<in> set (trace (snd (run_state (serverFinalize P ?r server) ?s)))"
    by (intro serverFinalize_asks) simp
  with assms(4,5) show ?thesis
    by (auto simp: calls_def ServerReconcile_def go_simps newWorld_def)
qed

text \<open>What the operator reads: a server that is being deleted and its pod, at the address \<open>ip\<close>.\<close>

definition readsDying :: "'w platform \<Rightarrow> NamespacedName \<Rightarrow> string \<Rightarrow> 'w \<Rightarrow> Server option" where
  "readsDying P req ip w = (case getServer P req w of
       (Inl _, _) \<Rightarrow> None
     | (Inr server, w1) \<Rightarrow> (case getPod P (podNameOf server) w1 of
         (Inl _, _) \<Rightarrow> None
       | (Inr pod, _) \<Rightarrow> if beingDeleted (server_meta server) \<and> PodIP pod = ip then Some server else None))"

lemma readsDyingE:
  assumes "readsDying P req ip w = Some server"
  obtains w1 pod w2 where "getServer P req w = (Inr server, w1)" and "beingDeleted (server_meta server)"
    and "getPod P (podNameOf server) w1 = (Inr pod, w2)" and "PodIP pod = ip"
  using assms by (auto simp: readsDying_def split: prod.splits sum.splits if_splits)

text \<open>
  C7: A forced deletion goes through. When the service has reported the forced deletion of a server as done,
  then the operator, whenever it next finds that server being deleted with its pod at the same address, and
  unless somebody else has changed the sidecar meanwhile or a call to the API server fails, releases it in one
  reconciliation: the service has told the sidecar to allow the deletion, and the sidecar tells the operator.
\<close>

theorem forced_deletion_goes_through:
  assumes "finalizer_laws P" and "sharedSidecar K P ip I app"
    and "I w" and "forcedDeletion K metadata ip w"
    and "I w'" and "app w' = app (worldAfter (SvcDeleteServer K metadata True) w)"
    and "readsDying P req ip w' = Some server"
    and "list_all succeeded (calls (ServerReconcile P (prodServerReconciler P) req) w')"
  shows "answer (ServerReconcile P (prodServerReconciler P) req) w' = (requeueResult, None) \<and>
     (\<exists>server'. Update (ObjServer server') True \<in> set (calls (ServerReconcile P (prodServerReconciler P) req) w') \<and>
        serverKey server' = serverKey server \<and> SERVER_FINALIZER \<notin> set (Finalizers (server_meta server')))"
proof -
  from forced_deletion_sets_flag [OF assms(2-4)] assms(6) have flag: "DeleteAllowed (app w')" by simp
  from assms(7) obtain pod where
      "Asked server pod (Inr True) \<in> set (calls (ServerReconcile P (prodServerReconciler P) req) w')"
    by (rule readsDyingE) (use reconcile_asks [OF assms(2,5) flag] in blast)
  with emits_calls [OF permitted_completes [OF assms(1)], of req w'] assms(8) show ?thesis by blast
qed

text \<open>The cluster in memory, seen by the service.\<close>

definition clusterKube :: "cluster kube" where
  "clusterKube = \<lparr>
     dynCreate = (\<lambda>g ns j c. (Inl (newError ''read only''), c)),
     dynDelete = (\<lambda>g ns n c. if g = ServerGCR then
         (case memFind server_meta (mem_servers c) (ns, n) of
            Inl e \<Rightarrow> (Inl e, c) | Inr server \<Rightarrow> deleteServer memPlatform server c)
       else (Inl notFoundError, c)),
     dynList = (\<lambda>g ns c. (Inr [], c)),
     podGet = (\<lambda>ns n c. (memFind pod_meta (mem_pods c) (ns, n), c)),
     podUpdate = (\<lambda>ns pod. updatePod memPlatform pod),
     kubeHttp = httpDo memPlatform,
     unstructuredOf = Inr, podSpecOf = (\<lambda>j old. Inr j), durationOf = (\<lambda>j old. Inr j),
     zeroPodSpec = JObject [], zeroDuration = JString ''0s''\<rparr>"

lemma mem_sharedSidecar: "sharedSidecar clusterKube memPlatform ip (oneSidecar ip) (\<lambda>c. snd (hd (mem_sidecars c)))"
  unfolding sharedSidecar_def
proof (intro conjI allI impI mem_servedBy; elim conjE)
  fix q w resp w'
  assume q: "oneSidecar ip w" "reqUrl q = sidecarUrl ip @ ''/allow_delete''" "kubeHttp clusterKube q w = (Inr resp, w')"
  from mem_delivers [OF q(1,2)] q(3)
  show "oneSidecar ip w'" "snd (hd (mem_sidecars w')) =
      fst (SidecarServe (snd (hd (mem_sidecars w))) (requestOf ''/allow_delete'' q) (newWriter False))"
    by (auto simp: clusterKube_def)
next
  fix w w'
  assume "oneSidecar ip w" "(\<exists>g ns n. w' = snd (dynDelete clusterKube g ns n w)) \<or> (\<exists>ns n. w' = snd (podGet clusterKube ns n w)) \<or>
    (\<exists>n. w' = snd (getServer memPlatform n w)) \<or> (\<exists>n. w' = snd (getPod memPlatform n w))"
  then show "oneSidecar ip w'" "snd (hd (mem_sidecars w')) = snd (hd (mem_sidecars w))"
    by (auto simp: clusterKube_def oneSidecar_def mem_defs split: sum.splits option.splits if_splits)
qed

definition livingCluster :: cluster where
  "livingCluster = (deletingCluster False)\<lparr>mem_servers := [mapServerFinalizers (\<lambda>_. [SERVER_FINALIZER]) (exampleServer ''a'')]\<rparr>"

definition serverMetadata :: Metadata where
  "serverMetadata = \<lparr>mdName = ''a'', mdNamespace = ''default'', mdLabels = None\<rparr>"

definition afterForce :: cluster where
  "afterForce = worldAfter (SvcDeleteServer clusterKube serverMetadata True) livingCluster"

lemma exampleForcedDeletion: "forcedDeletion clusterKube serverMetadata ''10.0.0.1'' livingCluster"
  unfolding forcedDeletion_def by (rule conjI; code_simp)

lemma exampleReadsDying: "\<exists>server. readsDying memPlatform (''default'', ''a'') ''10.0.0.1'' afterForce = Some server"
proof -
  have "case readsDying memPlatform (''default'', ''a'') ''10.0.0.1'' afterForce of None \<Rightarrow> False | Some _ \<Rightarrow> True"
    by code_simp
  then show ?thesis by (auto split: option.splits)
qed

theorem forced_deletion_goes_through_witness:
  "answer exampleReconcile afterForce = (requeueResult, None) \<and>
   list_ex isServerRelease (calls exampleReconcile afterForce)"
proof -
  obtain server where server: "readsDying memPlatform (''default'', ''a'') ''10.0.0.1'' afterForce = Some server"
    using exampleReadsDying by blast
  have one: "oneSidecar ''10.0.0.1'' livingCluster" "oneSidecar ''10.0.0.1'' afterForce"
    unfolding oneSidecar_def by code_simp+
  have "list_all succeeded (calls (ServerReconcile memPlatform (prodServerReconciler memPlatform) (''default'', ''a'')) afterForce)"
    by code_simp
  from forced_deletion_goes_through [OF mem_finalizer_laws mem_sharedSidecar one(1) exampleForcedDeletion one(2)
      arg_cong [OF afterForce_def] server this]
  show ?thesis unfolding exampleReconcile_def list_ex_iff by (metis isServerRelease.simps(1))
qed

section \<open>The autoscaler and the example webhook\<close>

lemma decode_operator_request:
  "decodeScalingInfo (encodeRequest q) = Inr \<lparr>infoReplicas = None, infoScale = None\<rparr>"
  by (simp add: decodeScalingInfo_def encodeRequest_def key_simps)

lemma decode_webhook_answer:
  assumes "settled a"
  shows "decodeResponse (encodeScalingInfo a)
     = Inr \<lparr>Scale = the (infoScale a), DesiredReplicas = the (infoReplicas a)\<rparr>"
  using assms by (auto simp: settled_def decodeResponse_def encodeScalingInfo_def key_simps)

lemma applyScalingInfo_nothing [simp]: "applyScalingInfo \<lparr>infoReplicas = None, infoScale = None\<rparr> a = a"
  by (simp add: applyScalingInfo_def)

lemma webhook_serves_operator:
  assumes "settled a" and "reqMethod q = ''POST''" and "reqBody q = Some (encodeRequest x)"
    and "carries resp (snd (WebhookServe a (requestOf ''/scale'' q) (newWriter False)))"
  shows "fst (WebhookServe a (requestOf ''/scale'' q) (newWriter False)) = a \<and>
     readResponse (Inr resp) = Inr \<lparr>Scale = the (infoScale a), DesiredReplicas = the (infoReplicas a)\<rparr>"
proof
  let ?v = "snd (WebhookServe a (requestOf ''/scale'' q) (newWriter False))"
  show "fst (WebhookServe a (requestOf ''/scale'' q) (newWriter False)) = a"
    using assms(2,3) by (simp add: WebhookServe_state posted_def requestOf_def decode_operator_request)
  have v: "sentBody ?v = [encodeScalingInfo a]" "finalStatus ?v = 200"
    using assms(2,3)
    by (auto simp: WebhookServe_def SetScalingInfo_def methodServes_def requestOf_def decode_operator_request
      Let_def prod.case_eq_if bool.case_eq_if finalStatus_def)
  obtain t where "respBody resp = Inr (t, Inr (encodeScalingInfo a))" "StatusCode resp = 200"
    using carriesD [OF assms(4) v(1)] v(2) by metis
  then show "readResponse (Inr resp) = Inr \<lparr>Scale = the (infoScale a), DesiredReplicas = the (infoReplicas a)\<rparr>"
    by (simp add: readResponse_def StatusOK_def decode_webhook_answer [OF assms(1)])
qed

text \<open>
  C29: Whatever requests the example webhook has served before, when its \<open>/scale\<close> path answers the request
  of the operator, the request changes nothing there, and the operator reads the number of replicas and
  the flag that the webhook holds.
\<close>

theorem operator_reads_example_webhook:
  "emits (SendScaleWebhookRequest P autoscaler gametype) (\<lambda>res es. \<forall>q resp.
     let info = webhookSession initialScaling rs;
       served = WebhookServe info (requestOf ''/scale'' q) (newWriter False)
     in Http q (Inr resp) \<in> set es \<and> carries resp (snd served) \<longrightarrow> fst served = info \<and>
       res = Done (Inr \<lparr>Scale = the (infoScale info), DesiredReplicas = the (infoReplicas info)\<rparr>))"
proof -
  note served = webhook_serves_operator [OF webhookSession_settled _ _, rotated 2]
  show ?thesis
    unfolding SendScaleWebhookRequest_def go_simps Let_def
    by (intro emits_intros) (auto dest!: served)
qed

theorem operator_reads_example_webhook_witness:
  "answer (SendScaleWebhookRequest memPlatform (webhookAutoscaler Webhook (Some Minute)) scaledGameType)
     (autoscalerCluster 1) = Done (Inr \<lparr>Scale = True, DesiredReplicas = 1\<rparr>)"
proof -
  let ?m = "SendScaleWebhookRequest memPlatform (webhookAutoscaler Webhook (Some Minute)) scaledGameType"
  have "case calls ?m (autoscalerCluster 1) of
      [Http q (Inr resp)] \<Rightarrow> carries resp (snd (WebhookServe initialScaling (requestOf ''/scale'' q) (newWriter False)))
    | _ \<Rightarrow> False"
    by code_simp
  then obtain q resp where "Http q (Inr resp) \<in> set (calls ?m (autoscalerCluster 1))"
      "carries resp (snd (WebhookServe initialScaling (requestOf ''/scale'' q) (newWriter False)))"
    by (auto split: list.splits effect.splits sum.splits) (meson list.exhaust)
  with emits_calls [OF operator_reads_example_webhook [where rs = "[]" and P = memPlatform and
      autoscaler = "webhookAutoscaler Webhook (Some Minute)" and gametype = scaledGameType], of "autoscalerCluster 1"]
  show ?thesis by (auto simp: Let_def initialScaling_def)
qed

end
